(* ===== verification/Prelude.thy ===== *)
theory Prelude
  imports Complex_Main "HOL-Library.List_Lexorder" "HOL-Library.Multiset"
begin

text \<open>
  The vocabulary every component shares: Python strings as lists of code points, byte
  strings as lists of numbers below 256, UTF-8, decimal and hexadecimal numerals, results
  as sums (\<open>Inl\<close> is a raised exception, \<open>Inr\<close> the returned value) and the loop that stops
  at the first exception. The two collections at the top gather the lemmas that the
  component proofs pass to the simplifier.
\<close>

named_theorems text_simps \<open>facts about literals, quoting and numerals\<close>
named_theorems run_simps \<open>facts that run a sequence of fallible steps\<close>

section \<open>Strings and bytes\<close>

type_synonym pystr = "nat list"
type_synonym bytes = "nat list"

text \<open>\<open>lit\<close> embeds a literal of the source; every character of these literals is ASCII.\<close>

definition lit :: "string \<Rightarrow> pystr" where
  "lit s = map of_char s"

lemma lit_Nil [simp]: "lit [] = []"
  by (simp add: lit_def)

lemma lit_Cons: "lit (c # s) = of_char c # lit s"
  by (simp add: lit_def)

lemma lit_append [simp]: "lit (s @ t) = lit s @ lit t"
  by (simp add: lit_def)

lemma inj_of_char_nat: "inj (of_char :: char \<Rightarrow> nat)"
  by (rule injI) (simp add: of_char_eq_iff)

lemma lit_inject [simp]: "lit s = lit t \<longleftrightarrow> s = t"
  by (simp add: lit_def inj_map_eq_map inj_of_char_nat)

lemma lit_eq_Nil [simp]: "lit s = [] \<longleftrightarrow> s = []" "[] = lit s \<longleftrightarrow> s = []"
  by (simp_all add: lit_def)

lemma length_lit [simp]: "length (lit s) = length s"
  by (simp add: lit_def)

lemma lit_char_bound: "c \<in> set (lit s) \<Longrightarrow> c < 256"
  by (auto simp: lit_def)

definition surrogate :: "nat \<Rightarrow> bool" where
  "surrogate c \<longleftrightarrow> 0xD800 \<le> c \<and> c \<le> 0xDFFF"

definition scalar_str :: "pystr \<Rightarrow> bool" where
  "scalar_str s \<longleftrightarrow> (\<forall>c \<in> set s. \<not> surrogate c)"

text \<open>The code points a Python string can hold.\<close>

definition code_points :: "pystr \<Rightarrow> bool" where
  "code_points s \<longleftrightarrow> (\<forall>c \<in> set s. c < 0x110000)"

lemma scalar_str_simps [simp]:
  "scalar_str []" "scalar_str (c # s) \<longleftrightarrow> \<not> surrogate c \<and> scalar_str s"
  "scalar_str (s @ t) \<longleftrightarrow> scalar_str s \<and> scalar_str t"
  by (auto simp: scalar_str_def)

lemma code_points_simps [simp]:
  "code_points []" "code_points (c # s) \<longleftrightarrow> c < 0x110000 \<and> code_points s"
  "code_points (s @ t) \<longleftrightarrow> code_points s \<and> code_points t"
  by (auto simp: code_points_def)

lemma not_surrogate_small: "c < 256 \<Longrightarrow> \<not> surrogate c"
  by (simp add: surrogate_def)

lemma scalar_lit [simp]: "scalar_str (lit s)"
  using lit_char_bound not_surrogate_small by (auto simp: scalar_str_def)

lemma code_points_lit [simp]: "code_points (lit s)"
  by (auto simp: code_points_def dest: lit_char_bound)

section \<open>UTF-8\<close>

text \<open>
  \<open>utf8\<close> is the encoder on strings without surrogates; \<open>utf8_encode\<close> is
  \<open>str.encode("utf-8")\<close>, which raises on a surrogate; \<open>utf8_decode\<close> is the strict
  decoder (no overlong form, no surrogate, nothing above U+10FFFF).
\<close>

definition utf8_char :: "nat \<Rightarrow> bytes" where
  "utf8_char c =
     (if c < 0x80 then [c]
      else if c < 0x800 then [0xC0 + c div 64, 0x80 + c mod 64]
      else if c < 0x10000 then
        [0xE0 + c div 4096, 0x80 + (c div 64) mod 64, 0x80 + c mod 64]
      else
        [0xF0 + c div 262144, 0x80 + (c div 4096) mod 64, 0x80 + (c div 64) mod 64,
         0x80 + c mod 64])"

definition utf8 :: "pystr \<Rightarrow> bytes" where
  "utf8 s = concat (map utf8_char s)"

definition utf8_encode :: "pystr \<Rightarrow> bytes option" where
  "utf8_encode s = (if scalar_str s then Some (utf8 s) else None)"

definition cont_byte :: "nat \<Rightarrow> bool" where
  "cont_byte b \<longleftrightarrow> 0x80 \<le> b \<and> b < 0xC0"

fun utf8_decode :: "bytes \<Rightarrow> pystr option" where
  "utf8_decode [] = Some []"
| "utf8_decode (b # r) =
     (if b < 0x80 then map_option ((#) b) (utf8_decode r)
      else if b < 0xC2 then None
      else if b < 0xE0 then
        (case r of
           b1 # r1 \<Rightarrow>
             if cont_byte b1
             then map_option ((#) ((b - 0xC0) * 64 + (b1 - 0x80))) (utf8_decode r1)
             else None
         | _ \<Rightarrow> None)
      else if b < 0xF0 then
        (case r of
           b1 # b2 # r2 \<Rightarrow>
             (let c = (b - 0xE0) * 4096 + (b1 - 0x80) * 64 + (b2 - 0x80) in
              if cont_byte b1 \<and> cont_byte b2 \<and> 0x800 \<le> c \<and> \<not> surrogate c
              then map_option ((#) c) (utf8_decode r2) else None)
         | _ \<Rightarrow> None)
      else if b < 0xF5 then
        (case r of
           b1 # b2 # b3 # r3 \<Rightarrow>
             (let c = (b - 0xF0) * 262144 + (b1 - 0x80) * 4096 + (b2 - 0x80) * 64
                        + (b3 - 0x80) in
              if cont_byte b1 \<and> cont_byte b2 \<and> cont_byte b3 \<and> 0x10000 \<le> c \<and> c < 0x110000
              then map_option ((#) c) (utf8_decode r3) else None)
         | _ \<Rightarrow> None)
      else None)"

lemma utf8_simps [simp]:
  "utf8 [] = []" "utf8 (c # s) = utf8_char c @ utf8 s" "utf8 (s @ t) = utf8 s @ utf8 t"
  by (simp_all add: utf8_def)

lemma utf8_char_ascii [simp]: "c < 0x80 \<Longrightarrow> utf8_char c = [c]"
  by (simp add: utf8_char_def)

lemma utf8_char_ne [simp]: "utf8_char c \<noteq> []"
  by (simp add: utf8_char_def)

lemma utf8_ascii: "(\<forall>c \<in> set s. c < 0x80) \<Longrightarrow> utf8 s = s"
  by (induction s) auto

lemma utf8_eq_Nil [simp]: "utf8 s = [] \<longleftrightarrow> s = []"
  by (cases s) auto

lemma length_utf8_ge: "length s \<le> length (utf8 s)"
proof (induction s)
  case (Cons c s)
  have "1 \<le> length (utf8_char c)" by (simp add: utf8_char_def)
  with Cons show ?case by simp
qed simp

lemma utf8_char_bytes: "c < 0x110000 \<Longrightarrow> b \<in> set (utf8_char c) \<Longrightarrow> b < 256"
  by (auto simp: utf8_char_def split: if_splits)

lemma utf8_bytes: "code_points s \<Longrightarrow> b \<in> set (utf8 s) \<Longrightarrow> b < 256"
  by (induction s) (auto dest: utf8_char_bytes)

text \<open>A byte below 128 in the encoding is that very character of the text.\<close>

lemma utf8_char_low: "b \<in> set (utf8_char c) \<Longrightarrow> b < 0x80 \<Longrightarrow> c = b"
  by (auto simp: utf8_char_def split: if_splits)

lemma utf8_low: "b < 0x80 \<Longrightarrow> b \<in> set (utf8 s) \<longleftrightarrow> b \<in> set s"
proof (induction s)
  case (Cons c s)
  then show ?case using utf8_char_low[of b c] by auto
qed simp

lemma div_mod_64:
  fixes c :: nat
  shows "c div 262144 * 262144 + (c div 4096) mod 64 * 4096 + (c div 64) mod 64 * 64 + c mod 64 = c"
    and "c < 0x10000 \<Longrightarrow> c div 4096 * 4096 + (c div 64) mod 64 * 64 + c mod 64 = c"
proof -
  have a: "c = c div 64 * 64 + c mod 64" by simp
  have b: "c div 64 = c div 4096 * 64 + (c div 64) mod 64"
    using div_mult_mod_eq[of "c div 64" 64] by (simp add: div_mult2_eq[symmetric])
  have d: "c div 4096 = c div 262144 * 64 + (c div 4096) mod 64"
    using div_mult_mod_eq[of "c div 4096" 64] by (simp add: div_mult2_eq[symmetric])
  show "c div 262144 * 262144 + (c div 4096) mod 64 * 4096 + (c div 64) mod 64 * 64 + c mod 64 = c"
    using a b d by linarith
  show "c div 4096 * 4096 + (c div 64) mod 64 * 64 + c mod 64 = c"
    using a b by linarith
qed

lemma utf8_decode_char:
  assumes "c < 0x110000" "\<not> surrogate c"
  shows "utf8_decode (utf8_char c @ r) = map_option ((#) c) (utf8_decode r)"
proof -
  consider "c < 0x80" | "0x80 \<le> c" "c < 0x800" | "0x800 \<le> c" "c < 0x10000"
    | "0x10000 \<le> c" by linarith
  then show ?thesis
  proof cases
    case 2
    then have "2 \<le> c div 64" "c div 64 < 32" by linarith+
    with 2 show ?thesis by (simp add: utf8_char_def cont_byte_def)
  next
    case 3
    then have "c div 4096 < 16" by linarith
    with 3 assms show ?thesis
      by (simp add: utf8_char_def cont_byte_def div_mod_64(2) Let_def)
  next
    case 4
    with assms(1) have "c div 262144 < 5" by linarith
    with 4 assms show ?thesis
      by (simp add: utf8_char_def cont_byte_def div_mod_64(1) Let_def)
  qed simp
qed

lemma utf8_decode_append:
  "code_points s \<Longrightarrow> scalar_str s \<Longrightarrow> utf8_decode (utf8 s @ r) = map_option ((@) s) (utf8_decode r)"
proof (induction s)
  case Nil
  show ?case by (cases "utf8_decode r") auto
next
  case (Cons c s)
  then show ?case
    by (simp add: utf8_decode_char option.map_comp comp_def del: utf8_decode.simps)
qed

lemma utf8_roundtrip: "code_points s \<Longrightarrow> scalar_str s \<Longrightarrow> utf8_decode (utf8 s) = Some s"
  using utf8_decode_append[of s "[]"] by simp

text \<open>UTF-8 keeps the order of strings: sorting by bytes is sorting by code points.\<close>

lemma div_mod_less:
  fixes c d m :: nat
  assumes "c < d" "0 < m"
  shows "c div m < d div m \<or> c div m = d div m \<and> c mod m < d mod m"
  using assms by (metis div_le_mono div_mult_mod_eq le_neq_implies_less less_imp_le_nat
      nat_add_left_cancel_less)

lemma lex_digits3:
  fixes a b e a' b' e' :: nat
  assumes "a * 4096 + b * 64 + e < a' * 4096 + b' * 64 + e'"
    and "b < 64" "e < 64" "b' < 64" "e' < 64"
  shows "a < a' \<or> a = a' \<and> (b < b' \<or> b = b' \<and> e < e')"
  using assms by arith

lemma lex_digits4:
  fixes a b e f a' b' e' f' :: nat
  assumes "a * 262144 + b * 4096 + e * 64 + f < a' * 262144 + b' * 4096 + e' * 64 + f'"
    and "b < 64" "e < 64" "f < 64" "b' < 64" "e' < 64" "f' < 64"
  shows "a < a' \<or> a = a' \<and> (b < b' \<or> b = b' \<and> (e < e' \<or> e = e' \<and> f < f'))"
  using assms by arith

lemma utf8_char_less:
  assumes "c < d" "d < 0x110000"
  shows "utf8_char c @ x < utf8_char d @ y"
proof -
  consider "d < 0x80" | "0x80 \<le> d" "d < 0x800" | "0x800 \<le> d" "d < 0x10000"
    | "0x10000 \<le> d" by linarith
  then show ?thesis
  proof cases
    case 1
    then show ?thesis using assms by simp
  next
    case 2
    have "2 \<le> d div 64" using 2 by linarith
    then show ?thesis
      using assms 2 div_mod_less[OF assms(1), of 64]
      by (cases "c < 0x80") (auto simp: utf8_char_def)
  next
    case 3
    show ?thesis
    proof (cases "c < 0x800")
      case True
      then have "c div 64 < 32" by linarith
      with True 3 show ?thesis by (auto simp: utf8_char_def)
    next
      case False
      have "c < 0x10000" using 3 assms by simp
      note eq = div_mod_64(2)[OF this] div_mod_64(2)[OF 3(2)]
      have "c div 4096 < d div 4096 \<or> c div 4096 = d div 4096 \<and>
          (c div 64 mod 64 < d div 64 mod 64 \<or> c div 64 mod 64 = d div 64 mod 64 \<and> c mod 64 < d mod 64)"
        by (rule lex_digits3) (use assms(1) eq in simp_all)
      with False 3 \<open>c < 0x10000\<close> show ?thesis by (auto simp: utf8_char_def)
    qed
  next
    case 4
    show ?thesis
    proof (cases "c < 0x10000")
      case True
      then have "c div 64 < 1024" "c div 4096 < 16" by linarith+
      with True 4 show ?thesis by (auto simp: utf8_char_def)
    next
      case False
      note eq = div_mod_64(1)[of c] div_mod_64(1)[of d]
      have "c div 262144 < d div 262144 \<or> c div 262144 = d div 262144 \<and>
          (c div 4096 mod 64 < d div 4096 mod 64 \<or> c div 4096 mod 64 = d div 4096 mod 64 \<and>
          (c div 64 mod 64 < d div 64 mod 64 \<or> c div 64 mod 64 = d div 64 mod 64 \<and> c mod 64 < d mod 64))"
        by (rule lex_digits4) (use assms(1) eq in simp_all)
      with False 4 show ?thesis by (auto simp: utf8_char_def)
    qed
  qed
qed

lemma utf8_less_iff:
  "code_points s \<Longrightarrow> code_points t \<Longrightarrow> utf8 s < utf8 t \<longleftrightarrow> s < t"
proof (induction s arbitrary: t)
  case Nil
  then show ?case by (cases t; cases "utf8 t") auto
next
  case (Cons c s)
  show ?case
  proof (cases t)
    case Nil
    then show ?thesis by simp
  next
    case [simp]: (Cons d t')
    have app: "w @ x < w @ y \<longleftrightarrow> x < y" for w x y :: "nat list"
      by (induction w) auto
    consider "c < d" | "c = d" | "d < c" by linarith
    then show ?thesis
    proof cases
      case 1
      then show ?thesis using Cons.prems utf8_char_less[of c d] by simp
    next
      case 2
      then show ?thesis using Cons.prems Cons.IH[of t'] by (simp add: app)
    next
      case 3
      then have "utf8 t < utf8 (c # s)" using Cons.prems utf8_char_less[of d c] by simp
      with 3 show ?thesis by auto
    qed
  qed
qed

lemma utf8_inject: "code_points s \<Longrightarrow> code_points t \<Longrightarrow> utf8 s = utf8 t \<longleftrightarrow> s = t"
  using utf8_less_iff[of s t] utf8_less_iff[of t s] by (metis neq_iff)

section \<open>Numerals\<close>

text \<open>\<open>str(n)\<close> of an integer, and the value of a run of decimal digits.\<close>

fun dec :: "nat \<Rightarrow> pystr" where
  "dec n = (if n < 10 then [48 + n] else dec (n div 10) @ [48 + n mod 10])"

declare dec.simps [simp del]

definition int_text :: "int \<Rightarrow> pystr" where
  "int_text i = (if i < 0 then 45 # dec (nat (- i)) else dec (nat i))"

definition is_digit :: "nat \<Rightarrow> bool" where
  "is_digit c \<longleftrightarrow> 48 \<le> c \<and> c \<le> 57"

definition digits_val :: "pystr \<Rightarrow> nat" where
  "digits_val s = foldl (\<lambda>a d. a * 10 + (d - 48)) 0 s"

definition hex_digit :: "nat \<Rightarrow> nat" where
  "hex_digit n = (if n < 10 then 48 + n else 87 + n)"

lemma dec_ne [simp]: "dec n \<noteq> []"
  by (subst dec.simps) simp

lemma dec_digits: "c \<in> set (dec n) \<Longrightarrow> is_digit c"
proof (induction n rule: dec.induct)
  case (1 n)
  show ?case
  proof (cases "n < 10")
    case True
    with 1 show ?thesis by (simp add: dec.simps[of n] is_digit_def)
  next
    case False
    with 1 show ?thesis by (auto simp: dec.simps[of n] is_digit_def)
  qed
qed

lemma digits_val_snoc [simp]: "digits_val (s @ [d]) = digits_val s * 10 + (d - 48)"
  by (simp add: digits_val_def)

lemma digits_val_dec [simp]: "digits_val (dec n) = n"
proof (induction n rule: dec.induct)
  case (1 n)
  show ?case
  proof (cases "n < 10")
    case True
    then show ?thesis by (simp add: dec.simps[of n] digits_val_def)
  next
    case False
    with 1 show ?thesis by (simp add: dec.simps[of n])
  qed
qed

lemma dec_inject [simp]: "dec m = dec n \<longleftrightarrow> m = n"
  by (metis digits_val_dec)

lemma hd_dec: "hd (dec n) = 48 \<longleftrightarrow> n = 0"
proof (induction n rule: dec.induct)
  case (1 n)
  show ?case
  proof (cases "n < 10")
    case True
    then show ?thesis by (simp add: dec.simps[of n])
  next
    case False
    with 1 have "hd (dec (n div 10)) = 48 \<longleftrightarrow> n div 10 = 0" by simp
    with False show ?thesis by (simp add: dec.simps[of n])
  qed
qed

lemma dec_zero: "dec 0 = [48]"
  by (simp add: dec.simps)

lemma length_dec: "n < 10 ^ k \<Longrightarrow> 0 < k \<Longrightarrow> length (dec n) \<le> k"
proof (induction n arbitrary: k rule: dec.induct)
  case (1 n)
  show ?case
  proof (cases "n < 10")
    case True
    with 1 show ?thesis by (simp add: dec.simps[of n])
  next
    case False
    with "1.prems" obtain j where k: "k = Suc (Suc j)"
      by (metis Suc_lessE gr0_implies_Suc less_numeral_extra(3) not_gr_zero power_0 power_Suc_0
          power_one_right)
    with "1.prems" have "n div 10 < 10 ^ Suc j" by (simp add: less_mult_imp_div_less)
    with 1 False k show ?thesis by (simp add: dec.simps[of n])
  qed
qed

lemma int_text_ne [simp]: "int_text i \<noteq> []"
  by (simp add: int_text_def)

section \<open>Exceptions\<close>

text \<open>
  One constructor per exception class the code raises or catches, with the reason it
  carries. \<open>RecursionError\<close> is Python's stack limit: in the model it is the value of a
  decoder without fuel, and the decoder always has enough. \<open>IntDigits n\<close> is the
  \<open>ValueError\<close> of \<open>int\<close> on a numeral of \<open>n\<close> digits, more than the 4300 it converts.
  \<open>BackendError code text run_id\<close> is any exception of a session backend, with the attributes the
  service reads off it.
\<close>

datatype exn =
    CanonicalError string
  | SchemaError string
  | InstanceError pystr string
  | DescriptorError string
  | RendererError string
  | ToolResultError string
  | ToolPageError string
  | RegistryError string
  | AdapterNotFound string
  | LineJsonPreflight string
  | ProcessError string
  | PluginError string
  | ToolError string string
  | JournalError string
  | JournalCorrupt string
  | JournalVersionError
  | WireError string string
  | StoreError string
  | HostContractError string
  | HostDBError pystr
  | JournalLocked
  | RollbackError string
  | BackendError "pystr option" pystr "pystr option"
  | RuntimeError string
  | NameError
  | ValueError
  | IntDigits nat
  | TypeError
  | KeyError
  | AttributeError
  | OSError
  | UnicodeError
  | JSONDecodeError
  | RecursionError
  | OverflowError
  | HostCrash
  | AdapterFailure pystr
  | ProviderRejected pystr
  | ProviderUncertain pystr

section \<open>Fallible steps\<close>

text \<open>
  \<open>require b e\<close> is \<open>if not b: raise e\<close>; \<open>steps\<close> runs checks in order and stops at the
  first that raises; \<open>each f xs\<close> is the loop \<open>for x in xs: f(x)\<close>; \<open>mapr f xs\<close> is
  \<open>[f(x) for x in xs]\<close> where \<open>f\<close> may raise.
\<close>

definition require :: "bool \<Rightarrow> 'e \<Rightarrow> 'e + unit" where
  "require b e = (if b then Inr () else Inl e)"

fun steps :: "('e + unit) list \<Rightarrow> 'e + unit" where
  "steps [] = Inr ()"
| "steps (r # rs) = (case r of Inl e \<Rightarrow> Inl e | Inr _ \<Rightarrow> steps rs)"

fun each :: "('a \<Rightarrow> 'e + unit) \<Rightarrow> 'a list \<Rightarrow> 'e + unit" where
  "each f [] = Inr ()"
| "each f (x # xs) = (case f x of Inl e \<Rightarrow> Inl e | Inr _ \<Rightarrow> each f xs)"

fun mapr :: "('a \<Rightarrow> 'e + 'b) \<Rightarrow> 'a list \<Rightarrow> 'e + 'b list" where
  "mapr f [] = Inr []"
| "mapr f (x # xs) =
     (case f x of Inl e \<Rightarrow> Inl e
      | Inr y \<Rightarrow> (case mapr f xs of Inl e \<Rightarrow> Inl e | Inr ys \<Rightarrow> Inr (y # ys)))"

definition andthen :: "'e + 'a \<Rightarrow> ('a \<Rightarrow> 'e + 'b) \<Rightarrow> 'e + 'b" where
  "andthen r f = (case r of Inl e \<Rightarrow> Inl e | Inr x \<Rightarrow> f x)"

definition returns :: "'e + 'a \<Rightarrow> bool" where
  "returns r \<longleftrightarrow> (case r of Inl _ \<Rightarrow> False | Inr _ \<Rightarrow> True)"

lemma returns_simps [simp]: "returns (Inr x)" "\<not> returns (Inl e)"
  by (simp_all add: returns_def)

lemma require_Inr [run_simps]: "require b e = Inr z \<longleftrightarrow> b"
  by (simp add: require_def)

lemma require_Inl [run_simps]: "require b e = Inl e' \<longleftrightarrow> \<not> b \<and> e' = e"
  by (auto simp: require_def)

lemma steps_Cons_Inr [run_simps]: "steps (r # rs) = Inr z \<longleftrightarrow> r = Inr () \<and> steps rs = Inr ()"
  by (auto split: sum.splits)

lemma steps_Nil_Inr [run_simps]: "steps [] = Inr z"
  by simp

lemma steps_Inr: "steps rs = Inr z \<longleftrightarrow> (\<forall>r \<in> set rs. r = Inr ())"
  by (induction rs) (auto split: sum.splits)

lemma steps_Inl: "steps rs = Inl e \<Longrightarrow> Inl e \<in> set rs"
  by (induction rs) (auto split: sum.splits)

lemma each_Inr [run_simps]: "each f xs = Inr z \<longleftrightarrow> (\<forall>x \<in> set xs. f x = Inr ())"
  by (induction xs) (auto split: sum.splits)

lemma each_Inl: "each f xs = Inl e \<Longrightarrow> \<exists>x \<in> set xs. f x = Inl e"
  by (induction xs) (auto split: sum.splits)

lemma each_cong [fundef_cong]:
  "xs = ys \<Longrightarrow> (\<And>x. x \<in> set ys \<Longrightarrow> f x = g x) \<Longrightarrow> each f xs = each g ys"
  by (induction ys arbitrary: xs) (auto split: sum.splits)

lemma mapr_cong [fundef_cong]:
  "xs = ys \<Longrightarrow> (\<And>x. x \<in> set ys \<Longrightarrow> f x = g x) \<Longrightarrow> mapr f xs = mapr g ys"
  by (induction ys arbitrary: xs) (auto split: sum.splits)

lemma mapr_all_Inr: "(\<And>x. x \<in> set xs \<Longrightarrow> f x = Inr (g x)) \<Longrightarrow> mapr f xs = Inr (map g xs)"
  by (induction xs) auto

lemma mapr_Inr_iff: "mapr f xs = Inr ys \<longleftrightarrow> list_all2 (\<lambda>x y. f x = Inr y) xs ys"
proof (induction xs arbitrary: ys)
  case (Cons x xs)
  show ?case
  proof (cases "f x")
    case (Inr y)
    then show ?thesis using Cons.IH by (cases "mapr f xs") (auto simp: list_all2_Cons1)
  qed (auto simp: list_all2_Cons1)
qed auto

lemma mapr_Inl: "mapr f xs = Inl e \<Longrightarrow> \<exists>x \<in> set xs. f x = Inl e"
  by (induction xs) (auto split: sum.splits)

lemma mapr_append:
  "mapr f (xs @ ys) =
     (case mapr f xs of Inl e \<Rightarrow> Inl e
      | Inr as \<Rightarrow> (case mapr f ys of Inl e \<Rightarrow> Inl e | Inr bs \<Rightarrow> Inr (as @ bs)))"
  by (induction xs) (auto split: sum.splits)

lemma andthen_simps [simp]: "andthen (Inr x) f = f x" "andthen (Inl e) f = Inl e"
  by (simp_all add: andthen_def)

lemma andthen_return [simp]: "andthen r Inr = r"
  by (cases r) auto

lemma andthen_assoc: "andthen (andthen r f) g = andthen r (\<lambda>x. andthen (f x) g)"
  by (cases r) auto

lemma mapr_map: "mapr f (map g xs) = mapr (\<lambda>x. f (g x)) xs"
  by (induction xs) (auto split: sum.splits)

lemma mapr_Inr_ball: "mapr f xs = Inr ys \<Longrightarrow> x \<in> set xs \<Longrightarrow> \<exists>y. f x = Inr y"
  by (induction xs arbitrary: ys) (auto split: sum.splits)

lemma andthen_Inr [run_simps]: "andthen r f = Inr y \<longleftrightarrow> (\<exists>x. r = Inr x \<and> f x = Inr y)"
  by (cases r) auto

lemma andthen_cong [fundef_cong]:
  "r = s \<Longrightarrow> (\<And>x. s = Inr x \<Longrightarrow> f x = g x) \<Longrightarrow> andthen r f = andthen s g"
  by (cases s) auto

text \<open>\<open>sweep f xs s\<close> is the loop that threads a state: \<open>for x in xs: f(x)\<close> where \<open>f\<close> mutates \<open>s\<close>.\<close>

fun sweep :: "('a \<Rightarrow> 's \<Rightarrow> 'e + 's) \<Rightarrow> 'a list \<Rightarrow> 's \<Rightarrow> 'e + 's" where
  "sweep f [] s = Inr s"
| "sweep f (x # xs) s = (case f x s of Inl e \<Rightarrow> Inl e | Inr s' \<Rightarrow> sweep f xs s')"

lemma sweep_cong [fundef_cong]:
  "xs = ys \<Longrightarrow> s = t \<Longrightarrow> (\<And>x u. x \<in> set ys \<Longrightarrow> f x u = g x u) \<Longrightarrow> sweep f xs s = sweep g ys t"
  by (induction ys arbitrary: xs s t) (auto split: sum.splits)

lemma sweep_append:
  "sweep f (xs @ ys) s = (case sweep f xs s of Inl e \<Rightarrow> Inl e | Inr s' \<Rightarrow> sweep f ys s')"
  by (induction xs arbitrary: s) (auto split: sum.splits)

lemma sweep_invariant:
  assumes "sweep f xs s = Inr t" "P s"
    and "\<And>x u v. x \<in> set xs \<Longrightarrow> P u \<Longrightarrow> f x u = Inr v \<Longrightarrow> P v"
  shows "P t"
  using assms
proof (induction xs arbitrary: s)
  case (Cons a xs)
  then obtain u where "f a s = Inr u" "sweep f xs u = Inr t" by (auto split: sum.splits)
  with Cons.IH[of u] Cons.prems show ?case by (metis list.set_intros)
qed simp

lemma andthen_Inl: "andthen r f = Inl e \<longleftrightarrow> r = Inl e \<or> (\<exists>x. r = Inr x \<and> f x = Inl e)"
  by (cases r) auto

text \<open>\<open>only P r\<close>: whatever \<open>r\<close> raises satisfies \<open>P\<close>. The rules follow the shape of the code.\<close>

definition only :: "('e \<Rightarrow> bool) \<Rightarrow> 'e + 'a \<Rightarrow> bool" where
  "only P r \<longleftrightarrow> (case r of Inl e \<Rightarrow> P e | Inr _ \<Rightarrow> True)"

named_theorems only_intros \<open>rules that show which exceptions a computation can raise\<close>

lemma onlyD: "only P r \<Longrightarrow> r = Inl e \<Longrightarrow> P e"
  by (simp add: only_def)

lemma onlyI: "(\<And>e. r = Inl e \<Longrightarrow> P e) \<Longrightarrow> only P r"
  by (simp add: only_def split: sum.splits)

lemma only_Inr [only_intros]: "only P (Inr x)"
  by (simp add: only_def)

lemma only_Inl [only_intros]: "P e \<Longrightarrow> only P (Inl e)"
  by (simp add: only_def)

lemma only_if [only_intros]:
  "(b \<Longrightarrow> only P r) \<Longrightarrow> (\<not> b \<Longrightarrow> only P s) \<Longrightarrow> only P (if b then r else s)"
  by simp

lemma only_option [only_intros]:
  "(x = None \<Longrightarrow> only P r) \<Longrightarrow> (\<And>y. x = Some y \<Longrightarrow> only P (s y)) \<Longrightarrow>
     only P (case x of None \<Rightarrow> r | Some y \<Rightarrow> s y)"
  by (cases x) auto

lemma only_prod [only_intros]: "(\<And>a b. x = (a, b) \<Longrightarrow> only P (f a b)) \<Longrightarrow> only P (case x of (a, b) \<Rightarrow> f a b)"
  by (cases x) auto

lemma only_require [only_intros]: "P e \<Longrightarrow> only P (require b e)"
  by (simp add: only_def require_def)

lemma only_steps_Nil [only_intros]: "only P (steps [])"
  by (simp add: only_def)

lemma only_steps_Cons [only_intros]: "only P r \<Longrightarrow> only P (steps rs) \<Longrightarrow> only P (steps (r # rs))"
  by (auto simp: only_def split: sum.splits)

lemma only_each [only_intros]: "(\<And>x. x \<in> set xs \<Longrightarrow> only P (f x)) \<Longrightarrow> only P (each f xs)"
  by (rule onlyI) (auto dest!: each_Inl onlyD)

lemma only_mapr [only_intros]: "(\<And>x. x \<in> set xs \<Longrightarrow> only P (f x)) \<Longrightarrow> only P (mapr f xs)"
  by (rule onlyI) (auto dest!: mapr_Inl onlyD)

lemma only_andthen [only_intros]:
  "only P r \<Longrightarrow> (\<And>x. r = Inr x \<Longrightarrow> only P (f x)) \<Longrightarrow> only P (andthen r f)"
  by (cases r) (auto simp: only_def)

lemma only_mono: "only P r \<Longrightarrow> (\<And>e. P e \<Longrightarrow> Q e) \<Longrightarrow> only Q r"
  by (auto simp: only_def split: sum.splits)

end
