(* ===== verification/Json_Value.thy ===== *)
theory Json_Value
  imports Prelude
begin

text \<open>
  The JSON-shaped Python values every host contract works on, and the dictionary
  operations the code uses. A dict is the list of its items in insertion order, with
  distinct string keys (\<open>json_wf\<close>). A float carries its exact value and its \<open>repr\<close>;
  \<open>nan\<close> and the infinities have a \<open>repr\<close> only.
\<close>

datatype pyfloat = Finite rat pystr | NonFinite pystr

datatype json =
    JNull
  | JBool bool
  | JInt int
  | JFloat pyfloat
  | JStr pystr
  | JArr "json list"
  | JObj "(pystr \<times> json) list"

type_synonym dict = "(pystr \<times> json) list"

abbreviation jstr :: "string \<Rightarrow> json" where
  "jstr s \<equiv> JStr (lit s)"

section \<open>isinstance tests\<close>

fun is_dict :: "json \<Rightarrow> bool" where
  "is_dict (JObj _) = True" | "is_dict _ = False"

fun is_list :: "json \<Rightarrow> bool" where
  "is_list (JArr _) = True" | "is_list _ = False"

fun is_str :: "json \<Rightarrow> bool" where
  "is_str (JStr _) = True" | "is_str _ = False"

text \<open>\<open>type(x) is int\<close> and \<open>type(x) is bool\<close>: a Python bool is not an exact int.\<close>

fun is_int :: "json \<Rightarrow> bool" where
  "is_int (JInt _) = True" | "is_int _ = False"

fun is_bool :: "json \<Rightarrow> bool" where
  "is_bool (JBool _) = True" | "is_bool _ = False"

fun the_int :: "json \<Rightarrow> int" where
  "the_int (JInt i) = i" | "the_int _ = 0"

fun the_str :: "json \<Rightarrow> pystr" where
  "the_str (JStr s) = s" | "the_str _ = []"

fun items :: "json \<Rightarrow> dict" where
  "items (JObj kvs) = kvs" | "items _ = []"

fun elems :: "json \<Rightarrow> json list" where
  "elems (JArr xs) = xs" | "elems _ = []"

lemma in_items: "x \<in> set (items v) \<longleftrightarrow> (\<exists>d. v = JObj d \<and> x \<in> set d)"
  by (cases v) auto

lemma in_elems: "x \<in> set (elems v) \<longleftrightarrow> (\<exists>xs. v = JArr xs \<and> x \<in> set xs)"
  by (cases v) auto

section \<open>Dictionaries\<close>

definition keys :: "dict \<Rightarrow> pystr list" where
  "keys d = map fst d"

definition has :: "dict \<Rightarrow> string \<Rightarrow> bool" where
  "has d k \<longleftrightarrow> lit k \<in> set (keys d)"

text \<open>\<open>d.get(k)\<close>, where an absent key reads as \<open>None\<close>, and \<open>d.get(k, default)\<close>.\<close>

definition dget_or :: "dict \<Rightarrow> string \<Rightarrow> json \<Rightarrow> json" where
  "dget_or d k z = (case map_of d (lit k) of None \<Rightarrow> z | Some v \<Rightarrow> v)"

definition dget :: "dict \<Rightarrow> string \<Rightarrow> json" where
  "dget d k = dget_or d k JNull"

text \<open>\<open>set(d) == {...}\<close> and \<open>set(d) <= {...}\<close>.\<close>

definition keys_are :: "dict \<Rightarrow> string list \<Rightarrow> bool" where
  "keys_are d ks \<longleftrightarrow> set (keys d) = set (map lit ks)"

definition keys_within :: "dict \<Rightarrow> string list \<Rightarrow> bool" where
  "keys_within d ks \<longleftrightarrow> set (keys d) \<subseteq> set (map lit ks)"

text \<open>\<open>d[k] = v\<close>: the place of an existing key, the end for a new one.\<close>

fun dput :: "pystr \<Rightarrow> json \<Rightarrow> dict \<Rightarrow> dict" where
  "dput k v [] = [(k, v)]"
| "dput k v ((k', v') # d) = (if k' = k then (k, v) # d else (k', v') # dput k v d)"

definition dset :: "dict \<Rightarrow> string \<Rightarrow> json \<Rightarrow> dict" where
  "dset d k v = dput (lit k) v d"

section \<open>Equality and truth\<close>

text \<open>
  Python's \<open>==\<close>: booleans are the integers 0 and 1, numbers compare by value, dicts
  without regard to order.
\<close>

fun numeric :: "json \<Rightarrow> rat option" where
  "numeric (JBool b) = Some (if b then 1 else 0)"
| "numeric (JInt i) = Some (of_int i)"
| "numeric (JFloat (Finite q _)) = Some q"
| "numeric _ = None"

lemma size_map_of:
  "map_of d k = Some v \<Longrightarrow> size v < Suc (size_list (size_prod (\<lambda>_. 0) size) d)"
  by (induction d) (auto split: if_splits)

lemma size_member_snd: "(k, v) \<in> set d \<Longrightarrow> size v < Suc (size_list (size_prod (\<lambda>_. 0) size) d)"
  by (induction d) auto

function (sequential) py_eq :: "json \<Rightarrow> json \<Rightarrow> bool" where
  "py_eq JNull JNull = True"
| "py_eq (JStr s) (JStr t) = (s = t)"
| "py_eq (JArr xs) (JArr ys) =
     (length xs = length ys \<and> list_all (\<lambda>(x, y). py_eq x y) (zip xs ys))"
| "py_eq (JObj d) (JObj e) =
     (length d = length e \<and>
      list_all (\<lambda>(k, v). case map_of e k of None \<Rightarrow> False | Some w \<Rightarrow> py_eq v w) d)"
| "py_eq (JFloat (NonFinite s)) (JFloat (NonFinite t)) = (s = t \<and> s \<noteq> lit ''nan'')"
| "py_eq x y = (case numeric x of None \<Rightarrow> False | Some p \<Rightarrow>
      (case numeric y of None \<Rightarrow> False | Some q \<Rightarrow> p = q))"
  by pat_completeness auto
termination
proof (relation "measure (\<lambda>(x, _). size x)")
  fix xs ys :: "json list" and z x y
  assume "z \<in> set (zip xs ys)" "(x, y) = z"
  then have "x \<in> set xs" by (auto dest: set_zip_leftD)
  then have "size x \<le> size_list size xs" by (rule size_list_estimation') simp
  then show "((x, y), JArr xs, JArr ys) \<in> measure (\<lambda>(x, _). size x)" by simp
qed (auto dest: size_member_snd)

text \<open>\<open>bool(x)\<close>, as an \<open>or\<close> or an \<open>if\<close> reads it.\<close>

fun truthy :: "json \<Rightarrow> bool" where
  "truthy JNull = False"
| "truthy (JBool b) = b"
| "truthy (JInt i) = (i \<noteq> 0)"
| "truthy (JFloat (Finite q _)) = (q \<noteq> 0)"
| "truthy (JFloat (NonFinite _)) = True"
| "truthy (JStr s) = (s \<noteq> [])"
| "truthy (JArr xs) = (xs \<noteq> [])"
| "truthy (JObj d) = (d \<noteq> [])"

section \<open>Well-formed values\<close>

fun json_wf :: "json \<Rightarrow> bool" where
  "json_wf (JStr s) = code_points s"
| "json_wf (JArr xs) = list_all json_wf xs"
| "json_wf (JObj d) = (distinct (map fst d) \<and> list_all (\<lambda>(k, v). code_points k \<and> json_wf v) d)"
| "json_wf _ = True"

lemma py_eq_const [simp]:
  "py_eq x JNull \<longleftrightarrow> x = JNull"
  "py_eq x (JStr s) \<longleftrightarrow> x = JStr s"
  "py_eq JNull x \<longleftrightarrow> x = JNull"
  "py_eq (JStr s) x \<longleftrightarrow> x = JStr s"
  by (cases x; auto split: option.splits elim: numeric.elims)+

lemma size_in_items: "(k, w) \<in> set (items v) \<Longrightarrow> size w < size v"
  by (auto simp: in_items dest: size_member_snd)

lemma size_in_elems: "w \<in> set (elems v) \<Longrightarrow> size w < size v"
  by (auto simp: in_elems less_Suc_eq_le size_list_estimation')

lemma py_eq_int [simp]: "py_eq (JInt i) (JInt j) \<longleftrightarrow> i = j"
  by simp

lemma py_eq_refl_int: "is_int x \<Longrightarrow> py_eq x (JInt j) \<longleftrightarrow> x = JInt j"
  by (cases x) auto

lemma dget_dget_or: "has d k \<Longrightarrow> dget_or d k z = dget d k"
  by (auto simp: has_def keys_def dget_def dget_or_def split: option.splits
      dest: weak_map_of_SomeI)

lemma dget_or_absent [simp]: "\<not> has d k \<Longrightarrow> dget_or d k z = z"
  by (force simp: has_def keys_def dget_or_def split: option.splits dest: map_of_SomeD)

lemma keys_are_has: "keys_are d ks \<Longrightarrow> has d k \<longleftrightarrow> k \<in> set ks"
  by (auto simp: keys_are_def has_def)

lemma map_of_dput [simp]: "map_of (dput k v d) = (map_of d)(k \<mapsto> v)"
  by (induction k v d rule: dput.induct) auto

lemma keys_dput: "set (keys (dput k v d)) = insert k (set (keys d))"
  by (induction k v d rule: dput.induct) (auto simp: keys_def)

lemma dget_or_Cons:
  "dget_or ((k', v) # d) k z = (if lit k = k' then v else dget_or d k z)"
  by (auto simp: dget_or_def)

lemma has_Cons: "has ((k', v) # d) k \<longleftrightarrow> lit k = k' \<or> has d k"
  by (auto simp: has_def keys_def)

lemma dget_or_Nil: "dget_or [] k z = z"
  by (simp add: dget_or_def)

lemma has_Nil: "\<not> has [] k"
  by (simp add: has_def keys_def)

lemmas dict_eval = dget_def dget_or_Cons dget_or_Nil has_Cons has_Nil

lemma dget_dset: "dget_or (dset d k v) j z = (if j = k then v else dget_or d j z)"
  by (auto simp: dset_def dget_or_def)

lemma has_dset: "has (dset d k v) j \<longleftrightarrow> j = k \<or> has d j"
  by (auto simp: dset_def has_def keys_dput)

lemma distinct_keys_dput: "distinct (keys d) \<Longrightarrow> distinct (keys (dput k v d))"
proof (induction k v d rule: dput.induct)
  case (2 k v k' v' d)
  then show ?case using keys_dput[of k v d] by (auto simp: keys_def image_iff)
qed (simp add: keys_def)

end
