(* ===== verification/Canonical.thy ===== *)
theory Canonical
  imports Json_Value
begin

text \<open>
  \<open>v24/host/canonical.py\<close>, the encoding half: JSON string quoting, the compact canonical
  form \<open>J\<close> with its explicit stack, and the text PostgreSQL prints for \<open>jsonb\<close>. The
  stack machine \<open>compact_encode\<close> is proved equal to the recursive reference \<open>J\<close>, errors
  included, and \<open>J\<close> accepts exactly the values of \<open>J_domain\<close>. \<open>dumps_sorted\<close> is the
  standard library's \<open>json.dumps\<close> with sorted keys and compact separators, as
  \<open>journal.py\<close>, \<open>line_json.py\<close> and the plugins call it. Values have no cycles here, so
  the \<open>active\<close> set of the source and its \<open>circular_reference\<close> have no counterpart.
\<close>

section \<open>Quoting\<close>

definition quote_char :: "nat \<Rightarrow> pystr" where
  "quote_char c =
     (if c = 34 then [92, 34]
      else if c = 92 then [92, 92]
      else if c = 8 then [92, 98]
      else if c = 12 then [92, 102]
      else if c = 10 then [92, 110]
      else if c = 13 then [92, 114]
      else if c = 9 then [92, 116]
      else if c < 32 then [92, 117, 48, 48, hex_digit (c div 16), hex_digit (c mod 16)]
      else [c])"

definition quote :: "pystr \<Rightarrow> pystr" where
  "quote s = 34 # concat (map quote_char s) @ [34]"

text \<open>\<open>sep.join(parts)\<close>.\<close>

fun join :: "pystr \<Rightarrow> pystr list \<Rightarrow> pystr" where
  "join sep [] = []"
| "join sep [x] = x"
| "join sep (x # y # r) = x @ sep @ join sep (y # r)"

section \<open>The compact form\<close>

definition SAFE_INTEGER_MAX :: int where
  "SAFE_INTEGER_MAX = 2 ^ 53 - 1"

definition safe_int :: "int \<Rightarrow> bool" where
  "safe_int i \<longleftrightarrow> \<bar>i\<bar> \<le> SAFE_INTEGER_MAX"

definition scalar :: "pystr \<Rightarrow> exn + pystr" where
  "scalar s = (if \<not> scalar_str s then Inl (CanonicalError ''lone_surrogate'') else Inr s)"

definition safe_integer :: "int \<Rightarrow> exn + pystr" where
  "safe_integer i =
     (if \<bar>i\<bar> > SAFE_INTEGER_MAX then Inl (CanonicalError ''unsafe_integer'')
      else Inr (int_text i))"

definition sort_items :: "dict \<Rightarrow> dict" where
  "sort_items d = sort_key (\<lambda>kv. utf8 (fst kv)) d"

lemma set_sort_items [simp]: "set (sort_items d) = set d"
  by (simp add: sort_items_def)

lemma map_fst_sort_items: "distinct (map fst d) \<Longrightarrow> distinct (map fst (sort_items d))"
proof -
  have "mset (map fst (sort_items d)) = mset (map fst d)"
    by (simp add: sort_items_def)
  then show "distinct (map fst d) \<Longrightarrow> distinct (map fst (sort_items d))"
    by (metis mset_eq_imp_distinct_iff)
qed

text \<open>
  The work items of the source's stack. The \<open>leave\<close> entries only end the lifetime of an
  object identity in \<open>active\<close>.
\<close>

datatype task = Value json | Text pystr

fun comma_sep :: "task list list \<Rightarrow> task list" where
  "comma_sep [] = []"
| "comma_sep [x] = x"
| "comma_sep (x # y # r) = x @ Text [44] # comma_sep (y # r)"

definition member_tasks :: "pystr \<times> json \<Rightarrow> task list" where
  "member_tasks kv = [Text (quote (fst kv)), Text [58], Value (snd kv)]"

definition object_tasks :: "dict \<Rightarrow> task list" where
  "object_tasks d = Text [123] # comma_sep (map member_tasks (sort_items d)) @ [Text [125]]"

definition array_tasks :: "json list \<Rightarrow> task list" where
  "array_tasks xs = Text [91] # comma_sep (map (\<lambda>x. [Value x]) xs) @ [Text [93]]"

fun weight :: "json \<Rightarrow> nat" where
  "weight (JArr xs) = 4 + sum_list (map (\<lambda>x. 4 + weight x) xs)"
| "weight (JObj d) = 4 + sum_list (map (\<lambda>kv. 4 + weight (snd kv)) d)"
| "weight _ = 1"

fun task_weight :: "task \<Rightarrow> nat" where
  "task_weight (Value v) = weight v"
| "task_weight (Text _) = 1"

lemma comma_sep_weight:
  "sum_list (map task_weight (comma_sep ts)) \<le> sum_list (map (\<lambda>t. 1 + sum_list (map task_weight t)) ts)"
  by (induction ts rule: comma_sep.induct) auto

lemma sum_list_sort_items: "sum_list (map f (sort_items d)) = sum_list (map f d)"
  for f :: "pystr \<times> json \<Rightarrow> nat"
proof -
  have "mset (map f (sort_items d)) = mset (map f d)" by (simp add: sort_items_def)
  then show ?thesis by (metis sum_mset_sum_list)
qed

lemma object_tasks_weight: "sum_list (map task_weight (object_tasks d)) < weight (JObj d)"
proof -
  have eq: "(\<lambda>kv. 1 + sum_list (map task_weight (member_tasks kv))) = (\<lambda>kv. 3 + weight (snd kv))"
    by (simp add: fun_eq_iff member_tasks_def)
  have "sum_list (map task_weight (comma_sep (map member_tasks (sort_items d))))
      \<le> sum_list (map (\<lambda>kv. 3 + weight (snd kv)) (sort_items d))"
    using comma_sep_weight[of "map member_tasks (sort_items d)"] by (simp only: map_map comp_def eq)
  also have "\<dots> \<le> sum_list (map (\<lambda>kv. 4 + weight (snd kv)) (sort_items d))"
    by (rule sum_list_mono) simp
  finally show ?thesis by (simp add: object_tasks_def sum_list_sort_items)
qed

lemma array_tasks_weight: "sum_list (map task_weight (array_tasks xs)) < weight (JArr xs)"
proof -
  have "sum_list (map task_weight (comma_sep (map (\<lambda>x. [Value x]) xs)))
      \<le> sum_list (map (\<lambda>x. 1 + weight x) xs)"
    using comma_sep_weight[of "map (\<lambda>x. [Value x]) xs"] by (simp add: comp_def)
  also have "\<dots> \<le> sum_list (map (\<lambda>x. 4 + weight x) xs)"
    by (rule sum_list_mono) simp
  finally show ?thesis by (simp add: array_tasks_def)
qed

function (sequential) encode_loop :: "task list \<Rightarrow> pystr list \<Rightarrow> exn + pystr" where
  "encode_loop [] out = Inr (concat out)"
| "encode_loop (Text t # stack) out = encode_loop stack (out @ [t])"
| "encode_loop (Value (JObj d) # stack) out =
     (if \<exists>k \<in> set (keys d). \<not> scalar_str k then Inl (CanonicalError ''lone_surrogate'')
      else encode_loop (object_tasks d @ stack) out)"
| "encode_loop (Value (JArr xs) # stack) out = encode_loop (array_tasks xs @ stack) out"
| "encode_loop (Value (JStr s) # stack) out =
     (case scalar s of Inl e \<Rightarrow> Inl e | Inr _ \<Rightarrow> encode_loop stack (out @ [quote s]))"
| "encode_loop (Value (JBool b) # stack) out =
     encode_loop stack (out @ [if b then lit ''true'' else lit ''false''])"
| "encode_loop (Value JNull # stack) out = encode_loop stack (out @ [lit ''null''])"
| "encode_loop (Value (JInt i) # stack) out =
     (case safe_integer i of Inl e \<Rightarrow> Inl e | Inr t \<Rightarrow> encode_loop stack (out @ [t]))"
| "encode_loop (Value (JFloat f) # stack) out = Inl (CanonicalError ''non_integer_number'')"
  by pat_completeness auto
termination
proof (relation "measure (\<lambda>(st, _). sum_list (map task_weight st))")
  fix d stack and out :: "pystr list"
  show "((object_tasks d @ stack, out), Value (JObj d) # stack, out)
      \<in> measure (\<lambda>(st, _). sum_list (map task_weight st))"
    using object_tasks_weight[of d] by (simp del: weight.simps)
next
  fix xs stack and out :: "pystr list"
  show "((array_tasks xs @ stack, out), Value (JArr xs) # stack, out)
      \<in> measure (\<lambda>(st, _). sum_list (map task_weight st))"
    using array_tasks_weight[of xs] by (simp del: weight.simps)
qed auto

definition compact_encode :: "json \<Rightarrow> exn + pystr" where
  "compact_encode v = encode_loop [Value v] []"

text \<open>\<open>compact_json\<close>: the bytes of \<open>J\<close>.\<close>

definition compact_json :: "json \<Rightarrow> exn + bytes" where
  "compact_json v =
     andthen (compact_encode v) (\<lambda>t. case utf8_encode t of
        None \<Rightarrow> Inl (CanonicalError ''lone_surrogate'') | Some b \<Rightarrow> Inr b)"

definition escaped_len :: "json \<Rightarrow> exn + int" where
  "escaped_len v =
     (case v of JStr _ \<Rightarrow> andthen (compact_json v) (\<lambda>b. Inr (int (length b) - 2))
      | _ \<Rightarrow> Inl (CanonicalError ''expected_string''))"

section \<open>The recursive reference\<close>

function (sequential) J :: "json \<Rightarrow> exn + pystr" where
  "J (JObj d) =
     (if \<exists>k \<in> set (keys d). \<not> scalar_str k then Inl (CanonicalError ''lone_surrogate'')
      else andthen (mapr (\<lambda>kv. andthen (J (snd kv)) (\<lambda>t. Inr (quote (fst kv) @ [58] @ t)))
              (sort_items d))
            (\<lambda>ts. Inr ([123] @ join [44] ts @ [125])))"
| "J (JArr xs) = andthen (mapr J xs) (\<lambda>ts. Inr ([91] @ join [44] ts @ [93]))"
| "J (JStr s) = (if scalar_str s then Inr (quote s) else Inl (CanonicalError ''lone_surrogate''))"
| "J (JBool b) = Inr (if b then lit ''true'' else lit ''false'')"
| "J JNull = Inr (lit ''null'')"
| "J (JInt i) = (if safe_int i then Inr (int_text i) else Inl (CanonicalError ''unsafe_integer''))"
| "J (JFloat f) = Inl (CanonicalError ''non_integer_number'')"
  by pat_completeness auto
termination
  by (relation "measure size") (auto dest: size_member_snd simp: less_Suc_eq_le size_list_estimation')

text \<open>Running the machine on a prefix of its stack is running \<open>J\<close> on it.\<close>

fun task_text :: "task \<Rightarrow> exn + pystr" where
  "task_text (Value v) = J v"
| "task_text (Text t) = Inr t"

definition tasks_text :: "task list \<Rightarrow> exn + pystr" where
  "tasks_text ts = andthen (mapr task_text ts) (\<lambda>xs. Inr (concat xs))"

lemma tasks_text_simps:
  "tasks_text [] = Inr []"
  "tasks_text (t # ts) = andthen (task_text t) (\<lambda>x. andthen (tasks_text ts) (\<lambda>y. Inr (x @ y)))"
  by (auto simp: tasks_text_def andthen_def split: sum.splits)

lemma tasks_text_append:
  "tasks_text (ts @ us) = andthen (tasks_text ts) (\<lambda>x. andthen (tasks_text us) (\<lambda>y. Inr (x @ y)))"
  by (induction ts) (auto simp: tasks_text_simps andthen_def split: sum.splits)

lemma comma_sep_text:
  "tasks_text (comma_sep ts) =
     andthen (mapr tasks_text ts) (\<lambda>xs. Inr (join [44] xs))"
proof (induction ts rule: comma_sep.induct)
  case (3 x y r)
  then show ?case
    by (simp add: tasks_text_append tasks_text_simps andthen_def split: sum.splits)
qed (auto simp: tasks_text_simps andthen_def split: sum.splits)

lemma member_tasks_text:
  "tasks_text (member_tasks kv) = andthen (J (snd kv)) (\<lambda>t. Inr (quote (fst kv) @ [58] @ t))"
  by (auto simp: member_tasks_def tasks_text_simps andthen_def split: sum.splits)

lemma object_tasks_text:
  "\<forall>k \<in> set (keys d). scalar_str k \<Longrightarrow> tasks_text (object_tasks d) = J (JObj d)"
  by (auto simp: object_tasks_def tasks_text_simps tasks_text_append comma_sep_text mapr_map
      member_tasks_text andthen_assoc)

lemma array_tasks_text: "tasks_text (array_tasks xs) = J (JArr xs)"
  by (simp add: array_tasks_def tasks_text_simps tasks_text_append comma_sep_text mapr_map
      andthen_assoc)

lemma encode_loop_text:
  "encode_loop st out = andthen (tasks_text st) (\<lambda>t. Inr (concat out @ t))"
proof (induction st out rule: encode_loop.induct)
  case (3 d stack out)
  show ?case
  proof (cases "\<exists>k \<in> set (keys d). \<not> scalar_str k")
    case True
    then show ?thesis by (auto simp: tasks_text_simps)
  next
    case False
    then have "encode_loop (Value (JObj d) # stack) out = encode_loop (object_tasks d @ stack) out"
      by auto
    also have "\<dots> = andthen (tasks_text (object_tasks d @ stack)) (\<lambda>t. Inr (concat out @ t))"
      using 3 False by blast
    also have "tasks_text (object_tasks d @ stack) = tasks_text (Value (JObj d) # stack)"
      using False by (simp add: tasks_text_append object_tasks_text tasks_text_simps del: J.simps)
    finally show ?thesis .
  qed
next
  case (4 xs stack out)
  have "tasks_text (array_tasks xs @ stack) = tasks_text (Value (JArr xs) # stack)"
    by (simp add: tasks_text_append array_tasks_text tasks_text_simps del: J.simps)
  with 4 show ?case by simp
qed (auto simp: tasks_text_simps andthen_def scalar_def safe_integer_def safe_int_def split: sum.splits)

theorem compact_encode_J: "compact_encode v = J v"
  by (auto simp: compact_encode_def encode_loop_text tasks_text_simps andthen_def split: sum.splits)

section \<open>The domain of J\<close>

text \<open>
  \<open>J_domain\<close> is what \<open>J\<close> can encode: scalar strings and keys, safe integers, no float.
  \<open>canon\<close> sorts the keys of every object; \<open>jtext\<close> prints a value as it stands.
\<close>

fun J_domain :: "json \<Rightarrow> bool" where
  "J_domain (JObj d) = list_all (\<lambda>(k, v). scalar_str k \<and> J_domain v) d"
| "J_domain (JArr xs) = list_all J_domain xs"
| "J_domain (JStr s) = scalar_str s"
| "J_domain (JInt i) = safe_int i"
| "J_domain (JFloat _) = False"
| "J_domain _ = True"

function (sequential) canon :: "json \<Rightarrow> json" where
  "canon (JObj d) = JObj (map (\<lambda>(k, v). (k, canon v)) (sort_items d))"
| "canon (JArr xs) = JArr (map canon xs)"
| "canon v = v"
  by pat_completeness auto
termination
  by (relation "measure size") (auto dest: size_member_snd simp: less_Suc_eq_le size_list_estimation')

fun jtext :: "json \<Rightarrow> pystr" where
  "jtext (JObj d) = [123] @ join [44] (map (\<lambda>(k, v). quote k @ [58] @ jtext v) d) @ [125]"
| "jtext (JArr xs) = [91] @ join [44] (map jtext xs) @ [93]"
| "jtext (JStr s) = quote s"
| "jtext (JBool b) = (if b then lit ''true'' else lit ''false'')"
| "jtext JNull = lit ''null''"
| "jtext (JInt i) = int_text i"
| "jtext (JFloat (Finite _ r)) = r"
| "jtext (JFloat (NonFinite r)) = r"

lemma J_returns: "J v = Inr t \<Longrightarrow> J_domain v"
proof (induction v arbitrary: t rule: J.induct)
  case (1 d)
  have "scalar_str k \<and> J_domain v" if kv: "(k, v) \<in> set d" for k v
  proof -
    from 1(2) have all: "\<forall>k \<in> set (keys d). scalar_str k"
      by (auto split: if_splits)
    from 1(2) all obtain ts where
      "mapr (\<lambda>kv. andthen (J (snd kv)) (\<lambda>t. Inr (quote (fst kv) @ [58] @ t))) (sort_items d) = Inr ts"
      by (auto simp: andthen_Inr split: if_splits)
    from mapr_Inr_ball[OF this, of "(k, v)"] kv obtain t' where "J v = Inr t'"
      by (auto simp: andthen_Inr)
    with 1(1)[of "(k, v)" t'] all kv show ?thesis by (force simp: keys_def)
  qed
  then show ?case by (auto simp: list_all_iff)
next
  case (2 xs)
  then obtain ts where "mapr J xs = Inr ts" by (auto simp: andthen_Inr)
  from mapr_Inr_ball[OF this] 2(1) show ?case by (auto simp: list_all_iff)
qed (auto split: if_splits)

lemma J_of_domain: "J_domain v \<Longrightarrow> J v = Inr (jtext (canon v))"
proof (induction v rule: J.induct)
  case (1 d)
  have all: "\<forall>k \<in> set (keys d). scalar_str k"
    using 1(2) by (auto simp: list_all_iff keys_def)
  have "mapr (\<lambda>kv. andthen (J (snd kv)) (\<lambda>t. Inr (quote (fst kv) @ [58] @ t))) (sort_items d)
      = Inr (map (\<lambda>kv. quote (fst kv) @ [58] @ jtext (canon (snd kv))) (sort_items d))"
  proof (rule mapr_all_Inr)
    fix kv assume kv: "kv \<in> set (sort_items d)"
    then have "J_domain (snd kv)" using 1(2) by (auto simp: list_all_iff)
    with 1(1)[OF _ kv] all show "andthen (J (snd kv)) (\<lambda>t. Inr (quote (fst kv) @ [58] @ t))
        = Inr (quote (fst kv) @ [58] @ jtext (canon (snd kv)))" by auto
  qed
  with all show ?case by (auto simp: comp_def case_prod_beta)
next
  case (2 xs)
  then have "mapr J xs = Inr (map (\<lambda>x. jtext (canon x)) xs)"
    by (intro mapr_all_Inr) (auto simp: list_all_iff)
  then show ?case by (simp add: comp_def)
qed auto

lemma J_domain_iff: "J v = Inr t \<longleftrightarrow> J_domain v \<and> t = jtext (canon v)"
  using J_returns J_of_domain by fastforce

lemma J_domain_canon [simp]: "J_domain (canon v) = J_domain v"
  by (induction v rule: canon.induct) (auto simp: list_all_iff split: prod.splits; force)+

lemma json_wf_canon: "json_wf v \<Longrightarrow> json_wf (canon v)"
proof (induction v rule: canon.induct)
  case (1 d)
  have "map fst (map (\<lambda>(k, v). (k, canon v)) (sort_items d)) = map fst (sort_items d)"
    by auto
  with 1 show ?case by (auto simp: list_all_iff map_fst_sort_items comp_def case_prod_beta)
qed (auto simp: list_all_iff)

lemma scalar_quote_char: "\<not> surrogate c \<Longrightarrow> scalar_str (quote_char c)"
  by (auto simp: quote_char_def hex_digit_def surrogate_def)

lemma scalar_quote [simp]: "scalar_str s \<Longrightarrow> scalar_str (quote s)"
  by (induction s) (auto simp: quote_def scalar_quote_char surrogate_def)

lemma scalar_int_text [simp]: "scalar_str (int_text i)"
  using dec_digits by (auto simp: int_text_def scalar_str_def surrogate_def is_digit_def; fastforce)

lemma scalar_join: "scalar_str sep \<Longrightarrow> \<forall>x \<in> set xs. scalar_str x \<Longrightarrow> scalar_str (join sep xs)"
  by (induction sep xs rule: join.induct) auto

lemma scalar_jtext: "J_domain v \<Longrightarrow> scalar_str (jtext v)"
proof (induction v rule: jtext.induct)
  case (1 d)
  have "scalar_str (quote k) \<and> scalar_str (jtext v)" if "(k, v) \<in> set d" for k v
    using 1 that by (force simp: list_all_iff)
  then show ?case
    by (auto simp: surrogate_def intro!: scalar_join)
next
  case (2 xs)
  then show ?case
    by (auto simp: list_all_iff surrogate_def intro!: scalar_join)
qed auto

theorem compact_json_J:
  "compact_json v = andthen (J v) (\<lambda>t. Inr (utf8 t))"
proof (cases "J v")
  case (Inr t)
  then have "scalar_str t" using scalar_jtext[of "canon v"] by (auto simp: J_domain_iff)
  with Inr show ?thesis by (simp add: compact_json_def compact_encode_J utf8_encode_def)
qed (simp add: compact_json_def compact_encode_J)

lemma compact_json_iff: "compact_json v = Inr b \<longleftrightarrow> J_domain v \<and> b = utf8 (jtext (canon v))"
  by (auto simp: compact_json_J andthen_Inr J_domain_iff)

section \<open>json.dumps with sorted keys\<close>

text \<open>
  \<open>json.dumps(v, ensure_ascii=False, sort_keys=True, separators=(",", ":"),
  allow_nan=False)\<close>: keys sort as Python strings (by code point), every integer and every
  finite float is printed, a surrogate passes.
\<close>

definition sort_by_code_point :: "dict \<Rightarrow> dict" where
  "sort_by_code_point d = sort_key fst d"

lemma set_sort_by_code_point [simp]: "set (sort_by_code_point d) = set d"
  by (simp add: sort_by_code_point_def)

function (sequential) dumps_sorted :: "json \<Rightarrow> exn + pystr" where
  "dumps_sorted (JObj d) =
     andthen (mapr (\<lambda>kv. andthen (dumps_sorted (snd kv)) (\<lambda>t. Inr (quote (fst kv) @ [58] @ t)))
        (sort_by_code_point d))
      (\<lambda>ts. Inr ([123] @ join [44] ts @ [125]))"
| "dumps_sorted (JArr xs) = andthen (mapr dumps_sorted xs) (\<lambda>ts. Inr ([91] @ join [44] ts @ [93]))"
| "dumps_sorted (JStr s) = Inr (quote s)"
| "dumps_sorted (JBool b) = Inr (if b then lit ''true'' else lit ''false'')"
| "dumps_sorted JNull = Inr (lit ''null'')"
| "dumps_sorted (JInt i) = Inr (int_text i)"
| "dumps_sorted (JFloat (Finite _ r)) = Inr r"
| "dumps_sorted (JFloat (NonFinite _)) = Inl ValueError"
  by pat_completeness auto
termination
  by (relation "measure size") (auto dest: size_member_snd simp: less_Suc_eq_le size_list_estimation')

lemma insort_key_cong:
  "\<forall>y \<in> set ys. f x \<le> f y \<longleftrightarrow> g x \<le> g y \<Longrightarrow> insort_key f x ys = insort_key g x ys"
  by (induction ys) auto

lemma sort_key_cong:
  "\<forall>x \<in> set xs. \<forall>y \<in> set xs. f x \<le> f y \<longleftrightarrow> g x \<le> g y \<Longrightarrow> sort_key f xs = sort_key g xs"
proof (induction xs)
  case (Cons x xs)
  then have "sort_key f xs = sort_key g xs" by simp
  then show ?case
    using Cons.prems by (auto simp: sort_key_simps intro!: insort_key_cong)
qed simp

lemma sort_orders_agree:
  assumes "\<forall>k \<in> set (keys d). code_points k"
  shows "sort_by_code_point d = sort_items d"
  unfolding sort_by_code_point_def sort_items_def
proof (rule sort_key_cong, intro ballI)
  fix a b assume "a \<in> set d" "b \<in> set d"
  with assms have "code_points (fst a)" "code_points (fst b)" by (auto simp: keys_def)
  then show "fst a \<le> fst b \<longleftrightarrow> utf8 (fst a) \<le> utf8 (fst b)"
    using utf8_less_iff[of "fst b" "fst a"] by (metis not_le)
qed

text \<open>On the domain of \<open>J\<close> the standard encoder and the host's encoder agree.\<close>

lemma dumps_sorted_domain: "json_wf v \<Longrightarrow> J_domain v \<Longrightarrow> dumps_sorted v = Inr (jtext (canon v))"
proof (induction v rule: dumps_sorted.induct)
  case (1 d)
  have eq: "sort_by_code_point d = sort_items d"
    using 1(2) by (intro sort_orders_agree) (auto simp: list_all_iff keys_def)
  have "mapr (\<lambda>kv. andthen (dumps_sorted (snd kv)) (\<lambda>t. Inr (quote (fst kv) @ [58] @ t)))
      (sort_by_code_point d)
      = Inr (map (\<lambda>kv. quote (fst kv) @ [58] @ jtext (canon (snd kv))) (sort_by_code_point d))"
  proof (rule mapr_all_Inr)
    fix kv assume kv: "kv \<in> set (sort_by_code_point d)"
    then have "J_domain (snd kv)" "json_wf (snd kv)" using 1(2,3) by (auto simp: list_all_iff)
    with 1(1)[OF kv] show "andthen (dumps_sorted (snd kv)) (\<lambda>t. Inr (quote (fst kv) @ [58] @ t))
        = Inr (quote (fst kv) @ [58] @ jtext (canon (snd kv)))" by simp
  qed
  then show ?case by (simp add: eq comp_def case_prod_beta)
next
  case (2 xs)
  then have "mapr dumps_sorted xs = Inr (map (\<lambda>x. jtext (canon x)) xs)"
    by (intro mapr_all_Inr) (auto simp: list_all_iff)
  then show ?case by (simp add: comp_def)
qed auto

section \<open>PostgreSQL's jsonb text\<close>

text \<open>
  Keys sort by length and then by bytes, separators carry a blank. A key with a surrogate
  fails in \<open>encode\<close>, a non-finite float in \<open>json.dumps(allow_nan=False)\<close>.
\<close>

definition pg_key :: "pystr \<Rightarrow> nat list" where
  "pg_key k = length (utf8 k) # utf8 k"

definition pg_sort :: "dict \<Rightarrow> dict" where
  "pg_sort d = sort_key (\<lambda>kv. pg_key (fst kv)) d"

lemma set_pg_sort [simp]: "set (pg_sort d) = set d"
  by (simp add: pg_sort_def)

function (sequential) pg_jsonb_text :: "json \<Rightarrow> exn + pystr" where
  "pg_jsonb_text (JObj d) =
     (if \<exists>k \<in> set (keys d). \<not> scalar_str k then Inl UnicodeError
      else andthen (mapr (\<lambda>kv. andthen (pg_jsonb_text (snd kv)) (\<lambda>t. Inr (quote (fst kv) @ [58, 32] @ t)))
              (pg_sort d))
            (\<lambda>ts. Inr ([123] @ join [44, 32] ts @ [125])))"
| "pg_jsonb_text (JArr xs) =
     andthen (mapr pg_jsonb_text xs) (\<lambda>ts. Inr ([91] @ join [44, 32] ts @ [93]))"
| "pg_jsonb_text (JBool b) = Inr (if b then lit ''true'' else lit ''false'')"
| "pg_jsonb_text JNull = Inr (lit ''null'')"
| "pg_jsonb_text (JInt i) = Inr (int_text i)"
| "pg_jsonb_text (JFloat (Finite _ r)) = Inr r"
| "pg_jsonb_text (JFloat (NonFinite _)) = Inl ValueError"
| "pg_jsonb_text (JStr s) = Inr (quote s)"
  by pat_completeness auto
termination
  by (relation "measure size") (auto dest: size_member_snd simp: less_Suc_eq_le size_list_estimation')

section \<open>Sorting once is enough\<close>

definition canon_item :: "pystr \<times> json \<Rightarrow> pystr \<times> json" where
  "canon_item kv = (fst kv, canon (snd kv))"

lemma canon_object: "canon (JObj d) = JObj (map canon_item (sort_items d))"
  by (simp add: canon_item_def case_prod_beta)

lemma items_canon: "items (canon v) = map canon_item (sort_items (items v))"
  by (cases v) (simp_all add: canon_object sort_items_def del: canon.simps(1))

lemma elems_canon: "elems (canon v) = map canon (elems v)"
  by (cases v) simp_all

lemma sort_items_canon: "sort_items (map canon_item (sort_items d)) = map canon_item (sort_items d)"
proof -
  have "(\<lambda>kv. utf8 (fst kv)) \<circ> canon_item = (\<lambda>kv. utf8 (fst kv))" by (auto simp: canon_item_def)
  then have "sorted (map (\<lambda>kv. utf8 (fst kv)) (map canon_item (sort_items d)))"
    by (simp add: sort_items_def)
  then show ?thesis by (simp add: sort_items_def sort_key_id_if_sorted)
qed

lemma sort_items_idem: "sort_items (sort_items d) = sort_items d"
  by (simp add: sort_items_def sort_key_id_if_sorted)

lemma canon_idem [simp]: "canon (canon v) = canon v"
proof (induction v rule: canon.induct)
  case (1 d)
  have "map canon_item (map canon_item (sort_items d)) = map canon_item (sort_items d)"
    using 1 by (force simp: canon_item_def)
  then show ?case unfolding canon_object by (simp only: sort_items_canon)
qed auto

end
