(* ===== verification/Json_Decode.thy ===== *)
theory Json_Decode
  imports Canonical
begin

text \<open>
  The decoding half: \<open>json.loads\<close> of the standard library as a scanner over code points
  with its four hooks, and \<open>strict_loads\<close> of \<open>v24/host/canonical.py\<close> on top of it. The
  scanner recurses on a fuel argument; \<open>json_loads\<close> gives it twice the length of the
  input, which is always enough (\<open>scan_fuel\<close>). The results are: what \<open>J\<close> prints is read
  back as the same value with sorted keys, and everything \<open>strict_loads\<close> accepts is in
  the domain of \<open>J\<close>.
\<close>

section \<open>Tokens\<close>

definition is_ws :: "nat \<Rightarrow> bool" where
  "is_ws c \<longleftrightarrow> c = 32 \<or> c = 9 \<or> c = 10 \<or> c = 13"

definition skip_ws :: "pystr \<Rightarrow> pystr" where
  "skip_ws s = dropWhile is_ws s"

definition hex_val :: "nat \<Rightarrow> nat option" where
  "hex_val c =
     (if 48 \<le> c \<and> c \<le> 57 then Some (c - 48)
      else if 97 \<le> c \<and> c \<le> 102 then Some (c - 87)
      else if 65 \<le> c \<and> c \<le> 70 then Some (c - 55)
      else None)"

fun hex4 :: "pystr \<Rightarrow> (nat \<times> pystr) option" where
  "hex4 (a # b # c # d # r) =
     (case (hex_val a, hex_val b, hex_val c, hex_val d) of
        (Some x, Some y, Some z, Some w) \<Rightarrow> Some (x * 4096 + y * 256 + z * 16 + w, r)
      | _ \<Rightarrow> None)"
| "hex4 _ = None"

definition escape_char :: "nat \<Rightarrow> nat option" where
  "escape_char e =
     (if e = 34 then Some 34 else if e = 92 then Some 92 else if e = 47 then Some 47
      else if e = 98 then Some 8 else if e = 102 then Some 12 else if e = 110 then Some 10
      else if e = 114 then Some 13 else if e = 116 then Some 9 else None)"

lemma hex4_length: "hex4 s = Some (u, r) \<Longrightarrow> length r < length s"
  by (induction s rule: hex4.induct) (auto split: option.splits prod.splits)

text \<open>The rest of a string after its opening quote; a high surrogate escape joins the low one that follows.\<close>

function scan_string :: "pystr \<Rightarrow> exn + (pystr \<times> pystr)" where
  "scan_string s =
     (case s of
        [] \<Rightarrow> Inl JSONDecodeError
      | c # r \<Rightarrow>
          if c = 34 then Inr ([], r)
          else if c = 92 then
            (case r of
               [] \<Rightarrow> Inl JSONDecodeError
             | e # r1 \<Rightarrow>
                 if e = 117 then
                   (case hex4 r1 of
                      None \<Rightarrow> Inl JSONDecodeError
                    | Some (uni, r2) \<Rightarrow>
                        if 0xD800 \<le> uni \<and> uni \<le> 0xDBFF \<and> take 2 r2 = [92, 117] then
                          (case hex4 (drop 2 r2) of
                             None \<Rightarrow> Inl JSONDecodeError
                           | Some (uni2, r3) \<Rightarrow>
                               if 0xDC00 \<le> uni2 \<and> uni2 \<le> 0xDFFF then
                                 andthen (scan_string r3) (\<lambda>(t, z).
                                   Inr ((0x10000 + (uni - 0xD800) * 1024 + (uni2 - 0xDC00)) # t, z))
                               else andthen (scan_string r2) (\<lambda>(t, z). Inr (uni # t, z)))
                        else andthen (scan_string r2) (\<lambda>(t, z). Inr (uni # t, z)))
                 else
                   (case escape_char e of
                      None \<Rightarrow> Inl JSONDecodeError
                    | Some x \<Rightarrow> andthen (scan_string r1) (\<lambda>(t, z). Inr (x # t, z))))
          else if c < 32 then Inl JSONDecodeError
          else andthen (scan_string r) (\<lambda>(t, z). Inr (c # t, z)))"
  by pat_completeness auto
termination
  by (relation "measure length") (auto dest!: hex4_length simp: min_def)

declare scan_string.simps [simp del]

text \<open>A number token: is it a float, its text, the rest.\<close>

fun scan_int_part :: "pystr \<Rightarrow> (pystr \<times> pystr) option" where
  "scan_int_part [] = None"
| "scan_int_part (c # r) =
     (if c = 48 then Some ([48], r)
      else if 49 \<le> c \<and> c \<le> 57
      then Some (c # takeWhile is_digit r, dropWhile is_digit r)
      else None)"

fun scan_frac :: "pystr \<Rightarrow> pystr \<times> pystr" where
  "scan_frac (c # d # r) =
     (if c = 46 \<and> is_digit d
      then (c # takeWhile is_digit (d # r), dropWhile is_digit (d # r))
      else ([], c # d # r))"
| "scan_frac s = ([], s)"

fun scan_exp :: "pystr \<Rightarrow> pystr \<times> pystr" where
  "scan_exp (c # r) =
     (if c = 101 \<or> c = 69 then
        (let (sg, r1) = (case r of g # r' \<Rightarrow> if g = 43 \<or> g = 45 then ([g], r') else ([], r)
                         | [] \<Rightarrow> ([], r));
             ds = takeWhile is_digit r1
         in if ds = [] then ([], c # r) else (c # sg @ ds, dropWhile is_digit r1))
      else ([], c # r))"
| "scan_exp [] = ([], [])"

definition scan_number :: "pystr \<Rightarrow> (bool \<times> pystr \<times> pystr) option" where
  "scan_number s =
     (let (sg, r0) = (case s of c # r \<Rightarrow> if c = 45 then ([45], r) else ([], s) | [] \<Rightarrow> ([], s))
      in case scan_int_part r0 of
           None \<Rightarrow> None
         | Some (ip, r1) \<Rightarrow>
             (let (fp, r2) = scan_frac r1; (ep, r3) = scan_exp r2
              in Some (fp \<noteq> [] \<or> ep \<noteq> [], sg @ ip @ fp @ ep, r3)))"

section \<open>The scanner\<close>

record hooks =
  parse_int :: "pystr \<Rightarrow> exn + json"
  parse_float :: "pystr \<Rightarrow> exn + json"
  parse_constant :: "pystr \<Rightarrow> exn + json"
  pairs_hook :: "dict \<Rightarrow> exn + json"

definition starts :: "pystr \<Rightarrow> string \<Rightarrow> bool" where
  "starts s t \<longleftrightarrow> take (length t) s = lit t"

fun scan_value :: "nat \<Rightarrow> hooks \<Rightarrow> pystr \<Rightarrow> exn + (json \<times> pystr)"
and scan_elems :: "nat \<Rightarrow> hooks \<Rightarrow> pystr \<Rightarrow> exn + (json list \<times> pystr)"
and scan_members :: "nat \<Rightarrow> hooks \<Rightarrow> pystr \<Rightarrow> exn + (dict \<times> pystr)" where
  "scan_value 0 h s = Inl RecursionError"
| "scan_value (Suc n) h s =
     (if s = [] then Inl JSONDecodeError
      else if hd s = 34 then andthen (scan_string (tl s)) (\<lambda>(t, r). Inr (JStr t, r))
      else if hd s = 123 then
        (let r = skip_ws (tl s) in
         if take 1 r = [125] then andthen (pairs_hook h []) (\<lambda>v. Inr (v, drop 1 r))
         else andthen (scan_members n h r) (\<lambda>(d, r'). andthen (pairs_hook h d) (\<lambda>v. Inr (v, r'))))
      else if hd s = 91 then
        (let r = skip_ws (tl s) in
         if take 1 r = [93] then Inr (JArr [], drop 1 r)
         else andthen (scan_elems n h r) (\<lambda>(xs, r'). Inr (JArr xs, r')))
      else if starts s ''null'' then Inr (JNull, drop 4 s)
      else if starts s ''true'' then Inr (JBool True, drop 4 s)
      else if starts s ''false'' then Inr (JBool False, drop 5 s)
      else if starts s ''NaN'' then andthen (parse_constant h (lit ''NaN'')) (\<lambda>v. Inr (v, drop 3 s))
      else if starts s ''Infinity''
        then andthen (parse_constant h (lit ''Infinity'')) (\<lambda>v. Inr (v, drop 8 s))
      else if starts s ''-Infinity''
        then andthen (parse_constant h (lit ''-Infinity'')) (\<lambda>v. Inr (v, drop 9 s))
      else (case scan_number s of
              None \<Rightarrow> Inl JSONDecodeError
            | Some (fl, t, r) \<Rightarrow>
                andthen (if fl then parse_float h t else parse_int h t) (\<lambda>v. Inr (v, r))))"
| "scan_elems 0 h s = Inl RecursionError"
| "scan_elems (Suc n) h s =
     andthen (scan_value n h s) (\<lambda>(v, r).
       let r1 = skip_ws r in
       if take 1 r1 = [93] then Inr ([v], drop 1 r1)
       else if take 1 r1 = [44]
         then andthen (scan_elems n h (skip_ws (drop 1 r1))) (\<lambda>(vs, r2). Inr (v # vs, r2))
       else Inl JSONDecodeError)"
| "scan_members 0 h s = Inl RecursionError"
| "scan_members (Suc n) h s =
     (if take 1 s \<noteq> [34] then Inl JSONDecodeError
      else andthen (scan_string (drop 1 s)) (\<lambda>(k, r).
        let r1 = skip_ws r in
        if take 1 r1 \<noteq> [58] then Inl JSONDecodeError
        else andthen (scan_value n h (skip_ws (drop 1 r1))) (\<lambda>(v, r2).
          let r3 = skip_ws r2 in
          if take 1 r3 = [125] then Inr ([(k, v)], drop 1 r3)
          else if take 1 r3 = [44]
            then andthen (scan_members n h (skip_ws (drop 1 r3))) (\<lambda>(d, r4). Inr ((k, v) # d, r4))
          else Inl JSONDecodeError)))"

declare scan_value.simps [simp del] scan_elems.simps [simp del] scan_members.simps [simp del]

definition json_loads :: "hooks \<Rightarrow> pystr \<Rightarrow> exn + json" where
  "json_loads h s =
     (if take 1 s = [0xFEFF] then Inl JSONDecodeError
      else (case scan_value (2 * length s + 2) h (skip_ws s) of
              Inl e \<Rightarrow> Inl e
            | Inr (v, r) \<Rightarrow> if skip_ws r = [] then Inr v else Inl JSONDecodeError))"

section \<open>strict_loads\<close>

fun strict_pairs :: "dict \<Rightarrow> dict \<Rightarrow> exn + json" where
  "strict_pairs obj [] = Inr (JObj obj)"
| "strict_pairs obj ((k, v) # r) =
     (if k \<in> set (keys obj) then Inl (CanonicalError ''duplicate_key'')
      else case scalar k of Inl e \<Rightarrow> Inl e | Inr _ \<Rightarrow> strict_pairs (obj @ [(k, v)]) r)"

definition strict_integer :: "pystr \<Rightarrow> exn + json" where
  "strict_integer token =
     (if token = lit ''-0'' then Inl (CanonicalError ''negative_zero'')
      else
        let negative = take 1 token = [45];
            digits = (if negative then drop 1 token else token);
            value = (if negative then - int (digits_val digits) else int (digits_val digits))
        in if length digits > 16 then Inl (CanonicalError ''unsafe_integer'')
           else andthen (safe_integer value) (\<lambda>_. Inr (JInt value)))"

definition strict_hooks :: hooks where
  "strict_hooks =
     \<lparr>parse_int = strict_integer,
      parse_float = (\<lambda>_. Inl (CanonicalError ''non_integer_number'')),
      parse_constant = (\<lambda>_. Inl (CanonicalError ''non_json_constant'')),
      pairs_hook = strict_pairs []\<rparr>"

fun visit :: "json \<Rightarrow> exn + unit" where
  "visit (JStr s) = andthen (scalar s) (\<lambda>_. Inr ())"
| "visit (JObj d) = each (\<lambda>kv. case scalar (fst kv) of Inl e \<Rightarrow> Inl e | Inr _ \<Rightarrow> visit (snd kv)) d"
| "visit (JArr xs) = each visit xs"
| "visit _ = Inr ()"

definition strict_loads :: "pystr \<Rightarrow> exn + json" where
  "strict_loads s =
     andthen (json_loads strict_hooks s) (\<lambda>v. andthen (visit v) (\<lambda>_. Inr v))"

text \<open>A \<open>bytes\<close> argument is decoded first.\<close>

definition strict_loads_bytes :: "bytes \<Rightarrow> exn + json" where
  "strict_loads_bytes b = (case utf8_decode b of None \<Rightarrow> Inl UnicodeError | Some s \<Rightarrow> strict_loads s)"

section \<open>Progress and fuel\<close>

lemma skip_ws_length: "length (skip_ws s) \<le> length s"
  by (simp add: skip_ws_def length_dropWhile_le)

lemma scan_string_Nil: "scan_string [] = Inl JSONDecodeError"
  by (simp add: scan_string.simps[of "[]"])

lemma scan_string_Cons:
  "c \<noteq> 92 \<Longrightarrow> scan_string (c # r) =
     (if c = 34 then Inr ([], r)
      else if c < 32 then Inl JSONDecodeError
      else andthen (scan_string r) (\<lambda>(t, z). Inr (c # t, z)))"
  by (simp add: scan_string.simps[of "c # r"])

lemma scan_string_escape:
  "e \<noteq> 117 \<Longrightarrow> scan_string (92 # e # r) =
     (case escape_char e of None \<Rightarrow> Inl JSONDecodeError
      | Some x \<Rightarrow> andthen (scan_string r) (\<lambda>(t, z). Inr (x # t, z)))"
  by (simp add: scan_string.simps[of "92 # e # r"])

lemma hex4_bound: "hex4 s = Some (u, r) \<Longrightarrow> u < 0x10000"
proof (induction s rule: hex4.induct)
  case (1 a b c d r)
  have h: "hex_val x = Some y \<Longrightarrow> y < 16" for x y by (auto simp: hex_val_def split: if_splits)
  from 1 show ?case by (auto split: option.splits prod.splits dest!: h)
qed auto

text \<open>One step of the string scanner: it fails, ends, or reads one character and goes on.\<close>

lemma scan_string_step:
  "scan_string s = Inl JSONDecodeError \<or> (\<exists>r. s = 34 # r \<and> scan_string s = Inr ([], r)) \<or>
    (\<exists>s' x. length s' < length s \<and> set s' \<subseteq> set s \<and> (x \<in> set s \<or> x < 0x110000) \<and>
       scan_string s = andthen (scan_string s') (\<lambda>(t, z). Inr (x # t, z)))"
  (is "?err s \<or> ?end s \<or> ?go s")
proof -
  have goI: "?go s" if "scan_string s = andthen (scan_string s') (\<lambda>(t, z). Inr (x # t, z))"
    "length s' < length s" "set s' \<subseteq> set s" "x \<in> set s \<or> x < 0x110000" for s s' x
    using that by blast
  have hset: "hex4 q = Some (w, r) \<Longrightarrow> set r \<subseteq> set q" for q w r
    by (induction q rule: hex4.induct) (auto split: option.splits prod.splits)
  have uesc: "?err (92 # 117 # r1) \<or> ?go (92 # 117 # r1)" for r1
  proof (cases "hex4 r1")
    case None
    then show ?thesis by (simp add: scan_string.simps[of "92 # 117 # r1"])
  next
    case (Some p)
    obtain w r2 where h: "hex4 r1 = Some (w, r2)" using Some by (cases p) auto
    note f1 = hex4_length[OF h] hset[OF h] hex4_bound[OF h]
    show ?thesis
    proof (cases "0xD800 \<le> w \<and> w \<le> 0xDBFF \<and> take 2 r2 = [92, 117]")
      case False
      then have "scan_string (92 # 117 # r1) = andthen (scan_string r2) (\<lambda>(t, z). Inr (w # t, z))"
        using h by (auto simp add: scan_string.simps[of "92 # 117 # r1"])
      from goI[OF this] f1 show ?thesis by fastforce
    next
      case True
      show ?thesis
      proof (cases "hex4 (drop 2 r2)")
        case None
        with True h show ?thesis by (simp add: scan_string.simps[of "92 # 117 # r1"])
      next
        case (Some p)
        obtain w2 r3 where h2: "hex4 (drop 2 r2) = Some (w2, r3)" using Some by (cases p) auto
        note f2 = hex4_length[OF h2] hset[OF h2] set_drop_subset[of 2 r2]
        show ?thesis
        proof (cases "0xDC00 \<le> w2 \<and> w2 \<le> 0xDFFF")
          case c: True
          then have "scan_string (92 # 117 # r1) = andthen (scan_string r3) (\<lambda>(t, z).
              Inr ((0x10000 + (w - 0xD800) * 1024 + (w2 - 0xDC00)) # t, z))"
            using True h h2 by (simp add: scan_string.simps[of "92 # 117 # r1"])
          moreover have "0x10000 + (w - 0xD800) * 1024 + (w2 - 0xDC00) < 0x110000"
            using True c by linarith
          moreover have "set r3 \<subseteq> set (92 # 117 # r1)" using f1 f2 by auto
          moreover have "length r3 < length (92 # 117 # r1)" using f1 f2 by simp
          ultimately have "?go (92 # 117 # r1)" using goI by blast
          then show ?thesis by blast
        next
          case False
          then have "scan_string (92 # 117 # r1) = andthen (scan_string r2) (\<lambda>(t, z). Inr (w # t, z))"
            using True h h2 by (auto simp add: scan_string.simps[of "92 # 117 # r1"])
          from goI[OF this] f1 show ?thesis by fastforce
        qed
      qed
    qed
  qed
  show ?thesis
  proof (cases s)
    case Nil
    then show ?thesis by (simp add: scan_string_Nil)
  next
    case s: (Cons c r)
    show ?thesis
    proof (cases "c = 92")
      case False
      then show ?thesis using s goI[of "c # r" r c] by (auto simp: scan_string_Cons)
    next
      case c: True
      show ?thesis
      proof (cases r)
        case Nil
        then show ?thesis using s c by (simp add: scan_string.simps[of "[92]"])
      next
        case r: (Cons e r1)
        show ?thesis
        proof (cases "e = 117")
          case True
          with uesc[of r1] s c r show ?thesis by blast
        next
          case e: False
          show ?thesis
          proof (cases "escape_char e")
            case None
            then show ?thesis using s c r e by (simp add: scan_string_escape)
          next
            case (Some x)
            then have "x < 0x110000" by (auto simp: escape_char_def split: if_splits)
            with Some show ?thesis using s c r e goI[of "92 # e # r1" r1 x]
              by (auto simp: scan_string_escape)
          qed
        qed
      qed
    qed
  qed
qed

lemma scan_string_length: "scan_string s = Inr (t, r) \<Longrightarrow> length r < length s"
proof (induction "length s" arbitrary: s t rule: less_induct)
  case less
  from scan_string_step[of s] less show ?case
    by (elim disjE exE conjE) (fastforce simp: andthen_Inr)+
qed

lemma scan_string_error: "scan_string s = Inl e \<Longrightarrow> e = JSONDecodeError"
proof (induction "length s" arbitrary: s rule: less_induct)
  case less
  from scan_string_step[of s] less show ?case
    by (elim disjE exE conjE) (fastforce simp: andthen_Inl)+
qed

lemma scan_string_code_points:
  "scan_string s = Inr (t, r) \<Longrightarrow> code_points s \<Longrightarrow> code_points t \<and> set r \<subseteq> set s"
proof (induction "length s" arbitrary: s t rule: less_induct)
  case less
  consider (err) "scan_string s = Inl JSONDecodeError"
    | (fin) r' where "s = 34 # r'" "scan_string s = Inr ([], r')"
    | (go) s' x where "length s' < length s" "set s' \<subseteq> set s" "x \<in> set s \<or> x < 0x110000"
      "scan_string s = andthen (scan_string s') (\<lambda>(t, z). Inr (x # t, z))"
    using scan_string_step[of s] by blast
  then show ?case
  proof cases
    case go
    with less.prems obtain t' where "scan_string s' = Inr (t', r)" "t = x # t'"
      by (auto simp: andthen_Inr)
    moreover have "code_points s'" using go(2) less.prems(2) by (auto simp: code_points_def)
    ultimately show ?thesis using less.hyps[of s'] go less.prems(2)
      by (auto simp: code_points_def)
  qed (use less.prems in auto)
qed

lemma scan_int_part_length: "scan_int_part s = Some (a, r) \<Longrightarrow> length r < length s"
  by (cases s) (auto split: if_splits simp: length_dropWhile_le less_Suc_eq_le)

lemma scan_frac_length: "scan_frac s = (a, r) \<Longrightarrow> length r \<le> length s"
  by (induction s rule: scan_frac.induct)
    (auto split: if_splits simp: le_SucI length_dropWhile_le)

lemma scan_exp_length: "scan_exp s = (a, r) \<Longrightarrow> length r \<le> length s"
proof (cases s)
  case (Cons c r')
  assume "scan_exp s = (a, r)"
  then show ?thesis
    using length_dropWhile_le[of is_digit r'] length_dropWhile_le[of is_digit "tl r'"]
    by (auto simp: Cons Let_def split: if_splits list.splits prod.splits)
qed simp

lemma scan_number_length: "scan_number s = Some (fl, t, r) \<Longrightarrow> length r < length s"
  unfolding scan_number_def Let_def
  by (auto split: list.splits if_splits option.splits prod.splits
      simp del: scan_int_part.simps
      dest!: scan_int_part_length scan_frac_length scan_exp_length)

lemma take1: "take 1 s = [c] \<longleftrightarrow> (\<exists>r. s = c # r)"
  by (cases s) auto

lemma scan_length:
  "scan_value n h s = Inr (v, r) \<Longrightarrow> length r < length s"
  "scan_elems n h s = Inr (vs, r) \<Longrightarrow> length r < length s"
  "scan_members n h s = Inr (d, r) \<Longrightarrow> length r < length s"
proof (induction n h s and n h s and n h s arbitrary: v r and vs r and d r
    rule: scan_value_scan_elems_scan_members.induct)
  case (2 n h s)
  have ws: "length (skip_ws (tl s)) \<le> length (tl s)" by (rule skip_ws_length)
  show ?case
    using 2 ws
    by (auto simp: scan_value.simps andthen_Inr Let_def split: if_splits option.splits
        dest!: scan_string_length scan_number_length)
      (fastforce simp: neq_Nil_conv dest: less_le_trans)+
next
  case (4 n h s)
  from "4.prems" obtain v r1 where v: "scan_value n h s = Inr (v, r1)"
    by (auto simp: scan_elems.simps andthen_Inr)
  with "4.IH"(1) have "length r1 < length s" by blast
  with 4 v show ?case
    using skip_ws_length[of r1] skip_ws_length[of "drop 1 (skip_ws r1)"]
    by (auto simp: scan_elems.simps andthen_Inr Let_def take1 split: if_splits)
      (fastforce dest: less_le_trans)+
next
  case (6 n h s)
  from "6.prems" obtain k r1 where k: "scan_string (drop 1 s) = Inr (k, r1)" and s: "take 1 s = [34]"
    by (auto simp: scan_members.simps andthen_Inr split: if_splits)
  from 6 k s obtain v r2 where c: "take 1 (skip_ws r1) = [58]"
    and v: "scan_value n h (skip_ws (drop 1 (skip_ws r1))) = Inr (v, r2)"
    by (auto simp: scan_members.simps andthen_Inr Let_def split: if_splits)
  have l1: "length r1 < length s" using scan_string_length[OF k] by simp
  have "length r2 < length (skip_ws (drop 1 (skip_ws r1)))"
    using "6.IH"(1)[of "(k, r1)"] s k c v by auto
  then have l2: "length r2 < length s"
    using skip_ws_length[of r1] skip_ws_length[of "drop 1 (skip_ws r1)"] l1 by simp
  let ?r3 = "skip_ws r2"
  have l3: "length ?r3 \<le> length r2" by (rule skip_ws_length)
  show ?case
  proof (cases "take 1 ?r3 = [125]")
    case True
    with "6.prems" s k c v l2 l3 show ?thesis
      by (auto simp: scan_members.simps andthen_Inr Let_def)
  next
    case False
    with "6.prems" s k c v obtain d' where
      m: "take 1 ?r3 = [44]" "scan_members n h (skip_ws (drop 1 ?r3)) = Inr (d', r)"
      by (auto simp: scan_members.simps andthen_Inr Let_def split: if_splits)
    have "length r < length (skip_ws (drop 1 ?r3))"
      using "6.IH"(2)[of "(k, r1)"] s k c v False m by auto
    with skip_ws_length[of "drop 1 ?r3"] l2 l3 show ?thesis by simp
  qed
qed (auto simp: scan_value.simps scan_elems.simps scan_members.simps)

definition hooks_total :: "hooks \<Rightarrow> bool" where
  "hooks_total h \<longleftrightarrow>
     (\<forall>t. parse_int h t \<noteq> Inl RecursionError) \<and> (\<forall>t. parse_float h t \<noteq> Inl RecursionError) \<and>
     (\<forall>t. parse_constant h t \<noteq> Inl RecursionError) \<and> (\<forall>d. pairs_hook h d \<noteq> Inl RecursionError)"

text \<open>Twice the length of the input is enough fuel.\<close>

lemma scan_fuel_all:
  assumes "hooks_total h"
  shows "(\<forall>s. 2 * length s < n \<longrightarrow> scan_value n h s \<noteq> Inl RecursionError) \<and>
    (\<forall>s. 2 * length s + 1 < n \<longrightarrow> scan_elems n h s \<noteq> Inl RecursionError) \<and>
    (\<forall>s. 2 * length s + 1 < n \<longrightarrow> scan_members n h s \<noteq> Inl RecursionError)"
proof (induction n)
  case (Suc n)
  have v: "scan_value n h s \<noteq> Inl RecursionError" if "2 * length s < n" for s
    using Suc that by blast
  have e: "scan_elems n h s \<noteq> Inl RecursionError" if "2 * length s + 1 < n" for s
    using Suc that by blast
  have m: "scan_members n h s \<noteq> Inl RecursionError" if "2 * length s + 1 < n" for s
    using Suc that by blast
  have val: "scan_value (Suc n) h s \<noteq> Inl RecursionError" if n: "2 * length s < Suc n" for s
  proof -
    have "s \<noteq> [] \<Longrightarrow> 2 * length (skip_ws (tl s)) + 1 < n"
      using n skip_ws_length[of "tl s"] by (cases s) auto
    with assms e m show ?thesis
      by (auto simp: scan_value.simps andthen_Inl Let_def hooks_total_def split: if_splits option.splits
          dest: scan_string_error)
  qed
  have elems: "scan_elems (Suc n) h s \<noteq> Inl RecursionError" if n: "2 * length s + 1 < Suc n" for s
  proof (cases "scan_value n h s")
    case (Inl x)
    with v[of s] n show ?thesis by (auto simp: scan_elems.simps)
  next
    case (Inr p)
    obtain w r where p: "p = (w, r)" by fastforce
    have "length r < length s" using Inr p scan_length(1) by blast
    then have "2 * length (skip_ws (drop 1 (skip_ws r))) + 1 < n"
      using skip_ws_length[of r] skip_ws_length[of "drop 1 (skip_ws r)"] n by simp
    with e Inr p show ?thesis
      by (auto simp: scan_elems.simps andthen_Inl Let_def split: if_splits)
  qed
  have members: "scan_members (Suc n) h s \<noteq> Inl RecursionError"
    if n: "2 * length s + 1 < Suc n" for s
  proof (cases "take 1 s = [34]")
    case True
    show ?thesis
    proof (cases "scan_string (drop 1 s)")
      case (Inl x)
      then show ?thesis using scan_string_error[OF Inl] by (simp add: scan_members.simps)
    next
      case (Inr q)
      obtain k r1 where q: "q = (k, r1)" by fastforce
      let ?s1 = "skip_ws (drop 1 (skip_ws r1))"
      have l1: "length ?s1 < length s"
        using scan_string_length[of "drop 1 s" k r1] Inr q
          skip_ws_length[of r1] skip_ws_length[of "drop 1 (skip_ws r1)"] by simp
      have rest: "scan_members n h (skip_ws (drop 1 (skip_ws r2))) \<noteq> Inl RecursionError"
        if "scan_value n h ?s1 = Inr (w, r2)" for w r2
        using scan_length(1)[OF that] l1 n skip_ws_length[of r2]
          skip_ws_length[of "drop 1 (skip_ws r2)"] by (intro m) simp
      have "scan_value n h ?s1 \<noteq> Inl RecursionError" using l1 n by (intro v) simp
      with rest Inr q True show ?thesis
        by (auto simp: scan_members.simps andthen_Inl Let_def split: if_splits)
    qed
  qed (simp add: scan_members.simps)
  from val elems members show ?case by blast
qed simp

lemma scan_fuel:
  "hooks_total h \<Longrightarrow> 2 * length s < n \<Longrightarrow> scan_value n h s \<noteq> Inl RecursionError"
  using scan_fuel_all by blast

lemma json_loads_fuel: "hooks_total h \<Longrightarrow> json_loads h s \<noteq> Inl RecursionError"
  using scan_fuel[of h "skip_ws s" "2 * length s + 2"] skip_ws_length[of s]
  by (auto simp: json_loads_def split: sum.splits if_splits)

section \<open>Reading back what was printed\<close>

lemma hex_val_digit: "n < 16 \<Longrightarrow> hex_val (hex_digit n) = Some n"
  by (simp add: hex_val_def hex_digit_def)

lemma scan_quote_char:
  "scan_string (quote_char c @ r) = andthen (scan_string r) (\<lambda>(t, z). Inr (c # t, z))"
proof -
  consider "c \<in> {34, 92, 8, 12, 10, 13, 9}" | "c \<notin> {34, 92, 8, 12, 10, 13, 9}" "c < 32"
    | "c \<noteq> 34" "c \<noteq> 92" "32 \<le> c" by force
  then show ?thesis
  proof cases
    case 1
    then show ?thesis by (auto simp: quote_char_def scan_string_escape escape_char_def)
  next
    case 2
    then have "c div 16 < 16" by linarith
    with 2 have "hex4 (drop 2 (quote_char c) @ r) = Some (c, r)"
      by (simp add: quote_char_def hex_val_digit) (simp add: hex_val_def)
    with 2 show ?thesis
      by (simp add: quote_char_def scan_string.simps[of "92 # 117 # q" for q])
  next
    case 3
    then show ?thesis by (simp add: quote_char_def scan_string_Cons)
  qed
qed

lemma scan_quoted: "scan_string (concat (map quote_char s) @ 34 # r) = Inr (s, r)"
  by (induction s) (simp_all add: scan_quote_char scan_string_Cons)

lemma scan_quote: "quote s @ r = 34 # q \<Longrightarrow> scan_string q = Inr (s, r)"
  using scan_quoted[of s r] by (auto simp: quote_def)

text \<open>What may follow a number without becoming part of it.\<close>

definition after_number :: "pystr \<Rightarrow> bool" where
  "after_number r \<longleftrightarrow> (\<forall>c s. r = c # s \<longrightarrow> \<not> is_digit c \<and> c \<noteq> 46 \<and> c \<noteq> 101 \<and> c \<noteq> 69)"

lemma takeWhile_digits:
  "\<forall>c \<in> set ds. is_digit c \<Longrightarrow> after_number r \<Longrightarrow>
     takeWhile is_digit (ds @ r) = ds \<and> dropWhile is_digit (ds @ r) = r"
  by (induction ds) (cases r; auto simp: after_number_def)+

lemma scan_frac_after: "after_number r \<Longrightarrow> scan_frac r = ([], r)"
  by (induction r rule: scan_frac.induct) (auto simp: after_number_def)

lemma scan_exp_after: "after_number r \<Longrightarrow> scan_exp r = ([], r)"
  by (cases r) (auto simp: after_number_def)

lemma scan_int_part_dec: "after_number r \<Longrightarrow> scan_int_part (dec n @ r) = Some (dec n, r)"
proof (cases "n = 0")
  case True
  then show ?thesis by (simp add: dec_zero)
next
  case False
  assume r: "after_number r"
  obtain c ds where d: "dec n = c # ds" by (meson dec_ne list.exhaust)
  have "c \<noteq> 48" using hd_dec[of n] d False by simp
  moreover have "is_digit c" "\<forall>x \<in> set ds. is_digit x" using dec_digits[of _ n] d by auto
  ultimately show ?thesis using r d takeWhile_digits[of ds r] by (auto simp: is_digit_def)
qed

lemma dec_head: "dec n = c # ds \<Longrightarrow> is_digit c"
  using dec_digits[of c n] by simp

lemma scan_number_int:
  assumes "after_number r"
  shows "scan_number (int_text i @ r) = Some (False, int_text i, r)"
proof -
  have "(case dec n @ r of [] \<Rightarrow> ([], dec n @ r)
      | c # q \<Rightarrow> if c = 45 then ([45::nat], q) else ([], dec n @ r)) = ([], dec n @ r)" for n
    using dec_head[of n] by (cases "dec n") (auto simp: is_digit_def)
  with assms show ?thesis
    by (auto simp: scan_number_def int_text_def Let_def scan_int_part_dec scan_frac_after
        scan_exp_after)
qed

text \<open>
  The contract between the scanner and its hooks: the hooks rebuild a safe integer and a
  dict with distinct scalar keys. Every reader with such hooks inverts \<open>jtext\<close>.
\<close>

locale json_reader =
  fixes h :: hooks
  assumes reads_int: "safe_int i \<Longrightarrow> parse_int h (int_text i) = Inr (JInt i)"
    and reads_dict: "distinct (map fst d) \<Longrightarrow> \<forall>k \<in> set (map fst d). scalar_str k \<Longrightarrow>
      pairs_hook h d = Inr (JObj d)"
begin

lemma skip_ws_id: "s \<noteq> [] \<Longrightarrow> \<not> is_ws (hd s) \<Longrightarrow> skip_ws s = s"
  by (cases s) (auto simp: skip_ws_def)

lemma jtext_head:
  "J_domain v \<Longrightarrow> \<exists>c q. jtext v = c # q \<and> \<not> is_ws c \<and> c \<noteq> 93 \<and> c \<noteq> 125"
proof (cases v)
  case (JInt i)
  then show ?thesis using dec_head by (cases "dec (nat \<bar>i\<bar>)")
      (fastforce simp: int_text_def is_ws_def is_digit_def)+
qed (auto simp: quote_def is_ws_def lit_def)

lemma scan_int_value:
  assumes "safe_int i" "after_number r" "0 < n"
  shows "scan_value n h (int_text i @ r) = Inr (JInt i, r)"
proof -
  obtain m where n: "n = Suc m" using assms(3) by (cases n) auto
  obtain c q where c: "int_text i = c # q" and d: "is_digit c \<or> c = 45 \<and> (\<exists>x y. q = x # y \<and> is_digit x)"
  proof (cases "i < 0")
    case True
    then show ?thesis using that dec_head[of "nat (- i)"]
      by (cases "dec (nat (- i))") (auto simp: int_text_def)
  next
    case False
    then show ?thesis using that dec_head[of "nat i"]
      by (cases "dec (nat i)") (auto simp: int_text_def)
  qed
  have "\<not> starts (int_text i @ r) t"
    if "t \<in> {''null'', ''true'', ''false'', ''NaN'', ''Infinity'', ''-Infinity''}" for t
    using that c d by (auto simp: starts_def lit_def is_digit_def)
  moreover have "c \<noteq> 34 \<and> c \<noteq> 123 \<and> c \<noteq> 91" using d by (auto simp: is_digit_def)
  ultimately show ?thesis
    using assms c scan_number_int[of r i] reads_int[of i]
    by (simp add: n scan_value.simps)
qed

lemma scan_elems_join:
  assumes "ys \<noteq> []"
    and "\<And>x n r. x \<in> set ys \<Longrightarrow> after_number r \<Longrightarrow> 2 * length (jtext x) < n \<Longrightarrow>
      scan_value n h (jtext x @ r) = Inr (x, r)"
    and "\<forall>x \<in> set ys. J_domain x"
    and "2 * length (join [44] (map jtext ys)) + 1 < n"
  shows "scan_elems n h (join [44] (map jtext ys) @ 93 # r) = Inr (ys, r)"
  using assms
proof (induction ys arbitrary: n)
  case (Cons x ys)
  obtain m where n: "n = Suc m" using Cons.prems(4) by (cases n) auto
  show ?case
  proof (cases ys)
    case Nil
    have "scan_value m h (jtext x @ 93 # r) = Inr (x, 93 # r)"
      using Cons.prems n Nil by (intro Cons.prems(2)) (auto simp: after_number_def is_digit_def)
    then show ?thesis using n Nil by (simp add: scan_elems.simps skip_ws_id is_ws_def)
  next
    case (Cons y zs)
    let ?t = "join [44] (map jtext ys)"
    have j: "join [44] (map jtext (x # ys)) = jtext x @ 44 # ?t" using Cons by simp
    have v: "scan_value m h (jtext x @ 44 # ?t @ 93 # r) = Inr (x, 44 # ?t @ 93 # r)"
      using Cons.prems(4) n j
      by (intro Cons.prems(2)) (auto simp: after_number_def is_digit_def)
    have e: "scan_elems m h (?t @ 93 # r) = Inr (ys, r)"
      using Cons.prems n j Cons by (intro Cons.IH) auto
    obtain c q where "jtext y = c # q" "\<not> is_ws c" using jtext_head[of y] Cons.prems(3) Cons by auto
    then have w: "skip_ws (?t @ 93 # r) = ?t @ 93 # r"
      using Cons by (intro skip_ws_id) (cases zs; simp)+
    show ?thesis using v e w j n by (simp add: scan_elems.simps skip_ws_id is_ws_def)
  qed
qed simp

lemma scan_members_join:
  assumes "d \<noteq> []"
    and "\<And>k x n r. (k, x) \<in> set d \<Longrightarrow> after_number r \<Longrightarrow> 2 * length (jtext x) < n \<Longrightarrow>
      scan_value n h (jtext x @ r) = Inr (x, r)"
    and "\<forall>(k, x) \<in> set d. J_domain x"
    and "2 * length (join [44] (map (\<lambda>(k, v). quote k @ [58] @ jtext v) d)) + 1 < n"
  shows "scan_members n h (join [44] (map (\<lambda>(k, v). quote k @ [58] @ jtext v) d) @ 125 # r) = Inr (d, r)"
  using assms
proof (induction d arbitrary: n)
  case (Cons kx d)
  obtain k x where kx: "kx = (k, x)" by fastforce
  obtain m where n: "n = Suc m" using Cons.prems(4) by (cases n) auto
  let ?f = "\<lambda>(k, v). quote k @ [58] @ jtext v"
  obtain qk where q: "\<And>z. quote k @ z = 34 # qk @ z" by (auto simp: quote_def)
  have str: "scan_string (qk @ z) = Inr (k, z)" for z using scan_quote[OF q] .
  have w0: "skip_ws (jtext x @ z) = jtext x @ z" for z
    using jtext_head[of x] Cons.prems(3) kx by (intro skip_ws_id) auto
  show ?case
  proof (cases d)
    case Nil
    have "scan_value m h (jtext x @ 125 # r) = Inr (x, 125 # r)"
      using Cons.prems(4) n Nil kx
      by (intro Cons.prems(2)[of k]) (auto simp: after_number_def is_digit_def)
    then show ?thesis using n Nil kx
      by (simp add: scan_members.simps q str w0 skip_ws_id is_ws_def)
  next
    case (Cons ly d')
    let ?t = "join [44] (map ?f d)"
    have j: "join [44] (map ?f (kx # d)) = quote k @ 58 # jtext x @ 44 # ?t" using Cons kx by simp
    have v: "scan_value m h (jtext x @ 44 # ?t @ 125 # r) = Inr (x, 44 # ?t @ 125 # r)"
      using Cons.prems(4) n j kx
      by (intro Cons.prems(2)[of k]) (auto simp: after_number_def is_digit_def)
    have e: "scan_members m h (?t @ 125 # r) = Inr (d, r)"
      using Cons.prems n j Cons by (intro Cons.IH) auto
    have "\<exists>z. ?t = 34 # z" using Cons by (cases d'; cases ly) (auto simp: quote_def)
    then have w: "skip_ws (?t @ 125 # r) = ?t @ 125 # r" by (auto simp: is_ws_def skip_ws_id)
    show ?thesis using v e w j n kx by (simp add: scan_members.simps q str w0 skip_ws_id is_ws_def)
  qed
qed simp

lemma scan_jtext:
  "J_domain v \<Longrightarrow> json_wf v \<Longrightarrow> after_number r \<Longrightarrow> 2 * length (jtext v) < n \<Longrightarrow>
     scan_value n h (jtext v @ r) = Inr (v, r)"
proof (induction v arbitrary: n r rule: jtext.induct)
  case (1 d)
  obtain m where n: "n = Suc m" using 1(5) by (cases n) auto
  have dict: "pairs_hook h d = Inr (JObj d)"
    using 1(2,3) by (intro reads_dict) (auto simp: list_all_iff)
  show ?case
  proof (cases "d = []")
    case True
    then show ?thesis using dict n by (simp add: scan_value.simps skip_ws_id is_ws_def)
  next
    case False
    let ?t = "join [44] (map (\<lambda>(k, v). quote k @ [58] @ jtext v) d)"
    have m: "scan_members m h (?t @ 125 # r) = Inr (d, r)"
    proof (rule scan_members_join[OF False])
      fix k x n' r' assume "(k, x) \<in> set d" "after_number r'" "2 * length (jtext x) < n'"
      moreover from this(1) have "J_domain x" "json_wf x" using 1(2,3) by (auto simp: list_all_iff)
      ultimately show "scan_value n' h (jtext x @ r') = Inr (x, r')" using 1(1) by blast
    qed (use 1 n in \<open>auto simp: list_all_iff\<close>)
    obtain z where z: "?t = 34 # z" using False by (cases d; cases "tl d") (auto simp: quote_def)
    then have "skip_ws (?t @ 125 # r) = ?t @ 125 # r" by (auto simp: is_ws_def skip_ws_id)
    with m z dict n show ?thesis by (simp add: scan_value.simps)
  qed
next
  case (2 xs)
  obtain m where n: "n = Suc m" using 2(5) by (cases n) auto
  show ?case
  proof (cases "xs = []")
    case True
    then show ?thesis using n by (simp add: scan_value.simps skip_ws_id is_ws_def)
  next
    case False
    let ?t = "join [44] (map jtext xs)"
    have m: "scan_elems m h (?t @ 93 # r) = Inr (xs, r)"
    proof (rule scan_elems_join[OF False])
      fix x n' r' assume "x \<in> set xs" "after_number r'" "2 * length (jtext x) < n'"
      moreover from this(1) have "J_domain x" "json_wf x" using 2(2,3) by (auto simp: list_all_iff)
      ultimately show "scan_value n' h (jtext x @ r') = Inr (x, r')" using 2(1) by blast
    qed (use 2 n in \<open>auto simp: list_all_iff\<close>)
    have "J_domain (hd xs)" using 2(2) False by (cases xs) auto
    from jtext_head[OF this] obtain c q where c: "jtext (hd xs) = c # q" "\<not> is_ws c" "c \<noteq> 93" by auto
    have z: "\<exists>z. ?t = c # z" using False c by (cases xs; cases "tl xs") auto
    with c have "skip_ws (?t @ 93 # r) = ?t @ 93 # r" by (auto simp: skip_ws_id)
    with m z c n show ?thesis by (auto simp: scan_value.simps)
  qed
next
  case (3 s)
  obtain m where n: "n = Suc m" using 3(4) by (cases n) auto
  obtain q where q: "quote s @ r = 34 # q" by (auto simp: quote_def)
  show ?case using scan_quote[OF q] q n by (simp add: scan_value.simps)
next
  case (4 b)
  then show ?case by (cases n; cases b) (auto simp: scan_value.simps starts_def lit_def)
next
  case 5
  then show ?case by (cases n) (auto simp: scan_value.simps starts_def lit_def)
next
  case (6 i)
  then show ?case using scan_int_value by simp
qed auto

theorem json_loads_jtext:
  assumes "J_domain v" "json_wf v"
  shows "json_loads h (jtext v) = Inr v"
proof -
  obtain c q where c: "jtext v = c # q" "\<not> is_ws c" using jtext_head assms by blast
  have "c \<noteq> 0xFEFF"
    using c assms(1) dec_head[of "nat (the_int v)"]
    by (cases v) (auto simp: quote_def lit_def int_text_def is_digit_def split: if_splits)
  moreover have "skip_ws (jtext v) = jtext v" using c by (simp add: skip_ws_id)
  moreover have "scan_value (2 * length (jtext v) + 2) h (jtext v @ []) = Inr (v, [])"
    using assms by (intro scan_jtext) (auto simp: after_number_def)
  ultimately show ?thesis using c by (simp add: json_loads_def skip_ws_def)
qed

end

section \<open>The strict reader\<close>

lemma take1_dec: "take 1 (dec n) \<noteq> [45]"
  using dec_head[of n] by (cases "dec n") (auto simp: is_digit_def)

lemma strict_integer_text: "safe_int i \<Longrightarrow> strict_integer (int_text i) = Inr (JInt i)"
proof -
  assume i: "safe_int i"
  have len: "length (dec (nat \<bar>i\<bar>)) \<le> 16"
    using i by (intro length_dec) (auto simp: safe_int_def SAFE_INTEGER_MAX_def)
  show ?thesis
  proof (cases "i < 0")
    case True
    then have "dec (nat (- i)) \<noteq> [48]" using dec_zero by (metis dec_inject neg_0_less_iff_less nat_eq_iff2
          less_numeral_extra(3) zero_less_nat_eq)
    with True len i show ?thesis
      by (simp add: strict_integer_def int_text_def lit_def safe_integer_def safe_int_def)
  next
    case False
    have "dec (nat i) \<noteq> lit ''-0''" using take1_dec[of "nat i"] by (auto simp: lit_def)
    with False len i take1_dec[of "nat i"] show ?thesis
      by (simp add: strict_integer_def int_text_def safe_integer_def safe_int_def)
  qed
qed

lemma strict_pairs_distinct:
  "distinct (map fst (obj @ d)) \<Longrightarrow> \<forall>k \<in> set (map fst d). scalar_str k \<Longrightarrow>
     strict_pairs obj d = Inr (JObj (obj @ d))"
  by (induction obj d rule: strict_pairs.induct) (auto simp: keys_def scalar_def)

interpretation strict: json_reader strict_hooks
proof unfold_locales
  fix i assume "safe_int i"
  then show "parse_int strict_hooks (int_text i) = Inr (JInt i)"
    by (simp add: strict_hooks_def strict_integer_text)
next
  fix d :: dict
  assume "distinct (map fst d)" "\<forall>k \<in> set (map fst d). scalar_str k"
  then show "pairs_hook strict_hooks d = Inr (JObj d)"
    using strict_pairs_distinct[of "[]" d] by (simp add: strict_hooks_def)
qed

text \<open>\<open>json.loads\<close> without hooks: the last of equal keys wins; \<open>fl\<close> is \<open>float\<close> of a token.\<close>

definition default_hooks :: "(pystr \<Rightarrow> pyfloat) \<Rightarrow> hooks" where
  "default_hooks fl =
     \<lparr>parse_int = (\<lambda>t. let negative = take 1 t = [45]; ds = (if negative then drop 1 t else t) in
        if length ds > 4300 then Inl (IntDigits (length ds))
        else Inr (JInt (if negative then - int (digits_val ds) else int (digits_val ds)))),
      parse_float = (\<lambda>t. Inr (JFloat (fl t))),
      parse_constant = (\<lambda>t. Inr (JFloat (NonFinite
         (if t = lit ''NaN'' then lit ''nan'' else if t = lit ''Infinity'' then lit ''inf''
          else lit ''-inf'')))),
      pairs_hook = (\<lambda>d. Inr (JObj (foldl (\<lambda>e (k, v). dput k v e) [] d)))\<rparr>"

lemma dput_fresh: "k \<notin> set (map fst e) \<Longrightarrow> dput k v e = e @ [(k, v)]"
  by (induction k v e rule: dput.induct) auto

lemma foldl_dput_distinct:
  "distinct (map fst (e @ d)) \<Longrightarrow> foldl (\<lambda>e (k, v). dput k v e) e d = e @ d"
proof (induction d arbitrary: e)
  case (Cons p d)
  obtain k v where p: "p = (k, v)" by fastforce
  with Cons.prems have "dput k v e = e @ [(k, v)]" by (intro dput_fresh) auto
  with Cons.IH[of "e @ [(k, v)]"] Cons.prems p show ?case by simp
qed simp

interpretation plain: json_reader "default_hooks fl" for fl
proof unfold_locales
  fix i assume i: "safe_int i"
  have len: "length (dec (nat \<bar>i\<bar>)) \<le> 16"
    using i by (intro length_dec) (auto simp: safe_int_def SAFE_INTEGER_MAX_def)
  show "parse_int (default_hooks fl) (int_text i) = Inr (JInt i)"
    using len take1_dec[of "nat i"]
    by (cases "i < 0") (simp_all add: default_hooks_def int_text_def Let_def)
next
  fix d :: dict
  assume "distinct (map fst d)"
  then show "pairs_hook (default_hooks fl) d = Inr (JObj d)"
    using foldl_dput_distinct[of "[]" d] by (simp add: default_hooks_def)
qed

lemma visit_domain: "J_domain v \<Longrightarrow> visit v = Inr ()"
  by (induction v rule: visit.induct) (force simp: list_all_iff each_Inr scalar_def)+

theorem strict_loads_jtext: "J_domain v \<Longrightarrow> json_wf v \<Longrightarrow> strict_loads (jtext v) = Inr v"
  by (simp add: strict_loads_def strict.json_loads_jtext visit_domain)

lemma code_points_quote: "code_points s \<Longrightarrow> code_points (quote s)"
proof -
  have "c < 0x110000 \<Longrightarrow> code_points (quote_char c)" for c
    by (auto simp: quote_char_def hex_digit_def)
  then show "code_points s \<Longrightarrow> code_points (quote s)"
    by (induction s) (auto simp: quote_def)
qed

lemma code_points_join: "code_points sep \<Longrightarrow> \<forall>x \<in> set xs. code_points x \<Longrightarrow> code_points (join sep xs)"
  by (induction sep xs rule: join.induct) auto

lemma code_points_int_text [simp]: "code_points (int_text i)"
  using dec_digits by (auto simp: int_text_def code_points_def is_digit_def; fastforce)

lemma code_points_jtext: "J_domain v \<Longrightarrow> json_wf v \<Longrightarrow> code_points (jtext v)"
proof (induction v rule: jtext.induct)
  case (1 d)
  have "code_points (quote k) \<and> code_points (jtext v)" if "(k, v) \<in> set d" for k v
    using 1 that by (fastforce simp: list_all_iff intro: code_points_quote)
  then show ?case by (auto intro!: code_points_join)
next
  case (2 xs)
  then show ?case by (auto simp: list_all_iff intro!: code_points_join)
qed (auto intro: code_points_quote)

theorem strict_roundtrip:
  assumes "J_domain v" "json_wf v"
  shows "\<exists>b. compact_json v = Inr b \<and> strict_loads_bytes b = Inr (canon v)"
proof -
  let ?w = "canon v"
  have w: "J_domain ?w" "json_wf ?w" using assms by (simp_all add: json_wf_canon)
  then have "utf8_decode (utf8 (jtext ?w)) = Some (jtext ?w)"
    by (intro utf8_roundtrip code_points_jtext scalar_jtext)
  with w assms show ?thesis
    by (simp add: compact_json_iff strict_loads_bytes_def strict_loads_jtext)
qed

text \<open>Everything the strict reader returns is in the domain of \<open>J\<close>.\<close>

fun strict_shape :: "json \<Rightarrow> bool" where
  "strict_shape (JObj d) =
     (distinct (map fst d) \<and> list_all (\<lambda>(k, v). scalar_str k \<and> code_points k \<and> strict_shape v) d)"
| "strict_shape (JArr xs) = list_all strict_shape xs"
| "strict_shape (JStr s) = code_points s"
| "strict_shape (JInt i) = safe_int i"
| "strict_shape (JFloat _) = False"
| "strict_shape _ = True"

lemma strict_shape_domain: "strict_shape v \<Longrightarrow> visit v = Inr () \<Longrightarrow> J_domain v \<and> json_wf v"
  by (induction v rule: visit.induct)
    (force simp: list_all_iff each_Inr scalar_def split: if_splits sum.splits)+

lemma strict_pairs_result:
  "strict_pairs obj d = Inr v \<Longrightarrow> distinct (map fst obj) \<Longrightarrow>
     distinct (map fst (obj @ d)) \<and> (\<forall>k \<in> set (map fst d). scalar_str k) \<and> v = JObj (obj @ d)"
proof (induction obj d rule: strict_pairs.induct)
  case (2 obj k v r)
  then show ?case by (auto simp: keys_def scalar_def split: if_splits)
qed simp

lemma strict_integer_safe: "strict_integer t = Inr v \<Longrightarrow> strict_shape v"
  by (auto simp: strict_integer_def Let_def andthen_Inr safe_integer_def safe_int_def split: if_splits)

lemma skip_ws_set: "set (skip_ws s) \<subseteq> set s"
  by (auto simp: skip_ws_def dest: set_dropWhileD)

lemma drop_set: "set (drop k s) \<subseteq> set s"
  by (rule set_drop_subset)

lemma scan_number_set: "scan_number s = Some (fl, t, r) \<Longrightarrow> set r \<subseteq> set s"
proof -
  have i: "scan_int_part q = Some (a, z) \<Longrightarrow> set z \<subseteq> set q" for q a z
    by (cases q) (auto split: if_splits dest: set_dropWhileD)
  have f: "scan_frac q = (a, z) \<Longrightarrow> set z \<subseteq> set q" for q a z
    by (induction q rule: scan_frac.induct) (auto split: if_splits dest: set_dropWhileD)
  have e: "scan_exp q = (a, z) \<Longrightarrow> set z \<subseteq> set q" for q a z
  proof (cases q)
    case (Cons c q')
    assume "scan_exp q = (a, z)"
    then show ?thesis using set_dropWhileD[of _ is_digit q'] set_dropWhileD[of _ is_digit "tl q'"]
      by (auto simp: Cons Let_def split: if_splits list.splits prod.splits)
  qed simp
  show "scan_number s = Some (fl, t, r) \<Longrightarrow> set r \<subseteq> set s"
    unfolding scan_number_def Let_def
    by (auto split: list.splits if_splits option.splits prod.splits simp del: scan_int_part.simps
        dest!: i f e) blast+
qed

lemma code_points_subset: "set r \<subseteq> set s \<Longrightarrow> code_points s \<Longrightarrow> code_points r"
  by (auto simp: code_points_def)

lemma scan_strict:
  "(\<forall>s v r. code_points s \<longrightarrow> scan_value n strict_hooks s = Inr (v, r) \<longrightarrow>
      strict_shape v \<and> code_points r) \<and>
   (\<forall>s vs r. code_points s \<longrightarrow> scan_elems n strict_hooks s = Inr (vs, r) \<longrightarrow>
      list_all strict_shape vs \<and> code_points r) \<and>
   (\<forall>s d r. code_points s \<longrightarrow> scan_members n strict_hooks s = Inr (d, r) \<longrightarrow>
      list_all (\<lambda>(k, v). code_points k \<and> strict_shape v) d \<and> code_points r)"
proof (induction n)
  case (Suc n)
  have v: "strict_shape v \<and> code_points r"
    if "code_points s" "scan_value n strict_hooks s = Inr (v, r)" for s v r using Suc that by blast
  have e: "list_all strict_shape vs \<and> code_points r"
    if "code_points s" "scan_elems n strict_hooks s = Inr (vs, r)" for s vs r using Suc that by blast
  have m: "list_all (\<lambda>(k, v). code_points k \<and> strict_shape v) d \<and> code_points r"
    if "code_points s" "scan_members n strict_hooks s = Inr (d, r)" for s d r using Suc that by blast
  have ws: "code_points s \<Longrightarrow> code_points (skip_ws s)" for s
    using code_points_subset[OF skip_ws_set] .
  have dr: "code_points s \<Longrightarrow> code_points (drop k s)" for s k
    using code_points_subset[OF drop_set] .
  have tl: "code_points s \<Longrightarrow> code_points (tl s)" for s by (cases s) auto
  have st: "code_points t \<and> code_points r" if "scan_string s = Inr (t, r)" "code_points s" for s t r
    using scan_string_code_points[OF that] that code_points_subset by blast
  have obj: "strict_shape w" if "strict_pairs [] d = Inr w"
    "list_all (\<lambda>(k, v). code_points k \<and> strict_shape v) d" for d w
    using strict_pairs_result[OF that(1)] that(2) by (auto simp: list_all_iff)
  have val: "strict_shape w \<and> code_points r"
    if cp: "code_points s" and sc: "scan_value (Suc n) strict_hooks s = Inr (w, r)" for s w r
    using sc cp ws[OF tl[OF cp]]
    by (auto simp: scan_value.simps andthen_Inr Let_def strict_hooks_def split: if_splits option.splits
        intro: strict_integer_safe dr code_points_subset[OF scan_number_set] obj
        dest: st[OF _ tl] e m)
  have elems: "list_all strict_shape vs \<and> code_points r"
    if cp: "code_points s" and sc: "scan_elems (Suc n) strict_hooks s = Inr (vs, r)" for s vs r
    using sc cp
    by (auto simp: scan_elems.simps andthen_Inr Let_def split: if_splits
        dest!: v[rotated] e[rotated] intro!: ws dr)
  have members: "list_all (\<lambda>(k, v). code_points k \<and> strict_shape v) d \<and> code_points r"
    if cp: "code_points s" and sc: "scan_members (Suc n) strict_hooks s = Inr (d, r)" for s d r
    using sc dr[OF cp, of 1]
    by (auto simp: scan_members.simps andthen_Inr Let_def split: if_splits
        dest!: st v[rotated] m[rotated] intro!: ws dr)
  from val elems members show ?case by blast
qed (simp add: scan_value.simps scan_elems.simps scan_members.simps)

lemma strict_loads_domain: "strict_loads s = Inr v \<Longrightarrow> code_points s \<Longrightarrow> J_domain v \<and> json_wf v"
proof -
  assume l: "strict_loads s = Inr v" and cp: "code_points s"
  from l obtain r where "scan_value (2 * length s + 2) strict_hooks (skip_ws s) = Inr (v, r)"
    and "visit v = Inr ()"
    by (auto simp: strict_loads_def json_loads_def andthen_Inr split: if_splits sum.splits)
  moreover have "code_points (skip_ws s)" using code_points_subset[OF skip_ws_set] cp .
  ultimately show ?thesis using scan_strict strict_shape_domain by blast
qed

lemma decoded_range1:
  "b < 0xE0 \<Longrightarrow> cont_byte b1 \<Longrightarrow> (b - 0xC0) * 64 + (b1 - 0x80) < 0x800"
  unfolding cont_byte_def by linarith
lemma decoded_range2:
  "b < 0xF0 \<Longrightarrow> cont_byte b1 \<Longrightarrow> cont_byte b2 \<Longrightarrow>
     (b - 0xE0) * 4096 + (b1 - 0x80) * 64 + (b2 - 0x80) < 0x110000"
  unfolding cont_byte_def by linarith
lemma not_surrogate_outside: "c < 0x800 \<Longrightarrow> \<not> surrogate c" "0x10000 \<le> c \<Longrightarrow> \<not> surrogate c"
  by (simp_all add: surrogate_def)
lemma utf8_decode_code_points: "utf8_decode b = Some s \<Longrightarrow> code_points s \<and> scalar_str s"
proof (induction b arbitrary: s rule: utf8_decode.induct)
  case (2 b r)
  note dec = "2.prems"
  consider "b < 0x80" | "0xC2 \<le> b" "b < 0xE0" | "0xE0 \<le> b" "b < 0xF0" | "0xF0 \<le> b" "b < 0xF5"
    using dec by (simp split: if_splits)
  then show ?case
  proof cases
    case b: 1
    then obtain t where "utf8_decode r = Some t" "s = b # t" using dec by auto
    with b "2.IH"(1)[of t] show ?thesis by (simp add: not_surrogate_outside)
  next
    case b: 2
    then obtain b1 r1 t where "r = b1 # r1" "cont_byte b1" "utf8_decode r1 = Some t"
      "s = ((b - 0xC0) * 64 + (b1 - 0x80)) # t"
      using dec by (auto split: list.splits if_splits)
    with b "2.IH"(2)[of b1 r1 t] decoded_range1[of b b1]
    show ?thesis by (simp add: not_surrogate_outside)
  next
    case b: 3
    then obtain b1 b2 r1 t where "r = b1 # b2 # r1" "cont_byte b1" "cont_byte b2"
      "utf8_decode r1 = Some t" "s = ((b - 0xE0) * 4096 + (b1 - 0x80) * 64 + (b2 - 0x80)) # t"
      "\<not> surrogate ((b - 0xE0) * 4096 + (b1 - 0x80) * 64 + (b2 - 0x80))"
      "0x800 \<le> (b - 0xE0) * 4096 + (b1 - 0x80) * 64 + (b2 - 0x80)"
      using dec by (auto simp: Let_def split: list.splits if_splits)
    with b "2.IH"(3)[of b1 _ b2 r1 _ t] decoded_range2[of b b1 b2]
    show ?thesis by simp
  next
    case b: 4
    then obtain b1 b2 b3 r1 t c where "r = b1 # b2 # b3 # r1" "cont_byte b1" "cont_byte b2" "cont_byte b3"
      "utf8_decode r1 = Some t" "c = (b - 0xF0) * 262144 + (b1 - 0x80) * 4096 + (b2 - 0x80) * 64 + (b3 - 0x80)"
      "s = c # t" "0x10000 \<le> c" "c < 0x110000"
      using dec by (auto simp: Let_def split: list.splits if_splits)
    with b "2.IH"(4)[of b1 _ b2 _ b3 r1 _ t]
    show ?thesis by (simp add: not_surrogate_outside)
  qed
qed simp

theorem strict_loads_bytes_domain: "strict_loads_bytes b = Inr v \<Longrightarrow> J_domain v \<and> json_wf v"
  using utf8_decode_code_points[of b] strict_loads_domain
  by (auto simp: strict_loads_bytes_def split: option.splits)

lemma strict_hooks_total: "hooks_total strict_hooks"
proof -
  have "strict_pairs obj d \<noteq> Inl RecursionError" for obj d
    by (induction obj d rule: strict_pairs.induct) (auto simp: scalar_def split: sum.splits if_splits)
  then show ?thesis
    by (auto simp: hooks_total_def strict_hooks_def strict_integer_def Let_def safe_integer_def
        andthen_Inl split: if_splits)
qed

lemma visit_total: "visit v \<noteq> Inl RecursionError"
proof (induction v rule: visit.induct)
  case (2 d)
  then show ?case using each_Inl by (fastforce simp: scalar_def split: sum.splits if_splits)
next
  case (3 xs)
  then show ?case using each_Inl by fastforce
qed (auto simp: scalar_def)

theorem strict_loads_total: "strict_loads s \<noteq> Inl RecursionError"
  using json_loads_fuel[OF strict_hooks_total, of s] visit_total
  by (auto simp: strict_loads_def andthen_Inl)

section \<open>Sorting keys does not change a value\<close>

lemma py_eq_canon: "J_domain v \<Longrightarrow> json_wf v \<Longrightarrow> py_eq v (canon v)"
proof (induction v rule: canon.induct)
  case (1 d)
  let ?e = "map (\<lambda>(k, v). (k, canon v)) (sort_items d)"
  have "length ?e = length d" by (simp add: sort_items_def)
  moreover have "map_of ?e k = Some (canon v) \<and> py_eq v (canon v)" if kv: "(k, v) \<in> set d" for k v
  proof -
    have "distinct (map fst ?e)"
      using 1(3) map_fst_sort_items[of d] by (simp add: comp_def case_prod_beta)
    moreover have "(k, canon v) \<in> set ?e" using kv by force
    ultimately have "map_of ?e k = Some (canon v)" by simp
    moreover have "py_eq v (canon v)" using 1 kv by (fastforce simp: list_all_iff)
    ultimately show ?thesis by simp
  qed
  ultimately show ?case by (auto simp: list_all_iff split: option.splits)
next
  case (2 xs)
  then show ?case by (auto simp: list_all_iff set_zip)
qed auto

section \<open>Properties\<close>

text \<open>Evaluation of the reader on a concrete text: its fuel is a numeral.\<close>

lemmas scan_numeral =
  scan_value.simps(2)[of "pred_numeral k", folded numeral_eq_Suc]
  scan_elems.simps(2)[of "pred_numeral k", folded numeral_eq_Suc]
  scan_members.simps(2)[of "pred_numeral k", folded numeral_eq_Suc] for k

lemmas reader_eval = strict_loads_bytes_def strict_loads_def json_loads_def lit_def scan_numeral Let_def
  skip_ws_def is_ws_def starts_def scan_number_def strict_hooks_def strict_integer_def is_digit_def
  digits_val_def safe_integer_def SAFE_INTEGER_MAX_def


text \<open>C10: every document \<open>strict_loads\<close> accepts is a value \<open>compact_json\<close> can print, and printing it
  gives a fixed point: reading and printing once more changes nothing.\<close>

theorem accepted_is_canonical:
  assumes "strict_loads_bytes raw = Inr v"
  shows "\<exists>b. compact_json v = Inr b \<and> strict_loads_bytes b = Inr (canon v) \<and> compact_json (canon v) = Inr b"
  using strict_loads_bytes_domain[OF assms] strict_roundtrip[of v] by (auto simp: compact_json_iff)

text \<open>C11: the explicit-stack encoder is the recursive one, errors included.\<close>

theorem stack_encoder_correct: "compact_json v = andthen (J v) (\<lambda>t. Inr (utf8 t))"
  by (simp add: compact_json_J)



definition sample :: json where
  "sample = JObj [(lit ''b'', JInt 1), (lit ''a'', JArr [JBool True, JNull])]"

lemma sample_domain [simp]: "J_domain sample" "json_wf sample"
  by (simp_all add: sample_def safe_int_def SAFE_INTEGER_MAX_def)

lemma sample_bytes: "compact_json sample = Inr (lit ''{\"a\":[true,null],\"b\":1}'')"
  by (simp add: compact_json_iff) (simp add: sample_def sort_items_def lit_def quote_def quote_char_def
      int_text_def dec.simps utf8_ascii)



lemma sample_read: "strict_loads_bytes (lit ''[ 1 ]'') = Inr (JArr [JInt 1])"
  by (simp add: reader_eval)

theorem accepted_is_canonical_witness:
  "\<exists>b. compact_json (JArr [JInt 1]) = Inr b \<and> strict_loads_bytes b = Inr (canon (JArr [JInt 1])) \<and>
     compact_json (canon (JArr [JInt 1])) = Inr b"
  using accepted_is_canonical[OF sample_read] .

end
