(* ===== verification/Py_Text.thy ===== *)
theory Py_Text
  imports Prelude
begin

text \<open>
  The string operations and regular expressions of the standard library that the host
  contracts use: substring tests, \<open>split\<close>, \<open>splitlines\<close> and the \<open>fullmatch\<close> patterns.
\<close>

fun occurs :: "pystr \<Rightarrow> pystr \<Rightarrow> bool" where
  "occurs p [] = (p = [])"
| "occurs p (c # s) = (take (length p) (c # s) = p \<or> occurs p s)"

definition starts_with :: "pystr \<Rightarrow> pystr \<Rightarrow> bool" where
  "starts_with p s \<longleftrightarrow> take (length p) s = p"

definition ends_with :: "pystr \<Rightarrow> pystr \<Rightarrow> bool" where
  "ends_with p s \<longleftrightarrow> length p \<le> length s \<and> drop (length s - length p) s = p"

lemma occurs_iff: "occurs p s \<longleftrightarrow> (\<exists>a b. s = a @ p @ b)"
proof (induction s)
  case (Cons c s)
  have "take (length p) (c # s) = p \<longleftrightarrow> (\<exists>b. c # s = p @ b)"
    by (metis append_eq_conv_conj)
  with Cons show ?case by (auto simp: Cons_eq_append_conv)
qed auto

section \<open>Splitting\<close>

text \<open>\<open>str.split()\<close>: the maximal runs without whitespace.\<close>

definition is_space :: "nat \<Rightarrow> bool" where
  "is_space c \<longleftrightarrow> 9 \<le> c \<and> c \<le> 13 \<or> 28 \<le> c \<and> c \<le> 32 \<or> c = 0x85 \<or> c = 0xA0 \<or> c = 0x1680 \<or>
     0x2000 \<le> c \<and> c \<le> 0x200A \<or> c = 0x2028 \<or> c = 0x2029 \<or> c = 0x202F \<or> c = 0x205F \<or> c = 0x3000"

function split_words :: "pystr \<Rightarrow> pystr list" where
  "split_words s =
     (case dropWhile is_space s of
        [] \<Rightarrow> []
      | c # r \<Rightarrow> takeWhile (\<lambda>x. \<not> is_space x) (c # r) # split_words (dropWhile (\<lambda>x. \<not> is_space x) r))"
  by pat_completeness auto
termination
proof (relation "measure length", simp)
  fix s c r assume "dropWhile is_space s = c # r"
  then have "length r < length s" using length_dropWhile_le[of is_space s] by simp
  then show "(dropWhile (\<lambda>x. \<not> is_space x) r, s) \<in> measure length"
    using length_dropWhile_le[of "\<lambda>x. \<not> is_space x" r] by simp
qed

text \<open>\<open>str.splitlines()\<close> and \<open>str.split(sep)\<close> with a one-character separator.\<close>

definition line_break :: "nat \<Rightarrow> bool" where
  "line_break c \<longleftrightarrow> 10 \<le> c \<and> c \<le> 13 \<or> 28 \<le> c \<and> c \<le> 30 \<or> c = 0x85 \<or> c = 0x2028 \<or> c = 0x2029"

function splitlines :: "pystr \<Rightarrow> pystr list" where
  "splitlines s =
     (if s = [] then []
      else takeWhile (\<lambda>x. \<not> line_break x) s #
        (case dropWhile (\<lambda>x. \<not> line_break x) s of
           [] \<Rightarrow> []
         | c # r \<Rightarrow> splitlines (if c = 13 \<and> take 1 r = [10] then drop 1 r else r)))"
  by pat_completeness auto
termination
proof (relation "measure length", simp)
  fix s c r assume "dropWhile (\<lambda>x. \<not> line_break x) s = c # r"
  then have "length r < length s"
    using length_dropWhile_le[of "\<lambda>x. \<not> line_break x" s] by simp
  then show "(if c = 13 \<and> take 1 r = [10] then drop 1 r else r, s) \<in> measure length" by auto
qed

declare split_words.simps [simp del] splitlines.simps [simp del]

fun split_on :: "nat \<Rightarrow> pystr \<Rightarrow> pystr list" where
  "split_on sep [] = [[]]"
| "split_on sep (c # s) =
     (if c = sep then [] # split_on sep s
      else (case split_on sep s of [] \<Rightarrow> [[c]] | l # ls \<Rightarrow> (c # l) # ls))"

lemma split_on_ne [simp]: "split_on sep s \<noteq> []"
  by (induction s) (auto split: list.splits)

lemma length_split_on: "length (split_on sep s) = Suc (length (filter ((=) sep) s))"
  by (induction s) (auto split: list.splits)

lemma split_on_none: "sep \<notin> set s \<Longrightarrow> split_on sep s = [s]"
  by (induction s) auto

lemma split_on_app: "sep \<notin> set s \<Longrightarrow> split_on sep (s @ sep # t) = s # split_on sep t"
  by (induction s) auto

section \<open>Patterns\<close>

definition is_lower :: "nat \<Rightarrow> bool" where
  "is_lower c \<longleftrightarrow> 97 \<le> c \<and> c \<le> 122"

definition is_upper :: "nat \<Rightarrow> bool" where
  "is_upper c \<longleftrightarrow> 65 \<le> c \<and> c \<le> 90"

text \<open>\<open>[a-z][a-z0-9_.-]{0,127}\<close> and \<open>[a-z][a-z0-9_]{0,63}\<close>, whole strings.\<close>

definition key_pattern :: "pystr \<Rightarrow> bool" where
  "key_pattern s \<longleftrightarrow> s \<noteq> [] \<and> is_lower (hd s) \<and> length s \<le> 128 \<and>
     list_all (\<lambda>c. is_lower c \<or> is_digit c \<or> c = 95 \<or> c = 46 \<or> c = 45) (tl s)"

definition code_pattern :: "pystr \<Rightarrow> bool" where
  "code_pattern s \<longleftrightarrow> s \<noteq> [] \<and> is_lower (hd s) \<and> length s \<le> 64 \<and>
     list_all (\<lambda>c. is_lower c \<or> is_digit c \<or> c = 95) (tl s)"

text \<open>\<open>[A-Za-z]:[\\/]\<close> at the start of a token.\<close>

fun windows_drive :: "pystr \<Rightarrow> bool" where
  "windows_drive (a # b # c # r) = ((is_lower a \<or> is_upper a) \<and> b = 58 \<and> (c = 92 \<or> c = 47))"
| "windows_drive _ = False"

end
