(* ===== verification/Posix_Path.thy ===== *)
theory Posix_Path
  imports Py_Text Canonical
begin

text \<open>
  The functions of \<open>os.path\<close> (posixpath) that the plugins use on paths. \<open>relpath\<close> is only
  called on absolute, normalised paths, so \<open>abspath\<close> is the identity there.
\<close>

definition isabs :: "pystr \<Rightarrow> bool" where
  "isabs p \<longleftrightarrow> starts_with [47] p"

definition path_join :: "pystr \<Rightarrow> pystr \<Rightarrow> pystr" where
  "path_join a b =
     (if starts_with [47] b then b
      else if a = [] \<or> last a = 47 then a @ b
      else a @ [47] @ b)"

fun normal_parts :: "bool \<Rightarrow> pystr list \<Rightarrow> pystr list \<Rightarrow> pystr list" where
  "normal_parts absolute acc [] = acc"
| "normal_parts absolute acc (c # cs) =
     (if c = [] \<or> c = lit ''.'' then normal_parts absolute acc cs
      else if c \<noteq> lit ''..'' \<or> (\<not> absolute \<and> acc = []) \<or> (acc \<noteq> [] \<and> last acc = lit ''..'')
      then normal_parts absolute (acc @ [c]) cs
      else if acc \<noteq> [] then normal_parts absolute (butlast acc) cs
      else normal_parts absolute acc cs)"

definition leading_slashes :: "pystr \<Rightarrow> nat" where
  "leading_slashes p =
     (if \<not> starts_with [47] p then 0
      else if starts_with [47, 47] p \<and> \<not> starts_with [47, 47, 47] p then 2 else 1)"

definition normpath :: "pystr \<Rightarrow> pystr" where
  "normpath p =
     (if p = [] then lit ''.''
      else
        let q = replicate (leading_slashes p) 47 @
              join [47] (normal_parts (0 < leading_slashes p) [] (split_on 47 p))
        in if q = [] then lit ''.'' else q)"

fun common_prefix :: "'a list \<Rightarrow> 'a list \<Rightarrow> nat" where
  "common_prefix (x # xs) (y # ys) = (if x = y then Suc (common_prefix xs ys) else 0)"
| "common_prefix _ _ = 0"

definition path_parts :: "pystr \<Rightarrow> pystr list" where
  "path_parts p = filter (\<lambda>x. x \<noteq> []) (split_on 47 p)"

definition relpath :: "pystr \<Rightarrow> pystr \<Rightarrow> pystr" where
  "relpath path start =
     (let ss = path_parts start; ps = path_parts path; i = common_prefix ss ps;
          rel = replicate (length ss - i) (lit ''..'') @ drop i ps
      in case rel of [] \<Rightarrow> lit ''.'' | r # rs \<Rightarrow> foldl path_join r rs)"

section \<open>Parts of paths\<close>

text \<open>A path component: not empty, and without a slash.\<close>

definition part :: "pystr \<Rightarrow> bool" where
  "part c \<longleftrightarrow> c \<noteq> [] \<and> 47 \<notin> set c"

lemma split_on_parts: "c \<in> set (split_on sep s) \<Longrightarrow> sep \<notin> set c"
  by (induction s arbitrary: c) (auto split: list.splits if_splits)

lemma split_on_join:
  "cs \<noteq> [] \<Longrightarrow> \<forall>c \<in> set cs. sep \<notin> set c \<Longrightarrow> split_on sep (join [sep] cs) = cs"
  by (induction "[sep]" cs rule: join.induct) (auto simp: split_on_none split_on_app)

lemma join_split_on: "join [sep] (split_on sep s) = s"
proof (induction s)
  case (Cons c s)
  obtain l ls where "split_on sep s = l # ls" by (cases "split_on sep s") auto
  with Cons show ?case by (cases ls) auto
qed simp

lemma foldl_path_join:
  "p \<noteq> [] \<Longrightarrow> last p \<noteq> 47 \<Longrightarrow> \<forall>c \<in> set cs. part c \<Longrightarrow> foldl path_join p cs = join [47] (p # cs)"
proof (induction cs arbitrary: p)
  case (Cons c cs)
  then have c: "part c" by simp
  then have "path_join p c = p @ [47] @ c"
    using Cons.prems by (cases c) (auto simp: path_join_def starts_with_def part_def)
  moreover have "last c \<noteq> 47" using c by (metis last_in_set part_def)
  ultimately have "foldl path_join p (c # cs) = join [47] ((p @ [47] @ c) # cs)"
    using Cons.IH[of "p @ [47] @ c"] Cons.prems c by (simp add: part_def)
  then show ?case by (cases cs) simp_all
qed simp

lemma normal_parts_plain:
  "lit ''..'' \<notin> set cs \<Longrightarrow> lit ''..'' \<notin> set acc \<Longrightarrow>
     normal_parts a acc cs = acc @ filter (\<lambda>c. c \<noteq> [] \<and> c \<noteq> lit ''.'') cs"
  by (induction a acc cs rule: normal_parts.induct) auto

lemma normal_parts_part:
  "\<forall>c \<in> set cs. 47 \<notin> set c \<Longrightarrow> \<forall>c \<in> set acc. part c \<Longrightarrow> \<forall>c \<in> set (normal_parts a acc cs). part c"
proof (induction cs arbitrary: acc)
  case (Cons c cs)
  have "\<forall>x \<in> set (butlast acc). part x" using Cons.prems(2) in_set_butlastD by fastforce
  with Cons.prems have b: "\<forall>x \<in> set (normal_parts a (butlast acc) cs). part x" by (intro Cons.IH) auto
  have n: "\<forall>x \<in> set (normal_parts a acc cs). part x" using Cons.prems by (intro Cons.IH) auto
  have "\<forall>x \<in> set (normal_parts a (acc @ [c]) cs). part x" if "c \<noteq> []"
    using Cons.prems that by (intro Cons.IH) (auto simp: part_def)
  with b n show ?case by (simp only: normal_parts.simps split: if_split) blast
qed simp

end
