(* ===== verification/Fs_Read.thy ===== *)
theory Fs_Read
  imports Json_Decode Posix_Path
begin

text \<open>
  \<open>v24/s13/plugins/fs_read.py\<close>: the \<open>read\<close> tool process. The operating system is the
  record \<open>fs\<close>: what \<open>lstat\<close> says of a path (once while resolving, once before opening) and
  what one \<open>open\<close> yields, with the answers of the later calls on the descriptor in the
  order the code asks for them. Any of them may fail or disagree with the others, as in a
  race. Closing the descriptor and the optional spawn log have no counterpart.
\<close>

section \<open>Limits and errors\<close>

definition MAX_FILE_BYTES :: nat where "MAX_FILE_BYTES = 1024 * 1024"
definition MAX_LINE :: nat where "MAX_LINE = 16384"
definition MAX_LINES :: int where "MAX_LINES = 2000"
definition MAX_VALUE_BYTES :: int where "MAX_VALUE_BYTES = 40960"
definition MAX_CONTENT_BYTES :: int where "MAX_CONTENT_BYTES = 41984"
definition MAX_META_BYTES :: int where "MAX_META_BYTES = 4096"
definition FRAME_LIMIT :: int where "FRAME_LIMIT = 60000"

datatype os_error = FileNotFound | PermissionDenied | LinkLoop | OtherError

datatype file_kind = Link | Regular | Other

record finfo =
  st_dev :: int
  st_ino :: int
  st_size :: int
  st_mtime_ns :: int
  st_ctime_ns :: int
  st_kind :: file_kind

record opened =
  fstat_open :: "os_error + finfo"
  pread_head :: "os_error + bytes"
  reads :: "(os_error + bytes) list"
  fstat_scan :: "os_error + finfo"
  pread_window :: "nat \<Rightarrow> nat \<Rightarrow> os_error + bytes"
  fstat_read :: "os_error + finfo"

record fs =
  lstat :: "pystr \<Rightarrow> os_error + finfo"
  lstat_target :: "pystr \<Rightarrow> os_error + finfo"
  open_file :: "pystr \<Rightarrow> os_error + opened"

definition tool_error :: "string \<Rightarrow> string \<Rightarrow> exn + 'a" where
  "tool_error code message = Inl (ToolError code message)"

text \<open>The handler of \<open>os.lstat\<close>.\<close>

definition lstat_result :: "os_error + finfo \<Rightarrow> exn + finfo" where
  "lstat_result r =
     (case r of
        Inr info \<Rightarrow> Inr info
      | Inl FileNotFound \<Rightarrow> tool_error ''not_found'' ''path does not exist''
      | Inl PermissionDenied \<Rightarrow> tool_error ''permission_denied'' ''path is not readable''
      | Inl _ \<Rightarrow> tool_error ''io_error'' ''path could not be inspected'')"

text \<open>An error of \<open>fstat\<close> reaches the outer handlers of \<open>read_tool\<close>.\<close>

definition fstat_result :: "os_error + finfo \<Rightarrow> exn + finfo" where
  "fstat_result r =
     (case r of
        Inr info \<Rightarrow> Inr info
      | Inl PermissionDenied \<Rightarrow> tool_error ''permission_denied'' ''file is not readable''
      | Inl _ \<Rightarrow> tool_error ''io_error'' ''file could not be read'')"

definition read_result :: "os_error + bytes \<Rightarrow> exn + bytes" where
  "read_result r =
     (case r of Inr b \<Rightarrow> Inr b | Inl _ \<Rightarrow> tool_error ''io_error'' ''file could not be read'')"

section \<open>Paths\<close>

definition path_arg :: "json \<Rightarrow> exn + pystr" where
  "path_arg v =
     (case v of
        JStr s \<Rightarrow>
          if s = [] \<or> 0 \<in> set s then tool_error ''invalid_path'' ''path is not a valid string''
          else if \<not> scalar_str s then tool_error ''invalid_path'' ''path is not valid UTF-8''
          else if length (utf8 s) > 1024 then tool_error ''invalid_path'' ''path is longer than 1024 bytes''
          else Inr s
      | _ \<Rightarrow> tool_error ''invalid_path'' ''path is not a valid string'')"

definition components_of :: "pystr \<Rightarrow> exn + pystr list" where
  "components_of s =
     (let cs = filter (\<lambda>p. p \<noteq> [] \<and> p \<noteq> lit ''.'') (split_on 47 s) in
      if lit ''..'' \<in> set cs then tool_error ''path_escape'' ''path must not contain ..'' else Inr cs)"

definition absolute_components :: "pystr \<Rightarrow> pystr \<Rightarrow> exn + pystr list" where
  "absolute_components s ws_root =
     (let n = normpath s; r = normpath ws_root in
      if n \<noteq> r \<and> \<not> starts_with (r @ [47]) n
      then tool_error ''path_escape'' ''absolute path is outside the workspace''
      else
        let rel = relpath n r in
        Inr (if rel = lit ''.'' then [] else split_on 47 rel))"

fun walk :: "fs \<Rightarrow> pystr \<Rightarrow> pystr list \<Rightarrow> exn + pystr" where
  "walk f current [] = Inr current"
| "walk f current (c # cs) =
     (let next = path_join current c in
      andthen (lstat_result (lstat f next)) (\<lambda>info.
        if st_kind info = Link then tool_error ''symlink_denied'' ''path contains a symlink''
        else walk f next cs))"

definition resolve :: "fs \<Rightarrow> json \<Rightarrow> pystr \<Rightarrow> exn + (pystr \<times> pystr)" where
  "resolve f v ws_root =
     andthen (path_arg v) (\<lambda>s.
     andthen (components_of s) (\<lambda>cs0.
     andthen (if isabs s then absolute_components s ws_root else Inr cs0) (\<lambda>cs.
       if lit ''.git'' \<in> set cs then tool_error ''path_excluded'' ''path is excluded''
       else
         andthen (walk f ws_root cs) (\<lambda>target.
           Inr (target, if join [47] cs = [] then lit ''.'' else join [47] cs)))))"

section \<open>Opening\<close>

definition same_file :: "finfo \<Rightarrow> finfo \<Rightarrow> bool" where
  "same_file a b \<longleftrightarrow> st_dev a = st_dev b \<and> st_ino a = st_ino b \<and> st_size a = st_size b \<and>
     st_mtime_ns a = st_mtime_ns b \<and> st_ctime_ns a = st_ctime_ns b"

definition open_regular :: "fs \<Rightarrow> pystr \<Rightarrow> finfo \<Rightarrow> exn + (opened \<times> finfo)" where
  "open_regular f target info =
     (case open_file f target of
        Inl FileNotFound \<Rightarrow> tool_error ''not_found'' ''path does not exist''
      | Inl PermissionDenied \<Rightarrow> tool_error ''permission_denied'' ''file is not readable''
      | Inl LinkLoop \<Rightarrow> tool_error ''symlink_denied'' ''path contains a symlink''
      | Inl OtherError \<Rightarrow> tool_error ''io_error'' ''file could not be opened''
      | Inr fd \<Rightarrow>
          andthen (fstat_result (fstat_open fd)) (\<lambda>st.
            if st_kind st \<noteq> Regular \<or> \<not> same_file info st
            then tool_error ''io_error'' ''file changed while opening''
            else Inr (fd, st)))"

section \<open>The scan\<close>

definition count_lf :: "bytes \<Rightarrow> nat" where
  "count_lf b = length (filter ((=) 10) b)"

text \<open>\<open>chunk.find(b"\n", index)\<close>, with \<open>-1\<close> when there is none.\<close>

definition find_lf :: "bytes \<Rightarrow> nat \<Rightarrow> int" where
  "find_lf chunk i =
     (if 10 \<in> set (drop i chunk) then int (i + length (takeWhile ((\<noteq>) 10) (drop i chunk))) else -1)"

function bisect :: "bytes \<Rightarrow> nat \<Rightarrow> nat \<Rightarrow> nat \<Rightarrow> nat" where
  "bisect chunk first low high =
     (if low < high then
        let middle = (low + high) div 2 in
        if count_lf (take middle chunk) \<ge> first then bisect chunk first low middle
        else bisect chunk first (middle + 1) high
      else low)"
  by pat_completeness auto
termination by (relation "measure (\<lambda>(_, _, low, high). high - low)") auto

declare bisect.simps [simp del]

record scan =
  lf_count :: nat
  bytes_seen :: nat
  last_byte :: bytes
  positions :: "nat \<Rightarrow> int option"

definition scan_start :: scan where
  "scan_start = \<lparr>lf_count = 0, bytes_seen = 0, last_byte = [], positions = Map.empty\<rparr>"

fun locate :: "bytes \<Rightarrow> nat \<Rightarrow> nat list \<Rightarrow> int \<Rightarrow> (nat \<Rightarrow> int option) \<Rightarrow> (nat \<Rightarrow> int option)" where
  "locate chunk start [] i ps = ps"
| "locate chunk start (n # ns) i ps =
     (let found = find_lf chunk (nat i) in
      locate chunk start ns (found + 1) (ps(n \<mapsto> int start + found)))"

definition scan_chunk :: "nat \<Rightarrow> nat \<Rightarrow> bytes \<Rightarrow> scan \<Rightarrow> exn + scan" where
  "scan_chunk lo hi chunk s =
     (let start = bytes_seen s; seen = start + length chunk; lfs = count_lf chunk in
      if seen > MAX_FILE_BYTES then tool_error ''file_too_large'' ''file is larger than 1 MiB''
      else
        let first = lo - lf_count s;
            index = (if first = 0 then 0 else bisect chunk first 0 (length chunk));
            numbers = [lf_count s + first ..< min (lf_count s + lfs) (hi + 1)]
        in Inr \<lparr>lf_count = lf_count s + lfs, bytes_seen = seen, last_byte = drop (length chunk - 1) chunk,
                positions =
                  (if lf_count s \<le> hi \<and> lf_count s + lfs > lo
                   then locate chunk start numbers (int index) (positions s)
                   else positions s)\<rparr>)"

fun scan_loop :: "nat \<Rightarrow> nat \<Rightarrow> (os_error + bytes) list \<Rightarrow> scan \<Rightarrow> exn + scan" where
  "scan_loop lo hi [] s = Inr s"
| "scan_loop lo hi (r # rs) s =
     andthen (read_result r) (\<lambda>chunk.
       if chunk = [] then Inr s
       else andthen (scan_chunk lo hi chunk s) (\<lambda>s'. scan_loop lo hi rs s'))"

definition line_bound :: "scan \<Rightarrow> nat \<Rightarrow> exn + (int \<times> int)" where
  "line_bound s i =
     andthen (if i = 0 then Inr 0
              else case positions s (i - 1) of None \<Rightarrow> Inl KeyError | Some p \<Rightarrow> Inr (p + 1)) (\<lambda>start.
     andthen (if i < lf_count s
              then case positions s i of None \<Rightarrow> Inl KeyError | Some p \<Rightarrow> Inr p
              else Inr (int (bytes_seen s))) (\<lambda>end. Inr (start, end)))"

definition scan_file :: "opened \<Rightarrow> finfo \<Rightarrow> nat \<Rightarrow> nat \<Rightarrow> exn + (nat \<times> bool \<times> (int \<times> int) list)" where
  "scan_file fd st offset limit =
     andthen (scan_loop (offset - 2) (offset + limit - 2) (reads fd) scan_start) (\<lambda>s.
       if int (bytes_seen s) \<noteq> st_size st then tool_error ''io_error'' ''file changed while scanning''
       else
         let total = (if bytes_seen s = 0 then 0
                      else if last_byte s = [10] then lf_count s else lf_count s + 1);
             final_newline = (bytes_seen s \<noteq> 0 \<and> last_byte s = [10]);
             n = min (int limit) (int total - int offset + 1)
         in andthen (if total = 0 then Inr []
                     else mapr (line_bound s) (map (\<lambda>j. offset - 1 + j) [0..<nat n]))
              (\<lambda>bounds. Inr (total, final_newline, bounds)))"

section \<open>The window and its measures\<close>

definition slice :: "bytes \<Rightarrow> int \<Rightarrow> int \<Rightarrow> bytes" where
  "slice b left right = take (nat right - nat left) (drop (nat left) b)"

definition read_window :: "opened \<Rightarrow> (int \<times> int) list \<Rightarrow> exn + bytes list" where
  "read_window fd bounds =
     (if bounds = [] then Inr []
      else
        let start = fst (hd bounds); end' = snd (last bounds) in
        andthen (read_result (pread_window fd (nat (end' - start)) (nat start))) (\<lambda>raw.
          if int (length raw) \<noteq> end' - start then tool_error ''io_error'' ''file changed while reading''
          else Inr (map (\<lambda>(left, right). slice raw (left - start) (right - start)) bounds)))"

text \<open>The length of a UTF-8 payload inside a JSON string.\<close>

definition escape_extra :: "nat \<Rightarrow> nat" where
  "escape_extra b = (if b \<in> {0x22, 0x5C, 0x08, 0x0C, 0x0D, 0x09, 0x0A} then 1 else if b < 0x20 then 5 else 0)"

definition escaped_bytes_len :: "bytes \<Rightarrow> nat" where
  "escaped_bytes_len raw = length raw + sum_list (map escape_extra raw)"

definition json_len :: "json \<Rightarrow> exn + int" where
  "json_len v =
     andthen (dumps_sorted v) (\<lambda>t.
       case utf8_encode t of None \<Rightarrow> Inl UnicodeError | Some b \<Rightarrow> Inr (int (length b)))"

text \<open>The three constants the module computes when it is loaded.\<close>

definition CONTENT_BASE_BYTES :: int where "CONTENT_BASE_BYTES = 27"
definition EMPTY_CONTENT_BYTES :: int where
  "EMPTY_CONTENT_BYTES = CONTENT_BASE_BYTES + int (escaped_bytes_len (lit ''[empty file]''))"
definition META_BYTES :: int where "META_BYTES = 2"

fun prefix_best :: "int list \<Rightarrow> int \<Rightarrow> nat \<Rightarrow> nat \<Rightarrow> nat" where
  "prefix_best [] cap i best = best"
| "prefix_best (l # ls) cap i best = prefix_best ls cap (i + 1) (if l \<le> cap then i else best)"

definition select_prefix :: "int list \<Rightarrow> int \<Rightarrow> nat" where
  "select_prefix lengths cap = prefix_best lengths cap 1 0"

record page_measure =
  p_value :: int
  p_content :: int
  p_meta :: int
  p_frame :: int
  p_skeleton :: dict

definition caps :: "page_measure \<Rightarrow> int list" where
  "caps m = [p_value m - MAX_VALUE_BYTES, p_content m - MAX_CONTENT_BYTES,
     p_meta m - MAX_META_BYTES, p_frame m - FRAME_LIMIT]"

definition value_skeleton ::
  "pystr \<Rightarrow> int \<Rightarrow> int \<Rightarrow> int \<Rightarrow> bool \<Rightarrow> json \<Rightarrow> json \<Rightarrow> json \<Rightarrow> dict" where
  "value_skeleton relative start end' n_total final truncated by next =
     [(lit ''path'', JStr relative), (lit ''text'', JStr []), (lit ''start_line'', JInt start),
      (lit ''end_line'', JInt end'), (lit ''total_lines'', JInt n_total), (lit ''final_newline'', JBool final),
      (lit ''truncated'', truncated), (lit ''truncated_by'', by), (lit ''next_offset'', next)]"

definition empty_value :: "pystr \<Rightarrow> dict" where
  "empty_value relative = value_skeleton relative 0 0 0 False (JBool False) JNull JNull"

definition ok_frame :: "json \<Rightarrow> json" where
  "ok_frame result = JObj [(lit ''ok'', JBool True), (lit ''v'', JInt 2), (lit ''result'', result)]"

definition value_frame :: "json \<Rightarrow> json" where
  "value_frame value = ok_frame (JObj [(lit ''value'', value)])"

definition empty_measures :: "pystr \<Rightarrow> exn + page_measure" where
  "empty_measures relative =
     (let v = empty_value relative in
      andthen (json_len (JObj v)) (\<lambda>n.
      andthen (json_len (value_frame (JObj v))) (\<lambda>f.
        Inr \<lparr>p_value = n, p_content = EMPTY_CONTENT_BYTES, p_meta = META_BYTES, p_frame = f + 1,
             p_skeleton = v\<rparr>)))"

definition footer :: "int \<Rightarrow> int \<Rightarrow> int \<Rightarrow> int \<Rightarrow> pystr" where
  "footer start end' n_total next =
     [10, 10] @ lit ''[Showing lines '' @ int_text start @ lit ''-'' @ int_text end' @ lit '' of '' @
     int_text n_total @ lit ''. Use offset='' @ int_text next @ lit '' to continue.]''"

definition page_skeleton :: "pystr \<Rightarrow> int \<Rightarrow> int \<Rightarrow> int \<Rightarrow> bool \<Rightarrow> int \<Rightarrow> dict" where
  "page_skeleton relative offset limit n_total final n =
     (let truncated = offset + n - 1 < n_total in
      value_skeleton relative offset (offset + n - 1) n_total final (JBool truncated)
        (if truncated then (if n = limit then jstr ''lines'' else jstr ''bytes'') else JNull)
        (if truncated then JInt (offset + n) else JNull))"

text \<open>The measure of the page of the first \<open>n\<close> lines, whose text takes \<open>text_bytes\<close>.\<close>

definition page_measure_of ::
  "pystr \<Rightarrow> int \<Rightarrow> int \<Rightarrow> int \<Rightarrow> bool \<Rightarrow> int \<Rightarrow> int \<Rightarrow> exn + page_measure" where
  "page_measure_of relative offset limit n_total final n text_bytes =
     (let escaped = text_bytes + 2 * (n - 1);
          truncated = offset + n - 1 < n_total;
          v = page_skeleton relative offset limit n_total final n;
          content = CONTENT_BASE_BYTES + escaped +
            (if truncated
             then int (escaped_bytes_len (utf8 (footer offset (offset + n - 1) n_total (offset + n))))
             else 0)
      in andthen (json_len (JObj v)) (\<lambda>len.
         andthen (json_len (value_frame (JObj v))) (\<lambda>frame.
           Inr \<lparr>p_value = len + escaped, p_content = content, p_meta = META_BYTES,
                p_frame = frame + 1 + escaped, p_skeleton = v\<rparr>)))"

fun page_measures ::
  "pystr \<Rightarrow> int \<Rightarrow> int \<Rightarrow> int \<Rightarrow> bool \<Rightarrow> nat list \<Rightarrow> int \<Rightarrow> int \<Rightarrow> exn + page_measure list" where
  "page_measures relative offset limit n_total final [] n text_bytes = Inr []"
| "page_measures relative offset limit n_total final (l # ls) n text_bytes =
     andthen (page_measure_of relative offset limit n_total final n (text_bytes + int l)) (\<lambda>m.
     andthen (page_measures relative offset limit n_total final ls (n + 1) (text_bytes + int l)) (\<lambda>ms.
       Inr (m # ms)))"

definition maximum :: "int list \<Rightarrow> int" where
  "maximum xs = foldl max (hd xs) (tl xs)"

definition choose_k :: "page_measure list \<Rightarrow> nat" where
  "choose_k ms = select_prefix (map (\<lambda>m. maximum (caps m)) ms) 0"

section \<open>The read tool\<close>

fun decode_lines :: "bytes list \<Rightarrow> exn + (pystr list \<times> nat list)" where
  "decode_lines [] = Inr ([], [])"
| "decode_lines (raw # rest) =
     (if length raw > MAX_LINE then tool_error ''line_too_long'' ''a selected line is too long''
      else
        case utf8_decode raw of
          None \<Rightarrow> tool_error ''not_utf8'' ''selected text is not valid UTF-8''
        | Some t \<Rightarrow> andthen (decode_lines rest) (\<lambda>(ts, ls). Inr (t # ts, escaped_bytes_len raw # ls)))"

definition read_page ::
  "pystr \<Rightarrow> opened \<Rightarrow> finfo \<Rightarrow> nat \<Rightarrow> nat \<Rightarrow> nat \<Rightarrow> bool \<Rightarrow> (int \<times> int) list \<Rightarrow> exn + json" where
  "read_page relative fd st offset limit n_total final bounds =
     andthen (read_window fd bounds) (\<lambda>raw_lines.
     andthen (fstat_result (fstat_read fd)) (\<lambda>now.
       if \<not> same_file st now then tool_error ''io_error'' ''file changed while reading''
       else
         andthen (decode_lines raw_lines) (\<lambda>(decoded, line_e).
         andthen (page_measures relative (int offset) (int limit) (int n_total) final line_e 1 0) (\<lambda>ms.
           let chosen = choose_k ms in
           if chosen = 0 then tool_error ''line_too_long'' ''no page fits the approved budgets''
           else Inr (JObj (dset (p_skeleton (ms ! (chosen - 1))) ''text''
                      (JStr (join [10] (take chosen decoded))))))))) "

definition over_caps :: "page_measure \<Rightarrow> bool" where
  "over_caps m \<longleftrightarrow> list_ex (\<lambda>x. 0 < x) (caps m)"

definition read_opened :: "pystr \<Rightarrow> opened \<Rightarrow> finfo \<Rightarrow> nat \<Rightarrow> nat \<Rightarrow> exn + json" where
  "read_opened relative fd st offset limit =
     andthen (read_result (pread_head fd)) (\<lambda>head.
       if 0 \<in> set head then tool_error ''binary_file'' ''file contains a NUL byte''
       else
         andthen (scan_file fd st offset limit) (\<lambda>(total, final, bounds).
         andthen (fstat_result (fstat_scan fd)) (\<lambda>now.
           if \<not> same_file st now then tool_error ''io_error'' ''file changed while scanning''
           else if total = 0 then
             (if offset \<noteq> 1 then tool_error ''offset_out_of_range'' ''offset is outside the file''
              else
                andthen (empty_measures relative) (\<lambda>m.
                  if over_caps m then tool_error ''output_too_large'' ''empty page exceeds output budgets''
                  else Inr (JObj (p_skeleton m))))
           else if offset > total then tool_error ''offset_out_of_range'' ''offset is outside the file''
           else read_page relative fd st offset limit total final bounds)))"

definition read_tool :: "fs \<Rightarrow> dict \<Rightarrow> pystr \<Rightarrow> exn + json" where
  "read_tool f args ws_root =
     andthen (path_arg (dget args ''path'')) (\<lambda>path.
       let offset = dget_or args ''offset'' (JInt 1); limit = dget_or args ''limit'' (JInt MAX_LINES) in
       if \<not> is_int offset \<or> \<not> is_int limit \<or> the_int offset < 1 \<or>
          \<not> (1 \<le> the_int limit \<and> the_int limit \<le> MAX_LINES)
       then tool_error ''invalid_path'' ''offset or limit is invalid''
       else
         andthen (resolve f (JStr path) ws_root) (\<lambda>(target, relative).
         andthen (lstat_result (lstat_target f target)) (\<lambda>info.
           if st_kind info = Link then tool_error ''symlink_denied'' ''path contains a symlink''
           else if st_kind info \<noteq> Regular then tool_error ''not_a_file'' ''path is not a regular file''
           else if st_size info > int MAX_FILE_BYTES
             then tool_error ''file_too_large'' ''file is larger than 1 MiB''
           else
             andthen (open_regular f target info) (\<lambda>(fd, st).
               read_opened relative fd st (nat (the_int offset)) (nat (the_int limit))))))"

section \<open>The process\<close>

text \<open>
  One request line, one response frame: the exit code and the bytes written. \<open>fl\<close> reads a
  float literal; \<open>ws_root\<close> is the environment variable when it names a directory.
\<close>

definition emit :: "json \<Rightarrow> int \<Rightarrow> exn + (int \<times> bytes)" where
  "emit payload code =
     andthen (dumps_sorted payload) (\<lambda>t.
       case utf8_encode t of None \<Rightarrow> Inl UnicodeError | Some b \<Rightarrow> Inr (code, b @ [10]))"

definition error_frame :: "string \<Rightarrow> string \<Rightarrow> json" where
  "error_frame code message =
     JObj [(lit ''ok'', JBool False), (lit ''v'', JInt 2),
           (lit ''error'', JObj [(lit ''code'', jstr code), (lit ''message'', jstr message)])]"

definition has_prefix :: "json \<Rightarrow> string \<Rightarrow> bool" where
  "has_prefix v p \<longleftrightarrow> is_str v \<and> starts_with (lit p) (the_str v)"

definition request_ok :: "json \<Rightarrow> bool" where
  "request_ok frame \<longleftrightarrow>
     (let d = items frame in
      is_dict frame \<and> py_eq (dget d ''v'') (JInt 2) \<and>
      list_ex (py_eq (dget d ''operation'')) (map jstr [''prepare'', ''invoke'', ''release'', ''inspect'']) \<and>
      is_str (dget d ''reservation'') \<and> the_str (dget d ''reservation'') \<noteq> [] \<and> is_dict (dget d ''args''))"

definition inspect_result :: "dict \<Rightarrow> exn + json" where
  "inspect_result args =
     (let target = dget args ''target''; reservation = dget args ''target_reservation'' in
      if \<not> (target = jstr ''host_prepare'' \<or> target = jstr ''host_release'') \<or> \<not> is_str reservation
      then tool_error ''inspect_request_invalid'' ''inspect request is invalid''
      else Inr (JObj [(lit ''observed'',
        if has_prefix reservation (if target = jstr ''host_prepare'' then ''v24:host_prepare:'' else ''v24:host_release:'')
        then jstr ''known'' else jstr ''absent'')]))"

definition serve_request :: "fs \<Rightarrow> pystr option \<Rightarrow> json \<Rightarrow> exn + json" where
  "serve_request f ws_root frame =
     (if \<not> request_ok frame then tool_error ''bad_request'' ''request frame is invalid''
      else
        let d = items frame; operation = dget d ''operation''; reservation = dget d ''reservation'';
            args = items (dget d ''args'') in
        case ws_root of
          None \<Rightarrow> tool_error ''root_unavailable'' ''the approved workspace root is not available''
        | Some r \<Rightarrow>
            if operation = jstr ''prepare'' then
              (if \<not> has_prefix reservation ''v24:host_prepare:''
               then tool_error ''reservation_invalid'' ''prepare reservation mismatch''
               else Inr (JObj [(lit ''prepared'', JBool True)]))
            else if operation = jstr ''release'' then
              (if \<not> has_prefix reservation ''v24:host_release:''
               then tool_error ''reservation_invalid'' ''release reservation mismatch''
               else Inr (JObj [(lit ''released'', JBool True)]))
            else if operation = jstr ''inspect'' then inspect_result args
            else if dget d ''tool'' \<noteq> jstr ''read''
              then tool_error ''tool_not_approved'' ''tool is not approved''
            else andthen (read_tool f args r) (\<lambda>v. Inr (JObj [(lit ''value'', v)])))"

text \<open>A line that is not UTF-8 or not JSON leaves \<open>frame\<close> as \<open>None\<close>; an integer literal of more
  digits than \<open>int\<close> converts is another \<open>ValueError\<close>, which nothing catches.\<close>

definition request_frame :: "(pystr \<Rightarrow> pyfloat) \<Rightarrow> bytes \<Rightarrow> exn + json" where
  "request_frame fl line =
     (case utf8_decode line of
        None \<Rightarrow> Inr JNull
      | Some t \<Rightarrow>
          (case json_loads (default_hooks fl) t of
             Inl JSONDecodeError \<Rightarrow> Inr JNull
           | r \<Rightarrow> r))"

definition serve :: "(pystr \<Rightarrow> pyfloat) \<Rightarrow> fs \<Rightarrow> pystr option \<Rightarrow> bytes \<Rightarrow> exn + (int \<times> bytes)" where
  "serve fl f ws_root line =
     andthen (request_frame fl line) (\<lambda>frame.
       case andthen (serve_request f ws_root frame) (\<lambda>result. emit (ok_frame result) 0) of
         Inr out \<Rightarrow> Inr out
       | Inl (ToolError code message) \<Rightarrow> emit (error_frame code message) 3
       | Inl _ \<Rightarrow> emit (error_frame ''io_error'' ''tool execution failed'') 3)"

end
