(* ===== verification/Fs_Scan.thy ===== *)
theory Fs_Scan
  imports Fs_Read
begin

text \<open>
  The scan of \<open>fs_read.py\<close> is right: however the file is cut into chunks, the recorded
  positions are those of the line feeds of the whole file, and the bounds cut out the lines
  of the requested window. \<open>lf_at b k\<close> is the position of the \<open>k\<close>-th line feed of \<open>b\<close>;
  \<open>file_lines b\<close> are its lines, a final line feed ending the last of them.
\<close>

section \<open>Line feeds\<close>

fun lf_at :: "bytes \<Rightarrow> nat \<Rightarrow> nat" where
  "lf_at [] k = 0"
| "lf_at (x # xs) k =
     (if x = 10 then (case k of 0 \<Rightarrow> 0 | Suc j \<Rightarrow> Suc (lf_at xs j)) else Suc (lf_at xs k))"

lemma count_lf_simps [simp]:
  "count_lf [] = 0" "count_lf (x # xs) = (if x = 10 then Suc (count_lf xs) else count_lf xs)"
  "count_lf (xs @ ys) = count_lf xs + count_lf ys"
  by (simp_all add: count_lf_def)

lemma count_lf_take_Suc: "count_lf (take (Suc i) b) \<le> Suc (count_lf (take i b))"
  by (cases "i < length b") (simp_all add: take_Suc_conv_app_nth)

lemma count_lf_take_mono: "i \<le> j \<Longrightarrow> count_lf (take i b) \<le> count_lf (take j b)"
proof -
  assume "i \<le> j"
  then have "take j b = take i b @ take (j - i) (drop i b)"
    by (metis le_add_diff_inverse take_add)
  then show ?thesis by simp
qed

lemma count_lf_take_le: "count_lf (take i b) \<le> count_lf b"
  using count_lf_simps(3)[of "take i b" "drop i b"] by (simp only: append_take_drop_id)

lemma lf_at_spec:
  "k < count_lf b \<Longrightarrow> lf_at b k < length b \<and> b ! lf_at b k = 10 \<and> count_lf (take (lf_at b k) b) = k"
  by (induction b k rule: lf_at.induct) (auto split: nat.splits if_splits)

lemma lf_at_unique: "i < length b \<Longrightarrow> b ! i = 10 \<Longrightarrow> lf_at b (count_lf (take i b)) = i"
proof (induction b arbitrary: i)
  case (Cons x xs)
  then show ?case by (cases i) auto
qed simp

lemma lf_at_append:
  "k < count_lf p \<Longrightarrow> lf_at (p @ c) k = lf_at p k"
  "count_lf p \<le> k \<Longrightarrow> lf_at (p @ c) k = length p + lf_at c (k - count_lf p)"
  by (induction p arbitrary: k) (auto split: nat.splits)

lemma count_lf_zero: "count_lf b = 0 \<longleftrightarrow> 10 \<notin> set b"
  by (induction b) auto

lemma find_lf_spec:
  assumes "count_lf (take i c) = k" "k < count_lf c" "i \<le> length c"
  shows "find_lf c i = int (lf_at c k)"
proof -
  have "count_lf c = count_lf (take i c) + count_lf (drop i c)"
    by (metis append_take_drop_id count_lf_simps(3))
  with assms have mem: "10 \<in> set (drop i c)" using count_lf_zero[of "drop i c"] by linarith
  let ?w = "takeWhile ((\<noteq>) 10) (drop i c)"
  have len: "length ?w < length (drop i c)"
    using mem by (metis (mono_tags, lifting) le_neq_implies_less length_takeWhile_le takeWhile_eq_all_conv
        takeWhile_eq_take take_all_iff order_refl)
  then have ten: "c ! (i + length ?w) = 10"
    using nth_length_takeWhile[of "(\<noteq>) 10" "drop i c"] by simp
  have "take (i + length ?w) c = take i c @ ?w"
    by (simp add: take_add takeWhile_eq_take[symmetric])
  moreover have "count_lf ?w = 0" unfolding count_lf_zero by (auto dest: set_takeWhileD)
  ultimately have "count_lf (take (i + length ?w) c) = k" using assms by simp
  with lf_at_unique[of "i + length ?w" c] ten len have "lf_at c k = i + length ?w" by simp
  with mem show ?thesis by (simp add: find_lf_def)
qed

lemma bisect_spec:
  assumes "low \<le> high" "first \<le> count_lf (take high c)" "\<forall>j < low. count_lf (take j c) < first"
  shows "bisect c first low high \<le> high \<and> first \<le> count_lf (take (bisect c first low high) c) \<and>
    (\<forall>j < bisect c first low high. count_lf (take j c) < first)"
  using assms
proof (induction c first low high rule: bisect.induct)
  case (1 c first low high)
  show ?case
  proof (cases "low < high")
    case False
    then have "bisect c first low high = low" by (simp add: bisect.simps[of c first low high])
    then show ?thesis using "1.prems" False by auto
  next
    case True
    define mid where "mid = (low + high) div 2"
    have m: "low \<le> mid" "mid < high" using True by (auto simp: mid_def)
    show ?thesis
    proof (cases "count_lf (take mid c) \<ge> first")
      case ge: True
      have "bisect c first low high = bisect c first low mid"
        using True ge by (simp add: bisect.simps[of c first low high] mid_def)
      then show ?thesis using "1.IH"(1)[OF True mid_def ge] m "1.prems" ge by auto
    next
      case lt: False
      have eq: "bisect c first low high = bisect c first (mid + 1) high"
        using True lt by (simp add: bisect.simps[of c first low high] mid_def)
      have "\<forall>j < mid + 1. count_lf (take j c) < first"
      proof (intro allI impI)
        fix j assume "j < mid + 1"
        then have "count_lf (take j c) \<le> count_lf (take mid c)" by (intro count_lf_take_mono) simp
        with lt show "count_lf (take j c) < first" by linarith
      qed
      then show ?thesis unfolding eq using "1.IH"(2)[OF True mid_def lt] m "1.prems" by auto
    qed
  qed
qed

lemma bisect_count:
  assumes "0 < first" "first \<le> count_lf c"
  shows "bisect c first 0 (length c) \<le> length c \<and> count_lf (take (bisect c first 0 (length c)) c) = first"
proof -
  let ?r = "bisect c first 0 (length c)"
  have r: "?r \<le> length c" "first \<le> count_lf (take ?r c)" "\<forall>j < ?r. count_lf (take j c) < first"
    using bisect_spec[of 0 "length c" first c] assms by auto
  with assms obtain i where i: "?r = Suc i" by (cases ?r) auto
  with r(3) have "count_lf (take i c) < first" by simp
  with count_lf_take_Suc[of i c] r(2) i have "count_lf (take ?r c) = first" by simp
  with r(1) show ?thesis by blast
qed

lemma locate_spec:
  assumes "count_lf (take i c) = a" "i \<le> length c" "a + n \<le> count_lf c"
  shows "locate c start (map ((+) base) [a ..< a + n]) (int i) ps =
    (\<lambda>m. if base + a \<le> m \<and> m < base + a + n then Some (int start + int (lf_at c (m - base))) else ps m)"
  using assms
proof (induction n arbitrary: i a ps)
  case (Suc n)
  have a: "a < count_lf c" using Suc.prems by simp
  have f: "find_lf c i = int (lf_at c a)" by (rule find_lf_spec[OF Suc.prems(1) a Suc.prems(2)])
  note s = lf_at_spec[OF a]
  have step: "count_lf (take (Suc (lf_at c a)) c) = Suc a"
    using s by (simp add: take_Suc_conv_app_nth)
  have cons: "[a ..< a + Suc n] = a # [Suc a ..< Suc a + n]" by (simp add: upt_conv_Cons)
  have "locate c start (map ((+) base) [a ..< a + Suc n]) (int i) ps =
      locate c start (map ((+) base) [Suc a ..< Suc a + n]) (int (Suc (lf_at c a)))
        (ps(base + a \<mapsto> int start + int (lf_at c a)))"
    unfolding cons list.map locate.simps Let_def nat_int f by (simp only: of_nat_Suc add.commute)
  also have "\<dots> = (\<lambda>m. if base + Suc a \<le> m \<and> m < base + Suc a + n
      then Some (int start + int (lf_at c (m - base)))
      else (ps(base + a \<mapsto> int start + int (lf_at c a))) m)"
    by (rule Suc.IH) (use step s Suc.prems in auto)
  also have "\<dots> = (\<lambda>m. if base + a \<le> m \<and> m < base + a + Suc n
      then Some (int start + int (lf_at c (m - base))) else ps m)"
    by (rule ext) auto
  finally show ?case .
qed (auto simp: fun_eq_iff)

section \<open>The scan over any chunks\<close>

definition scan_inv :: "nat \<Rightarrow> nat \<Rightarrow> bytes \<Rightarrow> scan \<Rightarrow> bool" where
  "scan_inv lo hi p s \<longleftrightarrow>
     lf_count s = count_lf p \<and> bytes_seen s = length p \<and> last_byte s = drop (length p - 1) p \<and>
     (\<forall>n. lo \<le> n \<and> n \<le> hi \<and> n < count_lf p \<longrightarrow> positions s n = Some (int (lf_at p n)))"

lemma scan_start_inv: "scan_inv lo hi [] scan_start"
  by (simp add: scan_inv_def scan_start_def)

lemma map_plus_upt: "map ((+) n) [a ..< b] = [n + a ..< n + b]" for n :: nat
  by (induction b) auto

lemma scan_positions:
  assumes "scan_inv lo hi p s" "lf_count s \<le> hi" "lf_count s + count_lf c > lo"
    and "lo \<le> n" "n \<le> hi" "n < count_lf (p @ c)"
  defines "first \<equiv> lo - lf_count s"
  shows "locate c (bytes_seen s) [lf_count s + first ..< min (lf_count s + count_lf c) (hi + 1)]
      (int (if first = 0 then 0 else bisect c first 0 (length c))) (positions s) n = Some (int (lf_at (p @ c) n))"
proof -
  let ?L = "lf_count s" and ?i = "if first = 0 then 0 else bisect c first 0 (length c)"
  have L: "?L = count_lf p" "bytes_seen s = length p" using assms(1) by (simp_all add: scan_inv_def)
  have first: "first \<le> count_lf c" using assms(3) unfolding first_def by linarith
  have i: "count_lf (take ?i c) = first" "?i \<le> length c"
    using bisect_count[of first c] first by auto
  define k where "k = min (?L + count_lf c) (hi + 1) - (?L + first)"
  have k: "first + k \<le> count_lf c" using first unfolding k_def by linarith
  have "first \<le> hi + 1 - ?L" using assms(2,4,5) unfolding first_def by linarith
  then have rng: "[?L + first ..< min (?L + count_lf c) (hi + 1)] = map ((+) ?L) [first ..< first + k]"
    using first assms(2) unfolding k_def map_plus_upt by (simp add: min_def)
  show ?thesis
    unfolding rng locate_spec[OF i k]
    using assms(1,4,5,6) L first \<open>first \<le> hi + 1 - ?L\<close> lf_at_append[where p = p and c = c and k = n]
    by (auto simp: scan_inv_def k_def first_def)
qed

lemma drop_last_append: "c \<noteq> [] \<Longrightarrow> drop (length (p @ c) - 1) (p @ c) = drop (length c - 1) c"
  by (cases c rule: rev_cases) auto

lemma scan_chunk_inv:
  assumes "scan_inv lo hi p s" "scan_chunk lo hi c s = Inr s'" "c \<noteq> []"
  shows "scan_inv lo hi (p @ c) s' \<and> length (p @ c) \<le> MAX_FILE_BYTES"
proof -
  have L: "lf_count s = count_lf p" "bytes_seen s = length p"
    and pos: "\<And>n. lo \<le> n \<Longrightarrow> n \<le> hi \<Longrightarrow> n < count_lf p \<Longrightarrow> positions s n = Some (int (lf_at p n))"
    using assms(1) by (simp_all add: scan_inv_def)
  let ?hit = "lf_count s \<le> hi \<and> lf_count s + count_lf c > lo"
  let ?first = "lo - lf_count s"
  have len: "length (p @ c) \<le> MAX_FILE_BYTES"
    using assms(2) L by (auto simp: scan_chunk_def Let_def tool_error_def split: if_splits)
  then have nb: "\<not> bytes_seen s + length c > MAX_FILE_BYTES" using L by simp
  have "Inr s' = (Inr \<lparr>lf_count = lf_count s + count_lf c, bytes_seen = bytes_seen s + length c,
      last_byte = drop (length c - 1) c,
      positions = (if ?hit then locate c (bytes_seen s) [lf_count s + ?first ..< min (lf_count s + count_lf c) (hi + 1)]
        (int (if ?first = 0 then 0 else bisect c ?first 0 (length c))) (positions s) else positions s)\<rparr> :: exn + scan)"
    unfolding assms(2)[symmetric] scan_chunk_def Let_def by (simp only: if_not_P[OF nb])
  note s' = this[unfolded sum.inject]
  have "positions s' n = Some (int (lf_at (p @ c) n))"
    if n: "lo \<le> n" "n \<le> hi" "n < count_lf (p @ c)" for n
  proof (cases ?hit)
    case True
    then show ?thesis using scan_positions[OF assms(1) _ _ n] by (simp add: s')
  next
    case False
    then have "n < count_lf p" using n L by auto
    with False show ?thesis using pos n by (auto simp: s' lf_at_append)
  qed
  then show ?thesis
    using len L drop_last_append[OF assms(3), of p] by (simp add: scan_inv_def s')
qed

fun reads_content :: "(os_error + bytes) list \<Rightarrow> bytes option" where
  "reads_content [] = Some []"
| "reads_content (Inl e # rs) = None"
| "reads_content (Inr c # rs) = (if c = [] then Some [] else map_option ((@) c) (reads_content rs))"

lemma scan_loop_inv:
  "scan_inv lo hi p s \<Longrightarrow> scan_loop lo hi rs s = Inr s' \<Longrightarrow> length p \<le> MAX_FILE_BYTES \<Longrightarrow>
     \<exists>b. reads_content rs = Some b \<and> scan_inv lo hi (p @ b) s' \<and> length (p @ b) \<le> MAX_FILE_BYTES"
proof (induction rs arbitrary: p s)
  case (Cons r rs)
  show ?case
  proof (cases r)
    case (Inl e)
    then show ?thesis using Cons.prems by (simp add: read_result_def tool_error_def)
  next
    case r: (Inr c)
    show ?thesis
    proof (cases "c = []")
      case True
      then show ?thesis using Cons.prems r by (simp add: read_result_def)
    next
      case c: False
      then obtain s1 where s1: "scan_chunk lo hi c s = Inr s1" "scan_loop lo hi rs s1 = Inr s'"
        using Cons.prems r by (auto simp: read_result_def andthen_Inr)
      from scan_chunk_inv[OF Cons.prems(1) s1(1) c] Cons.IH[OF _ s1(2), of "p @ c"]
      show ?thesis using r c by auto
    qed
  qed
qed simp

section \<open>Lines and bounds\<close>

definition file_lines :: "bytes \<Rightarrow> bytes list" where
  "file_lines b =
     (if b = [] then [] else if last b = 10 then butlast (split_on 10 b) else split_on 10 b)"

definition line_span :: "bytes \<Rightarrow> nat \<Rightarrow> nat \<times> nat" where
  "line_span b i =
     (if i = 0 then 0 else Suc (lf_at b (i - 1)), if i < count_lf b then lf_at b i else length b)"

lemma length_file_lines:
  "length (file_lines b) = (if b = [] then 0 else if last b = 10 then count_lf b else Suc (count_lf b))"
  by (simp add: file_lines_def length_split_on count_lf_def)

lemma split_on_span:
  "i \<le> count_lf b \<Longrightarrow> split_on 10 b ! i = take (snd (line_span b i) - fst (line_span b i)) (drop (fst (line_span b i)) b)"
proof (induction b arbitrary: i)
  case Nil
  then show ?case by (simp add: line_span_def)
next
  case (Cons x xs)
  show ?case
  proof (cases "x = 10")
    case True
    show ?thesis
    proof (cases i)
      case 0
      then show ?thesis using True by (simp add: line_span_def)
    next
      case (Suc j)
      with True Cons.prems have j: "j \<le> count_lf xs" by simp
      have "line_span (x # xs) (Suc j) = (Suc (fst (line_span xs j)), Suc (snd (line_span xs j)))"
        using True by (cases j) (auto simp: line_span_def)
      then show ?thesis using Cons.IH[OF j] True Suc by simp
    qed
  next
    case False
    obtain l ls where sp: "split_on 10 xs = l # ls" by (cases "split_on 10 xs") auto
    have i: "i \<le> count_lf xs" using Cons.prems False by simp
    show ?thesis
    proof (cases i)
      case 0
      have "line_span (x # xs) 0 = (0, Suc (snd (line_span xs 0)))"
        using False by (auto simp: line_span_def)
      then show ?thesis using Cons.IH[OF i] False 0 sp by (simp add: line_span_def)
    next
      case (Suc j)
      have "line_span (x # xs) i = (Suc (fst (line_span xs i)), Suc (snd (line_span xs i)))"
        using False Suc by (auto simp: line_span_def)
      then show ?thesis using Cons.IH[OF i] False Suc sp by simp
    qed
  qed
qed

lemma drop_last: "drop (length b - 1) b = [x] \<longleftrightarrow> b \<noteq> [] \<and> last b = x"
  by (cases b rule: rev_cases) auto

lemma line_bound_spec:
  assumes "scan_inv lo hi b s" "i < length (file_lines b)" "lo \<le> i - 1" "i \<le> hi"
  shows "line_bound s i = Inr (int (fst (line_span b i)), int (snd (line_span b i)))"
proof -
  have n: "lf_count s = count_lf b" "bytes_seen s = length b"
    and pos: "\<And>k. lo \<le> k \<Longrightarrow> k \<le> hi \<Longrightarrow> k < count_lf b \<Longrightarrow> positions s k = Some (int (lf_at b k))"
    using assms(1) by (simp_all add: scan_inv_def)
  have i: "i \<le> count_lf b" using assms(2) by (auto simp: length_file_lines split: if_splits)
  have "positions s (i - 1) = Some (int (lf_at b (i - 1)))" if "i \<noteq> 0"
    using that i assms(3,4) by (intro pos) auto
  moreover have "positions s i = Some (int (lf_at b i))" if "i < count_lf b"
    using that assms(3,4) by (intro pos) auto
  ultimately show ?thesis
    by (cases "i = 0"; cases "i < count_lf b"; auto simp: line_bound_def line_span_def n)
qed

theorem scan_file_spec:
  assumes "scan_file fd st offset limit = Inr (n, final, bounds)" "1 \<le> offset"
  shows "\<exists>b. reads_content (reads fd) = Some b \<and> st_size st = int (length b) \<and>
    length b \<le> MAX_FILE_BYTES \<and> n = length (file_lines b) \<and> final = (b \<noteq> [] \<and> last b = 10) \<and>
    bounds = map (\<lambda>i. (int (fst (line_span b i)), int (snd (line_span b i))))
      [offset - 1 ..< min (offset - 1 + limit) n]"
proof -
  let ?lo = "offset - 2" and ?hi = "offset + limit - 2"
  from assms(1) obtain s where s: "scan_loop ?lo ?hi (reads fd) scan_start = Inr s"
    by (auto simp: scan_file_def andthen_Inr)
  from scan_loop_inv[OF scan_start_inv s] obtain b where
    b: "reads_content (reads fd) = Some b" "scan_inv ?lo ?hi b s" "length b \<le> MAX_FILE_BYTES" by auto
  have f: "lf_count s = count_lf b" "bytes_seen s = length b" "last_byte s = drop (length b - 1) b"
    using b(2) by (simp_all add: scan_inv_def)
  let ?n = "if bytes_seen s = 0 then 0 else if last_byte s = [10] then lf_count s else lf_count s + 1"
  have n: "?n = length (file_lines b)" by (simp add: f drop_last length_file_lines del: One_nat_def)
  have res: "st_size st = int (length b)" "n = length (file_lines b)" "final = (b \<noteq> [] \<and> last b = 10)"
    "(if n = 0 then Inr [] else mapr (line_bound s)
       (map (\<lambda>j. offset - 1 + j) [0 ..< nat (min (int limit) (int n - int offset + 1))])) = Inr bounds"
    using assms(1) s n[symmetric] unfolding scan_file_def
    by (auto simp: f drop_last Let_def andthen_Inr tool_error_def length_file_lines simp del: One_nat_def split: if_splits)
  let ?m = "nat (min (int limit) (int n - int offset + 1))"
  have up: "map (\<lambda>j. offset - 1 + j) [0 ..< ?m] = [offset - 1 ..< min (offset - 1 + limit) n]"
  proof -
    have "map ((+) (offset - 1)) [0 ..< ?m] = [offset - 1 ..< offset - 1 + ?m]"
      by (simp only: map_plus_upt add_0_right)
    also have "\<dots> = [offset - 1 ..< min (offset - 1 + limit) n]"
    proof (cases "offset \<le> n")
      case True
      then have "offset - 1 + ?m = min (offset - 1 + limit) n" using assms(2) by linarith
      then show ?thesis by simp
    next
      case False
      then have "?m = 0" "min (offset - 1 + limit) n \<le> offset - 1" by linarith+
      then show ?thesis by simp
    qed
    finally show ?thesis .
  qed
  have "bounds = map (\<lambda>i. (int (fst (line_span b i)), int (snd (line_span b i))))
      [offset - 1 ..< min (offset - 1 + limit) n]"
  proof (cases "n = 0")
    case True
    then show ?thesis using res(4) by simp
  next
    case False
    have "mapr (line_bound s) [offset - 1 ..< min (offset - 1 + limit) n] =
      Inr (map (\<lambda>i. (int (fst (line_span b i)), int (snd (line_span b i))))
        [offset - 1 ..< min (offset - 1 + limit) n])"
    proof (rule mapr_all_Inr)
      fix i assume "i \<in> set [offset - 1 ..< min (offset - 1 + limit) n]"
      then show "line_bound s i = Inr (int (fst (line_span b i)), int (snd (line_span b i)))"
        using assms(2) res(2) by (intro line_bound_spec[OF b(2)]) auto
    qed
    with False res(4) up show ?thesis by simp
  qed
  with b res show ?thesis by blast
qed

end
