(* ===== verification/Sha256.thy ===== *)
theory Sha256
  imports Prelude "HOL-Library.Word"
begin

text \<open>
  \<open>hashlib.sha256(data).hexdigest()\<close> (FIPS 180-4), which names descriptors, renderers,
  golden tables and requests throughout the host. Words are 32 bit and additions wrap.
\<close>

unbundle bit_operations_syntax

type_synonym w32 = "32 word"

definition ror :: "nat \<Rightarrow> w32 \<Rightarrow> w32" where
  "ror n x = drop_bit n x OR push_bit (32 - n) x"

definition K256 :: "w32 list" where
  "K256 =
     [1116352408, 1899447441, 3049323471, 3921009573, 961987163, 1508970993, 2453635748, 2870763221,
      3624381080, 310598401, 607225278, 1426881987, 1925078388, 2162078206, 2614888103, 3248222580,
      3835390401, 4022224774, 264347078, 604807628, 770255983, 1249150122, 1555081692, 1996064986,
      2554220882, 2821834349, 2952996808, 3210313671, 3336571891, 3584528711, 113926993, 338241895,
      666307205, 773529912, 1294757372, 1396182291, 1695183700, 1986661051, 2177026350, 2456956037,
      2730485921, 2820302411, 3259730800, 3345764771, 3516065817, 3600352804, 4094571909, 275423344,
      430227734, 506948616, 659060556, 883997877, 958139571, 1322822218, 1537002063, 1747873779,
      1955562222, 2024104815, 2227730452, 2361852424, 2428436474, 2756734187, 3204031479, 3329325298]"

definition H256 :: "w32 list" where
  "H256 =
     [1779033703, 3144134277, 1013904242, 2773480762, 1359893119, 2600822924, 528734635, 1541459225]"

text \<open>The message with its padding: a one bit, zeros, and the length in bits on eight bytes.\<close>

definition big_endian :: "nat \<Rightarrow> nat \<Rightarrow> bytes" where
  "big_endian n v = map (\<lambda>i. v div 256 ^ i mod 256) (rev [0..<n])"

definition padded :: "bytes \<Rightarrow> bytes" where
  "padded m = m @ 0x80 # replicate ((119 - length m mod 64) mod 64) 0 @ big_endian 8 (8 * length m)"

fun words_of :: "bytes \<Rightarrow> w32 list" where
  "words_of (a # b # c # d # r) =
     (of_nat (a * 16777216 + b * 65536 + c * 256 + d)) # words_of r"
| "words_of _ = []"

text \<open>The schedule, kept as the last sixteen words with the newest last.\<close>

definition next_word :: "w32 list \<Rightarrow> w32" where
  "next_word w =
     (let a = w ! 1; b = w ! 14;
          s0 = ror 7 a XOR ror 18 a XOR drop_bit 3 a;
          s1 = ror 17 b XOR ror 19 b XOR drop_bit 10 b
      in w ! 0 + s0 + w ! 9 + s1)"

fun schedule :: "nat \<Rightarrow> w32 list \<Rightarrow> w32 list" where
  "schedule 0 w = w"
| "schedule (Suc n) w = hd w # schedule n (tl w @ [next_word w])"

fun round256 :: "w32 list \<Rightarrow> w32 \<times> w32 \<Rightarrow> w32 list" where
  "round256 [a, b, c, d, e, f, g, h] (k, w) =
     (let s1 = ror 6 e XOR ror 11 e XOR ror 25 e;
          ch = (e AND f) XOR (NOT e AND g);
          t1 = h + s1 + ch + k + w;
          s0 = ror 2 a XOR ror 13 a XOR ror 22 a;
          maj = (a AND b) XOR (a AND c) XOR (b AND c)
      in [t1 + s0 + maj, a, b, c, d + t1, e, f, g])"
| "round256 s kw = s"

definition compress :: "w32 list \<Rightarrow> w32 list \<Rightarrow> w32 list" where
  "compress h block = map2 (+) h (foldl round256 h (zip K256 (schedule 48 block)))"

fun blocks :: "nat \<Rightarrow> w32 list \<Rightarrow> w32 list list" where
  "blocks 0 ws = []"
| "blocks (Suc n) ws = take 16 ws # blocks n (drop 16 ws)"

definition word_hex :: "w32 \<Rightarrow> pystr" where
  "word_hex w = map (\<lambda>i. hex_digit (unat w div 16 ^ i mod 16)) (rev [0..<8])"

definition sha256_hex :: "bytes \<Rightarrow> pystr" where
  "sha256_hex m =
     (let p = padded m in
      concat (map word_hex (foldl compress H256 (blocks (length p div 64) (words_of p)))))"

text \<open>A digest is 64 lower-case hexadecimal characters (\<open>DIGEST_RE\<close>, \<open>[0-9a-f]{64}\<close>).\<close>

definition hex_lower :: "nat \<Rightarrow> bool" where
  "hex_lower c \<longleftrightarrow> is_digit c \<or> 97 \<le> c \<and> c \<le> 102"

definition is_digest :: "pystr \<Rightarrow> bool" where
  "is_digest s \<longleftrightarrow> length s = 64 \<and> list_all hex_lower s"

lemma hex_lower_digit: "n < 16 \<Longrightarrow> hex_lower (hex_digit n)"
  by (auto simp: hex_lower_def hex_digit_def is_digit_def)

lemma length_round256: "length s = 8 \<Longrightarrow> length (round256 s kw) = 8"
  by (induction s kw rule: round256.induct) (auto simp: Let_def)

lemma length_rounds: "length s = 8 \<Longrightarrow> length (foldl round256 s kws) = 8"
  by (induction kws arbitrary: s) (auto simp: length_round256)

lemma length_compress: "length h = 8 \<Longrightarrow> length (compress h block) = 8"
  by (simp add: compress_def length_rounds)

lemma length_blocks: "length h = 8 \<Longrightarrow> length (foldl compress h bs) = 8"
  by (induction bs arbitrary: h) (auto simp: length_compress)

lemma word_hex_shape: "length (word_hex w) = 8 \<and> list_all hex_lower (word_hex w)"
  by (auto simp: word_hex_def list_all_iff hex_lower_digit)

lemma concat_shape:
  "(\<forall>x \<in> set xs. length x = 8 \<and> list_all hex_lower x) \<Longrightarrow>
     length (concat xs) = 8 * length xs \<and> list_all hex_lower (concat xs)"
  by (induction xs) auto

lemma sha256_hex_digest: "is_digest (sha256_hex m)"
proof -
  have "length (foldl compress H256 bs) = 8" for bs by (rule length_blocks) (simp add: H256_def)
  then show ?thesis
    using concat_shape[of "map word_hex ws" for ws] word_hex_shape
    by (simp add: sha256_hex_def is_digest_def Let_def)
qed

end
