(* ===== verification/Renderers.thy ===== *)
theory Renderers
  imports Json_Decode Sha256
begin

text \<open>
  \<open>v24/host/renderers.py\<close>: the four built-in renderers, the check of a renderer's result
  and the registry. Every way a renderer can raise is kept (\<open>RendererRegistry.render\<close> maps
  all of them to \<open>render_failed\<close>). The text Python prints for a list, a dict or a float in
  place of a number is the parameter \<open>shown\<close>; the contracts in front of a renderer let no
  such value through. The embedded golden cases are an argument of the digest functions.
\<close>

section \<open>Python operations on values\<close>

text \<open>\<open>v[k]\<close> with a string key, iteration, \<open>str + str\<close> and \<open>int + int\<close>.\<close>

definition subscript :: "json \<Rightarrow> string \<Rightarrow> exn + json" where
  "subscript v k =
     (case v of
        JObj d \<Rightarrow> if has d k then Inr (dget d k) else Inl KeyError
      | _ \<Rightarrow> Inl TypeError)"

definition iterate :: "json \<Rightarrow> exn + json list" where
  "iterate v =
     (case v of
        JArr xs \<Rightarrow> Inr xs
      | JObj d \<Rightarrow> Inr (map JStr (keys d))
      | JStr s \<Rightarrow> Inr (map (\<lambda>c. JStr [c]) s)
      | _ \<Rightarrow> Inl TypeError)"

definition text_of :: "json \<Rightarrow> exn + pystr" where
  "text_of v = (case v of JStr s \<Rightarrow> Inr s | _ \<Rightarrow> Inl TypeError)"

definition int_of :: "json \<Rightarrow> exn + int" where
  "int_of v = (case v of JInt i \<Rightarrow> Inr i | JBool b \<Rightarrow> Inr (if b then 1 else 0) | _ \<Rightarrow> Inl TypeError)"

definition decimal :: "(json \<Rightarrow> pystr) \<Rightarrow> json \<Rightarrow> pystr" where
  "decimal shown v =
     (case v of
        JNull \<Rightarrow> lit ''null''
      | JBool b \<Rightarrow> if b then lit ''True'' else lit ''False''
      | JInt i \<Rightarrow> int_text i
      | JStr s \<Rightarrow> s
      | _ \<Rightarrow> shown v)"

type_synonym rendered = "json \<times> json"

definition text_block :: "json \<Rightarrow> json" where
  "text_block t = JObj [(lit ''type'', jstr ''text''), (lit ''text'', t)]"

section \<open>The renderers\<close>

definition read_render :: "(json \<Rightarrow> pystr) \<Rightarrow> json \<Rightarrow> json \<Rightarrow> exn + rendered" where
  "read_render shown args value =
     andthen (subscript value ''total_lines'') (\<lambda>total.
     andthen (if py_eq total (JInt 0) then Inr (jstr ''[empty file]'') else subscript value ''text'') (\<lambda>text.
     andthen (subscript value ''truncated'') (\<lambda>truncated.
     andthen
       (if \<not> truthy truncated then Inr text
        else
          andthen (subscript value ''start_line'') (\<lambda>start.
          andthen (subscript value ''end_line'') (\<lambda>end.
          andthen (subscript value ''next_offset'') (\<lambda>next.
          andthen (text_of text) (\<lambda>t.
            Inr (JStr (t @ [10, 10] @ lit ''[Showing lines '' @ decimal shown start @ lit ''-'' @
              decimal shown end @ lit '' of '' @ decimal shown total @ lit ''. Use offset='' @
              decimal shown next @ lit '' to continue.]'')))))))
       (\<lambda>t. Inr (JArr [text_block t], JObj [])))))"

definition list_line :: "(json \<Rightarrow> pystr) \<Rightarrow> json \<Rightarrow> exn + pystr" where
  "list_line shown entry =
     andthen (subscript entry ''path'') (\<lambda>path.
     andthen (subscript entry ''kind'') (\<lambda>kind.
       if py_eq kind (jstr ''directory'') then andthen (text_of path) (\<lambda>p. Inr (p @ lit ''/''))
       else if py_eq kind (jstr ''symlink'') then andthen (text_of path) (\<lambda>p. Inr (p @ lit ''@''))
       else
         andthen (text_of path) (\<lambda>p.
         andthen (subscript entry ''size'') (\<lambda>size.
           Inr (p @ lit '' ('' @ decimal shown size @ lit '' B)'')))))"

definition list_render :: "(json \<Rightarrow> pystr) \<Rightarrow> json \<Rightarrow> json \<Rightarrow> exn + rendered" where
  "list_render shown args value =
     andthen (subscript value ''entries'') (\<lambda>entries.
     andthen (iterate entries) (\<lambda>es.
     andthen (mapr (list_line shown) es) (\<lambda>lines.
     andthen (subscript value ''truncated'') (\<lambda>truncated.
     let text = (if lines \<noteq> [] then join [10] lines else lit ''[empty directory]'') in
     andthen
       (if \<not> truthy truncated then Inr text
        else
          andthen (subscript value ''offset'') (\<lambda>offset.
          andthen (int_of offset) (\<lambda>off.
          andthen (subscript value ''total'') (\<lambda>total.
          andthen (subscript value ''next_offset'') (\<lambda>next.
            Inr (text @ [10, 10] @ lit ''[Showing '' @ decimal shown offset @ lit ''-'' @
              int_text (off + int (length es) - 1) @ lit '' of '' @ decimal shown total @
              lit ''. Use offset='' @ decimal shown next @ lit '' to continue.]''))))))
       (\<lambda>t. Inr (JArr [text_block (JStr t)], JObj []))))))"

definition context_line :: "(json \<Rightarrow> pystr) \<Rightarrow> json \<Rightarrow> json \<Rightarrow> exn + pystr" where
  "context_line shown hit context =
     andthen (subscript hit ''path'') (\<lambda>path.
     andthen (text_of path) (\<lambda>p.
     andthen (subscript context ''line'') (\<lambda>line.
     andthen (subscript context ''text'') (\<lambda>text.
     andthen (text_of text) (\<lambda>t.
       Inr (p @ lit ''-'' @ decimal shown line @ lit ''- '' @ t))))))"

definition hit_line :: "(json \<Rightarrow> pystr) \<Rightarrow> json \<Rightarrow> exn + pystr" where
  "hit_line shown hit =
     andthen (subscript hit ''path'') (\<lambda>path.
     andthen (text_of path) (\<lambda>p.
     andthen (subscript hit ''line'') (\<lambda>line.
     andthen (subscript hit ''column'') (\<lambda>column.
     andthen (subscript hit ''text'') (\<lambda>text.
     andthen (text_of text) (\<lambda>t.
       Inr (p @ lit '':'' @ decimal shown line @ lit '':'' @ decimal shown column @ lit '': '' @ t)))))))"

definition hit_lines :: "(json \<Rightarrow> pystr) \<Rightarrow> json \<Rightarrow> exn + pystr list" where
  "hit_lines shown hit =
     (case hit of
        JObj h \<Rightarrow>
          andthen (iterate (dget_or h ''before'' (JArr []))) (\<lambda>before.
          andthen (mapr (context_line shown hit) before) (\<lambda>pre.
          andthen (hit_line shown hit) (\<lambda>line.
          andthen (iterate (dget_or h ''after'' (JArr []))) (\<lambda>after.
          andthen (mapr (context_line shown hit) after) (\<lambda>post.
            Inr (pre @ [line] @ post))))))
      | _ \<Rightarrow> Inl AttributeError)"

definition skipped_sum :: "json \<Rightarrow> exn + int" where
  "skipped_sum v =
     (case v of
        JObj d \<Rightarrow> andthen (mapr int_of (map snd d)) (\<lambda>ns. Inr (sum_list ns))
      | _ \<Rightarrow> Inl AttributeError)"

definition search_footer :: "(json \<Rightarrow> pystr) \<Rightarrow> json \<Rightarrow> nat \<Rightarrow> exn + pystr" where
  "search_footer shown value n_hits =
     andthen (subscript value ''offset'') (\<lambda>offset.
     andthen (if n_hits = 0 then Inr 0 else int_of offset) (\<lambda>off.
     andthen (subscript value ''total'') (\<lambda>total.
     andthen (subscript value ''complete'') (\<lambda>complete.
     andthen (subscript value ''scanned_files'') (\<lambda>scanned.
     andthen (subscript value ''skipped'') (\<lambda>skipped.
     andthen (skipped_sum skipped) (\<lambda>n.
       Inr ([10, 10] @ lit ''[hits '' @
         (if n_hits = 0 then lit ''0'' else decimal shown offset) @ lit ''-'' @
         (if n_hits = 0 then lit ''0'' else int_text (off + int n_hits - 1)) @ lit '' of '' @
         decimal shown total @ (if truthy complete then [] else lit ''+'') @
         lit ''; scanned '' @ decimal shown scanned @ lit ''; skipped '' @ int_text n @ lit '']''))))))))"

definition search_render :: "(json \<Rightarrow> pystr) \<Rightarrow> json \<Rightarrow> json \<Rightarrow> exn + rendered" where
  "search_render shown args value =
     andthen (subscript value ''hits'') (\<lambda>hits.
     andthen (iterate hits) (\<lambda>hs.
     andthen (mapr (hit_lines shown) hs) (\<lambda>parts.
     let lines = concat parts;
         text = (if lines \<noteq> [] then join [10] lines else lit ''[no matches]'') in
     andthen (search_footer shown value (length hs)) (\<lambda>footer.
     andthen (subscript value ''truncated'') (\<lambda>truncated.
     andthen
       (if \<not> truthy truncated then Inr []
        else andthen (subscript value ''next_offset'') (\<lambda>next.
          Inr ([10] @ lit ''[Use offset='' @ decimal shown next @ lit '' to continue.]'')))
       (\<lambda>more. Inr (JArr [text_block (JStr (text @ footer @ more))], JObj [])))))))"

definition TEXT_KEYS :: "string list" where
  "TEXT_KEYS = [''text'', ''truncated'', ''spill_path'', ''exit_code'', ''status'']"

definition TEXT_STATUS :: "json list" where
  "TEXT_STATUS = map jstr [''success'', ''partial'', ''failed'', ''no_change'']"

definition render_failed :: exn where
  "render_failed = RendererError ''render_failed''"

definition exit_code_ok :: "json \<Rightarrow> bool" where
  "exit_code_ok v = (case v of JInt i \<Rightarrow> 0 \<le> i \<and> i \<le> 255 | _ \<Rightarrow> False)"

definition text_render :: "(json \<Rightarrow> pystr) \<Rightarrow> json \<Rightarrow> json \<Rightarrow> exn + rendered" where
  "text_render shown args value =
     (case value of
        JObj v \<Rightarrow>
          let text = dget v ''text''; truncated = dget v ''truncated''; spill = dget v ''spill_path'' in
          andthen
            (steps
              [require (keys_within v TEXT_KEYS) render_failed,
               require (is_str text \<and> is_bool truncated \<and> is_str spill) render_failed,
               require (\<not> (truncated = JBool False \<and> spill \<noteq> JStr [])) render_failed,
               require (\<not> (truncated = JBool True \<and> spill = JStr [])) render_failed,
               require (\<not> has v ''exit_code'' \<or> exit_code_ok (dget v ''exit_code'')) render_failed,
               require (\<not> has v ''status'' \<or> list_ex (py_eq (dget v ''status'')) TEXT_STATUS) render_failed,
               require (\<not> (has v ''exit_code'' \<and> has v ''status'')) render_failed,
               require (0 \<notin> set (the_str text)) render_failed])
            (\<lambda>_. Inr (JArr [text_block text], JObj []))
      | _ \<Rightarrow> Inl render_failed)"

section \<open>Results and registry\<close>

definition block_ok :: "json \<Rightarrow> bool" where
  "block_ok b \<longleftrightarrow>
     (case b of
        JObj d \<Rightarrow> keys_are d [''type'', ''text''] \<and> dget d ''type'' = jstr ''text'' \<and> is_str (dget d ''text'')
      | _ \<Rightarrow> False)"

definition validate_result :: "rendered \<Rightarrow> exn + rendered" where
  "validate_result r =
     (let bad = RendererError ''invalid_tool_content''; (content, meta) = r in
      andthen
        (steps
          [require (is_list content \<and> 1 \<le> length (elems content) \<and> length (elems content) \<le> 16) bad,
           each (\<lambda>b. require (block_ok b) bad) (elems content),
           require (is_dict meta) bad,
           (case compact_json content of Inl _ \<Rightarrow> Inl bad | Inr _ \<Rightarrow> Inr ()),
           (case compact_json meta of Inl _ \<Rightarrow> Inl bad | Inr _ \<Rightarrow> Inr ())])
        (\<lambda>_. Inr r))"

record renderer_ref =
  rid :: pystr
  rversion :: int
  rdigest :: pystr

record renderer =
  ref :: renderer_ref
  projection :: int
  fn :: "json \<Rightarrow> json \<Rightarrow> exn + rendered"

text \<open>The constructor refuses a second entry with the same id and version.\<close>

definition identity :: "renderer \<Rightarrow> pystr \<times> int" where
  "identity e = (rid (ref e), rversion (ref e))"

definition renderer_registry :: "renderer list \<Rightarrow> exn + renderer list" where
  "renderer_registry entries = (if distinct (map identity entries) then Inr entries else Inl ValueError)"

definition by_id :: "renderer list \<Rightarrow> pystr \<Rightarrow> int \<Rightarrow> renderer option" where
  "by_id entries i v = find (\<lambda>e. rid (ref e) = i \<and> rversion (ref e) = v) entries"

definition lookup_renderer :: "renderer list \<Rightarrow> renderer_ref \<Rightarrow> exn + renderer" where
  "lookup_renderer entries r =
     (case find (\<lambda>e. (rid (ref e), rversion (ref e), rdigest (ref e)) = (rid r, rversion r, rdigest r)) entries of
        Some e \<Rightarrow> Inr e
      | None \<Rightarrow> Inl (RendererError ''renderer_not_approved''))"

definition render :: "renderer list \<Rightarrow> renderer_ref \<Rightarrow> json \<Rightarrow> json \<Rightarrow> exn + rendered" where
  "render entries r args value =
     andthen (lookup_renderer entries r) (\<lambda>e.
       case fn e args value of
         Inl _ \<Rightarrow> Inl render_failed
       | Inr result \<Rightarrow> validate_result result)"

section \<open>Digests\<close>

text \<open>A golden case is a dict; a missing key of the five raises \<open>KeyError\<close>.\<close>

definition GOLDEN_KEYS :: "string list" where
  "GOLDEN_KEYS = [''id'', ''args'', ''value'', ''content'', ''meta'']"

definition golden_projection :: "dict \<Rightarrow> exn + dict" where
  "golden_projection c = mapr (\<lambda>k. if has c k then Inr (lit k, dget c k) else Inl KeyError) GOLDEN_KEYS"

definition golden_digest :: "dict list \<Rightarrow> exn + pystr" where
  "golden_digest cases =
     andthen (mapr golden_projection cases) (\<lambda>cs.
       if \<exists>c \<in> set cs. \<not> is_str (dget c ''id'') then Inl AttributeError
       else if \<exists>c \<in> set cs. \<not> scalar_str (the_str (dget c ''id'')) then Inl UnicodeError
       else
         andthen (compact_json (JArr (map JObj (sort_key (\<lambda>c. utf8 (the_str (dget c ''id''))) cs))))
           (\<lambda>b. Inr (sha256_hex b)))"

definition render_digest :: "pystr \<Rightarrow> int \<Rightarrow> int \<Rightarrow> dict list \<Rightarrow> exn + pystr" where
  "render_digest renderer_id version proj cases =
     andthen (golden_digest cases) (\<lambda>g.
     andthen (compact_json (JObj
         [(lit ''id'', JStr renderer_id), (lit ''version'', JInt version),
          (lit ''projection'', JInt proj), (lit ''golden_digest'', JStr g)]))
       (\<lambda>b. Inr (sha256_hex b)))"

section \<open>The built-in registry\<close>

definition builtin :: "string \<Rightarrow> string \<Rightarrow> (json \<Rightarrow> json \<Rightarrow> exn + rendered) \<Rightarrow> renderer" where
  "builtin name digest f =
     \<lparr>ref = \<lparr>rid = lit name, rversion = 1, rdigest = lit digest\<rparr>, projection = 1, fn = f\<rparr>"

definition RENDERERS :: "(json \<Rightarrow> pystr) \<Rightarrow> renderer list" where
  "RENDERERS shown =
     [builtin ''v24.fs.read.text''
        ''ca52198cf6c2edae798f2340ba4f370f658d422fa05f5d529c28510dea0a680c'' (read_render shown),
      builtin ''v24.fs.list.text''
        ''5b0bbe8d0fc70ea68c73baeb01b4df1d6be1a4e31e303dc22e3079605376f9c7'' (list_render shown),
      builtin ''v24.fs.search.text''
        ''fd2f51e8c3d7328b0af7ceafcbefc21418f799921e9e470f12b3f7b1b6344011'' (search_render shown),
      builtin ''v24.text.plain''
        ''30ff1803fc2a2ec0f375da475a08f23c99e83e0ddf8c32502c26bc82a026a011'' (text_render shown)]"

end
