(* ===== verification/Tool_Pages.thy ===== *)
theory Tool_Pages
  imports Renderers Py_Text
begin

text \<open>
  \<open>v24/host/tool_pages.py\<close>: the relations a success page of a built-in tool must satisfy
  before it is rendered. Integers are Python's; comparisons with \<open>!=\<close> are \<open>py_eq\<close>,
  comparisons with \<open>is\<close> are equality of values.
\<close>

section \<open>Limits and contracts\<close>

definition MAX_LINE_BYTES :: nat where "MAX_LINE_BYTES = 16384"
definition MAX_READ_LINES :: int where "MAX_READ_LINES = 2000"
definition MAX_LIST_ENTRIES :: int where "MAX_LIST_ENTRIES = 500"
definition MAX_SEARCH_HITS :: int where "MAX_SEARCH_HITS = 200"
definition MAX_TEXT_BYTES :: nat where "MAX_TEXT_BYTES = 32768"

definition SKIPPED_KEYS :: "string list" where
  "SKIPPED_KEYS = [''hidden'', ''symlink'', ''binary'', ''too_large'', ''non_utf8'', ''long_lines'']"

datatype page_kind = ReadPage | ListPage | SearchPage | TextPage

record page_contract =
  renderer_id :: pystr
  kind :: page_kind
  default_limit :: int

definition BUILTIN_PAGE_CONTRACTS :: "page_contract list" where
  "BUILTIN_PAGE_CONTRACTS =
     [\<lparr>renderer_id = lit ''v24.fs.read.text'', kind = ReadPage, default_limit = MAX_READ_LINES\<rparr>,
      \<lparr>renderer_id = lit ''v24.fs.list.text'', kind = ListPage, default_limit = MAX_LIST_ENTRIES\<rparr>,
      \<lparr>renderer_id = lit ''v24.fs.search.text'', kind = SearchPage, default_limit = MAX_SEARCH_HITS\<rparr>]"

definition TEXT_PAGE_CONTRACTS :: "page_contract list" where
  "TEXT_PAGE_CONTRACTS =
     [\<lparr>renderer_id = lit ''v24.text.plain'', kind = TextPage, default_limit = 2000\<rparr>]"

definition page_contract_of :: "pystr \<Rightarrow> page_contract option" where
  "page_contract_of i =
     find (\<lambda>c. renderer_id c = i) (BUILTIN_PAGE_CONTRACTS @ TEXT_PAGE_CONTRACTS)"

definition page_error :: exn where
  "page_error = ToolPageError ''invalid_tool_output''"

text \<open>\<open>if not b: _fail()\<close>.\<close>

definition ensure :: "bool \<Rightarrow> exn + unit" where
  "ensure b = require b page_error"

section \<open>Shared checks\<close>

definition safe_int_value :: "json \<Rightarrow> bool" where
  "safe_int_value v \<longleftrightarrow> is_int v \<and> \<bar>the_int v\<bar> \<le> SAFE_INTEGER_MAX"

text \<open>The explicit stack; its head is the end of the Python list.\<close>

function (sequential) safe_domain_loop :: "json list \<Rightarrow> exn + unit" where
  "safe_domain_loop [] = Inr ()"
| "safe_domain_loop (JInt i # stack) =
     (if \<bar>i\<bar> > SAFE_INTEGER_MAX then Inl page_error else safe_domain_loop stack)"
| "safe_domain_loop (JObj d # stack) = safe_domain_loop (rev (map snd d) @ stack)"
| "safe_domain_loop (JArr xs # stack) = safe_domain_loop (rev xs @ stack)"
| "safe_domain_loop (v # stack) = safe_domain_loop stack"
  by pat_completeness auto

lemma size_list_conv: "size_list f xs = sum_list (map (\<lambda>x. Suc (f x)) xs)"
  by (induction xs) auto

lemma size_list_rev [simp]: "size_list f (rev xs) = size_list f xs"
  by (simp add: size_list_conv rev_map[symmetric])

lemma size_values: "size_list size (map snd d) < size (JObj d)"
  by (induction d) auto

termination safe_domain_loop
proof (relation "measure (size_list size)", goal_cases)
  case (3 d stack)
  then show ?case using size_values[of d] by simp
qed auto

definition check_safe_domain :: "json \<Rightarrow> exn + unit" where
  "check_safe_domain v = safe_domain_loop [v]"

definition check_args :: "json \<Rightarrow> page_contract \<Rightarrow> exn + (int \<times> int)" where
  "check_args args c =
     (let offset = dget_or (items args) ''offset'' (JInt 1);
          limit = dget_or (items args) ''limit'' (JInt (default_limit c)) in
      andthen
        (steps
          [ensure (is_dict args),
           ensure (safe_int_value offset \<and> 1 \<le> the_int offset),
           ensure (safe_int_value limit \<and> 1 \<le> the_int limit \<and> the_int limit \<le> default_limit c)])
        (\<lambda>_. Inr (the_int offset, the_int limit)))"

definition check_cursor :: "dict \<Rightarrow> int \<Rightarrow> int \<Rightarrow> bool \<Rightarrow> exn + unit" where
  "check_cursor value offset n truncated =
     (let expected = (if truncated then JInt (offset + n) else JNull) in
      steps
        [ensure (py_eq (dget value ''next_offset'') expected),
         ensure (expected = JNull \<or> safe_int_value expected \<and> offset < the_int expected)])"

section \<open>The four pages\<close>

definition check_line :: "pystr \<Rightarrow> exn + unit" where
  "check_line l =
     (if \<not> scalar_str l then Inl UnicodeError else ensure (length (utf8 l) \<le> MAX_LINE_BYTES))"

definition check_empty_read :: "dict \<Rightarrow> int \<Rightarrow> exn + unit" where
  "check_empty_read value offset =
     steps
       [ensure (offset = 1),
        ensure (py_eq (dget value ''text'') (JStr []) \<and> py_eq (dget value ''start_line'') (JInt 0) \<and>
          py_eq (dget value ''end_line'') (JInt 0) \<and> dget value ''final_newline'' = JBool False \<and>
          dget value ''truncated'' = JBool False \<and> dget value ''truncated_by'' = JNull \<and>
          dget value ''next_offset'' = JNull)]"

definition check_read :: "dict \<Rightarrow> int \<Rightarrow> int \<Rightarrow> exn + unit" where
  "check_read value offset limit =
     (let total = dget value ''total_lines''; start = dget value ''start_line'';
          end' = dget value ''end_line''; text = dget value ''text'';
          n = the_int end' - the_int start + 1;
          lines = split_on 10 (the_str text);
          truncated = the_int end' < the_int total;
          expected_by = (if truncated then (if n = limit then jstr ''lines'' else jstr ''bytes'') else JNull) in
      andthen (ensure (safe_int_value total \<and> 0 \<le> the_int total)) (\<lambda>_.
        if the_int total = 0 then check_empty_read value offset
        else
          steps
            [ensure (safe_int_value start \<and> safe_int_value end' \<and> the_int start = offset \<and>
               1 \<le> the_int start \<and> the_int start \<le> the_int end' \<and> the_int end' \<le> the_int total),
             ensure (1 \<le> n \<and> n \<le> limit),
             ensure (is_str text),
             ensure (int (length lines) = n),
             each check_line lines,
             ensure (dget value ''truncated'' = JBool truncated),
             ensure (py_eq (dget value ''truncated_by'') expected_by),
             check_cursor value offset n truncated]))"

definition check_entry :: "json \<Rightarrow> exn + unit" where
  "check_entry entry =
     (case entry of
        JObj e \<Rightarrow>
          let kind = dget e ''kind''; size = dget e ''size'' in
          if kind = jstr ''file'' then ensure (is_int size)
          else if kind = jstr ''directory'' \<or> kind = jstr ''symlink'' then ensure (size = JNull)
          else Inl page_error
      | _ \<Rightarrow> Inl page_error)"

definition check_list :: "dict \<Rightarrow> int \<Rightarrow> int \<Rightarrow> exn + unit" where
  "check_list value offset limit =
     (let entries = dget value ''entries''; total = dget value ''total'';
          n = int (length (elems entries)); truncated = offset + n - 1 < the_int total in
      andthen
        (steps
          [ensure (is_list entries \<and> safe_int_value total \<and> 0 \<le> the_int total),
           ensure (py_eq (dget value ''offset'') (JInt offset)),
           ensure (n \<le> limit)])
        (\<lambda>_.
          if n = 0 then
            ensure (offset = 1 \<and> the_int total = 0 \<and> dget value ''truncated'' = JBool False \<and>
              dget value ''next_offset'' = JNull)
          else
            steps
              [ensure (offset + n - 1 \<le> the_int total),
               ensure (dget value ''truncated'' = JBool truncated),
               check_cursor value offset n truncated,
               each check_entry (elems entries)]))"

definition check_search :: "dict \<Rightarrow> int \<Rightarrow> int \<Rightarrow> exn + unit" where
  "check_search value offset limit =
     (let hits = dget value ''hits''; total = dget value ''total''; complete = dget value ''complete'';
          scanned = dget value ''scanned_files''; skipped = dget value ''skipped'';
          n = int (length (elems hits));
          truncated = (offset + n - 1 < the_int total \<or> complete = JBool False) in
      andthen
        (steps
          [ensure (is_list hits \<and> safe_int_value total \<and> 0 \<le> the_int total \<and> is_bool complete),
           ensure (safe_int_value scanned \<and> 0 \<le> the_int scanned),
           ensure (is_dict skipped \<and> keys_are (items skipped) SKIPPED_KEYS),
           each (\<lambda>kv. ensure (safe_int_value (snd kv) \<and> 0 \<le> the_int (snd kv))) (items skipped),
           ensure (py_eq (dget value ''offset'') (JInt offset)),
           ensure (n \<le> limit)])
        (\<lambda>_.
          if n = 0 then
            ensure (offset = 1 \<and> the_int total = 0 \<and> complete = JBool True \<and>
              dget value ''truncated'' = JBool False \<and> dget value ''next_offset'' = JNull)
          else
            steps
              [ensure (offset + n - 1 \<le> the_int total),
               ensure (dget value ''truncated'' = JBool truncated),
               check_cursor value offset n truncated]))"

text \<open>\<open>\.v24/spill/[0-9a-f]{32}\.txt\<close>, the whole string.\<close>

definition spill_pattern :: "pystr \<Rightarrow> bool" where
  "spill_pattern s \<longleftrightarrow> length s = 47 \<and> take 11 s = lit ''.v24/spill/'' \<and>
     list_all hex_lower (take 32 (drop 11 s)) \<and> drop 43 s = lit ''.txt''"

definition check_text :: "dict \<Rightarrow> int \<Rightarrow> exn + unit" where
  "check_text value limit =
     (let text = dget value ''text''; truncated = dget value ''truncated''; spill = dget value ''spill_path'' in
      steps
        [ensure (is_str text \<and> is_bool truncated \<and> is_str spill),
         ensure (0 \<notin> set (the_str text)),
         ensure (scalar_str (the_str text)),
         ensure (int (length (splitlines (the_str text))) \<le> limit \<and>
           length (utf8 (the_str text)) \<le> MAX_TEXT_BYTES),
         ensure (if truncated = JBool False then spill = JStr [] else spill_pattern (the_str spill)),
         ensure (\<not> (has value ''exit_code'' \<and> has value ''status''))])"

definition validate_page :: "renderer list \<Rightarrow> renderer_ref \<Rightarrow> json \<Rightarrow> json \<Rightarrow> exn + unit" where
  "validate_page renderers r args value =
     (case page_contract_of (rid r) of
        None \<Rightarrow> Inl page_error
      | Some c \<Rightarrow>
          andthen (ensure (returns (lookup_renderer renderers r))) (\<lambda>_.
          andthen (ensure (is_dict value)) (\<lambda>_.
          andthen (check_safe_domain value) (\<lambda>_.
            if kind c = TextPage then check_text (items value) (default_limit c)
            else
              andthen (check_args args c) (\<lambda>(offset, limit).
                case kind c of
                  ReadPage \<Rightarrow> check_read (items value) offset limit
                | ListPage \<Rightarrow> check_list (items value) offset limit
                | _ \<Rightarrow> check_search (items value) offset limit)))))"

end
