(* ===== verification/Tool_Results.thy ===== *)
theory Tool_Results
  imports Json_Decode Py_Text
begin

text \<open>
  \<open>v24/host/tool_results.py\<close>: the success, failure and unknown envelopes, the checks of
  content, error and meta, the dispatch result, and the byte accounting of a tool frame.
\<close>

section \<open>Limits\<close>

definition MAX_CONTENT_BLOCKS :: nat where "MAX_CONTENT_BLOCKS = 16"
definition MAX_MESSAGE_BYTES :: nat where "MAX_MESSAGE_BYTES = 1024"
definition FRAME_TARGET :: int where "FRAME_TARGET = 60000"
definition TRANSPORT_HARD_CAP :: int where "TRANSPORT_HARD_CAP = 65536"

definition FORBIDDEN_MESSAGE_FRAGMENTS :: "pystr list" where
  "FORBIDDEN_MESSAGE_FRAGMENTS =
     [[0], lit ''Traceback ('', lit ''stack trace'', lit ''DEEPSEEK_API_KEY='', lit ''OPENAI_API_KEY='']"

definition invalid_output :: exn where
  "invalid_output = ToolResultError ''invalid_tool_output''"

definition invalid_outcome :: exn where
  "invalid_outcome = ToolResultError ''invalid_outcome''"

section \<open>Parts of an envelope\<close>

definition assert_jsonable :: "json \<Rightarrow> exn + unit" where
  "assert_jsonable v = (case compact_json v of Inl _ \<Rightarrow> Inl invalid_output | Inr _ \<Rightarrow> Inr ())"

definition text_block_ok :: "json \<Rightarrow> bool" where
  "text_block_ok b \<longleftrightarrow>
     (case b of
        JObj d \<Rightarrow> keys_are d [''type'', ''text''] \<and> py_eq (dget d ''type'') (jstr ''text'') \<and>
          is_str (dget d ''text'')
      | _ \<Rightarrow> False)"

definition assert_content :: "json \<Rightarrow> exn + unit" where
  "assert_content content =
     steps
       [require (is_list content \<and> 1 \<le> length (elems content) \<and>
          length (elems content) \<le> MAX_CONTENT_BLOCKS) invalid_output,
        each (\<lambda>b. require (text_block_ok b) invalid_output) (elems content),
        assert_jsonable content]"

definition assert_meta :: "json \<Rightarrow> exn + unit" where
  "assert_meta meta = steps [require (is_dict meta) invalid_output, assert_jsonable meta]"

definition message_is_leaked :: "pystr \<Rightarrow> bool" where
  "message_is_leaked m \<longleftrightarrow>
     list_ex (\<lambda>f. occurs f m) FORBIDDEN_MESSAGE_FRAGMENTS \<or>
     list_ex (\<lambda>t. starts_with [47] t \<or> windows_drive t \<or> starts_with [92, 92] t) (split_words m)"

definition assert_error :: "json \<Rightarrow> exn + unit" where
  "assert_error err =
     (case err of
        JObj e \<Rightarrow>
          (let code = dget e ''code''; message = dget e ''message'' in
           steps
             [require (keys_are e [''code'', ''message'']) invalid_output,
              require (is_str code \<and> code_pattern (the_str code)) invalid_output,
              require (is_str message) invalid_output,
              require (scalar_str (the_str message)) invalid_output,
              require (length (utf8 (the_str message)) \<le> MAX_MESSAGE_BYTES) invalid_output,
              require (\<not> message_is_leaked (the_str message)) invalid_output])
      | _ \<Rightarrow> Inl invalid_output)"

section \<open>Envelopes\<close>

definition meta_if_present :: "dict \<Rightarrow> exn + unit" where
  "meta_if_present d = (if has d ''meta'' then assert_meta (dget d ''meta'') else Inr ())"

definition assert_success_output :: "json \<Rightarrow> exn + unit" where
  "assert_success_output v =
     (case v of
        JObj d \<Rightarrow>
          steps
            [require (keys_are d [''value'', ''content''] \<or> keys_are d [''value'', ''content'', ''meta''])
               invalid_output,
             assert_jsonable (dget d ''value''), assert_content (dget d ''content''), meta_if_present d]
      | _ \<Rightarrow> Inl invalid_output)"

definition assert_failure_output :: "json \<Rightarrow> exn + unit" where
  "assert_failure_output v =
     (case v of
        JObj d \<Rightarrow>
          steps
            [require (keys_are d [''error'', ''content''] \<or> keys_are d [''error'', ''content'', ''meta''])
               invalid_output,
             assert_error (dget d ''error''), assert_content (dget d ''content''), meta_if_present d]
      | _ \<Rightarrow> Inl invalid_output)"

definition assert_unknown_output :: "json \<Rightarrow> exn + unit" where
  "assert_unknown_output v =
     (case v of
        JObj d \<Rightarrow> steps [require (keys_are d [''error'']) invalid_output, assert_error (dget d ''error'')]
      | _ \<Rightarrow> Inl invalid_output)"

definition error_object :: "json \<Rightarrow> json \<Rightarrow> json" where
  "error_object code message = JObj [(lit ''code'', code), (lit ''message'', message)]"

text \<open>An omitted \<open>meta\<close> (\<open>None\<close>) becomes the empty object.\<close>

definition default_meta :: "json \<Rightarrow> json" where
  "default_meta meta = (if meta = JNull then JObj [] else meta)"

definition success_output :: "json \<Rightarrow> json \<Rightarrow> json \<Rightarrow> exn + json" where
  "success_output value content meta =
     (let out = JObj [(lit ''value'', value), (lit ''content'', content), (lit ''meta'', default_meta meta)]
      in andthen (assert_success_output out) (\<lambda>_. Inr out))"

definition failure_output :: "json \<Rightarrow> json \<Rightarrow> json \<Rightarrow> json \<Rightarrow> exn + json" where
  "failure_output code message content meta =
     (let out = JObj [(lit ''error'', error_object code message), (lit ''content'', content),
                      (lit ''meta'', default_meta meta)]
      in andthen (assert_failure_output out) (\<lambda>_. Inr out))"

definition unknown_output :: "json \<Rightarrow> json \<Rightarrow> exn + json" where
  "unknown_output code message =
     (let out = JObj [(lit ''error'', error_object code message)]
      in andthen (assert_unknown_output out) (\<lambda>_. Inr out))"

definition assert_usage :: "json \<Rightarrow> exn + unit" where
  "assert_usage u =
     (case u of
        JObj d \<Rightarrow>
          (let w = dget d ''wall_ms'' in
           steps
             [require (keys_are d [''wall_ms'']) invalid_outcome,
              require (is_int w \<and> 0 \<le> the_int w \<and> the_int w \<le> SAFE_INTEGER_MAX) invalid_outcome])
      | _ \<Rightarrow> Inl invalid_outcome)"

definition assert_builtin_meta :: "json \<Rightarrow> exn + unit" where
  "assert_builtin_meta meta = (if meta = JNull \<or> meta = JObj [] then Inr () else Inl invalid_output)"

section \<open>The dispatch result\<close>

record tool_dispatch_result =
  dclass :: pystr
  dresult :: json
  model_text :: json

definition RESULT_CLASSES :: "pystr list" where
  "RESULT_CLASSES = map lit [''success'', ''failure'', ''unknown'']"

text \<open>The dataclass constructor with its \<open>__post_init__\<close>.\<close>

definition dispatch_result :: "pystr \<Rightarrow> json \<Rightarrow> json \<Rightarrow> exn + tool_dispatch_result" where
  "dispatch_result c result text =
     (let d = items result; status = dget d ''status''; out = dget d ''output'' in
      andthen
        (steps
          [require (c \<in> set RESULT_CLASSES) invalid_outcome,
           require (is_dict result) invalid_outcome,
           require (keys_are d [''status'', ''output'', ''usage'']) invalid_outcome,
           require (status = jstr ''ok'' \<or> status = jstr ''error'') invalid_outcome,
           require ((c = lit ''success'') = (status = jstr ''ok'')) invalid_outcome,
           require (is_str text) invalid_outcome,
           require (\<not> (c = lit ''unknown'' \<and> text \<noteq> JStr [])) invalid_outcome,
           assert_usage (dget d ''usage''),
           (if c = lit ''success'' then assert_success_output out
            else if c = lit ''failure'' then assert_failure_output out
            else assert_unknown_output out)])
        (\<lambda>_. Inr \<lparr>dclass = c, dresult = result, model_text = text\<rparr>))"

section \<open>Model text and measures\<close>

definition join_content :: "json \<Rightarrow> exn + pystr" where
  "join_content content =
     andthen (assert_content content)
       (\<lambda>_. Inr (join [10] (map (\<lambda>b. the_str (dget (items b) ''text'')) (elems content))))"

definition tool_frame :: "json \<Rightarrow> json" where
  "tool_frame value =
     JObj [(lit ''ok'', JBool True), (lit ''v'', JInt 2), (lit ''result'', JObj [(lit ''value'', value)])]"

definition frame_bytes :: "json \<Rightarrow> exn + nat" where
  "frame_bytes value =
     (case compact_json (tool_frame value) of Inl _ \<Rightarrow> Inl invalid_output | Inr b \<Rightarrow> Inr (length b + 1))"

record measures =
  m_args :: nat
  m_value :: nat
  m_content :: nat
  m_meta :: nat
  m_frame :: nat

definition json_bytes :: "json \<Rightarrow> exn + nat" where
  "json_bytes v = (case compact_json v of Inl _ \<Rightarrow> Inl invalid_output | Inr b \<Rightarrow> Inr (length b))"

definition measure_result :: "json \<Rightarrow> json \<Rightarrow> json \<Rightarrow> json \<Rightarrow> exn + measures" where
  "measure_result args value content meta =
     andthen (json_bytes args) (\<lambda>a.
     andthen (json_bytes value) (\<lambda>v.
     andthen (json_bytes content) (\<lambda>c.
     andthen (json_bytes (default_meta meta)) (\<lambda>m.
     andthen (frame_bytes value) (\<lambda>f.
       Inr \<lparr>m_args = a, m_value = v, m_content = c, m_meta = m, m_frame = f\<rparr>)))))"

definition classify_frame :: "int \<Rightarrow> string" where
  "classify_frame n =
     (if n \<le> FRAME_TARGET then ''within_builtin_target''
      else if n \<le> TRANSPORT_HARD_CAP then ''over_builtin_target_transport_valid''
      else ''stdout_limit_unknown'')"

end
