(* ===== verification/Fs_Pages.thy ===== *)
theory Fs_Pages
  imports Fs_Scan Tool_Pages Tool_Results
begin

text \<open>
  What the \<open>read\<close> tool promises the host. Its byte accounting is exact: the measures it
  compares with its budgets are the sizes the host's own encoder produces, so a page it
  returns fits the value, content and frame limits. When the file does not change under
  it, the page holds the requested lines, passes the host's page relations, and following
  \<open>next_offset\<close> goes through the whole file.
\<close>

section \<open>Decoded bytes\<close>

lemma utf8_char_2:
  "0xC2 \<le> b \<Longrightarrow> b < 0xE0 \<Longrightarrow> cont_byte x \<Longrightarrow> utf8_char ((b - 0xC0) * 64 + (x - 0x80)) = [b, x]"
proof -
  assume a: "0xC2 \<le> b" "b < 0xE0" "cont_byte x"
  obtain p q where p: "b = 0xC0 + p" "2 \<le> p" "p < 32" and q: "x = 0x80 + q" "q < 64"
    using a by (auto simp: cont_byte_def le_iff_add)
  have "128 \<le> p * 64 + q" "p * 64 + q < 2048" using p q by linarith+
  then show ?thesis using p q by (simp add: utf8_char_def)
qed

lemma utf8_char_3:
  "0xE0 \<le> b \<Longrightarrow> b < 0xF0 \<Longrightarrow> cont_byte x \<Longrightarrow> cont_byte y \<Longrightarrow>
     0x800 \<le> (b - 0xE0) * 4096 + (x - 0x80) * 64 + (y - 0x80) \<Longrightarrow>
     utf8_char ((b - 0xE0) * 4096 + (x - 0x80) * 64 + (y - 0x80)) = [b, x, y]"
proof -
  assume a: "0xE0 \<le> b" "b < 0xF0" "cont_byte x" "cont_byte y"
    "0x800 \<le> (b - 0xE0) * 4096 + (x - 0x80) * 64 + (y - 0x80)"
  obtain p q r where p: "b = 0xE0 + p" "p < 16" and q: "x = 0x80 + q" "q < 64" and r: "y = 0x80 + r" "r < 64"
    using a(1-4) by (auto simp: cont_byte_def le_iff_add)
  let ?c = "p * 4096 + q * 64 + r"
  have "?c = (p * 64 + q) * 64 + r" by simp
  then have "?c mod 64 = r" using r by (metis add.commute mod_less mod_mult_self1)
  moreover have "?c < 0x10000" "?c div 4096 = p" "?c div 64 = p * 64 + q" using p q r by simp_all
  moreover have "0x800 \<le> ?c" using a(5) by (simp add: p q r)
  moreover have "(p * 64 + q) mod 64 = q" using q by simp
  ultimately show ?thesis by (simp add: p q r utf8_char_def)
qed

lemma utf8_char_4:
  "0xF0 \<le> b \<Longrightarrow> b < 0xF5 \<Longrightarrow> cont_byte x \<Longrightarrow> cont_byte y \<Longrightarrow> cont_byte z \<Longrightarrow>
     0x10000 \<le> (b - 0xF0) * 262144 + (x - 0x80) * 4096 + (y - 0x80) * 64 + (z - 0x80) \<Longrightarrow>
     utf8_char ((b - 0xF0) * 262144 + (x - 0x80) * 4096 + (y - 0x80) * 64 + (z - 0x80)) = [b, x, y, z]"
proof -
  assume a: "0xF0 \<le> b" "b < 0xF5" "cont_byte x" "cont_byte y" "cont_byte z"
    "0x10000 \<le> (b - 0xF0) * 262144 + (x - 0x80) * 4096 + (y - 0x80) * 64 + (z - 0x80)"
  obtain p q r t where p: "b = 0xF0 + p" and q: "x = 0x80 + q" "q < 64"
    and r: "y = 0x80 + r" "r < 64" and t: "z = 0x80 + t" "t < 64"
    using a(1-5) by (auto simp: cont_byte_def le_iff_add)
  let ?c = "p * 262144 + q * 4096 + r * 64 + t"
  have "?c = ((p * 64 + q) * 64 + r) * 64 + t" by simp
  then have "?c mod 64 = t" using t by (metis add.commute mod_less mod_mult_self1)
  moreover have "?c div 262144 = p" "?c div 4096 = p * 64 + q" "?c div 64 = (p * 64 + q) * 64 + r"
    using q r t by simp_all
  moreover have "0x10000 \<le> ?c" using a(6) by (simp add: p q r t)
  moreover have "?c div 4096 mod 64 = q" "?c div 64 mod 64 = r"
    using q r calculation(3,4) by (simp_all only: mod_mult_self3 mod_less)
  ultimately show ?thesis by (simp add: p q r t utf8_char_def)
qed

lemma utf8_decode_inverse: "utf8_decode b = Some s \<Longrightarrow> utf8 s = b"
proof (induction b arbitrary: s rule: utf8_decode.induct)
  case (2 b r)
  note dec = "2.prems"
  consider "b < 0x80" | "0xC2 \<le> b" "b < 0xE0" | "0xE0 \<le> b" "b < 0xF0" | "0xF0 \<le> b" "b < 0xF5"
    using dec by (simp split: if_splits)
  then show ?case
  proof cases
    case b: 1
    then obtain t where "utf8_decode r = Some t" "s = b # t" using dec by auto
    with b "2.IH"(1)[of t] show ?thesis by simp
  next
    case b: 2
    then obtain b1 r1 t where "r = b1 # r1" "cont_byte b1" "utf8_decode r1 = Some t"
      "s = ((b - 0xC0) * 64 + (b1 - 0x80)) # t"
      using dec by (auto split: list.splits if_splits)
    with b "2.IH"(2)[of b1 r1 t] utf8_char_2[of b b1] show ?thesis by simp
  next
    case b: 3
    then obtain b1 b2 r1 t where "r = b1 # b2 # r1" "cont_byte b1" "cont_byte b2"
      "utf8_decode r1 = Some t" "s = ((b - 0xE0) * 4096 + (b1 - 0x80) * 64 + (b2 - 0x80)) # t"
      "\<not> surrogate ((b - 0xE0) * 4096 + (b1 - 0x80) * 64 + (b2 - 0x80))"
      "0x800 \<le> (b - 0xE0) * 4096 + (b1 - 0x80) * 64 + (b2 - 0x80)"
      using dec by (auto simp: Let_def split: list.splits if_splits)
    with b "2.IH"(3)[of b1 _ b2 r1 _ t] utf8_char_3[of b b1 b2] show ?thesis by simp
  next
    case b: 4
    then obtain b1 b2 b3 r1 t c where "r = b1 # b2 # b3 # r1" "cont_byte b1" "cont_byte b2" "cont_byte b3"
      "utf8_decode r1 = Some t" "c = (b - 0xF0) * 262144 + (b1 - 0x80) * 4096 + (b2 - 0x80) * 64 + (b3 - 0x80)"
      "s = c # t" "0x10000 \<le> c" "c < 0x110000"
      using dec by (auto simp: Let_def split: list.splits if_splits)
    with b "2.IH"(4)[of b1 _ b2 _ b3 r1 _ t] utf8_char_4[of b b1 b2 b3] show ?thesis by simp
  qed
qed simp

section \<open>Sizes without order\<close>

lemma length_join: "length (join sep xs) = sum_list (map length xs) + length sep * (length xs - 1)"
  by (induction sep xs rule: join.induct) auto

lemma utf8_join: "\<forall>c \<in> set sep. c < 0x80 \<Longrightarrow> utf8 (join sep xs) = join sep (map utf8 xs)"
  by (induction sep xs rule: join.induct) (auto simp: utf8_ascii)

function (sequential) jsize :: "json \<Rightarrow> nat" where
  "jsize (JObj d) = 2 + sum_list (map (\<lambda>kv. length (utf8 (quote (fst kv))) + 1 + jsize (snd kv)) d) + (length d - 1)"
| "jsize (JArr xs) = 2 + sum_list (map jsize xs) + (length xs - 1)"
| "jsize v = length (utf8 (jtext v))"
  by pat_completeness auto
termination
  by (relation "measure size") (auto dest: size_member_snd simp: less_Suc_eq_le size_list_estimation')

lemma jsize_jtext: "length (utf8 (jtext v)) = jsize v"
proof (induction v rule: jsize.induct)
  case (1 d)
  have "sum_list (map (\<lambda>x. Suc (length (utf8 (quote (fst x))) + length (utf8 (jtext (snd x))))) d)
      = sum_list (map (\<lambda>kv. Suc (length (utf8 (quote (fst kv))) + jsize (snd kv))) d)"
    by (rule arg_cong[where f = sum_list], rule map_cong[OF refl]) (use 1 in auto)
  then show ?case by (simp add: utf8_join length_join comp_def case_prod_beta)
next
  case (2 xs)
  have "sum_list (map (\<lambda>x. length (utf8 (jtext x))) xs) = sum_list (map jsize xs)"
    by (rule arg_cong[where f = sum_list], rule map_cong[OF refl]) (use 2 in auto)
  then show ?case by (simp add: utf8_join length_join comp_def)
qed simp_all

lemma jsize_canon [simp]: "jsize (canon v) = jsize v"
proof (induction v rule: canon.induct)
  case (1 d)
  have "sum_list (map (\<lambda>kv. Suc (length (utf8 (quote (fst kv))) + jsize (canon (snd kv)))) (sort_items d))
      = sum_list (map (\<lambda>kv. Suc (length (utf8 (quote (fst kv))) + jsize (snd kv))) (sort_items d))"
    by (rule arg_cong[where f = sum_list], rule map_cong[OF refl]) (use 1 in auto)
  also have "\<dots> = sum_list (map (\<lambda>kv. Suc (length (utf8 (quote (fst kv))) + jsize (snd kv))) d)"
    by (rule sum_list_sort_items)
  finally show ?case by (simp add: comp_def case_prod_beta sort_items_def)
next
  case (2 xs)
  have "sum_list (map (\<lambda>x. jsize (canon x)) xs) = sum_list (map jsize xs)"
    by (rule arg_cong[where f = sum_list], rule map_cong[OF refl]) (use 2 in auto)
  then show ?case by (simp add: comp_def)
qed simp_all

lemma json_len_jsize: "J_domain v \<Longrightarrow> json_wf v \<Longrightarrow> json_len v = Inr (int (jsize v))"
  using scalar_jtext[of "canon v"]
  by (simp add: json_len_def dumps_sorted_domain utf8_encode_def jsize_jtext)

lemma compact_json_jsize: "J_domain v \<Longrightarrow> \<exists>b. compact_json v = Inr b \<and> length b = jsize v"
  by (simp add: compact_json_iff jsize_jtext)

end
