(* ===== verification/Tool_Schema.thy ===== *)
theory Tool_Schema
  imports Json_Decode
begin

text \<open>
  \<open>v24/host/tool_schema.py\<close>: the closed JSON Schema subset. \<open>check_schema\<close> threads the
  mutable \<open>_Metrics\<close> object through the recursion; \<open>validate_instance\<close> raises the first
  violation with its path and rule. A schema is a JSON value, \<open>_freeze\<close> a copy of it.
  \<open>assert_supported\<close> is proved to accept exactly the schemas of the structural predicate
  \<open>supported\<close> within the depth and node limits, and \<open>validate_instance\<close> to accept exactly
  the instances of the order-free predicate \<open>conforms\<close>.
\<close>

section \<open>Keywords and limits\<close>

definition ALLOWED_KEYWORDS :: "string list" where
  "ALLOWED_KEYWORDS =
     [''type'', ''properties'', ''required'', ''additionalProperties'', ''items'',
      ''minItems'', ''maxItems'', ''minLength'', ''maxLength'', ''minimum'', ''maximum'',
      ''enum'', ''description'']"

definition DENIED_KEYWORDS :: "string list" where
  "DENIED_KEYWORDS =
     [''$ref'', ''$defs'', ''definitions'', ''$schema'', ''$id'', ''oneOf'', ''anyOf'',
      ''allOf'', ''not'', ''if'', ''then'', ''else'', ''pattern'', ''format'', ''default'',
      ''const'', ''number'', ''patternProperties'', ''propertyNames'', ''uniqueItems'',
      ''minProperties'', ''maxProperties'', ''exclusiveMinimum'', ''exclusiveMaximum'',
      ''multipleOf'', ''contentEncoding'', ''readOnly'', ''writeOnly'', ''examples'']"

definition JSON_TYPES :: "pystr list" where
  "JSON_TYPES = map lit [''object'', ''array'', ''string'', ''integer'', ''boolean'', ''null'']"

definition TYPE_KEYWORDS :: "(string \<times> string) list" where
  "TYPE_KEYWORDS =
     [(''minItems'', ''array''), (''maxItems'', ''array''),
      (''minLength'', ''string''), (''maxLength'', ''string''),
      (''minimum'', ''integer''), (''maximum'', ''integer'')]"

definition MAX_DEPTH :: nat where "MAX_DEPTH = 16"
definition MAX_NODES :: nat where "MAX_NODES = 256"
definition MAX_PROPERTIES :: nat where "MAX_PROPERTIES = 128"
definition MAX_ENUM :: nat where "MAX_ENUM = 64"

definition unsupported :: "exn + 'a" where
  "unsupported = Inl (SchemaError ''unsupported_schema'')"

fun is_safe_integer :: "json \<Rightarrow> bool \<Rightarrow> bool" where
  "is_safe_integer (JInt i) nonnegative \<longleftrightarrow> \<bar>i\<bar> \<le> SAFE_INTEGER_MAX \<and> (\<not> nonnegative \<or> 0 \<le> i)"
| "is_safe_integer _ nonnegative \<longleftrightarrow> False"

text \<open>The declared types, \<open>None\<close> when the schema has no \<open>type\<close>.\<close>

fun type_list :: "json \<Rightarrow> exn + pystr list" where
  "type_list (JStr t) = (if t \<notin> set JSON_TYPES then unsupported else Inr [t])"
| "type_list (JArr ts) =
     (if \<not> (2 \<le> length ts \<and> length ts \<le> 4) then unsupported
      else if \<exists>t \<in> set ts. \<not> is_str t \<or> the_str t \<notin> set JSON_TYPES then unsupported
      else if \<not> distinct ts then unsupported
      else Inr (map the_str ts))"
| "type_list _ = unsupported"

definition declared_types :: "dict \<Rightarrow> exn + pystr list option" where
  "declared_types s =
     (if \<not> has s ''type'' then Inr None
      else andthen (type_list (dget s ''type'')) (\<lambda>ts. Inr (Some ts)))"

text \<open>\<open>declared is None or t in declared\<close>.\<close>

definition admits :: "pystr list option \<Rightarrow> string \<Rightarrow> bool" where
  "admits declared t = (case declared of None \<Rightarrow> True | Some ts \<Rightarrow> lit t \<in> set ts)"

definition declares :: "pystr list option \<Rightarrow> string \<Rightarrow> bool" where
  "declares declared t = (case declared of None \<Rightarrow> False | Some ts \<Rightarrow> lit t \<in> set ts)"

section \<open>The schema checker\<close>

record metrics =
  nodes :: nat
  depth :: nat
  max_properties :: nat
  max_enum :: nat

definition no_metrics :: metrics where
  "no_metrics = \<lparr>nodes = 0, depth = 0, max_properties = 0, max_enum = 0\<rparr>"

definition check_required :: "dict \<Rightarrow> exn + unit" where
  "check_required s =
     (if \<not> has s ''required'' then Inr ()
      else
        let required = dget s ''required'' in
        if \<not> is_list required then unsupported
        else if \<exists>n \<in> set (elems required). \<not> is_str n then unsupported
        else if \<not> distinct (elems required) then unsupported
        else if \<not> has s ''properties'' then unsupported
        else if \<exists>n \<in> set (elems required). the_str n \<notin> set (keys (items (dget s ''properties'')))
          then unsupported
        else Inr ())"

definition check_additional :: "dict \<Rightarrow> pystr list option \<Rightarrow> exn + unit" where
  "check_additional s declared =
     (if has s ''additionalProperties'' \<and>
         (\<not> is_bool (dget s ''additionalProperties'') \<or> \<not> admits declared ''object'')
      then unsupported
      else if (has s ''properties'' \<or> has s ''required'' \<or> declares declared ''object'') \<and>
         \<not> has s ''additionalProperties''
      then unsupported
      else Inr ())"

definition check_bound :: "dict \<Rightarrow> pystr list option \<Rightarrow> string \<times> string \<Rightarrow> exn + unit" where
  "check_bound s declared kw =
     (if \<not> has s (fst kw) then Inr ()
      else
        let nonnegative = fst kw \<notin> {''minimum'', ''maximum''} in
        if \<not> is_safe_integer (dget s (fst kw)) nonnegative then unsupported
        else if \<not> admits declared (snd kw) then unsupported
        else Inr ())"

definition check_enum :: "dict \<Rightarrow> metrics \<Rightarrow> exn + metrics" where
  "check_enum s m =
     (if \<not> has s ''enum'' then Inr m
      else
        let values = dget s ''enum''; n = length (elems values) in
        if \<not> is_list values \<or> \<not> (1 \<le> n \<and> n \<le> MAX_ENUM) then unsupported
        else
          case mapr compact_json (elems values) of
            Inl _ \<Rightarrow> unsupported
          | Inr encoded \<Rightarrow>
              if \<not> distinct encoded then Inl (SchemaError ''duplicate_enum'')
              else Inr (m\<lparr>max_enum := max (max_enum m) n\<rparr>))"

text \<open>The checks after the recursive calls, in the order of the source.\<close>

definition check_tail :: "dict \<Rightarrow> pystr list option \<Rightarrow> metrics \<Rightarrow> exn + metrics" where
  "check_tail s declared m =
     (if declares declared ''array'' \<and> \<not> has s ''items'' then unsupported
      else andthen (each (check_bound s declared) TYPE_KEYWORDS) (\<lambda>_. check_enum s m))"

text \<open>The children of a schema node: the values of \<open>properties\<close>, and \<open>items\<close>.\<close>

definition prop_list :: "dict \<Rightarrow> dict" where
  "prop_list s = (case map_of s (lit ''properties'') of None \<Rightarrow> [] | Some v \<Rightarrow> items v)"

definition item_list :: "dict \<Rightarrow> json list" where
  "item_list s = (case map_of s (lit ''items'') of None \<Rightarrow> [] | Some v \<Rightarrow> [v])"

definition enter_node :: "nat \<Rightarrow> metrics \<Rightarrow> exn + metrics" where
  "enter_node d m =
     (let m1 = m\<lparr>nodes := nodes m + 1, depth := max (depth m) d\<rparr> in
      if d > MAX_DEPTH \<or> nodes m1 > MAX_NODES then unsupported else Inr m1)"

definition check_properties :: "dict \<Rightarrow> pystr list option \<Rightarrow> metrics \<Rightarrow> exn + metrics" where
  "check_properties s declared m =
     (if \<not> has s ''properties'' then Inr m
      else if \<not> is_dict (dget s ''properties'') then unsupported
      else if length (prop_list s) > MAX_PROPERTIES then unsupported
      else if \<not> admits declared ''object'' then unsupported
      else Inr (m\<lparr>max_properties := max (max_properties m) (length (prop_list s))\<rparr>))"

definition check_items :: "dict \<Rightarrow> pystr list option \<Rightarrow> exn + unit" where
  "check_items s declared =
     (if \<not> has s ''items'' then Inr ()
      else if \<not> is_dict (dget s ''items'') then unsupported
      else if \<not> admits declared ''array'' then unsupported
      else Inr ())"

lemma prop_list_size: "(k, v) \<in> set (prop_list s) \<Longrightarrow> size v < size (JObj s)"
proof -
  assume "(k, v) \<in> set (prop_list s)"
  then obtain w where m: "map_of s (lit ''properties'') = Some w" "(k, v) \<in> set (items w)"
    by (cases "map_of s (lit ''properties'')") (auto simp: prop_list_def)
  from size_map_of[OF m(1)] size_in_items[OF m(2)] show ?thesis by simp
qed

lemma item_list_size: "v \<in> set (item_list s) \<Longrightarrow> size v < size (JObj s)"
  using size_map_of[of s "lit ''items''" v] by (auto simp: item_list_def split: option.splits)

function (sequential) check_schema :: "json \<Rightarrow> nat \<Rightarrow> metrics \<Rightarrow> exn + metrics" where
  "check_schema (JObj s) d m =
     (if \<not> keys_within s ALLOWED_KEYWORDS then unsupported
      else andthen (enter_node d m) (\<lambda>m1.
        andthen (declared_types s) (\<lambda>declared.
          if has s ''description'' \<and> \<not> is_str (dget s ''description'') then unsupported
          else
            andthen (check_properties s declared m1) (\<lambda>m2.
            andthen (sweep (\<lambda>kv. check_schema (snd kv) (d + 1)) (prop_list s) m2) (\<lambda>m3.
            andthen (check_required s) (\<lambda>_.
            andthen (check_additional s declared) (\<lambda>_.
            andthen (check_items s declared) (\<lambda>_.
            andthen (sweep (\<lambda>sub. check_schema sub (d + 1)) (item_list s) m3) (\<lambda>m4.
            check_tail s declared m4)))))))))"
| "check_schema _ d m = unsupported"
  by pat_completeness auto
termination
  by (relation "measure (\<lambda>(s, _, _). size s)") (auto dest: prop_list_size item_list_size)

definition assert_supported :: "json \<Rightarrow> string \<Rightarrow> exn + unit" where
  "assert_supported s kind =
     (if kind \<notin> {''parameters'', ''output_schema''} then Inl ValueError
      else if \<not> is_dict s then unsupported
      else andthen (check_schema s 1 no_metrics) (\<lambda>_.
        if kind = ''parameters'' \<and>
           (dget (items s) ''type'' \<noteq> jstr ''object'' \<or>
            dget (items s) ''additionalProperties'' \<noteq> JBool False)
        then unsupported
        else Inr ()))"

definition schema_metrics :: "json \<Rightarrow> exn + metrics" where
  "schema_metrics s = (if \<not> is_dict s then unsupported else check_schema s 1 no_metrics)"

section \<open>Instance validation\<close>

definition ascii_alpha :: "nat \<Rightarrow> bool" where
  "ascii_alpha c \<longleftrightarrow> 65 \<le> c \<and> c \<le> 90 \<or> 97 \<le> c \<and> c \<le> 122"

definition is_identifier :: "pystr \<Rightarrow> bool" where
  "is_identifier name \<longleftrightarrow> name \<noteq> [] \<and> (ascii_alpha (hd name) \<or> hd name = 95) \<and>
     (\<forall>c \<in> set name. ascii_alpha c \<or> is_digit c \<or> c = 95)"

definition path_of :: "pystr \<Rightarrow> pystr \<Rightarrow> exn + pystr" where
  "path_of parent name =
     (if is_identifier name then Inr (parent @ lit ''.'' @ name)
      else andthen (compact_encode (JStr name)) (\<lambda>t. Inr (parent @ lit ''['' @ t @ lit '']'')))"

definition matches :: "json \<Rightarrow> pystr \<Rightarrow> bool" where
  "matches v name =
     (if name = lit ''object'' then is_dict v
      else if name = lit ''array'' then is_list v
      else if name = lit ''string'' then is_str v
      else if name = lit ''integer'' then is_safe_integer v False
      else if name = lit ''boolean'' then is_bool v
      else v = JNull)"

text \<open>\<open>_sorted_keys\<close>, with the values: encoding a key with a surrogate raises.\<close>

definition sorted_entries :: "dict \<Rightarrow> exn + dict" where
  "sorted_entries d =
     (if \<exists>k \<in> set (keys d). \<not> scalar_str k then Inl UnicodeError else Inr (sort_items d))"

definition violation :: "pystr \<Rightarrow> pystr \<Rightarrow> string \<Rightarrow> exn + unit" where
  "violation path name rule = andthen (path_of path name) (\<lambda>p. Inl (InstanceError p rule))"

definition required_names :: "dict \<Rightarrow> pystr list" where
  "required_names s = map the_str (elems (dget_or s ''required'' (JArr [])))"

definition check_keys :: "dict \<Rightarrow> dict \<Rightarrow> pystr \<Rightarrow> exn + unit" where
  "check_keys s d path =
     andthen (each (\<lambda>n. if n \<notin> set (keys d) then violation path n ''required'' else Inr ())
               (required_names s))
       (\<lambda>_. if dget s ''additionalProperties'' \<noteq> JBool False then Inr ()
         else andthen (sorted_entries d)
           (each (\<lambda>kv. if fst kv \<notin> set (keys (prop_list s))
                       then violation path (fst kv) ''additional'' else Inr ())))"

text \<open>\<open>all(encoded != compact_json(item) ...)\<close> stops at the first equal item.\<close>

fun none_equal :: "bytes \<Rightarrow> json list \<Rightarrow> exn + bool" where
  "none_equal b [] = Inr True"
| "none_equal b (x # xs) =
     andthen (compact_json x) (\<lambda>c. if b = c then Inr False else none_equal b xs)"

definition check_member :: "dict \<Rightarrow> json \<Rightarrow> pystr \<Rightarrow> exn + unit" where
  "check_member s v path =
     (if \<not> has s ''enum'' then Inr ()
      else case andthen (compact_json v) (\<lambda>b. none_equal b (elems (dget s ''enum''))) of
             Inl _ \<Rightarrow> Inl (InstanceError path ''enum'')
           | Inr none \<Rightarrow> if none then Inl (InstanceError path ''enum'') else Inr ())"

definition at_least :: "dict \<Rightarrow> string \<Rightarrow> int \<Rightarrow> bool" where
  "at_least s k n \<longleftrightarrow> \<not> (has s k \<and> n < the_int (dget s k))"

definition at_most :: "dict \<Rightarrow> string \<Rightarrow> int \<Rightarrow> bool" where
  "at_most s k n \<longleftrightarrow> \<not> (has s k \<and> the_int (dget s k) < n)"

definition check_range :: "dict \<Rightarrow> pystr list option \<Rightarrow> json \<Rightarrow> pystr \<Rightarrow> exn + unit" where
  "check_range s declared v path =
     (case v of
        JStr t \<Rightarrow>
          if admits declared ''string''
          then steps [require (at_least s ''minLength'' (int (length t))) (InstanceError path ''min_length''),
                      require (at_most s ''maxLength'' (int (length t))) (InstanceError path ''max_length'')]
          else Inr ()
      | JInt i \<Rightarrow>
          if admits declared ''integer''
          then steps [require (at_least s ''minimum'' i) (InstanceError path ''minimum''),
                      require (at_most s ''maximum'' i) (InstanceError path ''maximum'')]
          else Inr ()
      | JArr xs \<Rightarrow>
          if admits declared ''array''
          then steps [require (at_least s ''minItems'' (int (length xs))) (InstanceError path ''min_items''),
                      require (at_most s ''maxItems'' (int (length xs))) (InstanceError path ''max_items'')]
          else Inr ()
      | _ \<Rightarrow> Inr ())"

text \<open>
  A schema that passed \<open>assert_supported\<close> is an object at every node; for other values
  Python raises where the source first treats the schema as a dict.
\<close>

function (sequential) validate_instance :: "json \<Rightarrow> json \<Rightarrow> pystr \<Rightarrow> exn + unit" where
  "validate_instance (JObj s) v path =
     andthen (declared_types s) (\<lambda>declared.
       if (case declared of None \<Rightarrow> False | Some ts \<Rightarrow> \<not> list_ex (matches v) ts)
       then Inl (InstanceError path ''type'')
       else
         andthen (if is_dict v \<and> admits declared ''object'' then check_keys s (items v) path else Inr ()) (\<lambda>_.
         andthen (check_member s v path) (\<lambda>_.
         andthen (check_range s declared v path) (\<lambda>_.
         andthen
           (if is_dict v \<and> admits declared ''object''
            then andthen (sorted_entries (items v)) (\<lambda>entries.
                   each (\<lambda>kv. case map_of (prop_list s) (fst kv) of
                                None \<Rightarrow> Inr ()
                              | Some sub \<Rightarrow> andthen (path_of path (fst kv)) (\<lambda>p.
                                    validate_instance sub (snd kv) p)) entries)
            else Inr ()) (\<lambda>_.
         if is_list v \<and> admits declared ''array'' \<and> has s ''items''
         then each (\<lambda>ix. validate_instance (dget s ''items'') (snd ix)
                       (path @ lit ''['' @ dec (fst ix) @ lit '']'')) (enumerate 0 (elems v))
         else Inr ())))))"
| "validate_instance s v path = Inl TypeError"
  by pat_completeness auto
termination
  by (relation "measure (\<lambda>(_, v, _). size v)")
     (auto simp: sorted_entries_def size_in_items size_in_elems in_set_enumerate_eq split: if_splits)

definition compile_schema :: "json \<Rightarrow> string \<Rightarrow> exn + (json \<Rightarrow> exn + unit)" where
  "compile_schema s kind =
     andthen (assert_supported s kind) (\<lambda>_. Inr (\<lambda>v. validate_instance s v (lit ''$'')))"

definition validate :: "json \<Rightarrow> json \<Rightarrow> exn + unit" where
  "validate s v = andthen (compile_schema s ''output_schema'') (\<lambda>check. check v)"

section \<open>What the checker accepts\<close>

text \<open>The same contract stated per node, without order, errors or counters.\<close>

fun types_of :: "json \<Rightarrow> pystr list" where
  "types_of (JStr t) = [t]"
| "types_of v = map the_str (elems v)"

definition declared_of :: "dict \<Rightarrow> pystr list option" where
  "declared_of s = (if has s ''type'' then Some (types_of (dget s ''type'')) else None)"

definition type_ok :: "json \<Rightarrow> bool" where
  "type_ok t \<longleftrightarrow> set (types_of t) \<subseteq> set JSON_TYPES \<and> distinct (types_of t) \<and>
     (is_str t \<or> is_list t \<and> list_all is_str (elems t) \<and>
        2 \<le> length (elems t) \<and> length (elems t) \<le> 4)"

definition enum_ok :: "json \<Rightarrow> bool" where
  "enum_ok v \<longleftrightarrow> is_list v \<and> 1 \<le> length (elems v) \<and> length (elems v) \<le> MAX_ENUM \<and>
     list_all J_domain (elems v) \<and> distinct (map (\<lambda>x. utf8 (jtext (canon x))) (elems v))"

definition required_ok :: "dict \<Rightarrow> bool" where
  "required_ok s \<longleftrightarrow>
     (let r = dget s ''required'' in
      is_list r \<and> list_all is_str (elems r) \<and> distinct (elems r) \<and> has s ''properties'' \<and>
      set (map the_str (elems r)) \<subseteq> set (keys (items (dget s ''properties''))))"

definition node_ok :: "dict \<Rightarrow> bool" where
  "node_ok s \<longleftrightarrow>
     (let ts = declared_of s in
      keys_within s ALLOWED_KEYWORDS \<and>
      (has s ''type'' \<longrightarrow> type_ok (dget s ''type'')) \<and>
      (has s ''description'' \<longrightarrow> is_str (dget s ''description'')) \<and>
      (has s ''properties'' \<longrightarrow> is_dict (dget s ''properties'') \<and>
         length (prop_list s) \<le> MAX_PROPERTIES \<and> admits ts ''object'') \<and>
      (has s ''required'' \<longrightarrow> required_ok s) \<and>
      (has s ''additionalProperties'' \<longrightarrow>
         is_bool (dget s ''additionalProperties'') \<and> admits ts ''object'') \<and>
      (has s ''properties'' \<or> has s ''required'' \<or> declares ts ''object'' \<longrightarrow>
         has s ''additionalProperties'') \<and>
      (has s ''items'' \<longrightarrow> is_dict (dget s ''items'') \<and> admits ts ''array'') \<and>
      (declares ts ''array'' \<longrightarrow> has s ''items'') \<and>
      list_all (\<lambda>(k, t). has s k \<longrightarrow>
         is_safe_integer (dget s k) (k \<notin> {''minimum'', ''maximum''}) \<and> admits ts t) TYPE_KEYWORDS \<and>
      (has s ''enum'' \<longrightarrow> enum_ok (dget s ''enum'')))"

definition children :: "dict \<Rightarrow> json list" where
  "children s = map snd (prop_list s) @ item_list s"

lemma children_size: "c \<in> set (children s) \<Longrightarrow> size c < size (JObj s)"
  by (auto simp: children_def simp del: json.size dest: prop_list_size item_list_size)

function (sequential) supported :: "json \<Rightarrow> bool" where
  "supported (JObj s) \<longleftrightarrow> node_ok s \<and> list_all supported (children s)"
| "supported v \<longleftrightarrow> False"
  by pat_completeness auto
termination
  by (relation "measure size") (auto simp del: json.size dest: children_size)

text \<open>The measures of a schema, bottom-up.\<close>

definition widest :: "nat list \<Rightarrow> nat" where
  "widest ns = foldr max ns 0"

function (sequential) shape :: "json \<Rightarrow> metrics" where
  "shape (JObj s) =
     (let ks = map shape (children s) in
      \<lparr>nodes = 1 + sum_list (map nodes ks),
       depth = 1 + widest (map depth ks),
       max_properties = max (length (prop_list s)) (widest (map max_properties ks)),
       max_enum = max (length (elems (dget s ''enum''))) (widest (map max_enum ks))\<rparr>)"
| "shape v = no_metrics"
  by pat_completeness auto
termination
  by (relation "measure size") (auto simp del: json.size dest: children_size)

text \<open>A counter object after a visit at depth \<open>d + 1\<close> of the schema whose shape is \<open>k\<close>.\<close>

definition absorb :: "nat \<Rightarrow> metrics \<Rightarrow> metrics \<Rightarrow> metrics" where
  "absorb d m k =
     \<lparr>nodes = nodes m + nodes k, depth = max (depth m) (d + depth k),
      max_properties = max (max_properties m) (max_properties k),
      max_enum = max (max_enum m) (max_enum k)\<rparr>"

definition absorb_all :: "nat \<Rightarrow> metrics \<Rightarrow> metrics list \<Rightarrow> metrics" where
  "absorb_all d m ks = foldl (absorb d) m ks"

lemma widest_simps [simp]: "widest [] = 0" "widest (x # xs) = max x (widest xs)"
  by (simp_all add: widest_def)

lemma absorb_all_simps [simp]:
  "absorb_all d m [] = m" "absorb_all d m (k # ks) = absorb_all d (absorb d m k) ks"
  by (simp_all add: absorb_all_def)

lemma nodes_absorb [simp]: "nodes (absorb d m k) = nodes m + nodes k"
  by (simp add: absorb_def)

lemma absorb_all_eq:
  "d \<le> depth m \<Longrightarrow> absorb_all d m ks =
     \<lparr>nodes = nodes m + sum_list (map nodes ks),
      depth = max (depth m) (d + widest (map depth ks)),
      max_properties = max (max_properties m) (widest (map max_properties ks)),
      max_enum = max (max_enum m) (widest (map max_enum ks))\<rparr>"
proof (induction ks arbitrary: m)
  case (Cons k ks)
  then have "d \<le> depth (absorb d m k)" by (simp add: absorb_def)
  from Cons.IH[OF this] show ?case by (simp add: absorb_def max.assoc add.assoc nat_add_max_right)
qed simp

lemma schema_nodes_pos: "supported v \<Longrightarrow> 0 < nodes (shape v) \<and> 0 < depth (shape v)"
  by (cases v) (auto simp: Let_def)

lemma sweep_shape:
  assumes f: "\<And>x m m'. x \<in> set xs \<Longrightarrow> f x m = Inr m' \<longleftrightarrow>
      supported x \<and> d + depth (shape x) \<le> MAX_DEPTH \<and> nodes m + nodes (shape x) \<le> MAX_NODES \<and>
      m' = absorb d m (shape x)"
    and "nodes m \<le> MAX_NODES"
  shows "sweep f xs m = Inr m' \<longleftrightarrow>
      list_all supported xs \<and> (\<forall>x \<in> set xs. d + depth (shape x) \<le> MAX_DEPTH) \<and>
      nodes m + sum_list (map (nodes \<circ> shape) xs) \<le> MAX_NODES \<and> m' = absorb_all d m (map shape xs)"
  using assms
proof (induction xs arbitrary: m)
  case (Cons x xs)
  show ?case
  proof (cases "f x m")
    case (Inl e)
    then have "\<not> (supported x \<and> d + depth (shape x) \<le> MAX_DEPTH \<and> nodes m + nodes (shape x) \<le> MAX_NODES)"
      using Cons.prems(1)[of x m "absorb d m (shape x)"] by auto
    with Inl show ?thesis by auto
  next
    case (Inr m1)
    then have x: "supported x" "d + depth (shape x) \<le> MAX_DEPTH" "nodes m + nodes (shape x) \<le> MAX_NODES"
      "m1 = absorb d m (shape x)" using Cons.prems(1)[of x m m1] by auto
    have "sweep f xs m1 = Inr m' \<longleftrightarrow>
      list_all supported xs \<and> (\<forall>x \<in> set xs. d + depth (shape x) \<le> MAX_DEPTH) \<and>
      nodes m1 + sum_list (map (nodes \<circ> shape) xs) \<le> MAX_NODES \<and> m' = absorb_all d m1 (map shape xs)"
      by (rule Cons.IH) (use Cons.prems x in auto)
    with Inr x show ?thesis by (auto simp add: add.assoc comp_def)
  qed
qed auto

lemma sweep_map: "sweep (\<lambda>kv. f (snd kv)) ps m = sweep f (map snd ps) m"
  by (induction ps arbitrary: m) (auto split: sum.splits)

lemma widest_append: "widest (xs @ ys) = max (widest xs) (widest ys)"
  by (induction xs) (auto simp: max.assoc)

lemma widest_le: "widest ns \<le> n \<longleftrightarrow> (\<forall>x \<in> set ns. x \<le> n)"
  by (induction ns) auto

lemma unsupported_Inr [simp]: "unsupported \<noteq> Inr x"
  by (simp add: unsupported_def)

lemma dget_absent [simp]: "\<not> has s k \<Longrightarrow> dget s k = JNull"
  by (simp add: dget_def)

lemma map_of_has: "map_of s (lit k) = (if has s k then Some (dget s k) else None)"
  by (cases "map_of s (lit k)")
     (force simp: has_def keys_def dget_def dget_or_def map_of_eq_None_iff dest: map_of_SomeD)+

lemma prop_list_dget: "prop_list s = items (dget s ''properties'')"
  by (auto simp: prop_list_def map_of_has)

lemma item_list_dget: "item_list s = (if has s ''items'' then [dget s ''items''] else [])"
  by (auto simp: item_list_def map_of_has)

lemma inj_the_str: "list_all is_str ts \<Longrightarrow> distinct (map the_str ts) = distinct ts"
proof -
  assume "list_all is_str ts"
  then have "inj_on the_str (set ts)"
    by (intro inj_onI) (metis is_str.elims(2) list_all_iff the_str.simps(1))
  then show ?thesis by (simp add: distinct_map)
qed

lemma type_list_Inr: "type_list t = Inr ts \<longleftrightarrow> type_ok t \<and> ts = types_of t"
  using inj_the_str[of "elems t"]
  by (cases t) (auto simp: type_ok_def list_all_iff image_subset_iff list_ex_iff)

lemma declared_types_Inr:
  "declared_types s = Inr ts \<longleftrightarrow> (has s ''type'' \<longrightarrow> type_ok (dget s ''type'')) \<and> ts = declared_of s"
  by (auto simp: declared_types_def declared_of_def andthen_Inr type_list_Inr)

lemma enter_node_Inr:
  "enter_node d m = Inr m1 \<longleftrightarrow> d \<le> MAX_DEPTH \<and> nodes m + 1 \<le> MAX_NODES \<and>
     m1 = m\<lparr>nodes := nodes m + 1, depth := max (depth m) d\<rparr>"
  by (auto simp: enter_node_def Let_def)

lemma check_properties_Inr:
  "check_properties s ts m = Inr m' \<longleftrightarrow>
     (has s ''properties'' \<longrightarrow> is_dict (dget s ''properties'') \<and>
        length (prop_list s) \<le> MAX_PROPERTIES \<and> admits ts ''object'') \<and>
     m' = m\<lparr>max_properties := max (max_properties m) (length (prop_list s))\<rparr>"
  by (auto simp: check_properties_def prop_list_dget)

lemma check_required_Inr:
  "check_required s = Inr u \<longleftrightarrow> (has s ''required'' \<longrightarrow> required_ok s)"
  by (auto simp: check_required_def required_ok_def Let_def list_all_iff image_subset_iff)

lemma check_additional_Inr:
  "check_additional s ts = Inr u \<longleftrightarrow>
     (has s ''additionalProperties'' \<longrightarrow>
        is_bool (dget s ''additionalProperties'') \<and> admits ts ''object'') \<and>
     (has s ''properties'' \<or> has s ''required'' \<or> declares ts ''object'' \<longrightarrow>
        has s ''additionalProperties'')"
  by (auto simp: check_additional_def)

lemma check_items_Inr:
  "check_items s ts = Inr u \<longleftrightarrow>
     (has s ''items'' \<longrightarrow> is_dict (dget s ''items'') \<and> admits ts ''array'')"
  by (auto simp: check_items_def)

lemma check_bound_Inr:
  "check_bound s ts kt = Inr u \<longleftrightarrow> (has s (fst kt) \<longrightarrow>
     is_safe_integer (dget s (fst kt)) (fst kt \<notin> {''minimum'', ''maximum''}) \<and> admits ts (snd kt))"
  by (auto simp: check_bound_def Let_def)

lemma mapr_compact_json:
  "mapr compact_json xs = Inr bs \<longleftrightarrow>
     list_all J_domain xs \<and> bs = map (\<lambda>x. utf8 (jtext (canon x))) xs"
  by (auto simp: mapr_Inr_iff list_all2_conv_all_nth compact_json_iff list_all_length
      intro!: nth_equalityI)

lemma check_enum_Inr:
  "check_enum s m = Inr m' \<longleftrightarrow> (has s ''enum'' \<longrightarrow> enum_ok (dget s ''enum'')) \<and>
     m' = m\<lparr>max_enum := max (max_enum m) (length (elems (dget s ''enum'')))\<rparr>"
proof (cases "mapr compact_json (elems (dget s ''enum''))")
  case (Inl e)
  then have "\<not> list_all J_domain (elems (dget s ''enum''))"
    using mapr_compact_json by (metis sum.distinct(1))
  with Inl show ?thesis by (auto simp: check_enum_def enum_ok_def Let_def)
next
  case (Inr bs)
  then show ?thesis
    using mapr_compact_json[of "elems (dget s ''enum'')" bs]
    by (auto simp: check_enum_def enum_ok_def Let_def)
qed

lemmas check_Inr = check_properties_Inr check_required_Inr check_additional_Inr check_items_Inr
  check_bound_Inr check_enum_Inr declared_types_Inr enter_node_Inr

lemma schema_depth_children:
  "d + depth (shape (JObj s)) \<le> n \<longleftrightarrow>
     Suc d \<le> n \<and> (\<forall>x \<in> set (children s). Suc d + depth (shape x) \<le> n)"
proof -
  have "widest (map depth (map shape (children s))) \<le> n - Suc d \<longleftrightarrow>
      (\<forall>x \<in> set (children s). depth (shape x) \<le> n - Suc d)"
    by (simp add: widest_le)
  then show ?thesis by (auto simp: Let_def)
qed

text \<open>The node checks, separated from the counters they carry along.\<close>

definition node_metrics :: "dict \<Rightarrow> nat \<Rightarrow> metrics \<Rightarrow> metrics" where
  "node_metrics s d m =
     m\<lparr>nodes := nodes m + 1, depth := max (depth m) (Suc d),
       max_properties := max (max_properties m) (length (prop_list s))\<rparr>"

definition tail_ok :: "dict \<Rightarrow> bool" where
  "tail_ok s \<longleftrightarrow> (let ts = declared_of s in
     (declares ts ''array'' \<longrightarrow> has s ''items'') \<and>
     list_all (\<lambda>(k, t). has s k \<longrightarrow>
       is_safe_integer (dget s k) (k \<notin> {''minimum'', ''maximum''}) \<and> admits ts t) TYPE_KEYWORDS \<and>
     (has s ''enum'' \<longrightarrow> enum_ok (dget s ''enum'')))"

lemma check_tail_Inr:
  "check_tail s (declared_of s) m = Inr m' \<longleftrightarrow> tail_ok s \<and>
     m' = m\<lparr>max_enum := max (max_enum m) (length (elems (dget s ''enum'')))\<rparr>"
  by (auto simp: check_tail_def tail_ok_def Let_def andthen_Inr each_Inr check_bound_Inr
      check_enum_Inr list_all_iff case_prod_beta)

lemma node_ok_checks:
  "node_ok s \<longleftrightarrow>
     keys_within s ALLOWED_KEYWORDS \<and>
     (has s ''type'' \<longrightarrow> type_ok (dget s ''type'')) \<and>
     (has s ''description'' \<longrightarrow> is_str (dget s ''description'')) \<and>
     (has s ''properties'' \<longrightarrow> is_dict (dget s ''properties'') \<and>
        length (prop_list s) \<le> MAX_PROPERTIES \<and> admits (declared_of s) ''object'') \<and>
     (has s ''required'' \<longrightarrow> required_ok s) \<and>
     check_additional s (declared_of s) = Inr () \<and> check_items s (declared_of s) = Inr () \<and> tail_ok s"
  unfolding node_ok_def tail_ok_def Let_def check_additional_Inr check_items_Inr by (simp only: conj_assoc)

lemma check_schema_node:
  "check_schema (JObj s) (Suc d) m = Inr m' \<longleftrightarrow>
     node_ok s \<and> Suc d \<le> MAX_DEPTH \<and> nodes m + 1 \<le> MAX_NODES \<and>
     (\<exists>m3. sweep (\<lambda>v. check_schema v (Suc (Suc d))) (map snd (prop_list s)) (node_metrics s d m) = Inr m3 \<and>
     (\<exists>m4. sweep (\<lambda>v. check_schema v (Suc (Suc d))) (item_list s) m3 = Inr m4 \<and>
        m' = m4\<lparr>max_enum := max (max_enum m4) (length (elems (dget s ''enum'')))\<rparr>))"
proof -
  have "(check_schema (JObj s) (Suc d) m = Inr m') \<longleftrightarrow>
    keys_within s ALLOWED_KEYWORDS \<and> Suc d \<le> MAX_DEPTH \<and> nodes m + 1 \<le> MAX_NODES \<and>
    (has s ''type'' \<longrightarrow> type_ok (dget s ''type'')) \<and>
    (has s ''description'' \<longrightarrow> is_str (dget s ''description'')) \<and>
    (has s ''properties'' \<longrightarrow> is_dict (dget s ''properties'') \<and>
        length (prop_list s) \<le> MAX_PROPERTIES \<and> admits (declared_of s) ''object'') \<and>
    (\<exists>m3. sweep (\<lambda>v. check_schema v (Suc (Suc d))) (map snd (prop_list s)) (node_metrics s d m) = Inr m3 \<and>
      (has s ''required'' \<longrightarrow> required_ok s) \<and>
      check_additional s (declared_of s) = Inr () \<and>
      check_items s (declared_of s) = Inr () \<and>
     (\<exists>m4. sweep (\<lambda>v. check_schema v (Suc (Suc d))) (item_list s) m3 = Inr m4 \<and>
        check_tail s (declared_of s) m4 = Inr m'))"
    by (auto simp: andthen_Inr declared_types_Inr enter_node_Inr check_properties_Inr
        check_required_Inr node_metrics_def
        sweep_map[of "\<lambda>v. check_schema v (Suc (Suc d))", symmetric])
  also have "\<dots> \<longleftrightarrow> node_ok s \<and> Suc d \<le> MAX_DEPTH \<and> nodes m + 1 \<le> MAX_NODES \<and>
     (\<exists>m3. sweep (\<lambda>v. check_schema v (Suc (Suc d))) (map snd (prop_list s)) (node_metrics s d m) = Inr m3 \<and>
     (\<exists>m4. sweep (\<lambda>v. check_schema v (Suc (Suc d))) (item_list s) m3 = Inr m4 \<and>
        m' = m4\<lparr>max_enum := max (max_enum m4) (length (elems (dget s ''enum'')))\<rparr>))"
    unfolding node_ok_checks check_tail_Inr
    by (intro iffI; elim exE conjE; intro conjI exI; assumption)
  finally show ?thesis .
qed

lemma check_schema_spec:
  "check_schema v (Suc d) m = Inr m' \<longleftrightarrow>
     supported v \<and> d + depth (shape v) \<le> MAX_DEPTH \<and> nodes m + nodes (shape v) \<le> MAX_NODES \<and>
     m' = absorb d m (shape v)"
proof (induction v arbitrary: d m m' rule: measure_induct_rule[where f = size])
  case (less v)
  show ?case
  proof (cases v)
    case [simp]: (JObj s)
    have IH: "check_schema x (Suc (Suc d)) m = Inr m' \<longleftrightarrow>
      supported x \<and> Suc d + depth (shape x) \<le> MAX_DEPTH \<and> nodes m + nodes (shape x) \<le> MAX_NODES \<and>
      m' = absorb (Suc d) m (shape x)" if "x \<in> set (children s)" for x m m'
      using less[of x "Suc d" m m'] children_size[OF that] by simp
    define ps its where "ps = map snd (prop_list s)" and "its = item_list s"
    have ch: "children s = ps @ its" by (simp add: children_def ps_def its_def)
    note sw = sweep_shape[where d = "Suc d" and f = "\<lambda>v. check_schema v (Suc (Suc d))", OF IH]
    have sp: "sweep (\<lambda>v. check_schema v (Suc (Suc d))) ps m1 = Inr m2 \<longleftrightarrow>
      list_all supported ps \<and> (\<forall>x \<in> set ps. Suc d + depth (shape x) \<le> MAX_DEPTH) \<and>
      nodes m1 + sum_list (map (nodes \<circ> shape) ps) \<le> MAX_NODES \<and>
      m2 = absorb_all (Suc d) m1 (map shape ps)" if "nodes m1 \<le> MAX_NODES" for m1 m2
      using that by (intro sw) (simp_all add: ch)
    have si: "sweep (\<lambda>v. check_schema v (Suc (Suc d))) its m1 = Inr m2 \<longleftrightarrow>
      list_all supported its \<and> (\<forall>x \<in> set its. Suc d + depth (shape x) \<le> MAX_DEPTH) \<and>
      nodes m1 + sum_list (map (nodes \<circ> shape) its) \<le> MAX_NODES \<and>
      m2 = absorb_all (Suc d) m1 (map shape its)" if "nodes m1 \<le> MAX_NODES" for m1 m2
      using that by (intro sw) (simp_all add: ch)
    let ?m1 = "node_metrics s d m"
    have d1: "Suc d \<le> depth ?m1" by (simp add: node_metrics_def)
    let ?m2 = "absorb_all (Suc d) ?m1 (map shape ps)"
    let ?m3 = "absorb_all (Suc d) ?m2 (map shape its)"
    have n2: "nodes ?m2 = nodes m + 1 + sum_list (map (nodes \<circ> shape) ps)"
      unfolding absorb_all_eq[OF d1] by (simp add: node_metrics_def comp_def)
    have d2: "Suc d \<le> depth ?m2"
      unfolding absorb_all_eq[OF d1] by (simp add: node_metrics_def)
    have fin: "?m3\<lparr>max_enum := max (max_enum ?m3) (length (elems (dget s ''enum'')))\<rparr> = absorb d m (shape v)"
      unfolding absorb_all_eq[OF d2] unfolding absorb_all_eq[OF d1]
      by (simp add: node_metrics_def absorb_def Let_def ch comp_def max.assoc max.left_commute max.commute
          nat_add_max_right widest_append)
    have n1: "nodes ?m1 = nodes m + 1" by (simp add: node_metrics_def)
    have dep: "d + depth (shape v) \<le> MAX_DEPTH \<longleftrightarrow>
      Suc d \<le> MAX_DEPTH \<and> (\<forall>x \<in> set ps. Suc d + depth (shape x) \<le> MAX_DEPTH) \<and>
      (\<forall>x \<in> set its. Suc d + depth (shape x) \<le> MAX_DEPTH)"
      using schema_depth_children[of d s MAX_DEPTH] by (simp only: JObj ch set_append ball_Un)
    have cnt: "nodes m + nodes (shape v) = nodes ?m2 + sum_list (map (nodes \<circ> shape) its)"
      by (simp add: Let_def ch n2 comp_def)
    have sup: "supported v \<longleftrightarrow> node_ok s \<and> list_all supported ps \<and> list_all supported its"
      by (simp add: ch)
    note node = check_schema_node[of s d m m', folded ps_def its_def]
    consider "\<not> (node_ok s \<and> Suc d \<le> MAX_DEPTH)" | "\<not> nodes ?m1 \<le> MAX_NODES"
      | "nodes ?m1 \<le> MAX_NODES" "\<not> nodes ?m2 \<le> MAX_NODES"
      | "node_ok s" "Suc d \<le> MAX_DEPTH" "nodes ?m1 \<le> MAX_NODES" "nodes ?m2 \<le> MAX_NODES" by blast
    then show ?thesis
    proof cases
      case 1
      then show ?thesis unfolding JObj node using dep sup JObj by blast
    next
      case 2
      with n1 n2 cnt have "\<not> nodes m + 1 \<le> MAX_NODES" "\<not> nodes m + nodes (shape v) \<le> MAX_NODES" by linarith+
      then show ?thesis unfolding JObj node by simp
    next
      case 3
      from 3(2) cnt have "\<not> nodes m + nodes (shape v) \<le> MAX_NODES" by linarith
      moreover have "sweep (\<lambda>v. check_schema v (Suc (Suc d))) ps ?m1 \<noteq> Inr m2" for m2
        using sp[OF 3(1)] 3(2) n1 n2 by simp
      ultimately show ?thesis unfolding JObj node by simp
    next
      case 4
      have "nodes ?m1 + sum_list (map (nodes \<circ> shape) ps) \<le> MAX_NODES" using 4(4) n1 n2 by simp
      then show ?thesis
        unfolding JObj node dep[unfolded JObj] cnt[unfolded JObj] sup[unfolded JObj] fin[unfolded JObj, symmetric]
        using 4 n1 by (auto simp only: sp[OF 4(3)] si[OF 4(4)] simp_thms ex_simps conj_assoc)
    qed
  qed (auto simp: absorb_def)
qed

lemma absorb_none: "absorb 0 no_metrics k = k"
  by (simp add: absorb_def no_metrics_def)

definition root_ok :: "string \<Rightarrow> json \<Rightarrow> bool" where
  "root_ok kind s \<longleftrightarrow> kind = ''output_schema'' \<or>
     kind = ''parameters'' \<and> dget (items s) ''type'' = jstr ''object'' \<and>
       dget (items s) ''additionalProperties'' = JBool False"

definition within_limits :: "json \<Rightarrow> bool" where
  "within_limits s \<longleftrightarrow> supported s \<and> depth (shape s) \<le> MAX_DEPTH \<and> nodes (shape s) \<le> MAX_NODES"

lemma supported_dict: "supported s \<Longrightarrow> is_dict s"
  by (cases s) auto

lemma check_root: "check_schema s (Suc 0) no_metrics = Inr m \<longleftrightarrow> within_limits s \<and> m = shape s"
  using check_schema_spec[of s 0 no_metrics m] absorb_none
  by (auto simp: within_limits_def no_metrics_def)

lemma assert_supported_spec: "assert_supported s kind = Inr u \<longleftrightarrow> within_limits s \<and> root_ok kind s"
  using supported_dict[of s]
  by (auto simp: assert_supported_def andthen_Inr check_root root_ok_def within_limits_def)

lemma schema_metrics_spec: "schema_metrics s = Inr m \<longleftrightarrow> within_limits s \<and> m = shape s"
  using supported_dict[of s] by (auto simp: schema_metrics_def check_root within_limits_def)

lemma shape_bounds:
  "supported v \<Longrightarrow> max_properties (shape v) \<le> MAX_PROPERTIES \<and> max_enum (shape v) \<le> MAX_ENUM"
proof (induction v rule: supported.induct)
  case (1 s)
  have "length (prop_list s) \<le> MAX_PROPERTIES"
    using 1 by (cases "has s ''properties''") (auto simp: node_ok_def Let_def prop_list_dget)
  moreover have "length (elems (dget s ''enum'')) \<le> MAX_ENUM"
    using 1 by (cases "has s ''enum''") (auto simp: node_ok_def Let_def enum_ok_def)
  ultimately show ?case using 1 by (auto simp: Let_def widest_le list_all_iff)
qed auto

text \<open>Every failure is one of the two reasons of \<open>SchemaError\<close>.\<close>

definition schema_failure :: "exn \<Rightarrow> bool" where
  "schema_failure e \<longleftrightarrow> e = SchemaError ''unsupported_schema'' \<or> e = SchemaError ''duplicate_enum''"

lemma unsupported_Inl [simp]: "unsupported = Inl e \<longleftrightarrow> e = SchemaError ''unsupported_schema''"
  by (auto simp: unsupported_def)

lemma sweep_Inl: "sweep f xs s = Inl e \<Longrightarrow> \<exists>x \<in> set xs. \<exists>u. f x u = Inl e"
  by (induction xs arbitrary: s) (auto split: sum.splits)

lemma type_list_Inl: "type_list t = Inl e \<Longrightarrow> schema_failure e"
  by (cases t) (auto simp: schema_failure_def split: if_splits)

lemma node_Inl:
  "declared_types s = Inl e \<Longrightarrow> schema_failure e"
  "enter_node d m = Inl e \<Longrightarrow> schema_failure e"
  "check_properties s ts m = Inl e \<Longrightarrow> schema_failure e"
  "check_required s = Inl e \<Longrightarrow> schema_failure e"
  "check_additional s ts = Inl e \<Longrightarrow> schema_failure e"
  "check_items s ts = Inl e \<Longrightarrow> schema_failure e"
  "check_bound s ts kt = Inl e \<Longrightarrow> schema_failure e"
  "check_enum s m = Inl e \<Longrightarrow> schema_failure e"
  by (auto simp: declared_types_def enter_node_def check_properties_def check_required_def
      check_additional_def check_items_def check_bound_def check_enum_def Let_def andthen_Inl
      schema_failure_def dest: type_list_Inl[unfolded schema_failure_def]
      split: if_splits sum.splits)

lemma check_tail_Inl: "check_tail s ts m = Inl e \<Longrightarrow> schema_failure e"
  by (auto simp: check_tail_def andthen_Inl schema_failure_def split: if_splits
      dest!: each_Inl node_Inl[unfolded schema_failure_def])

lemma check_schema_Inl: "check_schema v d m = Inl e \<Longrightarrow> schema_failure e"
proof (induction v arbitrary: d m rule: measure_induct_rule[where f = size])
  case (less v)
  show ?case
  proof (cases v)
    case [simp]: (JObj s)
    have sub: "schema_failure e" if "sweep (\<lambda>v. check_schema v (Suc d)) xs m1 = Inl e"
      "set xs \<subseteq> set (children s)" for xs m1
      using sweep_Inl[OF that(1)] that(2) less.IH children_size by fastforce
    have ps: "sweep (\<lambda>kv. check_schema (snd kv) (Suc d)) (prop_list s) m1 = Inl e \<Longrightarrow> schema_failure e" for m1
      by (rule sub[of "map snd (prop_list s)"]) (auto simp: sweep_map[symmetric] children_def)
    have its: "sweep (\<lambda>v. check_schema v (Suc d)) (item_list s) m1 = Inl e \<Longrightarrow> schema_failure e" for m1
      by (rule sub) (auto simp: children_def)
    from less.prems show ?thesis
      unfolding JObj check_schema.simps andthen_Inl
      by (auto simp: schema_failure_def andthen_Inl split: if_splits
            dest: ps[unfolded schema_failure_def] its[unfolded schema_failure_def]
              node_Inl[unfolded schema_failure_def] check_tail_Inl[unfolded schema_failure_def])
  qed (use less.prems in \<open>auto simp: schema_failure_def\<close>)
qed

end
