(* ===== verification/Schema_Validation.thy ===== *)
theory Schema_Validation
  imports Tool_Schema
begin

text \<open>
  What the instance validator of \<open>Tool_Schema\<close> decides: \<open>conforms\<close> is the contract without
  order and without paths. The validator accepts exactly the conforming values; on values
  in the domain of \<open>J\<close> it raises only \<open>InstanceError\<close> with one of ten rules at a path below
  the root; and the order of the instance's keys does not change the verdict, the path or
  the rule, which is what lets two hosts agree on the first error.
\<close>

section \<open>Conformance\<close>

definition keys_ok :: "dict \<Rightarrow> dict \<Rightarrow> bool" where
  "keys_ok s d \<longleftrightarrow> set (required_names s) \<subseteq> set (keys d) \<and>
     (dget s ''additionalProperties'' = JBool False \<longrightarrow> set (keys d) \<subseteq> set (keys (prop_list s)))"

definition range_ok :: "dict \<Rightarrow> pystr list option \<Rightarrow> json \<Rightarrow> bool" where
  "range_ok s ts v =
     (case v of
        JStr t \<Rightarrow> admits ts ''string'' \<longrightarrow>
          at_least s ''minLength'' (int (length t)) \<and> at_most s ''maxLength'' (int (length t))
      | JInt i \<Rightarrow> admits ts ''integer'' \<longrightarrow> at_least s ''minimum'' i \<and> at_most s ''maximum'' i
      | JArr xs \<Rightarrow> admits ts ''array'' \<longrightarrow>
          at_least s ''minItems'' (int (length xs)) \<and> at_most s ''maxItems'' (int (length xs))
      | _ \<Rightarrow> True)"

definition typed_ok :: "dict \<Rightarrow> json \<Rightarrow> bool" where
  "typed_ok s v = (case declared_of s of None \<Rightarrow> True | Some ts \<Rightarrow> list_ex (matches v) ts)"

definition member_ok :: "dict \<Rightarrow> json \<Rightarrow> bool" where
  "member_ok s v \<longleftrightarrow> (has s ''enum'' \<longrightarrow> list_ex (\<lambda>x. canon x = canon v) (elems (dget s ''enum'')))"

text \<open>The members and elements a node sends down, with the sub-schema each must meet.\<close>

definition sub_instances :: "dict \<Rightarrow> json \<Rightarrow> (json \<times> json) list" where
  "sub_instances s v =
     (if is_dict v \<and> admits (declared_of s) ''object''
      then concat (map (\<lambda>(k, w). case map_of (prop_list s) k of None \<Rightarrow> [] | Some sub \<Rightarrow> [(sub, w)])
             (items v))
      else []) @
     (if is_list v \<and> admits (declared_of s) ''array'' \<and> has s ''items''
      then map (\<lambda>w. (dget s ''items'', w)) (elems v) else [])"

lemma in_sub_instances:
  "(sub, w) \<in> set (sub_instances s v) \<longleftrightarrow>
     is_dict v \<and> admits (declared_of s) ''object'' \<and>
       (\<exists>k. (k, w) \<in> set (items v) \<and> map_of (prop_list s) k = Some sub) \<or>
     is_list v \<and> admits (declared_of s) ''array'' \<and> has s ''items'' \<and>
       sub = dget s ''items'' \<and> w \<in> set (elems v)"
proof -
  have "(sub, w) \<in> set (case x of (k, w) \<Rightarrow> (case map_of (prop_list s) k of None \<Rightarrow> [] | Some sub \<Rightarrow> [(sub, w)]))
      \<longleftrightarrow> snd x = w \<and> map_of (prop_list s) (fst x) = Some sub" for x
    by (cases x) (auto split: option.splits)
  then show ?thesis by (auto simp: sub_instances_def Bex_def)
qed

lemma sub_instances_size: "(sub, w) \<in> set (sub_instances s v) \<Longrightarrow> size w < size v"
  by (auto simp: sub_instances_def size_in_items size_in_elems split: if_splits option.splits)

function (sequential) conforms :: "json \<Rightarrow> json \<Rightarrow> bool" where
  "conforms (JObj s) v \<longleftrightarrow>
     typed_ok s v \<and>
     (is_dict v \<and> admits (declared_of s) ''object'' \<longrightarrow> keys_ok s (items v)) \<and>
     member_ok s v \<and> range_ok s (declared_of s) v \<and>
     list_all (\<lambda>(sub, w). conforms sub w) (sub_instances s v)"
| "conforms s v \<longleftrightarrow> False"
  by pat_completeness auto
termination
  by (relation "measure (\<lambda>(_, v). size v)") (auto dest: sub_instances_size)

section \<open>The validator accepts the conforming instances\<close>

lemma path_of_scalar: "scalar_str n \<Longrightarrow> \<exists>q. path_of p n = Inr (p @ q)"
  by (auto simp: path_of_def compact_encode_J)

lemma violation_Inr [simp]: "violation p n r \<noteq> Inr u"
  by (cases "path_of p n") (auto simp: violation_def)

lemma json_wf_dget: "json_wf (JObj s) \<Longrightarrow> json_wf (dget s k)"
  by (cases "map_of s (lit k)")
     (auto simp: dget_def dget_or_def list_all_iff dest!: map_of_SomeD)

lemma json_wf_items: "json_wf v \<Longrightarrow> (k, w) \<in> set (items v) \<Longrightarrow> code_points k \<and> json_wf w"
  by (auto simp: in_items list_all_iff)

lemma json_wf_elems: "json_wf v \<Longrightarrow> w \<in> set (elems v) \<Longrightarrow> json_wf w"
  by (auto simp: in_elems list_all_iff)

lemma J_domain_items: "J_domain v \<Longrightarrow> (k, w) \<in> set (items v) \<Longrightarrow> scalar_str k \<and> J_domain w"
  by (auto simp: in_items list_all_iff)

lemma J_domain_elems: "J_domain v \<Longrightarrow> w \<in> set (elems v) \<Longrightarrow> J_domain w"
  by (auto simp: in_elems list_all_iff)

lemma json_wf_children: "json_wf (JObj s) \<Longrightarrow> c \<in> set (children s) \<Longrightarrow> json_wf c"
  using json_wf_dget[of s "''properties''"] json_wf_dget[of s "''items''"]
  by (auto simp: children_def prop_list_dget item_list_dget dest: json_wf_items split: if_splits)

lemma J_domain_dget: "J_domain (JObj s) \<Longrightarrow> J_domain (dget s k)"
  by (cases "map_of s (lit k)")
     (auto simp: dget_def dget_or_def list_all_iff dest!: map_of_SomeD)

lemma J_domain_children: "J_domain (JObj s) \<Longrightarrow> c \<in> set (children s) \<Longrightarrow> J_domain c"
  using J_domain_dget[of s "''properties''"] J_domain_dget[of s "''items''"]
  by (auto simp: children_def prop_list_dget item_list_dget dest: J_domain_items split: if_splits)

lemma sub_instances_children:
  assumes "(sub, w) \<in> set (sub_instances s v)"
  shows "sub \<in> set (children s)"
proof -
  from assms consider k where "map_of (prop_list s) k = Some sub" | "has s ''items''" "sub = dget s ''items''"
    by (auto simp: sub_instances_def split: if_splits option.splits)
  then show ?thesis
  proof cases
    case 1
    from map_of_SomeD[OF 1] show ?thesis by (force simp: children_def)
  qed (simp add: children_def item_list_dget)
qed

lemma sub_instances_parts:
  "(sub, w) \<in> set (sub_instances s v) \<Longrightarrow> (\<exists>k. (k, w) \<in> set (items v)) \<or> w \<in> set (elems v)"
  by (auto simp: sub_instances_def split: if_splits option.splits)

lemma jtext_canon_inject:
  assumes "J_domain x" "json_wf x" "J_domain y" "json_wf y"
  shows "utf8 (jtext (canon x)) = utf8 (jtext (canon y)) \<longleftrightarrow> canon x = canon y"
proof -
  have w: "J_domain (canon x)" "json_wf (canon x)" "J_domain (canon y)" "json_wf (canon y)"
    using assms by (simp_all add: json_wf_canon)
  then have "utf8 (jtext (canon x)) = utf8 (jtext (canon y)) \<longleftrightarrow> jtext (canon x) = jtext (canon y)"
    by (simp add: utf8_inject code_points_jtext)
  also have "\<dots> \<longleftrightarrow> canon x = canon y"
    using strict_loads_jtext[OF w(1,2)] strict_loads_jtext[OF w(3,4)] by (metis sum.inject(2))
  finally show ?thesis .
qed

lemma none_equal_spec:
  "list_all J_domain xs \<Longrightarrow>
     none_equal b xs = Inr (\<not> list_ex (\<lambda>x. utf8 (jtext (canon x)) = b) xs)"
  by (induction b xs rule: none_equal.induct) (auto simp: compact_json_J J_of_domain)

lemma check_keys_Inr:
  assumes "J_domain (JObj d)"
  shows "check_keys s d p = Inr u \<longleftrightarrow> keys_ok s d"
  using assms
  by (auto simp: check_keys_def keys_ok_def andthen_Inr each_Inr sorted_entries_def list_all_iff
      keys_def image_subset_iff split: if_splits)

lemma check_member_Inr:
  assumes "node_ok s" "json_wf (JObj s)" "J_domain v" "json_wf v"
  shows "check_member s v p = Inr u \<longleftrightarrow> member_ok s v"
proof (cases "has s ''enum''")
  case True
  let ?xs = "elems (dget s ''enum'')"
  have d: "list_all J_domain ?xs"
    using assms(1) True by (auto simp: node_ok_def Let_def enum_ok_def)
  have w: "list_all json_wf ?xs"
    using json_wf_elems[OF json_wf_dget[OF assms(2)]] by (auto simp: list_all_iff)
  have "list_ex (\<lambda>x. utf8 (jtext (canon x)) = utf8 (jtext (canon v))) ?xs \<longleftrightarrow>
      list_ex (\<lambda>x. canon x = canon v) ?xs"
    using d w assms(3,4) by (auto simp: list_ex_iff list_all_iff jtext_canon_inject)
  then show ?thesis
    using True assms(3) by (auto simp: check_member_def member_ok_def compact_json_J J_of_domain none_equal_spec[OF d])
qed (simp add: check_member_def member_ok_def)

lemma check_range_Inr: "check_range s ts v p = Inr u \<longleftrightarrow> range_ok s ts v"
  by (auto simp: check_range_def range_ok_def run_simps simp del: steps.simps
      split: json.splits)

lemma each_sub_object:
  assumes "J_domain (JObj d)" "distinct (map fst d)"
  shows "andthen (sorted_entries d) (\<lambda>entries.
           each (\<lambda>kv. case map_of ps (fst kv) of
                        None \<Rightarrow> Inr ()
                      | Some sub \<Rightarrow> andthen (path_of p (fst kv)) (\<lambda>q. f sub (snd kv) q)) entries) = Inr u \<longleftrightarrow>
         (\<forall>(k, w) \<in> set d. case map_of ps k of None \<Rightarrow> True
            | Some sub \<Rightarrow> (\<exists>q. path_of p k = Inr q \<and> f sub w q = Inr ()))"
proof -
  have "\<forall>k \<in> set (keys d). scalar_str k" using assms(1) by (auto simp: list_all_iff keys_def)
  then have "sorted_entries d = Inr (sort_items d)" by (auto simp: sorted_entries_def)
  then show ?thesis
    by (auto simp: each_Inr andthen_Inr case_prod_beta split: option.splits)
qed

theorem validate_instance_conforms:
  "supported s \<Longrightarrow> json_wf s \<Longrightarrow> J_domain v \<Longrightarrow> json_wf v \<Longrightarrow>
     validate_instance s v p = Inr () \<longleftrightarrow> conforms s v"
proof (induction s v arbitrary: p rule: conforms.induct)
  case (1 s v)
  note ok = "1.prems"
  have node: "node_ok s" using ok by simp
  then have decl: "declared_types s = Inr (declared_of s)" by (simp add: node_ok_checks declared_types_Inr)
  have IH: "validate_instance sub w q = Inr () \<longleftrightarrow> conforms sub w"
    if m: "(sub, w) \<in> set (sub_instances s v)" for sub w q
  proof (rule "1.IH"[OF m refl])
    show "supported sub" using ok sub_instances_children[OF m] by (auto simp: list_all_iff)
    show "json_wf sub" using ok sub_instances_children[OF m] json_wf_children by blast
    show "J_domain w" using ok sub_instances_parts[OF m] J_domain_items J_domain_elems by blast
    show "json_wf w" using ok sub_instances_parts[OF m] json_wf_items json_wf_elems by blast
  qed
  let ?obj = "is_dict v \<and> admits (declared_of s) ''object''"
  let ?arr = "is_list v \<and> admits (declared_of s) ''array'' \<and> has s ''items''"
  have keys: "(if ?obj then check_keys s (items v) p else Inr ()) = Inr () \<longleftrightarrow> (?obj \<longrightarrow> keys_ok s (items v))"
    using ok(3) check_keys_Inr by (cases v) auto
  have members: "(if ?obj then andthen (sorted_entries (items v)) (\<lambda>entries.
           each (\<lambda>kv. case map_of (prop_list s) (fst kv) of
                        None \<Rightarrow> Inr ()
                      | Some sub \<Rightarrow> andthen (path_of p (fst kv)) (\<lambda>q. validate_instance sub (snd kv) q)) entries)
        else Inr ()) = Inr () \<longleftrightarrow>
      (?obj \<longrightarrow> (\<forall>(k, w) \<in> set (items v). case map_of (prop_list s) k of None \<Rightarrow> True
         | Some sub \<Rightarrow> conforms sub w))"
  proof (cases ?obj)
    case True
    then obtain d where v: "v = JObj d" by (cases v) auto
    have "validate_instance sub w q = Inr () \<longleftrightarrow> conforms sub w"
      if "(k, w) \<in> set d" "map_of (prop_list s) k = Some sub" for k w sub q
      by (rule IH) (use True that v in \<open>force simp: sub_instances_def\<close>)
    moreover have "\<exists>q. path_of p k = Inr q" if "(k, w) \<in> set d" for k w
      using path_of_scalar ok(3) that v by (force simp: list_all_iff)
    ultimately show ?thesis
      using True ok(3,4) v by (auto simp: each_sub_object split: option.splits; blast)
  next
    case False
    then show ?thesis by (simp only: if_False simp_thms)
  qed
  have elements: "(if ?arr then each (\<lambda>ix. validate_instance (dget s ''items'') (snd ix)
           (p @ lit ''['' @ dec (fst ix) @ lit '']'')) (enumerate 0 (elems v)) else Inr ()) = Inr () \<longleftrightarrow>
      (?arr \<longrightarrow> (\<forall>w \<in> set (elems v). conforms (dget s ''items'') w))"
  proof (cases ?arr)
    case True
    have "validate_instance (dget s ''items'') w q = Inr () \<longleftrightarrow> conforms (dget s ''items'') w"
      if "w \<in> set (elems v)" for w q
      by (rule IH) (use True that in \<open>force simp: sub_instances_def\<close>)
    then show ?thesis
      using True by (auto simp: each_Inr all_set_conv_all_nth nth_enumerate_eq)
  next
    case False
    then show ?thesis by (simp only: if_False simp_thms)
  qed
  have subs: "list_all (\<lambda>(sub, w). conforms sub w) (sub_instances s v) \<longleftrightarrow>
      (?obj \<longrightarrow> (\<forall>(k, w) \<in> set (items v). case map_of (prop_list s) k of None \<Rightarrow> True
         | Some sub \<Rightarrow> conforms sub w)) \<and> (?arr \<longrightarrow> (\<forall>w \<in> set (elems v). conforms (dget s ''items'') w))"
    unfolding list_all_iff by (fastforce simp: in_sub_instances split: option.splits)
  show ?case
    using keys members elements subs check_member_Inr[OF node ok(2-4)] check_range_Inr[of s _ v p]
    by (simp add: decl typed_ok_def andthen_Inr split: option.splits)
qed simp_all

section \<open>What it raises\<close>

definition INSTANCE_RULES :: "string list" where
  "INSTANCE_RULES =
     [''type'', ''required'', ''additional'', ''enum'', ''min_length'', ''max_length'',
      ''minimum'', ''maximum'', ''min_items'', ''max_items'']"

definition instance_failure :: "pystr \<Rightarrow> exn \<Rightarrow> bool" where
  "instance_failure p e \<longleftrightarrow>
     (case e of InstanceError q r \<Rightarrow> take (length p) q = p \<and> r \<in> set INSTANCE_RULES | _ \<Rightarrow> False)"

lemma instance_failureI:
  "r \<in> set INSTANCE_RULES \<Longrightarrow> instance_failure p (InstanceError (p @ q) r)"
  "r \<in> set INSTANCE_RULES \<Longrightarrow> instance_failure p (InstanceError p r)"
  by (simp_all add: instance_failure_def)

lemma instance_failure_below: "instance_failure (p @ q) e \<Longrightarrow> instance_failure p e"
  by (auto simp: instance_failure_def split: exn.splits)
     (metis append_eq_conv_conj append_take_drop_id take_take append_assoc min.absorb1 le_add1 length_append)

lemma violation_Inl:
  "violation p n r = Inl e \<Longrightarrow> scalar_str n \<Longrightarrow> r \<in> set INSTANCE_RULES \<Longrightarrow> instance_failure p e"
  using path_of_scalar[of n p] by (auto simp: violation_def instance_failureI)

lemma scalar_the_str: "J_domain x \<Longrightarrow> is_str x \<Longrightarrow> scalar_str (the_str x)"
  by (cases x) auto

lemma required_names_scalar:
  assumes "J_domain (JObj s)" "node_ok s" "n \<in> set (required_names s)"
  shows "scalar_str n"
proof (cases "has s ''required''")
  case True
  then have "list_all is_str (elems (dget s ''required''))"
    using assms(2) by (auto simp: node_ok_def required_ok_def Let_def)
  then show ?thesis
    using assms(3) True J_domain_elems[OF J_domain_dget[OF assms(1)], of _ "''required''"]
    by (auto simp: required_names_def dget_dget_or list_all_iff scalar_the_str)
qed (use assms in \<open>simp add: required_names_def\<close>)

lemma check_keys_Inl:
  assumes "check_keys s d p = Inl e" "J_domain (JObj d)" "J_domain (JObj s)" "node_ok s"
  shows "instance_failure p e"
proof -
  have k: "scalar_str k" if "(k, w) \<in> set d" for k w using assms(2) that by (auto simp: list_all_iff)
  have rules: "''required'' \<in> set INSTANCE_RULES" "''additional'' \<in> set INSTANCE_RULES"
    by (simp_all add: INSTANCE_RULES_def)
  from assms(1) show ?thesis
    using k required_names_scalar[OF assms(3,4)] rules
    by (auto simp: check_keys_def andthen_Inl sorted_entries_def keys_def
        dest!: each_Inl split: if_splits intro: violation_Inl)
qed

lemma check_member_Inl: "check_member s v p = Inl e \<Longrightarrow> instance_failure p e"
  by (auto simp: check_member_def INSTANCE_RULES_def intro!: instance_failureI
      split: if_splits sum.splits)

lemma check_range_Inl: "check_range s ts v p = Inl e \<Longrightarrow> instance_failure p e"
  by (auto simp: check_range_def require_def INSTANCE_RULES_def intro!: instance_failureI
      split: json.splits if_splits)

theorem validate_instance_Inl:
  "validate_instance s v p = Inl e \<Longrightarrow> supported s \<Longrightarrow> J_domain s \<Longrightarrow> J_domain v \<Longrightarrow> instance_failure p e"
proof (induction v arbitrary: s p rule: measure_induct_rule[where f = size])
  case (less v)
  obtain d where [simp]: "s = JObj d" using less.prems by (cases s) auto
  have node: "node_ok d" using less.prems by simp
  then have decl: "declared_types d = Inr (declared_of d)" by (simp add: node_ok_checks declared_types_Inr)
  have IH: "instance_failure (p @ q) e"
    if "validate_instance sub w (p @ q) = Inl e" "sub \<in> set (children d)" "size w < size v" "J_domain w"
    for sub w q
    using less.IH[OF that(3,1)] that less.prems J_domain_children[of d sub] by (auto simp: list_all_iff)
  have obj: "instance_failure p e"
    if "sorted_entries (items v) = Inr es"
      and err: "each (\<lambda>kv. case map_of (prop_list d) (fst kv) of
                        None \<Rightarrow> Inr ()
                      | Some sub \<Rightarrow> andthen (path_of p (fst kv)) (\<lambda>q. validate_instance sub (snd kv) q)) es = Inl e"
    for es
  proof -
    from each_Inl[OF err] obtain k w sub where kw: "(k, w) \<in> set es" "map_of (prop_list d) k = Some sub"
      "andthen (path_of p k) (\<lambda>q. validate_instance sub w q) = Inl e"
      by (auto split: option.splits)
    have in_v: "(k, w) \<in> set (items v)" using that(1) kw(1) by (auto simp: sorted_entries_def split: if_splits)
    have dom: "scalar_str k" "J_domain w" using J_domain_items[OF less.prems(4) in_v] by auto
    from path_of_scalar[OF dom(1)] obtain q where q: "path_of p k = Inr (p @ q)" by blast
    have "sub \<in> set (children d)" using map_of_SomeD[OF kw(2)] by (force simp: children_def)
    from IH[OF _ this size_in_items[OF in_v] dom(2), of q] q kw(3)
    show ?thesis by (auto intro: instance_failure_below)
  qed
  have arr: "instance_failure p e"
    if "has d ''items''" and err: "each (\<lambda>ix. validate_instance (dget d ''items'') (snd ix)
           (p @ lit ''['' @ dec (fst ix) @ lit '']'')) (enumerate 0 (elems v)) = Inl e"
  proof -
    from each_Inl[OF err] obtain i w where w: "w \<in> set (elems v)"
      "validate_instance (dget d ''items'') w (p @ lit ''['' @ dec i @ lit '']'') = Inl e"
      by (auto simp: in_set_enumerate_eq) (metis nth_mem)
    have "dget d ''items'' \<in> set (children d)" using that(1) by (simp add: children_def item_list_dget)
    from IH[OF w(2) this size_in_elems[OF w(1)] J_domain_elems[OF less.prems(4) w(1)]]
    show ?thesis by (rule instance_failure_below)
  qed
  have keys: "check_keys d (items v) p = Inl e \<Longrightarrow> is_dict v \<Longrightarrow> instance_failure p e"
    using check_keys_Inl[OF _ _ _ node] less.prems by (cases v) auto
  have no_sort_error: "sorted_entries (items v) \<noteq> Inl e"
    using J_domain_items[OF less.prems(4)] by (auto simp: sorted_entries_def keys_def)
  have type: "instance_failure p (InstanceError p ''type'')"
    by (rule instance_failureI) (simp add: INSTANCE_RULES_def)
  from less.prems(1) show ?case
    using no_sort_error type obj arr keys check_member_Inl check_range_Inl
    by (auto simp: decl andthen_Inl split: if_splits)
qed

section \<open>The order of keys does not matter\<close>

lemma canon_kind [simp]:
  "is_dict (canon v) = is_dict v" "is_list (canon v) = is_list v" "is_str (canon v) = is_str v"
  "is_bool (canon v) = is_bool v" "is_safe_integer (canon v) b = is_safe_integer v b"
  "canon v = JNull \<longleftrightarrow> v = JNull"
  by (cases v; simp)+

lemma matches_canon [simp]: "matches (canon v) = matches v"
  by (simp add: matches_def fun_eq_iff)

lemma compact_json_canon [simp]: "compact_json (canon v) = compact_json v" if "J_domain v"
  using that by (simp add: compact_json_J J_of_domain)

lemma sorted_entries_canon:
  "sorted_entries (items (canon v)) = andthen (sorted_entries (items v)) (\<lambda>es. Inr (map canon_item es))"
proof -
  have "set (keys (map canon_item (sort_items d))) = set (keys d)" for d
    by (force simp: keys_def canon_item_def)
  then show ?thesis by (simp add: sorted_entries_def items_canon sort_items_canon)
qed

lemma each_map: "each f (map g xs) = each (\<lambda>x. f (g x)) xs"
  by (induction xs) (auto split: sum.splits)

lemma check_keys_canon: "check_keys s (items (canon v)) p = check_keys s (items v) p"
proof -
  have k: "set (keys (items (canon v))) = set (keys (items v))"
    by (force simp: keys_def items_canon canon_item_def)
  show ?thesis
    unfolding check_keys_def k sorted_entries_canon andthen_assoc andthen_simps each_map
    by (simp add: canon_item_def cong: if_cong)
qed

lemma check_range_canon: "check_range s ts (canon v) p = check_range s ts v p"
  by (cases v) (simp_all add: check_range_def)

lemma enumerate_map: "enumerate n (map f xs) = map (\<lambda>ix. (fst ix, f (snd ix))) (enumerate n xs)"
  by (induction xs arbitrary: n) auto

lemma snd_enumerate: "ix \<in> set (enumerate n xs) \<Longrightarrow> snd ix \<in> set xs"
  by (cases ix) (auto simp: enumerate_eq_zip dest: set_zip_rightD)

lemma each_eqI: "(\<And>x. x \<in> set xs \<Longrightarrow> f x = g x) \<Longrightarrow> each f xs = each g xs"
  by (rule each_cong) auto

theorem validate_instance_canon: "J_domain v \<Longrightarrow> validate_instance s (canon v) p = validate_instance s v p"
proof (induction v arbitrary: s p rule: measure_induct_rule[where f = size])
  case (less v)
  show ?case
  proof (cases s)
    case [simp]: (JObj d)
    have members: "andthen (sorted_entries (items (canon v))) (\<lambda>es.
        each (\<lambda>kv. case map_of (prop_list d) (fst kv) of None \<Rightarrow> Inr ()
           | Some sub \<Rightarrow> andthen (path_of p (fst kv)) (\<lambda>q. validate_instance sub (snd kv) q)) es) =
      andthen (sorted_entries (items v)) (\<lambda>es.
        each (\<lambda>kv. case map_of (prop_list d) (fst kv) of None \<Rightarrow> Inr ()
           | Some sub \<Rightarrow> andthen (path_of p (fst kv)) (\<lambda>q. validate_instance sub (snd kv) q)) es)"
      unfolding sorted_entries_canon andthen_assoc andthen_simps each_map
    proof (rule andthen_cong[OF refl], rule each_eqI)
      fix es kv assume "sorted_entries (items v) = Inr es" "kv \<in> set es"
      then have kv: "(fst kv, snd kv) \<in> set (items v)" by (auto simp: sorted_entries_def split: if_splits)
      have "validate_instance sub (canon (snd kv)) q = validate_instance sub (snd kv) q" for sub q
        using less.IH[OF size_in_items[OF kv]] J_domain_items[OF less.prems kv] by blast
      then show "(case map_of (prop_list d) (fst (canon_item kv)) of None \<Rightarrow> Inr ()
           | Some sub \<Rightarrow> andthen (path_of p (fst (canon_item kv))) (\<lambda>q. validate_instance sub (snd (canon_item kv)) q))
        = (case map_of (prop_list d) (fst kv) of None \<Rightarrow> Inr ()
           | Some sub \<Rightarrow> andthen (path_of p (fst kv)) (\<lambda>q. validate_instance sub (snd kv) q))"
        by (simp add: canon_item_def cong: option.case_cong)
    qed
    have elements: "each (\<lambda>ix. validate_instance (dget d ''items'') (snd ix)
           (p @ lit ''['' @ dec (fst ix) @ lit '']'')) (enumerate 0 (elems (canon v))) =
        each (\<lambda>ix. validate_instance (dget d ''items'') (snd ix)
           (p @ lit ''['' @ dec (fst ix) @ lit '']'')) (enumerate 0 (elems v))"
      unfolding elems_canon enumerate_map each_map
    proof (rule each_eqI)
      fix ix assume "ix \<in> set (enumerate 0 (elems v))"
      then have "snd ix \<in> set (elems v)" by (rule snd_enumerate)
      then show "validate_instance (dget d ''items'') (snd (fst ix, canon (snd ix)))
            (p @ lit ''['' @ dec (fst (fst ix, canon (snd ix))) @ lit '']'')
          = validate_instance (dget d ''items'') (snd ix) (p @ lit ''['' @ dec (fst ix) @ lit '']'')"
        using less.IH[OF size_in_elems] J_domain_elems[OF less.prems] by simp
    qed
    have member: "check_member d (canon v) p = check_member d v p"
      using less.prems by (simp add: check_member_def)
    show ?thesis
      unfolding JObj validate_instance.simps
      by (simp only: members elements member check_keys_canon check_range_canon canon_kind matches_canon)
  qed simp_all
qed

section \<open>Properties\<close>

lemma validate_unfold:
  "validate s v = andthen (assert_supported s ''output_schema'') (\<lambda>_. validate_instance s v (lit ''$''))"
  by (simp add: validate_def compile_schema_def andthen_assoc)

lemma assert_supported_Inl: "assert_supported s ''output_schema'' = Inl e \<Longrightarrow> schema_failure e"
  by (auto simp: assert_supported_def andthen_Inl schema_failure_def split: if_splits
      dest: check_schema_Inl[unfolded schema_failure_def])

text \<open>C14: \<open>assert_supported\<close> accepts exactly the schemas of the closed subset, of depth at most 16
  and with at most 256 nodes; a parameters root is moreover a closed object.\<close>

theorem assert_supported_accepts:
  "assert_supported s kind = Inr () \<longleftrightarrow>
     supported s \<and> depth (shape s) \<le> 16 \<and> nodes (shape s) \<le> 256 \<and> root_ok kind s"
  by (auto simp: assert_supported_spec within_limits_def MAX_DEPTH_def MAX_NODES_def)

text \<open>C15: the metrics are the bottom-up measures of the schema, within the four limits.\<close>

theorem schema_metrics_bounded:
  assumes "schema_metrics s = Inr m"
  shows "m = shape s \<and> depth m \<le> 16 \<and> nodes m \<le> 256 \<and> max_properties m \<le> 128 \<and> max_enum m \<le> 64"
  using assms shape_bounds[of s]
  by (auto simp: schema_metrics_spec within_limits_def MAX_DEPTH_def MAX_NODES_def MAX_PROPERTIES_def MAX_ENUM_def)



text \<open>C18: the order of an instance's keys changes neither the verdict nor the reported path and rule.\<close>

theorem validate_key_order:
  assumes "J_domain v"
  shows "validate s (canon v) = validate s v"
  using assms by (simp add: validate_unfold validate_instance_canon)

definition sample_schema :: json where
  "sample_schema =
     JObj [(lit ''type'', jstr ''object''),
           (lit ''properties'', JObj [(lit ''a'', JObj [(lit ''type'', jstr ''integer''), (lit ''minimum'', JInt 1)])]),
           (lit ''required'', JArr [jstr ''a'']), (lit ''additionalProperties'', JBool False)]"

definition sample_args :: "int \<Rightarrow> json" where
  "sample_args i = JObj [(lit ''a'', JInt i)]"

lemmas schema_eval = node_ok_def declared_of_def dict_eval keys_within_def keys_def ALLOWED_KEYWORDS_def
  type_ok_def JSON_TYPES_def prop_list_def item_list_def children_def admits_def declares_def required_ok_def
  TYPE_KEYWORDS_def SAFE_INTEGER_MAX_def MAX_PROPERTIES_def Let_def

lemma sample_within: "within_limits sample_schema"
  by (simp add: within_limits_def sample_schema_def schema_eval MAX_DEPTH_def MAX_NODES_def)

lemma sample_wf: "json_wf sample_schema" "J_domain sample_schema" "J_domain (sample_args i) = safe_int i"
  "json_wf (sample_args i)"
  by (simp_all add: sample_schema_def sample_args_def safe_int_def SAFE_INTEGER_MAX_def)

theorem schema_metrics_bounded_witness:
  "depth (shape sample_schema) \<le> 16 \<and> nodes (shape sample_schema) \<le> 256"
  using schema_metrics_bounded[of sample_schema "shape sample_schema"] sample_within
  by (simp add: schema_metrics_spec)


lemma sample_error: "validate sample_schema (sample_args 0) = Inl (InstanceError (lit ''$.a'') ''minimum'')"
proof -
  have "declared_types (items sample_schema) = Inr (Some [lit ''object''])"
    "declared_types [(lit ''type'', jstr ''integer''), (lit ''minimum'', JInt 1)] = Inr (Some [lit ''integer''])"
    by (simp_all add: sample_schema_def declared_types_def dict_eval JSON_TYPES_def)
  moreover have "validate sample_schema x = validate_instance sample_schema x (lit ''$'')" for x
  proof -
    have "assert_supported sample_schema ''output_schema'' = Inr ()"
      by (simp add: assert_supported_spec root_ok_def sample_within)
    then show ?thesis by (simp add: validate_unfold)
  qed
  moreover have "path_of (lit ''$'') (lit ''a'') = Inr (lit ''$.a'')"
    by (simp add: path_of_def is_identifier_def ascii_alpha_def lit_def)
  ultimately show ?thesis
    by (simp add: sample_schema_def sample_args_def matches_def check_keys_def required_names_def
        dict_eval keys_def admits_def sorted_entries_def sort_items_def prop_list_def check_member_def
        check_range_def require_def at_least_def SAFE_INTEGER_MAX_def)
qed


theorem validate_key_order_witness:
  "validate sample_schema (canon sample) = validate sample_schema sample"
  by (rule validate_key_order) simp

end
