(* ===== verification/Frames.thy ===== *)
theory Frames
  imports Schema_Validation
begin

text \<open>
  A JSON value as one line of bytes, the unit the protocols and the journal exchange: reading a
  dictionary after its keys were sorted, the absence of line breaks in the encoded text, and the
  text being read back by both decoders.
\<close>

section \<open>Dictionaries with sorted keys\<close>

lemma keys_canon [simp]: "set (keys (items (canon v))) = set (keys (items v))"
  by (force simp: items_canon keys_def canon_item_def)

lemma has_canon [simp]: "has (items (canon v)) k = has (items v) k"
  by (simp add: has_def)

lemma keys_are_canon [simp]: "keys_are (items (canon v)) ks = keys_are (items v) ks"
  "keys_within (items (canon v)) ks = keys_within (items v) ks"
  by (simp_all add: keys_are_def keys_within_def)

lemma map_of_canon:
  assumes "distinct (keys d)"
  shows "map_of (map canon_item (sort_items d)) k = map_option canon (map_of d k)"
proof -
  have "map_of (sort_items d) k = map_of d k"
    using assms by (intro fun_cong[OF map_of_inject_set[THEN iffD2]]) (auto simp: keys_def map_fst_sort_items)
  moreover have "map_of (map canon_item e) k = map_option canon (map_of e k)" for e
    by (induction e) (auto simp: canon_item_def)
  ultimately show ?thesis by simp
qed

lemma canon_JNull [simp]: "canon v = JNull \<longleftrightarrow> v = JNull"
  by (cases v) auto

lemma dget_canon: "json_wf v \<Longrightarrow> dget (items (canon v)) k = canon (dget (items v) k)"
proof -
  assume "json_wf v"
  then have "distinct (keys (items v))" by (cases v) (auto simp: keys_def)
  then show ?thesis
    by (simp add: dget_def dget_or_def items_canon map_of_canon split: option.splits)
qed

lemma canon_atom:
  "canon v = JStr s \<longleftrightarrow> v = JStr s" "canon v = JBool b \<longleftrightarrow> v = JBool b" "canon v = JInt i \<longleftrightarrow> v = JInt i"
  by (cases v; auto)+

lemma the_canon [simp]: "the_str (canon v) = the_str v" "the_int (canon v) = the_int v"
  by (cases v; simp)+

lemma py_eq_int_canon [simp]: "py_eq (canon v) (JInt i) \<longleftrightarrow> py_eq v (JInt i)"
  by (cases v) simp_all

lemma wf_dget: "json_wf v \<Longrightarrow> json_wf (dget (items v) k)"
  by (cases v) (auto simp: dget_def dget_or_def list_all_iff split: option.splits dest!: map_of_SomeD)

lemma domain_dget: "J_domain v \<Longrightarrow> J_domain (dget (items v) k)"
  by (cases v) (auto simp: dget_def dget_or_def list_all_iff split: option.splits dest!: map_of_SomeD)

section \<open>One line\<close>

lemma quote_printable: "c \<in> set (quote s) \<Longrightarrow> 32 \<le> c"
proof -
  have "x \<in> set (quote_char d) \<Longrightarrow> 32 \<le> x" for x d
    by (auto simp: quote_char_def hex_digit_def split: if_splits)
  then show "c \<in> set (quote s) \<Longrightarrow> 32 \<le> c" by (auto simp: quote_def)
qed

lemma int_text_printable: "c \<in> set (int_text i) \<Longrightarrow> 32 \<le> c"
  using dec_digits by (fastforce simp: int_text_def is_digit_def split: if_splits)

lemma join_set: "set (join sep xs) \<subseteq> set sep \<union> \<Union> (set (map set xs))"
  by (induction sep xs rule: join.induct) auto

lemma jtext_printable: "J_domain v \<Longrightarrow> c \<in> set (jtext v) \<Longrightarrow> 32 \<le> c"
proof (induction v rule: jtext.induct)
  case (1 d)
  then consider "c \<in> {123, 125, 44}" | k w where "(k, w) \<in> set d" "c \<in> set (quote k @ [58] @ jtext w)"
    using join_set[of "[44]" "map (\<lambda>(k, v). quote k @ [58] @ jtext v) d"] by fastforce
  then show ?case
  proof cases
    case 2
    then have "J_domain w" using 1(2) by (auto simp: list_all_iff)
    with 2 1(1)[OF 2(1) refl] quote_printable show ?thesis by auto
  qed auto
next
  case (2 xs)
  then consider "c \<in> {91, 93, 44}" | x where "x \<in> set xs" "c \<in> set (jtext x)"
    using join_set[of "[44]" "map jtext xs"] by fastforce
  then show ?case
  proof cases
    case 2
    then show ?thesis using "2.IH"[of x] "2.prems"(1) by (auto simp: list_all_iff)
  qed auto
qed (auto simp: lit_def quote_printable int_text_printable split: if_splits)

lemma utf8_printable: "(\<And>c. c \<in> set t \<Longrightarrow> 32 \<le> c) \<Longrightarrow> b \<in> set (utf8 t) \<Longrightarrow> 32 \<le> b"
  using utf8_low[of b t] by (cases "b < 0x80") auto

lemma compact_json_line: "compact_json v = Inr b \<Longrightarrow> c \<in> set b \<Longrightarrow> 32 \<le> c"
  using jtext_printable[of "canon v"] utf8_printable[of "jtext (canon v)" c] by (auto simp: compact_json_iff)

lemma compact_json_no_lf: "compact_json v = Inr b \<Longrightarrow> 10 \<notin> set b \<and> 13 \<notin> set b"
  using compact_json_line[of v b 10] compact_json_line[of v b 13] by auto

lemma jtext_ne [simp]: "J_domain v \<Longrightarrow> jtext v \<noteq> []"
  using strict.jtext_head[of v] by auto

section \<open>Reading back\<close>

lemma decode_compact:
  assumes "compact_json v = Inr b" "json_wf v"
  shows "utf8_decode b = Some (jtext (canon v))"
  using assms code_points_jtext[of "canon v"] scalar_jtext[of "canon v"]
  by (auto simp: compact_json_iff json_wf_canon intro!: utf8_roundtrip)

lemma default_reads:
  assumes "compact_json v = Inr b" "json_wf v"
  shows "json_loads (default_hooks fl) (jtext (canon v)) = Inr (canon v)"
  using assms by (intro plain.json_loads_jtext) (auto simp: compact_json_iff json_wf_canon)

lemma strict_reads:
  assumes "compact_json v = Inr b" "json_wf v"
  shows "strict_loads (jtext (canon v)) = Inr (canon v)"
  using assms by (intro strict_loads_jtext) (auto simp: compact_json_iff json_wf_canon)

lemma decode_line:
  assumes "compact_json v = Inr b" "json_wf v"
  shows "utf8_decode (b @ [10]) = Some (jtext (canon v) @ [10])"
proof -
  have dom: "J_domain (canon v)" "b = utf8 (jtext (canon v))" using assms by (auto simp: compact_json_iff)
  then have "utf8_decode (utf8 (jtext (canon v) @ [10])) = Some (jtext (canon v) @ [10])"
    using code_points_jtext[of "canon v"] scalar_jtext[of "canon v"] assms(2)
    by (intro utf8_roundtrip) (auto simp: scalar_str_def code_points_def surrogate_def json_wf_canon)
  with dom(2) show ?thesis by (simp add: utf8_char_def)
qed

context json_reader
begin

lemma json_loads_line:
  assumes "J_domain v" "json_wf v"
  shows "json_loads h (jtext v @ [10]) = Inr v"
proof -
  obtain c q where c: "jtext v = c # q" "\<not> is_ws c" using jtext_head assms by blast
  have "c \<noteq> 0xFEFF"
    using c assms(1) dec_head[of "nat (the_int v)"]
    by (cases v) (auto simp: quote_def lit_def int_text_def is_digit_def split: if_splits)
  moreover have "skip_ws (jtext v @ [10]) = jtext v @ [10]" using c by (intro skip_ws_id) auto
  moreover have "scan_value (2 * length (jtext v @ [10]) + 2) h (jtext v @ [10]) = Inr (v, [10])"
    using assms by (intro scan_jtext) (auto simp: after_number_def is_digit_def)
  ultimately show ?thesis using c by (simp add: json_loads_def skip_ws_def is_ws_def)
qed

end

lemma default_reads_line:
  assumes "compact_json v = Inr b" "json_wf v"
  shows "json_loads (default_hooks fl) (jtext (canon v) @ [10]) = Inr (canon v)"
  using assms by (intro plain.json_loads_line) (auto simp: compact_json_iff json_wf_canon)

end
