(* ===== verification/Fs_Paths.thy ===== *)
theory Fs_Paths
  imports Fs_Read Frames
begin

text \<open>
  Where the \<open>read\<close> tool may look. A path it resolves consists of plain components below the
  workspace root, none of them \<open>..\<close> or \<open>.git\<close>, and no prefix of it is a symbolic link. An
  absolute path is one whose components continue those of the root.
\<close>

section \<open>Components\<close>

definition components :: "pystr \<Rightarrow> pystr list" where
  "components s = filter (\<lambda>p. p \<noteq> [] \<and> p \<noteq> lit ''.'') (split_on 47 s)"

lemma components_of_Inr: "components_of s = Inr cs \<longleftrightarrow> cs = components s \<and> lit ''..'' \<notin> set cs"
  by (auto simp: components_of_def components_def Let_def tool_error_def)

lemma components_part: "c \<in> set (components s) \<Longrightarrow> part c \<and> c \<noteq> lit ''.''"
  by (auto simp: components_def part_def dest: split_on_parts)

lemma split_on_app_sep: "split_on sep (a @ sep # b) = split_on sep a @ split_on sep b"
  by (induction a) (auto split: list.splits)

lemma path_parts_append: "path_parts (a @ 47 # b) = path_parts a @ path_parts b"
  by (simp add: path_parts_def split_on_app_sep)

lemma path_parts_slashes: "path_parts (replicate n 47 @ s) = path_parts s"
  using path_parts_append[of "[]"] by (induction n) (auto simp: path_parts_def)

lemma path_parts_join: "\<forall>c \<in> set cs. part c \<Longrightarrow> path_parts (join [47] cs) = cs"
proof (cases "cs = []")
  case False
  assume "\<forall>c \<in> set cs. part c"
  moreover from this have "split_on 47 (join [47] cs) = cs" using False by (intro split_on_join) (auto simp: part_def)
  ultimately show ?thesis by (auto simp: path_parts_def filter_id_conv part_def)
qed (simp add: path_parts_def)

lemma path_parts_dot [simp]: "path_parts (lit ''.'') = [lit ''.'']"
  by (simp add: path_parts_def lit_Cons)

lemma normal_absolute:
  assumes "isabs s" "components_of s = Inr cs"
  shows "path_parts (normpath s) = cs"
proof -
  have cs: "cs = components s" "lit ''..'' \<notin> set (split_on 47 s)"
    using assms(2) by (auto simp: components_of_Inr components_def lit_Cons)
  have s: "0 < leading_slashes s" "s \<noteq> []"
    using assms(1) by (auto simp: leading_slashes_def isabs_def starts_with_def)
  have "normal_parts True [] (split_on 47 s) = cs"
    using normal_parts_plain[OF cs(2), of "[]" True] by (simp add: cs(1) components_def)
  then have "normpath s = replicate (leading_slashes s) 47 @ join [47] cs"
    using s by (simp add: normpath_def Let_def)
  then show ?thesis using components_part cs(1) by (simp add: path_parts_slashes path_parts_join)
qed

lemma common_prefix_self: "common_prefix ss (ss @ xs) = length ss"
  by (induction ss) auto

lemma relpath_below:
  assumes "path_parts n = path_parts r @ cs" "\<forall>c \<in> set cs. part c"
  shows "relpath n r = (if cs = [] then lit ''.'' else join [47] cs)"
proof (cases cs)
  case (Cons c cs')
  moreover have "c \<noteq> []" "last c \<noteq> 47"
    using assms(2) Cons by (auto simp: part_def intro: last_in_set dest!: last_in_set)
  ultimately show ?thesis
    using assms foldl_path_join[of c cs'] by (simp add: relpath_def Let_def common_prefix_self)
qed (use assms in \<open>simp add: relpath_def Let_def common_prefix_self[of _ "[]", simplified]\<close>)

lemma absolute_components_Inr:
  assumes "isabs s" "components_of s = Inr cs0" "absolute_components s ws_root = Inr cs"
  shows "cs0 = path_parts (normpath ws_root) @ cs"
proof -
  let ?n = "normpath s" and ?r = "normpath ws_root"
  have n: "path_parts ?n = cs0" by (rule normal_absolute[OF assms(1,2)])
  have inside: "?n = ?r \<or> starts_with (?r @ [47]) ?n"
    and cs: "cs = (if relpath ?n ?r = lit ''.'' then [] else split_on 47 (relpath ?n ?r))"
    using assms(3) by (auto simp: absolute_components_def Let_def tool_error_def split: if_splits)
  have "\<exists>t. path_parts ?n = path_parts ?r @ t"
  proof (cases "?n = ?r")
    case False
    then have "?n = ?r @ 47 # drop (Suc (length ?r)) ?n"
      using inside append_take_drop_id[of "Suc (length ?r)" ?n] by (simp add: starts_with_def)
    then show ?thesis using path_parts_append[of ?r] by metis
  qed simp
  then obtain t where t: "cs0 = path_parts ?r @ t" using n by metis
  have parts: "\<forall>c \<in> set t. part c \<and> c \<noteq> lit ''.''"
  proof
    fix c assume "c \<in> set t"
    then have "c \<in> set (components s)" using assms(2) t by (simp add: components_of_Inr) (metis Un_iff set_append)
    then show "part c \<and> c \<noteq> lit ''.''" by (rule components_part)
  qed
  then have rel: "relpath ?n ?r = (if t = [] then lit ''.'' else join [47] t)"
    using relpath_below[of ?n ?r t] n t by auto
  have "cs = t"
  proof (cases "t = []")
    case False
    have sp: "split_on 47 (join [47] t) = t" using False parts by (intro split_on_join) (auto simp: part_def)
    have "join [47] t \<noteq> lit ''.''"
    proof
      assume "join [47] t = lit ''.''"
      with sp have "t = [lit ''.'']" by (simp add: lit_Cons)
      with parts show False by simp
    qed
    with sp False show ?thesis by (simp add: cs rel)
  qed (simp add: cs rel)
  with t show ?thesis by simp
qed

lemma walk_Inr:
  "walk f current cs = Inr target \<Longrightarrow>
     target = foldl path_join current cs \<and>
     (\<forall>i < length cs. \<exists>info. lstat f (foldl path_join current (take (Suc i) cs)) = Inr info \<and> st_kind info \<noteq> Link)"
proof (induction cs arbitrary: current)
  case (Cons c cs)
  from Cons.prems obtain info where info: "lstat f (path_join current c) = Inr info" "st_kind info \<noteq> Link"
    and w: "walk f (path_join current c) cs = Inr target"
    by (auto simp: Let_def andthen_Inr tool_error_def lstat_result_def split: if_splits sum.splits os_error.splits)
  show ?case
  proof (intro conjI allI impI)
    show "target = foldl path_join current (c # cs)" using Cons.IH[OF w] by simp
  next
    fix i assume "i < length (c # cs)"
    then show "\<exists>info. lstat f (foldl path_join current (take (Suc i) (c # cs))) = Inr info \<and> st_kind info \<noteq> Link"
      using Cons.IH[OF w] info by (cases i) auto
  qed
qed simp

section \<open>Confinement\<close>

text \<open>\<open>cs\<close> are the components of \<open>s\<close> below the root.\<close>

definition below :: "pystr \<Rightarrow> pystr \<Rightarrow> pystr list \<Rightarrow> bool" where
  "below ws_root s cs \<longleftrightarrow>
     components s = (if isabs s then path_parts (normpath ws_root) @ cs else cs) \<and>
     (\<forall>c \<in> set cs. part c \<and> c \<notin> {lit ''.'', lit ''..'', lit ''.git''})"

lemma resolve_below:
  assumes "resolve f (JStr s) ws_root = Inr (target, relative)"
  obtains cs where "below ws_root s cs" "relative = (if cs = [] then lit ''.'' else join [47] cs)"
    "walk f ws_root cs = Inr target" "scalar_str s" "length (utf8 s) \<le> 1024"
proof -
  have p: "path_arg (JStr s) = Inr s \<and> scalar_str s \<and> length (utf8 s) \<le> 1024"
    using assms by (auto simp: resolve_def path_arg_def tool_error_def split: if_splits)
  then have s: "scalar_str s" "length (utf8 s) \<le> 1024" by simp_all
  obtain cs0 where cs0: "components_of s = Inr cs0"
    using assms p by (cases "components_of s") (simp_all add: resolve_def)
  obtain cs where cs: "(if isabs s then absolute_components s ws_root else Inr cs0) = Inr cs"
    using assms p cs0 by (cases "if isabs s then absolute_components s ws_root else Inr cs0") (simp_all add: resolve_def)
  have rest: "(if lit ''.git'' \<in> set cs then tool_error ''path_excluded'' ''path is excluded''
      else andthen (walk f ws_root cs) (\<lambda>target. Inr (target, if join [47] cs = [] then lit ''.'' else join [47] cs))) =
      Inr (target, relative)"
    using assms p by (simp add: resolve_def cs0 cs)
  then have git: "lit ''.git'' \<notin> set cs" by (auto simp: tool_error_def)
  with rest have w: "walk f ws_root cs = Inr target"
    and rel: "relative = (if join [47] cs = [] then lit ''.'' else join [47] cs)"
    by (simp_all add: andthen_Inr)
  have c: "components s = (if isabs s then path_parts (normpath ws_root) @ cs else cs)"
    using absolute_components_Inr[OF _ cs0] cs cs0 by (auto simp: components_of_Inr split: if_splits)
  have sub: "set cs \<subseteq> set cs0" using c cs0 by (auto simp: components_of_Inr split: if_splits)
  have "\<forall>x \<in> set cs. part x \<and> x \<notin> {lit ''.'', lit ''..'', lit ''.git''}"
    using sub cs0 git components_part[of _ s] by (auto simp: components_of_Inr)
  with c have b: "below ws_root s cs" by (simp add: below_def)
  have "join [47] cs = [] \<longleftrightarrow> cs = []"
    using b by (cases "([47::nat], cs)" rule: join.cases) (auto simp: below_def part_def)
  with that b w s rel show thesis by simp
qed

lemma join_member: "x \<in> set xs \<Longrightarrow> set x \<subseteq> set (join sep xs)"
  by (induction sep xs rule: join.induct) auto

lemma below_chars:
  assumes "below ws_root s cs"
  shows "set (if cs = [] then lit ''.'' else join [47] cs) \<subseteq> set s \<union> {46, 47}"
proof -
  have "set c \<subseteq> set s" if "c \<in> set (split_on 47 s)" for c
    using join_split_on[of 47 s] that by (metis join_member)
  moreover have "set cs \<subseteq> set (components s)" using assms by (auto simp: below_def split: if_splits)
  ultimately have "set c \<subseteq> set s" if "c \<in> set cs" for c
    using that unfolding components_def by (meson filter_is_subset subset_iff)
  then have "set (join [47] cs) \<subseteq> set s \<union> {46, 47}" using join_set[of "[47]" cs] by fastforce
  then show ?thesis by (simp add: lit_Cons)
qed

text \<open>C22: a path the tool resolves stays in the workspace: it is the root followed by components of
  the request, none of them empty, \<open>.\<close>, \<open>..\<close> or \<open>.git\<close>, an absolute request being the root's own
  components followed by these; no prefix of it below the root was seen to be a symbolic link.\<close>

theorem resolve_confined:
  assumes "resolve f (JStr s) ws_root = Inr (target, relative)"
  shows "\<exists>cs. below ws_root s cs \<and> target = foldl path_join ws_root cs \<and>
    relative = (if cs = [] then lit ''.'' else join [47] cs) \<and>
    (\<forall>i < length cs. \<exists>info. lstat f (foldl path_join ws_root (take (Suc i) cs)) = Inr info \<and> st_kind info \<noteq> Link)"
proof -
  obtain cs where "below ws_root s cs" "relative = (if cs = [] then lit ''.'' else join [47] cs)" "walk f ws_root cs = Inr target"
    by (rule resolve_below[OF assms])
  with walk_Inr[of f ws_root cs target] show ?thesis by blast
qed

end
