(* ===== verification/Fs_Facts.thy ===== *)
theory Fs_Facts
  imports Fs_Pages Fs_Paths
begin

text \<open>
  The pages the \<open>read\<close> tool returns. Measuring the escaped bytes of a line is measuring the JSON
  string, so the budgets the plugin checks are the ones the host checks: every page it returns is
  accepted by the host's page contract and rendered within the content limit. On a file that does
  not change, the text is exactly the requested lines.
\<close>

section \<open>Escaped bytes\<close>

lemma escape_extra_high: "0x80 \<le> b \<Longrightarrow> escape_extra b = 0"
  by (simp add: escape_extra_def)

lemma escaped_append [simp]: "escaped_bytes_len (a @ b) = escaped_bytes_len a + escaped_bytes_len b"
  by (simp add: escaped_bytes_len_def)

lemma escaped_Nil [simp]: "escaped_bytes_len [] = 0"
  by (simp add: escaped_bytes_len_def)

lemma utf8_quote_char: "length (utf8 (quote_char c)) = escaped_bytes_len (utf8_char c)"
proof (cases "c < 0x80")
  case True
  then have "utf8_char c = [c]" by (simp add: utf8_char_def)
  then show ?thesis
    using True by (auto simp: quote_char_def escaped_bytes_len_def escape_extra_def utf8_char_def hex_digit_def)
next
  case False
  then have "\<forall>b \<in> set (utf8_char c). 0x80 \<le> b" by (auto simp: utf8_char_def)
  then have "sum_list (map escape_extra (utf8_char c)) = 0" by (simp add: escape_extra_high)
  moreover have "quote_char c = [c]" using False by (simp add: quote_char_def)
  ultimately show ?thesis by (simp add: escaped_bytes_len_def)
qed

lemma length_quote: "length (utf8 (quote t)) = 2 + escaped_bytes_len (utf8 t)"
proof -
  have "length (utf8 (concat (map quote_char t))) = escaped_bytes_len (utf8 t)"
    by (induction t) (simp_all add: utf8_quote_char)
  then show ?thesis by (simp add: quote_def utf8_char_def)
qed

lemma escaped_join: "escaped_bytes_len (join [10] xs) = sum_list (map escaped_bytes_len xs) + 2 * (length xs - 1)"
  by (induction "[10::nat]" xs rule: join.induct) (simp_all add: escaped_bytes_len_def escape_extra_def)

section \<open>The measures of a page\<close>

lemma jsize_dset_text:
  assumes "dget d ''text'' = JStr []" "has d ''text''"
  shows "jsize (JObj (dset d ''text'' (JStr t))) = jsize (JObj d) + escaped_bytes_len (utf8 t)"
proof -
  have "map_of d (lit ''text'') = Some (JStr [])"
    using assms by (auto simp: dget_def dget_or_def has_def keys_def split: option.splits)
  then have "\<exists>a b. d = a @ (lit ''text'', JStr []) # b \<and> lit ''text'' \<notin> set (map fst a)"
  proof (induction d)
    case (Cons e d)
    show ?case
    proof (cases "fst e = lit ''text''")
      case True
      then show ?thesis using Cons.prems by (intro exI[of _ "[]"] exI[of _ d]) (cases e, auto)
    next
      case False
      with Cons obtain a b where "d = a @ (lit ''text'', JStr []) # b" "lit ''text'' \<notin> set (map fst a)"
        by (cases e) auto
      with False show ?thesis by (intro exI[of _ "e # a"] exI[of _ b]) auto
    qed
  qed simp
  then obtain a b where d: "d = a @ (lit ''text'', JStr []) # b" "lit ''text'' \<notin> set (map fst a)" by blast
  have "dput (lit ''text'') (JStr t) d = a @ (lit ''text'', JStr t) # b"
    unfolding d(1) using d(2) by (induction a) auto
  then show ?thesis by (simp add: dset_def d(1) length_quote)
qed

lemma jsize_frame:
  assumes "jsize v = jsize w + n"
  shows "jsize (value_frame v) = jsize (value_frame w) + n"
  unfolding value_frame_def ok_frame_def jsize.simps list.map sum_list.Cons snd_conv assms by simp

lemma value_frame_canon: "length (utf8 (jtext (canon (value_frame v)))) = jsize (value_frame v)"
  by (simp only: jsize_jtext jsize_canon)

text \<open>A page within its budgets, with the sizes of its own JSON.\<close>

definition page_fits :: "json \<Rightarrow> bool" where
  "page_fits v \<longleftrightarrow> int (jsize v) \<le> MAX_VALUE_BYTES \<and> int (jsize (value_frame v)) + 1 \<le> FRAME_LIMIT"

lemma skeleton_text [simp]:
  "dget (value_skeleton p s e n f t b x) ''text'' = JStr []" "has (value_skeleton p s e n f t b x) ''text''"
  by (simp_all add: value_skeleton_def dict_eval)

lemma skeleton_domain:
  "J_domain (JObj (value_skeleton p s e n f t b x)) = (scalar_str p \<and> safe_int s \<and> safe_int e \<and> safe_int n \<and> J_domain t \<and> J_domain b \<and> J_domain x)"
  "json_wf (JObj (value_skeleton p s e n f t b x)) = (code_points p \<and> json_wf t \<and> json_wf b \<and> json_wf x)"
  by (auto simp: value_skeleton_def)

lemma page_measures_nth:
  "page_measures r offset limit n_total final ls n acc = Inr ms \<Longrightarrow>
     length ms = length ls \<and>
     (\<forall>i < length ls. page_measure_of r offset limit n_total final (n + int i) (acc + int (sum_list (take (Suc i) ls))) = Inr (ms ! i))"
proof (induction ls arbitrary: n acc ms)
  case (Cons l ls)
  from Cons.prems obtain m ms' where ms: "ms = m # ms'"
    and m: "page_measure_of r offset limit n_total final n (acc + int l) = Inr m"
    and rest: "page_measures r offset limit n_total final ls (n + 1) (acc + int l) = Inr ms'"
    by (auto simp: run_simps)
  show ?case
  proof (intro conjI allI impI)
    show "length ms = length (l # ls)" using Cons.IH[OF rest] ms by simp
  next
    fix i assume "i < length (l # ls)"
    then show "page_measure_of r offset limit n_total final (n + int i)
        (acc + int (sum_list (take (Suc i) (l # ls)))) = Inr (ms ! i)"
      using Cons.IH[OF rest] m ms by (cases i) (auto simp: add_ac)
  qed
qed simp

lemma prefix_best_spec:
  "let k = prefix_best ls cap (Suc i) best in
     (k = best \<or> (i < k \<and> k \<le> i + length ls \<and> ls ! (k - Suc i) \<le> cap)) \<and>
     (\<forall>j. k < j \<and> i < j \<and> j \<le> i + length ls \<longrightarrow> cap < ls ! (j - Suc i))" if "best \<le> i"
  using that
proof (induction ls arbitrary: i best)
  case (Cons l ls)
  have IH: "let k = prefix_best ls cap (Suc (Suc i)) (if l \<le> cap then Suc i else best) in
     (k = (if l \<le> cap then Suc i else best) \<or> (Suc i < k \<and> k \<le> Suc i + length ls \<and> ls ! (k - Suc (Suc i)) \<le> cap)) \<and>
     (\<forall>j. k < j \<and> Suc i < j \<and> j \<le> Suc i + length ls \<longrightarrow> cap < ls ! (j - Suc (Suc i)))"
    using Cons.prems by (intro Cons.IH) auto
  let ?k = "prefix_best ls cap (Suc (Suc i)) (if l \<le> cap then Suc i else best)"
  have e: "(l # ls) ! (j - Suc i) = (if j = Suc i then l else ls ! (j - Suc (Suc i)))" if "i < j" for j
    using that by (auto simp: nth_Cons' Suc_diff_Suc)
  show ?case
    using IH Cons.prems by (auto simp: Let_def e split: if_splits)
qed simp

lemma maximum_le: "xs \<noteq> [] \<Longrightarrow> maximum xs \<le> c \<longleftrightarrow> (\<forall>x \<in> set xs. x \<le> c)"
proof -
  have "foldl max a ys \<le> c \<longleftrightarrow> a \<le> c \<and> (\<forall>x \<in> set ys. x \<le> c)" for a and ys :: "int list"
    by (induction ys arbitrary: a) auto
  then show "xs \<noteq> [] \<Longrightarrow> ?thesis" by (cases xs) (auto simp: maximum_def)
qed

lemma caps_fit:
  "maximum (caps m) \<le> 0 \<longleftrightarrow>
     p_value m \<le> MAX_VALUE_BYTES \<and> p_content m \<le> MAX_CONTENT_BYTES \<and> p_meta m \<le> MAX_META_BYTES \<and> p_frame m \<le> FRAME_LIMIT"
  by (subst maximum_le) (auto simp: caps_def)

text \<open>The chosen count is the largest one whose page fits.\<close>

lemma choose_k_spec:
  "choose_k ms \<le> length ms \<and> (choose_k ms \<noteq> 0 \<longrightarrow> maximum (caps (ms ! (choose_k ms - 1))) \<le> 0) \<and>
     (\<forall>j. choose_k ms < j \<and> j \<le> length ms \<longrightarrow> 0 < maximum (caps (ms ! (j - 1))))"
  using prefix_best_spec[of 0 0 "map (\<lambda>m. maximum (caps m)) ms" 0]
  by (auto simp: choose_k_def select_prefix_def Let_def)

lemma page_measure_of_spec:
  assumes "page_measure_of r offset limit n_total final n tb = Inr m"
    "J_domain (JObj (page_skeleton r offset limit n_total final n))" "json_wf (JObj (page_skeleton r offset limit n_total final n))"
  shows "p_skeleton m = page_skeleton r offset limit n_total final n \<and>
    p_value m = int (jsize (JObj (p_skeleton m))) + (tb + 2 * (n - 1)) \<and>
    p_frame m = int (jsize (value_frame (JObj (p_skeleton m)))) + 1 + (tb + 2 * (n - 1)) \<and> p_meta m = 2 \<and>
    p_content m = 27 + (tb + 2 * (n - 1)) +
      (if offset + n - 1 < n_total
       then int (escaped_bytes_len (utf8 (footer offset (offset + n - 1) n_total (offset + n)))) else 0)"
proof -
  have "J_domain (value_frame (JObj (page_skeleton r offset limit n_total final n)))"
    "json_wf (value_frame (JObj (page_skeleton r offset limit n_total final n)))"
    using assms(2,3) by (simp_all add: value_frame_def ok_frame_def safe_int_def SAFE_INTEGER_MAX_def)
  with assms show ?thesis
    by (auto simp: page_measure_of_def Let_def json_len_jsize CONTENT_BASE_BYTES_def META_BYTES_def simp del: jsize.simps J_domain.simps json_wf.simps)
qed

lemma decode_lines_spec:
  "decode_lines raws = Inr (ts, ls) \<Longrightarrow>
     map utf8 ts = raws \<and> ls = map escaped_bytes_len raws \<and> (\<forall>raw \<in> set raws. length raw \<le> MAX_LINE) \<and>
     (\<forall>t \<in> set ts. scalar_str t \<and> code_points t)"
proof (induction raws arbitrary: ts ls)
  case (Cons raw raws)
  then obtain t ts' ls' where "utf8_decode raw = Some t" "decode_lines raws = Inr (ts', ls')" "ts = t # ts'"
    "ls = escaped_bytes_len raw # ls'" "length raw \<le> MAX_LINE"
    by (auto simp: tool_error_def andthen_Inr split: if_splits option.splits)
  with Cons.IH[of ts' ls'] utf8_decode_inverse[of raw t] utf8_decode_code_points[of raw t] show ?case by auto
qed simp

section \<open>Pages and their budgets\<close>

text \<open>The page of the lines \<open>ts\<close>, the text the host's renderer makes of it, and the budgets on both,
  stated with the sizes of the JSON itself.\<close>

definition page_json :: "pystr \<Rightarrow> int \<Rightarrow> int \<Rightarrow> int \<Rightarrow> bool \<Rightarrow> pystr list \<Rightarrow> json" where
  "page_json r offset limit n_total final ts =
     JObj (dset (page_skeleton r offset limit n_total final (int (length ts))) ''text'' (JStr (join [10] ts)))"

definition page_text :: "int \<Rightarrow> int \<Rightarrow> pystr list \<Rightarrow> pystr" where
  "page_text offset n_total ts =
     join [10] ts @
     (if offset + int (length ts) - 1 < n_total
      then footer offset (offset + int (length ts) - 1) n_total (offset + int (length ts)) else [])"

definition within_budgets :: "json \<Rightarrow> pystr \<Rightarrow> bool" where
  "within_budgets v content \<longleftrightarrow>
     int (jsize v) \<le> MAX_VALUE_BYTES \<and> int (jsize (value_frame v)) + 1 \<le> FRAME_LIMIT \<and>
     int (jsize (JArr [text_block (JStr content)])) \<le> MAX_CONTENT_BYTES"

lemma content_size: "jsize (JArr [text_block (JStr t)]) = 27 + escaped_bytes_len (utf8 t)"
  by (simp add: text_block_def length_quote) (simp add: lit_Cons escaped_bytes_len_def escape_extra_def utf8_char_def)

lemma page_skeleton_ok:
  assumes "scalar_str r" "code_points r" "safe_int offset" "safe_int (offset + n - 1)" "safe_int n_total" "safe_int (offset + n)"
  shows "J_domain (JObj (page_skeleton r offset limit n_total final n))" "json_wf (JObj (page_skeleton r offset limit n_total final n))"
  unfolding page_skeleton_def Let_def skeleton_domain using assms by simp_all

lemma page_sizes:
  assumes "page_measure_of r offset limit n_total final (int (length ts)) (int (sum_list (map (escaped_bytes_len \<circ> utf8) ts))) = Inr m"
    "ts \<noteq> []" "J_domain (JObj (page_skeleton r offset limit n_total final (int (length ts))))"
    "json_wf (JObj (page_skeleton r offset limit n_total final (int (length ts))))"
  shows "maximum (caps m) \<le> 0 \<longleftrightarrow> within_budgets (page_json r offset limit n_total final ts) (page_text offset n_total ts)"
    "JObj (dset (p_skeleton m) ''text'' (JStr (join [10] ts))) = page_json r offset limit n_total final ts"
proof -
  note spec = page_measure_of_spec[OF assms(1,3,4)]
  let ?d = "page_skeleton r offset limit n_total final (int (length ts))"
  let ?e = "escaped_bytes_len (utf8 (join [10] ts))"
  have "utf8 (join [10] ts) = join [10] (map utf8 ts)" by (simp add: utf8_join)
  then have e: "int (sum_list (map (escaped_bytes_len \<circ> utf8) ts)) + 2 * (int (length ts) - 1) = int ?e"
    using assms(2) by (simp add: escaped_join comp_def of_nat_diff Suc_le_eq)
  have t: "dget ?d ''text'' = JStr []" "has ?d ''text''" by (simp_all add: page_skeleton_def Let_def)
  have v: "jsize (page_json r offset limit n_total final ts) = jsize (JObj ?d) + ?e"
    unfolding page_json_def by (rule jsize_dset_text[OF t])
  have f: "jsize (value_frame (page_json r offset limit n_total final ts)) = jsize (value_frame (JObj ?d)) + ?e"
    by (rule jsize_frame[OF v])
  have c: "int (escaped_bytes_len (utf8 (page_text offset n_total ts))) = int ?e +
      (if offset + int (length ts) - 1 < n_total
       then int (escaped_bytes_len (utf8 (footer offset (offset + int (length ts) - 1) n_total (offset + int (length ts))))) else 0)"
    by (simp add: page_text_def)
  show "maximum (caps m) \<le> 0 \<longleftrightarrow> within_budgets (page_json r offset limit n_total final ts) (page_text offset n_total ts)"
    unfolding caps_fit within_budgets_def content_size v f of_nat_add c
    using spec e by (auto simp: MAX_META_BYTES_def simp del: jsize.simps)
  show "JObj (dset (p_skeleton m) ''text'' (JStr (join [10] ts))) = page_json r offset limit n_total final ts"
    using spec by (simp add: page_json_def)
qed

text \<open>What \<open>_read_page\<close> answers once the window is read: the longest page within the budgets.\<close>

definition longest_page :: "pystr \<Rightarrow> int \<Rightarrow> int \<Rightarrow> int \<Rightarrow> bool \<Rightarrow> pystr list \<Rightarrow> nat \<Rightarrow> bool" where
  "longest_page r offset limit n_total final ts k \<longleftrightarrow>
     1 \<le> k \<and> k \<le> length ts \<and>
     within_budgets (page_json r offset limit n_total final (take k ts)) (page_text offset n_total (take k ts)) \<and>
     (\<forall>j. k < j \<and> j \<le> length ts \<longrightarrow>
        \<not> within_budgets (page_json r offset limit n_total final (take j ts)) (page_text offset n_total (take j ts)))"

lemma read_page_Inr:
  assumes "read_page r fd st offset limit n_total final bounds = Inr v" "scalar_str r" "code_points r"
    "offset + length bounds \<le> 2 ^ 40" "n_total \<le> 2 ^ 40"
  obtains raws ts k where "read_window fd bounds = Inr raws" "map utf8 ts = raws" "\<forall>raw \<in> set raws. length raw \<le> MAX_LINE"
    "\<forall>t \<in> set ts. scalar_str t \<and> code_points t"
    "longest_page r (int offset) (int limit) (int n_total) final ts k"
    "v = page_json r (int offset) (int limit) (int n_total) final (take k ts)"
proof -
  from assms(1) obtain raws ts ls ms where w: "read_window fd bounds = Inr raws"
    and d: "decode_lines raws = Inr (ts, ls)"
    and ms: "page_measures r (int offset) (int limit) (int n_total) final ls 1 0 = Inr ms"
    and k: "choose_k ms \<noteq> 0"
    and v: "v = JObj (dset (p_skeleton (ms ! (choose_k ms - 1))) ''text'' (JStr (join [10] (take (choose_k ms) ts))))"
    by (auto simp: read_page_def run_simps Let_def tool_error_def split: if_splits)
  have dec: "map utf8 ts = raws" "ls = map (escaped_bytes_len \<circ> utf8) ts" "\<forall>raw \<in> set raws. length raw \<le> MAX_LINE"
    "\<forall>t \<in> set ts. scalar_str t \<and> code_points t"
    using decode_lines_spec[OF d] by auto
  have bounds: "length ts = length bounds"
  proof -
    have "length raws = length bounds"
      using w by (auto simp: read_window_def Let_def andthen_Inr tool_error_def split: if_splits)
    then show ?thesis by (simp flip: dec(1))
  qed
  have size: "length ms = length ts" and m: "\<And>i. i < length ts \<Longrightarrow>
      page_measure_of r (int offset) (int limit) (int n_total) final (int (Suc i)) (int (sum_list (take (Suc i) ls))) = Inr (ms ! i)"
    using page_measures_nth[OF ms] by (auto simp: dec(2))
  have page: "(maximum (caps (ms ! (j - 1))) \<le> 0 \<longleftrightarrow>
        within_budgets (page_json r (int offset) (int limit) (int n_total) final (take j ts)) (page_text (int offset) (int n_total) (take j ts))) \<and>
      JObj (dset (p_skeleton (ms ! (j - 1))) ''text'' (JStr (join [10] (take j ts)))) =
        page_json r (int offset) (int limit) (int n_total) final (take j ts)" if j: "1 \<le> j" "j \<le> length ts" for j
  proof -
    from j obtain i where i: "j = Suc i" by (cases j) auto
    have safe: "safe_int x" if "0 \<le> x" "x \<le> 2 ^ 40" for x using that by (simp add: safe_int_def SAFE_INTEGER_MAX_def)
    have len: "length (take j ts) = j" using j by simp
    have ok: "J_domain (JObj (page_skeleton r (int offset) (int limit) (int n_total) final (int (length (take j ts)))))"
      "json_wf (JObj (page_skeleton r (int offset) (int limit) (int n_total) final (int (length (take j ts)))))"
      unfolding len by (rule page_skeleton_ok; use assms j bounds in \<open>simp add: safe\<close>)+
    have "page_measure_of r (int offset) (int limit) (int n_total) final (int (length (take j ts)))
        (int (sum_list (map (escaped_bytes_len \<circ> utf8) (take j ts)))) = Inr (ms ! (j - 1))"
      using m[of i] j by (simp add: i len dec(2) take_map del: of_nat_Suc take_Suc)
    moreover have "take j ts \<noteq> []" using j by (cases ts) auto
    ultimately show ?thesis using page_sizes[OF _ _ ok] by blast
  qed
  let ?k = "choose_k ms"
  have ck: "1 \<le> ?k" "?k \<le> length ts" "maximum (caps (ms ! (?k - 1))) \<le> 0"
    "\<And>j. ?k < j \<Longrightarrow> j \<le> length ts \<Longrightarrow> 0 < maximum (caps (ms ! (j - 1)))"
    using choose_k_spec[of ms] k size by auto
  have "longest_page r (int offset) (int limit) (int n_total) final ts ?k"
    unfolding longest_page_def
  proof (intro conjI allI impI)
    fix j assume "?k < j \<and> j \<le> length ts"
    then show "\<not> within_budgets (page_json r (int offset) (int limit) (int n_total) final (take j ts)) (page_text (int offset) (int n_total) (take j ts))"
      using ck(4)[of j] page[of j] ck(1) by auto
  qed (use ck page[of ?k] in auto)
  then show thesis using that[OF w dec(1,3,4)] page[of ?k] ck v by simp
qed

section \<open>The tool\<close>

lemma page_json_fields:
  "page_json r offset limit n_total final ts =
     (let k = int (length ts); truncated = offset + k - 1 < n_total in
      JObj [(lit ''path'', JStr r), (lit ''text'', JStr (join [10] ts)), (lit ''start_line'', JInt offset),
        (lit ''end_line'', JInt (offset + k - 1)), (lit ''total_lines'', JInt n_total), (lit ''final_newline'', JBool final),
        (lit ''truncated'', JBool truncated),
        (lit ''truncated_by'', if truncated then if k = limit then jstr ''lines'' else jstr ''bytes'' else JNull),
        (lit ''next_offset'', if truncated then JInt (offset + k) else JNull)])"
  by (simp add: page_json_def page_skeleton_def value_skeleton_def dset_def Let_def)

definition requested :: "dict \<Rightarrow> nat \<Rightarrow> nat \<Rightarrow> bool" where
  "requested args offset limit \<longleftrightarrow>
     dget_or args ''offset'' (JInt 1) = JInt (int offset) \<and> dget_or args ''limit'' (JInt MAX_LINES) = JInt (int limit) \<and>
     1 \<le> offset \<and> 1 \<le> limit \<and> limit \<le> 2000"

text \<open>What a successful read went through: the request, the file's bytes as the scan read them, and
  either the empty page or a page cut out of the window.\<close>

lemma read_tool_Inr:
  assumes "read_tool f args ws_root = Inr v" "json_wf (JObj args)"
  obtains offset limit relative target fd st b where "requested args offset limit" "scalar_str relative" "code_points relative"
    "open_file f target = Inr fd" "reads_content (reads fd) = Some b" "length b \<le> MAX_FILE_BYTES"
    "(b = [] \<and> offset = 1 \<and> v = JObj (empty_value relative) \<and> (\<exists>m. empty_measures relative = Inr m \<and> \<not> over_caps m)) \<or>
     (b \<noteq> [] \<and> offset \<le> length (file_lines b) \<and>
      read_page relative fd st offset limit (length (file_lines b)) (last b = 10)
        (map (\<lambda>i. (int (fst (line_span b i)), int (snd (line_span b i))))
          [offset - 1 ..< min (offset - 1 + limit) (length (file_lines b))]) = Inr v)"
proof -
  let ?offset = "dget_or args ''offset'' (JInt 1)" and ?limit = "dget_or args ''limit'' (JInt MAX_LINES)"
  from assms(1) obtain path target relative info fd st where p: "path_arg (dget args ''path'') = Inr path"
    and req: "is_int ?offset" "is_int ?limit" "1 \<le> the_int ?offset" "1 \<le> the_int ?limit" "the_int ?limit \<le> MAX_LINES"
    and res: "resolve f (JStr path) ws_root = Inr (target, relative)"
    and op: "open_regular f target info = Inr (fd, st)"
    and rd: "read_opened relative fd st (nat (the_int ?offset)) (nat (the_int ?limit)) = Inr v"
    unfolding read_tool_def by (auto simp: andthen_Inr tool_error_def Let_def split: if_splits)
  let ?o = "nat (the_int ?offset)" and ?l = "nat (the_int ?limit)"
  have r: "requested args ?o ?l"
    using req by (cases ?offset; cases ?limit) (auto simp: requested_def MAX_LINES_def)
  have fd: "open_file f target = Inr fd"
    using op by (auto simp: open_regular_def andthen_Inr tool_error_def split: sum.splits os_error.splits if_splits)
  have path: "code_points path"
  proof -
    have "dget args ''path'' = JStr path" using p by (auto simp: path_arg_def tool_error_def split: json.splits if_splits)
    then show ?thesis using wf_dget[OF assms(2), of "''path''"] by simp
  qed
  obtain cs where cs: "below ws_root path cs" "relative = (if cs = [] then lit ''.'' else join [47] cs)" "scalar_str path"
    by (rule resolve_below[OF res])
  have sub: "set relative \<subseteq> set path \<union> {46, 47}" using below_chars[OF cs(1)] cs(2) by simp
  have rel: "scalar_str relative" "code_points relative"
    using sub cs(3) path by (auto simp: scalar_str_def code_points_def surrogate_def list_all_iff)
  from rd obtain n final bounds where sc: "scan_file fd st ?o ?l = Inr (n, final, bounds)"
    and body: "(if n = 0 then (if ?o \<noteq> 1 then tool_error ''offset_out_of_range'' ''offset is outside the file''
         else andthen (empty_measures relative) (\<lambda>m.
           if over_caps m then tool_error ''output_too_large'' ''empty page exceeds output budgets''
           else Inr (JObj (p_skeleton m))))
       else if ?o > n then tool_error ''offset_out_of_range'' ''offset is outside the file''
       else read_page relative fd st ?o ?l n final bounds) = Inr v"
    unfolding read_opened_def by (auto simp: andthen_Inr tool_error_def split: if_split_asm)
  from scan_file_spec[OF sc] r obtain b where b: "reads_content (reads fd) = Some b" "length b \<le> MAX_FILE_BYTES"
    "n = length (file_lines b)" "final = (b \<noteq> [] \<and> last b = 10)"
    "bounds = map (\<lambda>i. (int (fst (line_span b i)), int (snd (line_span b i)))) [?o - 1 ..< min (?o - 1 + ?l) n]"
    by (auto simp: requested_def)
  have n: "n = 0 \<longleftrightarrow> b = []" by (cases b rule: rev_cases) (auto simp: b(3) length_file_lines count_lf_def)
  have "(b = [] \<and> ?o = 1 \<and> v = JObj (empty_value relative) \<and> (\<exists>m. empty_measures relative = Inr m \<and> \<not> over_caps m)) \<or>
     (b \<noteq> [] \<and> ?o \<le> length (file_lines b) \<and>
      read_page relative fd st ?o ?l (length (file_lines b)) (last b = 10)
        (map (\<lambda>i. (int (fst (line_span b i)), int (snd (line_span b i))))
          [?o - 1 ..< min (?o - 1 + ?l) (length (file_lines b))]) = Inr v)"
  proof (cases "b = []")
    case True
    then show ?thesis using body n
      by (auto simp: tool_error_def andthen_Inr empty_measures_def Let_def split: if_splits)
  next
    case False
    then show ?thesis using body n by (auto simp: tool_error_def b(3,4,5) split: if_splits)
  qed
  then show thesis by (rule that[OF r rel fd b(1,2)])
qed

section \<open>Budgets\<close>

lemma empty_value_ok:
  assumes "scalar_str r" "code_points r"
  shows "J_domain (JObj (empty_value r))" "json_wf (JObj (empty_value r))"
  using assms by (simp_all add: empty_value_def skeleton_domain safe_int_def SAFE_INTEGER_MAX_def del: J_domain.simps json_wf.simps)
    (simp_all add: lit_def)

lemma frame_domain: "J_domain v \<Longrightarrow> J_domain (value_frame v)" "json_wf v \<Longrightarrow> json_wf (value_frame v)"
  by (simp_all add: value_frame_def ok_frame_def safe_int_def SAFE_INTEGER_MAX_def)

lemma frame_bytes_jsize: "J_domain v \<Longrightarrow> frame_bytes v = Inr (jsize (value_frame v) + 1)"
proof -
  assume "J_domain v"
  then have "J_domain (tool_frame v)" by (simp add: tool_frame_def safe_int_def SAFE_INTEGER_MAX_def)
  from compact_json_jsize[OF this] obtain b where "compact_json (tool_frame v) = Inr b" "length b = jsize (tool_frame v)" by blast
  moreover have "jsize (tool_frame v) = jsize (value_frame v)"
    by (simp add: tool_frame_def value_frame_def ok_frame_def del: jtext.simps)
  ultimately show ?thesis by (simp add: frame_bytes_def)
qed

lemma page_json_ok:
  assumes "scalar_str r" "code_points r" "offset + length ts \<le> 2 ^ 40" "n_total \<le> 2 ^ 40" "\<forall>t \<in> set ts. scalar_str t \<and> code_points t"
  shows "J_domain (page_json r (int offset) limit (int n_total) final ts)" "json_wf (page_json r (int offset) limit (int n_total) final ts)"
proof -
  have "scalar_str (join [10] ts)" using assms(5) by (intro scalar_join) (auto simp: surrogate_def)
  moreover have "code_points (join [10] ts)" using assms(5) by (intro code_points_join) auto
  moreover have "safe_int x" if "- 1 \<le> x" "x \<le> 2 ^ 40" for x using that by (simp add: safe_int_def SAFE_INTEGER_MAX_def)
  ultimately show "J_domain (page_json r (int offset) limit (int n_total) final ts)" "json_wf (page_json r (int offset) limit (int n_total) final ts)"
    using assms by (auto simp: page_json_fields Let_def)
qed

lemma file_lines_small: "length b \<le> MAX_FILE_BYTES \<Longrightarrow> length (file_lines b) \<le> 2 ^ 21"
proof -
  have "count_lf b \<le> length b" by (simp add: count_lf_def)
  then show "length b \<le> MAX_FILE_BYTES \<Longrightarrow> ?thesis" by (auto simp: length_file_lines MAX_FILE_BYTES_def split: if_splits)
qed

text \<open>The two shapes of a page, with everything known about them.\<close>

definition window_of :: "bytes \<Rightarrow> nat \<Rightarrow> nat \<Rightarrow> (int \<times> int) list" where
  "window_of b offset limit =
     map (\<lambda>i. (int (fst (line_span b i)), int (snd (line_span b i))))
       [offset - 1 ..< min (offset - 1 + limit) (length (file_lines b))]"

lemma read_tool_cases:
  assumes "read_tool f args ws_root = Inr v" "json_wf (JObj args)"
  obtains (empty) relative target fd limit where "requested args 1 limit" "scalar_str relative" "code_points relative"
    "open_file f target = Inr fd" "reads_content (reads fd) = Some []" "v = JObj (empty_value relative)"
    "int (jsize v) \<le> MAX_VALUE_BYTES" "int (jsize (value_frame v)) + 1 \<le> FRAME_LIMIT"
  | (page) relative target fd b offset limit ts k where "requested args offset limit" "scalar_str relative" "code_points relative"
    "open_file f target = Inr fd" "reads_content (reads fd) = Some b" "b \<noteq> []" "length b \<le> MAX_FILE_BYTES"
    "offset \<le> length (file_lines b)" "read_window fd (window_of b offset limit) = Inr (map utf8 ts)"
    "\<forall>t \<in> set ts. scalar_str t \<and> code_points t \<and> length (utf8 t) \<le> MAX_LINE"
    "longest_page relative (int offset) (int limit) (int (length (file_lines b))) (last b = 10) ts k"
    "v = page_json relative (int offset) (int limit) (int (length (file_lines b))) (last b = 10) (take k ts)"
    "length ts = min limit (length (file_lines b) + 1 - offset)"
proof -
  obtain offset limit relative target fd st b where r: "requested args offset limit" "scalar_str relative" "code_points relative"
    "open_file f target = Inr fd" "reads_content (reads fd) = Some b" "length b \<le> MAX_FILE_BYTES"
    and body: "(b = [] \<and> offset = 1 \<and> v = JObj (empty_value relative) \<and> (\<exists>m. empty_measures relative = Inr m \<and> \<not> over_caps m)) \<or>
     (b \<noteq> [] \<and> offset \<le> length (file_lines b) \<and>
      read_page relative fd st offset limit (length (file_lines b)) (last b = 10) (window_of b offset limit) = Inr v)"
    unfolding window_of_def by (rule read_tool_Inr[OF assms])
  from body show thesis
  proof
    assume e: "b = [] \<and> offset = 1 \<and> v = JObj (empty_value relative) \<and> (\<exists>m. empty_measures relative = Inr m \<and> \<not> over_caps m)"
    then have v: "J_domain v" "json_wf v" using empty_value_ok[OF r(2,3)] by (simp_all del: J_domain.simps json_wf.simps)
    from e obtain m where m: "empty_measures relative = Inr m" "\<not> over_caps m" by blast
    have "p_value m = int (jsize v)" "p_frame m = int (jsize (value_frame v)) + 1"
      using m(1) v frame_domain(1)[OF v(1)] frame_domain(2)[OF v(2)] e
      by (auto simp: empty_measures_def Let_def json_len_jsize simp del: jsize.simps J_domain.simps json_wf.simps)
    with m(2) have "int (jsize v) \<le> MAX_VALUE_BYTES" "int (jsize (value_frame v)) + 1 \<le> FRAME_LIMIT"
      by (auto simp: over_caps_def caps_def not_less)
    with e r show thesis by (intro empty[of limit relative target fd]) auto
  next
    assume p: "b \<noteq> [] \<and> offset \<le> length (file_lines b) \<and>
      read_page relative fd st offset limit (length (file_lines b)) (last b = 10) (window_of b offset limit) = Inr v"
    have len: "length (window_of b offset limit) = min limit (length (file_lines b) + 1 - offset)"
      using p r(1) by (auto simp: window_of_def requested_def)
    have "offset + length (window_of b offset limit) \<le> 2 ^ 40" "length (file_lines b) \<le> 2 ^ 40"
      using p len file_lines_small[OF r(6)] by auto
    from read_page_Inr[OF _ r(2,3) this(1,2)] p obtain raws ts k where w: "read_window fd (window_of b offset limit) = Inr raws"
      "map utf8 ts = raws" "\<forall>raw \<in> set raws. length raw \<le> MAX_LINE" "\<forall>t \<in> set ts. scalar_str t \<and> code_points t"
      "longest_page relative (int offset) (int limit) (int (length (file_lines b))) (last b = 10) ts k"
      "v = page_json relative (int offset) (int limit) (int (length (file_lines b))) (last b = 10) (take k ts)"
      by metis
    have "length raws = length (window_of b offset limit)"
      using w(1) by (auto simp: read_window_def Let_def andthen_Inr tool_error_def split: if_splits)
    then have "length ts = min limit (length (file_lines b) + 1 - offset)" by (simp add: len flip: w(2))
    with p r w show thesis by (intro page[of offset limit relative target fd b ts k]) auto
  qed
qed

text \<open>C21: a page the tool returns has canonical bytes, at most 40960 of them, and the answer frame
  around it at most 60000 with its line feed: the sizes the plugin adds up are those of the bytes.\<close>

theorem read_within_budgets:
  assumes "read_tool f args ws_root = Inr v" "json_wf (JObj args)"
  shows "\<exists>n m. json_bytes v = Inr n \<and> frame_bytes v = Inr m \<and> n \<le> 40960 \<and> m \<le> 60000"
  using assms
proof (cases rule: read_tool_cases)
  case (empty relative)
  then have "J_domain v" using empty_value_ok by simp
  with compact_json_jsize[OF this] frame_bytes_jsize[OF this] empty(7,8) show ?thesis
    by (auto simp: json_bytes_def MAX_VALUE_BYTES_def FRAME_LIMIT_def)
next
  case (page relative target fd b offset limit ts k)
  have k: "1 \<le> k" "k \<le> length ts" "within_budgets v (page_text (int offset) (int (length (file_lines b))) (take k ts))"
    using page(11,12) by (auto simp: longest_page_def)
  have "J_domain v"
    unfolding page(12) using page(2,3,8,10,13) file_lines_small[OF page(7)] k
    by (intro page_json_ok) (auto dest: in_set_takeD)
  with compact_json_jsize[OF this] frame_bytes_jsize[OF this] k(3) show ?thesis
    by (auto simp: json_bytes_def within_budgets_def MAX_VALUE_BYTES_def FRAME_LIMIT_def)
qed

section \<open>A file that does not change\<close>

lemma lf_at_mono: "i < j \<Longrightarrow> j < count_lf b \<Longrightarrow> lf_at b i < lf_at b j"
proof (induction b arbitrary: i j)
  case (Cons x b)
  then show ?case by (cases j; cases i) auto
qed simp

lemma line_span_bounds:
  assumes "i \<le> count_lf b"
  shows "fst (line_span b i) \<le> snd (line_span b i)" "snd (line_span b i) \<le> length b"
proof -
  have "Suc (lf_at b (i - 1)) \<le> lf_at b i" if "0 < i" "i < count_lf b"
    using lf_at_mono[of "i - 1" i b] that by simp
  moreover have "lf_at b j < length b" if "j < count_lf b" for j using lf_at_spec[OF that] by simp
  ultimately show "fst (line_span b i) \<le> snd (line_span b i)" "snd (line_span b i) \<le> length b"
    using assms by (auto simp: line_span_def Suc_le_eq less_imp_le)
qed

lemma line_span_mono:
  assumes "i \<le> j" "j \<le> count_lf b"
  shows "fst (line_span b i) \<le> fst (line_span b j)" "snd (line_span b i) \<le> snd (line_span b j)"
proof -
  have "fst (line_span b i) \<le> fst (line_span b j) \<and> snd (line_span b i) \<le> snd (line_span b j)"
  proof (cases "i = j")
    case False
    then have "i < j" using assms(1) by simp
    moreover have "lf_at b (i - 1) \<le> lf_at b (j - 1)" if "0 < i"
      using lf_at_mono[of "i - 1" "j - 1" b] that \<open>i < j\<close> assms(2) by (simp add: less_imp_le)
    moreover have "lf_at b i < lf_at b j" if "j < count_lf b" using lf_at_mono[OF \<open>i < j\<close> that] .
    moreover have "lf_at b i < length b" using lf_at_spec[of i b] \<open>i < j\<close> assms(2) by simp
    ultimately show ?thesis using assms by (auto simp: line_span_def)
  qed simp
  then show "fst (line_span b i) \<le> fst (line_span b j)" "snd (line_span b i) \<le> snd (line_span b j)" by auto
qed

lemma file_line:
  assumes "i < length (file_lines b)"
  shows "file_lines b ! i = take (snd (line_span b i) - fst (line_span b i)) (drop (fst (line_span b i)) b)" "i \<le> count_lf b"
proof -
  show i: "i \<le> count_lf b" using assms by (auto simp: length_file_lines split: if_splits)
  have "file_lines b ! i = split_on 10 b ! i"
    using assms by (auto simp: file_lines_def nth_butlast split: if_splits)
  with split_on_span[OF i]
  show "file_lines b ! i = take (snd (line_span b i) - fst (line_span b i)) (drop (fst (line_span b i)) b)" by simp
qed

lemma file_lines_no_lf: "l \<in> set (file_lines b) \<Longrightarrow> 10 \<notin> set l"
  by (auto simp: file_lines_def dest: split_on_parts in_set_butlastD split: if_splits)

text \<open>Every \<open>open\<close> yields the bytes \<open>b\<close>, whatever the chunks of the scan, and \<open>pread\<close> reads them too.\<close>

definition steady :: "fs \<Rightarrow> bytes \<Rightarrow> bool" where
  "steady f b \<longleftrightarrow> (\<forall>p fd. open_file f p = Inr fd \<longrightarrow>
     reads_content (reads fd) = Some b \<and> (\<forall>n i. pread_window fd n i = Inr (take n (drop i b))))"

lemma slice_take: "a \<le> l \<Longrightarrow> l \<le> r \<Longrightarrow> r \<le> e \<Longrightarrow>
  Fs_Read.slice (take (e - a) (drop a b)) (int l - int a) (int r - int a) = take (r - l) (drop l b)"
  by (simp add: Fs_Read.slice_def nat_diff_distrib drop_take min_def)

lemma read_window_steady:
  assumes "\<And>n i. pread_window fd n i = Inr (take n (drop i b))" "read_window fd (window_of b offset limit) = Inr raws"
  shows "raws = map (\<lambda>i. file_lines b ! i) [offset - 1 ..< min (offset - 1 + limit) (length (file_lines b))]"
proof (cases "window_of b offset limit = []")
  case True
  then show ?thesis using assms(2) by (simp add: read_window_def window_of_def)
next
  case False
  let ?lo = "offset - 1" and ?hi = "min (offset - 1 + limit) (length (file_lines b))"
  have "[?lo ..< ?hi] \<noteq> []" using False unfolding window_of_def by (simp only: map_is_Nil_conv not_False_eq_True)
  then have lt: "?lo < ?hi" by (simp only: upt_eq_Nil_conv not_less) linarith
  define a where "a = fst (line_span b ?lo)"
  define e where "e = snd (line_span b (?hi - 1))"
  have ends: "fst (hd (window_of b offset limit)) = int a" "snd (last (window_of b offset limit)) = int e"
  proof -
    have ne: "[?lo ..< ?hi] \<noteq> []" using lt by (simp only: upt_eq_Nil_conv) auto
    show "fst (hd (window_of b offset limit)) = int a" "snd (last (window_of b offset limit)) = int e"
      unfolding window_of_def hd_map[OF ne] last_map[OF ne] hd_upt[OF lt] last_upt[OF lt] a_def e_def by simp_all
  qed
  have idx: "i < length (file_lines b) \<and> i \<le> count_lf b" if "i < ?hi" for i
    using that file_line(2)[of i b] by auto
  have "raws = map (\<lambda>(left, right). Fs_Read.slice (take (nat (int e - int a)) (drop (nat (int a)) b)) (left - int a) (right - int a)) (window_of b offset limit)"
    using assms(2) False by (auto simp: read_window_def Let_def ends assms(1) read_result_def tool_error_def split: if_splits)
  also have "\<dots> = map (\<lambda>i. file_lines b ! i) [?lo ..< ?hi]"
  proof -
    have "Fs_Read.slice (take (nat (int e - int a)) (drop (nat (int a)) b)) (int (fst (line_span b i)) - int a) (int (snd (line_span b i)) - int a) =
        file_lines b ! i" if "i \<in> set [?lo ..< ?hi]" for i
    proof -
      have i: "?lo \<le> i" "i \<le> ?hi - 1" "i < ?hi" using that by auto
      have "a \<le> fst (line_span b i)" unfolding a_def using i idx[OF i(3)] by (intro line_span_mono) auto
      moreover have "snd (line_span b i) \<le> e" unfolding e_def by (rule line_span_mono(2)[OF i(2) conjunct2[OF idx]]) (use lt in linarith)
      moreover have "fst (line_span b i) \<le> snd (line_span b i)" using idx[OF i(3)] by (intro line_span_bounds) auto
      moreover have "nat (int e - int a) = e - a" by simp
      ultimately show ?thesis using slice_take file_line(1)[of i b] idx[OF i(3)] by simp
    qed
    then show ?thesis by (simp add: window_of_def)
  qed
  finally show ?thesis .
qed

definition requested_lines :: "bytes \<Rightarrow> nat \<Rightarrow> nat \<Rightarrow> bytes list" where
  "requested_lines b offset limit = take limit (drop (offset - 1) (file_lines b))"

lemma requested_lines_upt:
  "map (\<lambda>i. file_lines b ! i) [offset - 1 ..< min (offset - 1 + limit) (length (file_lines b))] = requested_lines b offset limit"
proof -
  let ?n = "min limit (length (file_lines b) - (offset - 1))"
  have e: "offset - 1 + ?n = (if offset - 1 \<le> length (file_lines b) then min (offset - 1 + limit) (length (file_lines b)) else offset - 1)"
    by (auto simp: min_def)
  have "map ((!) (file_lines b)) [offset - 1 ..< offset - 1 + ?n] = take ?n (drop (offset - 1) (file_lines b))"
    by (rule nth_equalityI) auto
  also have "\<dots> = requested_lines b offset limit" by (auto simp: requested_lines_def min_def)
  also have "[offset - 1 ..< offset - 1 + ?n] = [offset - 1 ..< min (offset - 1 + limit) (length (file_lines b))]"
    unfolding e by (auto simp: upt_conv_Nil)
  finally show ?thesis by simp
qed

text \<open>The page of a steady file: nothing for an empty one, otherwise a prefix of the requested lines.\<close>

definition page_of :: "bytes \<Rightarrow> nat \<Rightarrow> nat \<Rightarrow> pystr \<Rightarrow> pystr list \<Rightarrow> json" where
  "page_of b offset limit r ts =
     (if b = [] then JObj (empty_value r)
      else page_json r (int offset) (int limit) (int (length (file_lines b))) (last b = 10) ts)"

definition text_of_page :: "bytes \<Rightarrow> nat \<Rightarrow> pystr list \<Rightarrow> pystr" where
  "text_of_page b offset ts =
     (if b = [] then lit ''[empty file]'' else page_text (int offset) (int (length (file_lines b))) ts)"

lemma read_tool_steady:
  assumes "read_tool f args ws_root = Inr v" "json_wf (JObj args)" "steady f b"
  obtains r offset limit ts k where "requested args offset limit" "scalar_str r" "code_points r"
    "if b = [] then offset = 1 else offset \<le> length (file_lines b)" "length b \<le> MAX_FILE_BYTES"
    "map utf8 ts = requested_lines b offset limit" "\<forall>t \<in> set ts. scalar_str t \<and> code_points t \<and> length (utf8 t) \<le> MAX_LINE \<and> 10 \<notin> set t"
    "v = page_of b offset limit r (take k ts)"
    "if b = [] then k = 0 else longest_page r (int offset) (int limit) (int (length (file_lines b))) (last b = 10) ts k"
  using assms(1,2)
proof (cases rule: read_tool_cases)
  case (empty relative target fd limit)
  then have "b = []" using assms(3) by (auto simp: steady_def)
  then show thesis
    using that[of 1 limit relative "[]" 0] empty(1-3,6)
    by (simp add: page_of_def requested_lines_def file_lines_def)
next
  case (page relative target fd c offset limit ts k)
  have c: "c = b" and win: "\<And>n i. pread_window fd n i = Inr (take n (drop i b))"
    using assms(3) page(4,5) by (auto simp: steady_def)
  have lines: "map utf8 ts = requested_lines b offset limit"
    using read_window_steady[OF win page(9)[unfolded c]] by (simp only: requested_lines_upt)
  have "10 \<notin> set t" if "t \<in> set ts" for t
  proof -
    have "utf8 t \<in> set (requested_lines b offset limit)" using that by (simp flip: lines)
    then have "10 \<notin> set (utf8 t)" unfolding requested_lines_def by (meson file_lines_no_lf in_set_dropD in_set_takeD)
    moreover have "10 \<in> set t \<Longrightarrow> 10 \<in> set (utf8 t)" by (induction t) (auto simp: utf8_char_def)
    ultimately show ?thesis by blast
  qed
  with page lines that[of offset limit relative ts k] show thesis by (auto simp: c page_of_def)
qed

text \<open>C19: on a file that does not change while it is read the page holds exactly a prefix of the
  requested lines, with their numbers, the line count and the cursor to go on from; that prefix is
  not empty unless the file is, and no longer one fits the budgets.\<close>

theorem read_page_exact:
  assumes "read_tool f args ws_root = Inr v" "json_wf (JObj args)" "steady f b"
  shows "\<exists>r offset limit ts k. requested args offset limit \<and> map utf8 ts = requested_lines b offset limit \<and>
    v = page_of b offset limit r (take k ts) \<and>
    (if b = [] then k = 0 else longest_page r (int offset) (int limit) (int (length (file_lines b))) (last b = 10) ts k)"
  by (rule read_tool_steady[OF assms]) blast

section \<open>The host accepts the page\<close>

definition read_ref :: renderer_ref where
  "read_ref = ref (builtin ''v24.fs.read.text''
     ''ca52198cf6c2edae798f2340ba4f370f658d422fa05f5d529c28510dea0a680c'' (read_render (\<lambda>_. [])))"

lemma read_approved:
  "lookup_renderer (RENDERERS shown) read_ref =
     Inr (builtin ''v24.fs.read.text'' ''ca52198cf6c2edae798f2340ba4f370f658d422fa05f5d529c28510dea0a680c'' (read_render shown))"
  "page_contract_of (rid read_ref) = Some \<lparr>renderer_id = lit ''v24.fs.read.text'', kind = ReadPage, default_limit = MAX_READ_LINES\<rparr>"
  by (simp_all add: lookup_renderer_def RENDERERS_def builtin_def read_ref_def page_contract_of_def BUILTIN_PAGE_CONTRACTS_def)

lemma page_parts:
  fixes r offset limit n_total final ts
  defines "d \<equiv> items (page_json r offset limit n_total final ts)" and "k \<equiv> int (length ts)"
  shows "dget d ''text'' = JStr (join [10] ts)"
    "dget d ''start_line'' = JInt offset" "dget d ''end_line'' = JInt (offset + k - 1)" "dget d ''total_lines'' = JInt n_total"
    "dget d ''truncated'' = JBool (offset + k - 1 < n_total)"
    "dget d ''truncated_by'' = (if offset + k - 1 < n_total then if k = limit then jstr ''lines'' else jstr ''bytes'' else JNull)"
    "dget d ''next_offset'' = (if offset + k - 1 < n_total then JInt (offset + k) else JNull)"
    "has d ''total_lines''" "has d ''text''" "has d ''truncated''" "has d ''start_line''" "has d ''end_line''" "has d ''next_offset''"
    "map snd d = [JStr r, JStr (join [10] ts), JInt offset, JInt (offset + k - 1), JInt n_total, JBool final,
      JBool (offset + k - 1 < n_total),
      if offset + k - 1 < n_total then if k = limit then jstr ''lines'' else jstr ''bytes'' else JNull,
      if offset + k - 1 < n_total then JInt (offset + k) else JNull]"
  unfolding d_def k_def page_json_fields Let_def items.simps by (simp_all add: dict_eval)

lemma page_is_dict [simp]: "is_dict (page_json r offset limit n_total final ts)"
  by (simp add: page_json_def)

lemma subscript_dict: "is_dict v \<Longrightarrow> subscript v k = (if has (items v) k then Inr (dget (items v) k) else Inl KeyError)"
  by (cases v) (simp_all add: subscript_def)

lemma page_render:
  assumes "1 \<le> offset" "0 < n_total"
  shows "read_render shown args (page_json r offset limit n_total final ts) =
    Inr (JArr [text_block (JStr (page_text offset n_total ts))], JObj [])"
  using assms
  by (simp add: read_render_def subscript_dict page_parts text_of_def decimal_def page_text_def footer_def)

lemma each_check_line: "\<forall>t \<in> set ts. scalar_str t \<and> length (utf8 t) \<le> MAX_LINE \<Longrightarrow> each check_line ts = Inr ()"
  by (induction ts) (auto simp: check_line_def ensure_def require_def MAX_LINE_BYTES_def MAX_LINE_def)

lemma page_checked:
  assumes "1 \<le> offset" "ts \<noteq> []" "int (length ts) \<le> limit" "offset + int (length ts) - 1 \<le> n_total" "n_total \<le> 2 ^ 40"
    "\<forall>t \<in> set ts. scalar_str t \<and> length (utf8 t) \<le> MAX_LINE \<and> 10 \<notin> set t"
  shows "check_read (items (page_json r offset limit n_total final ts)) offset limit = Inr ()"
proof -
  have "split_on 10 (join [10] ts) = ts" using assms(2,6) by (intro split_on_join) auto
  moreover have "each check_line ts = Inr ()" using assms(6) by (intro each_check_line) auto
  moreover have "safe_int_value (JInt x)" if "0 \<le> x" "x \<le> 2 ^ 41" for x
    using that by (simp add: safe_int_value_def SAFE_INTEGER_MAX_def)
  moreover have "1 \<le> int (length ts)" using assms(2) by (cases ts) auto
  moreover define k where "k = int (length ts)"
  moreover have "py_eq (jstr ''lines'') (jstr ''lines'')" "py_eq (jstr ''bytes'') (jstr ''bytes'')" by simp_all
  ultimately show ?thesis
    using assms(1-5)
    unfolding check_read_def Let_def page_parts check_cursor_def
    by (simp add: ensure_def require_def)
qed

lemma page_safe:
  assumes "1 \<le> offset" "offset + int (length ts) - 1 \<le> n_total" "n_total \<le> 2 ^ 40"
  shows "check_safe_domain (page_json r offset limit n_total final ts) = Inr ()"
proof -
  let ?k = "int (length ts)"
  have b: "\<bar>offset\<bar> \<le> SAFE_INTEGER_MAX" "\<bar>n_total\<bar> \<le> SAFE_INTEGER_MAX" "\<bar>offset + ?k - 1\<bar> \<le> SAFE_INTEGER_MAX"
    "\<bar>offset + ?k\<bar> \<le> SAFE_INTEGER_MAX"
    using assms by (simp_all add: SAFE_INTEGER_MAX_def)
  obtain d where d: "page_json r offset limit n_total final ts = JObj d" by (simp add: page_json_def)
  show ?thesis
    unfolding check_safe_domain_def d safe_domain_loop.simps page_parts(14)[of r offset limit n_total final ts, unfolded d items.simps]
    using b by (cases "?k = limit") (simp_all add: not_less)
qed

text \<open>C20: what the plugin returns for a steady file is what the host accepts: the value passes the
  \<open>read\<close> page relations for the same arguments, and the approved renderer turns it into one text
  block whose bytes stay within the content limit the plugin computed in advance.\<close>

theorem read_page_accepted:
  assumes "read_tool f args ws_root = Inr v" "json_wf (JObj args)" "steady f b"
  shows "validate_page (RENDERERS shown) read_ref (JObj args) v = Inr () \<and>
    (\<exists>t n. render (RENDERERS shown) read_ref (JObj args) v = Inr (JArr [text_block (JStr t)], JObj []) \<and>
      json_bytes (JArr [text_block (JStr t)]) = Inr n \<and> n \<le> 41984)"
proof -
  obtain r offset limit ts k where t: "requested args offset limit" "scalar_str r" "code_points r"
    "if b = [] then offset = 1 else offset \<le> length (file_lines b)" "length b \<le> MAX_FILE_BYTES"
    "map utf8 ts = requested_lines b offset limit" "\<forall>t \<in> set ts. scalar_str t \<and> code_points t \<and> length (utf8 t) \<le> MAX_LINE \<and> 10 \<notin> set t"
    "v = page_of b offset limit r (take k ts)"
    "if b = [] then k = 0 else longest_page r (int offset) (int limit) (int (length (file_lines b))) (last b = 10) ts k"
    by (rule read_tool_steady[OF assms])
  have args: "check_args (JObj args) \<lparr>renderer_id = lit ''v24.fs.read.text'', kind = ReadPage, default_limit = MAX_READ_LINES\<rparr> =
      Inr (int offset, int limit)"
  proof -
    have "int offset \<le> 2 ^ 21" using t(4) file_lines_small[OF t(5)] by (auto split: if_splits)
    then have "safe_int_value (JInt (int offset))" "safe_int_value (JInt (int limit))"
      using t(1) by (simp_all add: safe_int_value_def SAFE_INTEGER_MAX_def requested_def)
    then show ?thesis
      using t(1) by (simp add: check_args_def ensure_def require_def requested_def MAX_READ_LINES_def MAX_LINES_def)
  qed
  have content: "\<exists>n. json_bytes (JArr [text_block (JStr c)]) = Inr n \<and> n \<le> 41984 \<and>
      validate_result (JArr [text_block (JStr c)], JObj []) = Inr (JArr [text_block (JStr c)], JObj [])"
    if "scalar_str c" "jsize (JArr [text_block (JStr c)]) \<le> 41984" for c
  proof -
    have dom: "J_domain (JArr [text_block (JStr c)])" using that(1) by (simp add: text_block_def)
    then obtain n where n: "compact_json (JArr [text_block (JStr c)]) = Inr n" "length n = jsize (JArr [text_block (JStr c)])"
      using compact_json_jsize by blast
    have "block_ok (text_block (JStr c))" by (simp add: block_ok_def text_block_def dict_eval keys_are_def keys_def)
    moreover have "compact_json (JObj []) = Inr [123, 125]" by (simp add: compact_json_iff sort_items_def)
    ultimately have "validate_result (JArr [text_block (JStr c)], JObj []) = Inr (JArr [text_block (JStr c)], JObj [])"
      by (simp add: validate_result_def require_def n)
    with n that(2) show ?thesis by (simp add: json_bytes_def)
  qed
  have judged: ?thesis if "check_safe_domain v = Inr ()" "check_read (items v) (int offset) (int limit) = Inr ()"
    "read_render shown (JObj args) v = Inr (JArr [text_block (JStr c)], JObj [])" "is_dict v"
    "scalar_str c" "jsize (JArr [text_block (JStr c)]) \<le> 41984" for c
  proof -
    have "validate_page (RENDERERS shown) read_ref (JObj args) v = Inr ()"
      using that(1,2,4) by (simp add: validate_page_def read_approved args ensure_def require_def)
    moreover have "render (RENDERERS shown) read_ref (JObj args) v = Inr (JArr [text_block (JStr c)], JObj [])"
      using that(3) content[OF that(5,6)] by (auto simp: render_def read_approved builtin_def)
    ultimately show ?thesis using content[OF that(5,6)] by blast
  qed
  show ?thesis
  proof (cases "b = []")
    case True
    have v: "v = JObj (empty_value r)" using True t(8) by (simp add: page_of_def)
    have "check_safe_domain v = Inr ()" "check_read (items v) (int offset) (int limit) = Inr ()"
      "read_render shown (JObj args) v = Inr (JArr [text_block (jstr ''[empty file]'')], JObj [])"
      using t(4) True
      by (simp_all add: v empty_value_def value_skeleton_def check_safe_domain_def check_read_def check_empty_read_def dict_eval
          ensure_def require_def safe_int_value_def SAFE_INTEGER_MAX_def read_render_def subscript_def)
    moreover have "jsize (JArr [text_block (jstr ''[empty file]'')]) \<le> 41984"
      unfolding content_size by (simp add: lit_Cons utf8_char_def escaped_bytes_len_def escape_extra_def)
    ultimately show ?thesis using judged[of "lit ''[empty file]''"] v by simp
  next
    case False
    let ?n = "int (length (file_lines b))" and ?ts = "take k ts"
    have v: "v = page_json r (int offset) (int limit) ?n (last b = 10) ?ts" using False t(8) by (simp add: page_of_def)
    have k: "1 \<le> k" "k \<le> length ts" "within_budgets v (page_text (int offset) ?n ?ts)"
      using t(9) False by (auto simp: longest_page_def v)
    have len: "length ts = min limit (length (file_lines b) - (offset - 1))"
      using arg_cong[OF t(6), of length] by (simp add: requested_lines_def)
    have o: "1 \<le> int offset" "offset \<le> length (file_lines b)" using t(1,4) False by (auto simp: requested_def)
    have fit: "int (length ?ts) \<le> int limit" "int offset + int (length ?ts) - 1 \<le> ?n" "?n \<le> 2 ^ 40" "?ts \<noteq> []"
      using k(1,2) len o file_lines_small[OF t(5)] by auto
    have ok: "\<forall>x \<in> set ?ts. scalar_str x \<and> length (utf8 x) \<le> MAX_LINE \<and> 10 \<notin> set x"
      using t(7) by (auto dest: in_set_takeD)
    have "scalar_str (page_text (int offset) ?n ?ts)"
      using ok scalar_join[of "[10]" ?ts] by (auto simp: page_text_def footer_def surrogate_def)
    moreover have "jsize (JArr [text_block (JStr (page_text (int offset) ?n ?ts))]) \<le> 41984"
      using k(3) by (simp add: within_budgets_def MAX_CONTENT_BYTES_def del: jsize.simps)
    moreover have "check_safe_domain v = Inr ()" unfolding v by (rule page_safe[OF o(1) fit(2,3)])
    moreover have "check_read (items v) (int offset) (int limit) = Inr ()"
      unfolding v by (rule page_checked[OF o(1) fit(4,1,2,3) ok])
    moreover have "read_render shown (JObj args) v = Inr (JArr [text_block (JStr (page_text (int offset) ?n ?ts))], JObj [])"
      unfolding v by (rule page_render) (use o in auto)
    ultimately show ?thesis using judged v by simp
  qed
qed

end
