(* ===== verification/Fs_Samples.thy ===== *)
theory Fs_Samples
  imports Fs_Facts
begin

text \<open>
  One workspace with one file of one line, read in two chunks, and the page the tool makes of it:
  the concrete inputs for the theorems about the \<open>read\<close> tool.
\<close>

definition demo_info :: "file_kind \<Rightarrow> finfo" where
  "demo_info k = \<lparr>st_dev = 1, st_ino = 2, st_size = 3, st_mtime_ns = 0, st_ctime_ns = 0, st_kind = k\<rparr>"

definition demo_bytes :: bytes where
  "demo_bytes = [104, 105, 10]"

definition demo_opened :: opened where
  "demo_opened =
     \<lparr>fstat_open = Inr (demo_info Regular), pread_head = Inr demo_bytes, reads = [Inr [104], Inr [105, 10], Inr []],
      fstat_scan = Inr (demo_info Regular), pread_window = (\<lambda>n i. Inr (take n (drop i demo_bytes))),
      fstat_read = Inr (demo_info Regular)\<rparr>"

definition demo_tree :: fs where
  "demo_tree =
     \<lparr>lstat = (\<lambda>_. Inr (demo_info Regular)), lstat_target = (\<lambda>_. Inr (demo_info Regular)),
      open_file = (\<lambda>_. Inr demo_opened)\<rparr>"

definition demo_request :: dict where
  "demo_request = [(lit ''path'', jstr ''a'')]"

definition demo_page :: json where
  "demo_page = page_json (lit ''a'') 1 2000 1 True [lit ''hi'']"

lemma demo_resolved: "resolve demo_tree (jstr ''a'') (lit ''/w'') = Inr (lit ''/w/a'', lit ''a'')"
  by (simp add: resolve_def path_arg_def components_of_def isabs_def starts_with_def lit_Cons demo_tree_def lstat_result_def
      path_join_def demo_info_def utf8_char_def surrogate_def)

lemma demo_scan: "scan_file demo_opened (demo_info Regular) 1 2000 = Inr (1, True, [(0, 2)])"
  by (simp add: scan_file_def demo_opened_def demo_info_def scan_start_def read_result_def scan_chunk_def Let_def
      MAX_FILE_BYTES_def count_lf_def find_lf_def line_bound_def upt_rec)

lemma demo_steady: "steady demo_tree demo_bytes"
  by (simp add: steady_def demo_tree_def demo_opened_def demo_bytes_def)

lemma demo_window: "read_window demo_opened [(0, 2)] = Inr [lit ''hi'']"
  by (simp add: read_window_def demo_opened_def demo_bytes_def read_result_def Fs_Read.slice_def lit_Cons)

lemma demo_skeleton:
  "J_domain (JObj (page_skeleton (lit ''a'') 1 2000 1 True 1))" "json_wf (JObj (page_skeleton (lit ''a'') 1 2000 1 True 1))"
  by (rule page_skeleton_ok; simp add: safe_int_def SAFE_INTEGER_MAX_def)+

lemma demo_within: "within_budgets demo_page (page_text 1 1 [lit ''hi''])"
proof -
  have "jsize demo_page \<le> 200" "jsize (value_frame demo_page) \<le> 300"
    unfolding demo_page_def page_json_fields value_frame_def ok_frame_def Let_def
    by (simp_all add: lit_Cons length_quote utf8_char_def escaped_bytes_len_def escape_extra_def int_text_def dec.simps)
  moreover have "jsize (JArr [text_block (JStr (page_text 1 1 [lit ''hi'']))]) \<le> 100"
    unfolding content_size by (simp add: page_text_def lit_Cons utf8_char_def escaped_bytes_len_def escape_extra_def)
  ultimately show ?thesis
    by (simp add: within_budgets_def MAX_VALUE_BYTES_def FRAME_LIMIT_def MAX_CONTENT_BYTES_def del: jsize.simps)
qed

lemma demo_measure:
  obtains m where "page_measure_of (lit ''a'') 1 2000 1 True 1 2 = Inr m" "maximum (caps m) \<le> 0"
    "JObj (dset (p_skeleton m) ''text'' (jstr ''hi'')) = demo_page"
proof -
  let ?v = "JObj (page_skeleton (lit ''a'') 1 2000 1 True 1)"
  have "json_len ?v = Inr (int (jsize ?v))" "json_len (value_frame ?v) = Inr (int (jsize (value_frame ?v)))"
    using demo_skeleton by (simp_all add: json_len_jsize frame_domain del: J_domain.simps json_wf.simps jsize.simps)
  then obtain m where m: "page_measure_of (lit ''a'') 1 2000 1 True 1 2 = Inr m"
    by (simp add: page_measure_of_def Let_def del: jsize.simps)
  have "int (sum_list (map (escaped_bytes_len \<circ> utf8) [lit ''hi''])) = 2"
    by (simp add: lit_Cons utf8_char_def escaped_bytes_len_def escape_extra_def)
  with m have m': "page_measure_of (lit ''a'') 1 2000 1 True (int (length [lit ''hi'']))
      (int (sum_list (map (escaped_bytes_len \<circ> utf8) [lit ''hi'']))) = Inr m" by simp
  from page_sizes[OF this] demo_skeleton demo_within m show thesis
    by (intro that[OF m]) (simp_all add: demo_page_def)
qed

lemma demo_read: "read_tool demo_tree demo_request (lit ''/w'') = Inr demo_page"
proof -
  obtain m where m: "page_measure_of (lit ''a'') 1 2000 1 True 1 2 = Inr m" "maximum (caps m) \<le> 0"
    "JObj (dset (p_skeleton m) ''text'' (jstr ''hi'')) = demo_page" by (rule demo_measure)
  have dec: "decode_lines [lit ''hi''] = Inr ([lit ''hi''], [2])"
    by (simp add: MAX_LINE_def lit_Cons escaped_bytes_len_def escape_extra_def)
  have steady: "fstat_result (fstat_read demo_opened) = Inr (demo_info Regular)" "same_file i i" for i
    by (simp_all add: demo_opened_def fstat_result_def same_file_def)
  have page: "read_page (lit ''a'') demo_opened (demo_info Regular) 1 2000 1 True [(0, 2)] = Inr demo_page"
    using m by (simp add: read_page_def demo_window dec steady choose_k_def select_prefix_def del: decode_lines.simps)
  have head: "read_result (pread_head demo_opened) = Inr demo_bytes" "0 \<notin> set demo_bytes"
    "fstat_result (fstat_scan demo_opened) = Inr (demo_info Regular)"
    by (simp_all add: demo_opened_def demo_bytes_def read_result_def fstat_result_def)
  have opened: "read_opened (lit ''a'') demo_opened (demo_info Regular) 1 2000 = Inr demo_page"
    using head by (simp add: read_opened_def demo_scan page steady del: One_nat_def)
  have req: "path_arg (dget demo_request ''path'') = Inr (lit ''a'')" "dget_or demo_request ''offset'' (JInt 1) = JInt 1"
    "dget_or demo_request ''limit'' (JInt MAX_LINES) = JInt 2000"
    by (simp_all add: demo_request_def dict_eval path_arg_def lit_Cons MAX_LINES_def utf8_char_def surrogate_def)
  have "open_regular demo_tree (lit ''/w/a'') (demo_info Regular) = Inr (demo_opened, demo_info Regular)"
    by (simp add: open_regular_def demo_tree_def demo_opened_def fstat_result_def same_file_def demo_info_def)
  moreover have "lstat_result (lstat_target demo_tree (lit ''/w/a'')) = Inr (demo_info Regular)"
    by (simp add: demo_tree_def lstat_result_def)
  moreover have "st_kind (demo_info Regular) = Regular" "st_size (demo_info Regular) = 3" by (simp_all add: demo_info_def)
  ultimately show ?thesis
    using opened unfolding read_tool_def req andthen_simps Let_def demo_resolved
    by (simp add: demo_resolved MAX_LINES_def MAX_FILE_BYTES_def)
qed

section \<open>Witnesses\<close>

lemma demo_request_wf: "json_wf (JObj demo_request)"
  by (simp add: demo_request_def)

theorem resolve_confined_witness: "\<exists>cs. below (lit ''/w'') (lit ''a'') cs \<and> lit ''/w/a'' = foldl path_join (lit ''/w'') cs"
  using resolve_confined[OF demo_resolved] by blast

theorem read_within_budgets_witness: "\<exists>n. json_bytes demo_page = Inr n \<and> n \<le> 40960"
  using read_within_budgets[OF demo_read demo_request_wf] by blast

theorem read_page_exact_witness: "\<exists>ts k. map utf8 ts = requested_lines demo_bytes 1 2000 \<and> (\<exists>r. demo_page = page_of demo_bytes 1 2000 r (take k ts))"
proof -
  have "requested demo_request offset limit \<Longrightarrow> offset = 1 \<and> limit = 2000" for offset limit
    by (simp add: requested_def demo_request_def dict_eval MAX_LINES_def)
  with read_page_exact[OF demo_read demo_request_wf demo_steady] show ?thesis by blast
qed

theorem read_page_accepted_witness: "validate_page (RENDERERS jtext) read_ref (JObj demo_request) demo_page = Inr ()"
  using read_page_accepted[OF demo_read demo_request_wf demo_steady] by blast

end
