(* ===== verification/Descriptor.thy ===== *)
theory Descriptor
  imports Schema_Validation Renderers Py_Text
begin

text \<open>
  \<open>v24/host/descriptor.py\<close>, with \<open>descriptor_digest\<close> of \<open>canonical.py\<close>: the closed shape of a
  version 2 descriptor, checked in the fixed order of the source. \<open>validate_descriptor\<close>
  normalises every inner exception; \<open>descriptor_ok\<close> is the accepted set without order.
\<close>

section \<open>Constants\<close>

definition TOOL_KEYS :: "string list" where
  "TOOL_KEYS =
     [''key'', ''description'', ''parameters'', ''output_schema'', ''render'', ''limits'',
      ''concurrency'', ''replay_class'', ''annotations'']"

definition RENDER_KEYS :: "string list" where
  "RENDER_KEYS = [''id'', ''version'', ''digest'']"

definition LIMIT_RANGES :: "(string \<times> int \<times> int) list" where
  "LIMIT_RANGES =
     [(''timeout_ms'', 1, 25000), (''max_args_bytes'', 1, 65536), (''max_value_bytes'', 1, 49152),
      (''max_content_bytes'', 1, 65536), (''max_meta_bytes'', 2, 16384)]"

definition ANNOTATION_KEYS :: "string list" where
  "ANNOTATION_KEYS = [''read_only'', ''destructive'', ''idempotent'', ''open_world'']"

definition CONCURRENCY :: "pystr list" where
  "CONCURRENCY = map lit [''parallel'', ''exclusive'']"

definition REPLAY_CLASSES :: "pystr list" where
  "REPLAY_CLASSES = map lit [''read_only'', ''idempotent'', ''mutating'', ''external'']"

definition MAX_DESCRIPTOR_DEPTH :: nat where "MAX_DESCRIPTOR_DEPTH = 16"
definition MAX_DESCRIPTOR_PG_BYTES :: nat where "MAX_DESCRIPTOR_PG_BYTES = 16384"

definition invalid_descriptor :: exn where
  "invalid_descriptor = DescriptorError ''invalid_descriptor''"

section \<open>Measures\<close>

function (sequential) descriptor_depth :: "json \<Rightarrow> nat" where
  "descriptor_depth (JObj d) = foldl max 0 (map (\<lambda>kv. descriptor_depth (snd kv)) d) + 1"
| "descriptor_depth (JArr xs) = foldl max 0 (map descriptor_depth xs) + 1"
| "descriptor_depth v = 0"
  by pat_completeness auto
termination
  by (relation "measure size") (auto dest: size_member_snd simp: less_Suc_eq_le size_list_estimation')

definition descriptor_pg_bytes :: "json \<Rightarrow> exn + nat" where
  "descriptor_pg_bytes v =
     andthen (pg_jsonb_text v) (\<lambda>t.
       case utf8_encode t of None \<Rightarrow> Inl UnicodeError | Some b \<Rightarrow> Inr (length b))"

definition descriptor_digest :: "json \<Rightarrow> exn + pystr" where
  "descriptor_digest v =
     (if \<not> is_dict v then Inl (RegistryError ''descriptor must be an object'')
      else andthen (pg_jsonb_text v) (\<lambda>t.
        case utf8_encode t of None \<Rightarrow> Inl UnicodeError | Some b \<Rightarrow> Inr (sha256_hex b)))"

definition parse_descriptor :: "bytes \<Rightarrow> exn + json" where
  "parse_descriptor raw =
     (case strict_loads_bytes raw of
        Inl _ \<Rightarrow> Inl invalid_descriptor
      | Inr v \<Rightarrow> if is_dict v then Inr v else Inl invalid_descriptor)"

section \<open>The checks\<close>

definition closed_set :: "json \<Rightarrow> string list \<Rightarrow> exn + unit" where
  "closed_set v ks =
     steps [require (is_dict v) invalid_descriptor, require (keys_are (items v) ks) invalid_descriptor]"

definition safe_value :: "json \<Rightarrow> bool" where
  "safe_value v \<longleftrightarrow> is_int v \<and> \<bar>the_int v\<bar> \<le> SAFE_INTEGER_MAX"

definition check_key :: "json \<Rightarrow> exn + unit" where
  "check_key k =
     steps
       [require (is_str k) invalid_descriptor,
        require (0 \<notin> set (the_str k) \<and> key_pattern (the_str k)) invalid_descriptor,
        require (k \<noteq> jstr ''agent.spawn'') invalid_descriptor]"

definition check_description :: "json \<Rightarrow> exn + unit" where
  "check_description v =
     steps
       [require (is_str v \<and> 0 \<notin> set (the_str v)) invalid_descriptor,
        require (scalar_str (the_str v)) UnicodeError,
        require (1 \<le> length (utf8 (the_str v)) \<and> length (utf8 (the_str v)) \<le> 4096) invalid_descriptor]"

definition check_render :: "json \<Rightarrow> exn + unit" where
  "check_render v =
     (let r = items v; i = dget r ''id''; ver = dget r ''version''; dig = dget r ''digest'' in
      steps
        [closed_set v RENDER_KEYS,
         require (is_str i \<and> key_pattern (the_str i)) invalid_descriptor,
         require (safe_value ver \<and> 1 \<le> the_int ver) invalid_descriptor,
         require (is_str dig \<and> is_digest (the_str dig)) invalid_descriptor])"

definition check_limits :: "json \<Rightarrow> exn + unit" where
  "check_limits v =
     steps
       [closed_set v (map fst LIMIT_RANGES),
        each (\<lambda>(name, low, high).
          let x = dget (items v) name in
          require (safe_value x \<and> low \<le> the_int x \<and> the_int x \<le> high) invalid_descriptor) LIMIT_RANGES]"

text \<open>A list or a dict cannot be looked up in a frozenset.\<close>

definition in_frozenset :: "json \<Rightarrow> pystr list \<Rightarrow> exn + unit" where
  "in_frozenset v names =
     steps
       [require (\<not> is_list v \<and> \<not> is_dict v) TypeError,
        require (is_str v \<and> the_str v \<in> set names) invalid_descriptor]"

definition check_enums :: "dict \<Rightarrow> exn + unit" where
  "check_enums tool =
     steps
       [in_frozenset (dget tool ''concurrency'') CONCURRENCY,
        in_frozenset (dget tool ''replay_class'') REPLAY_CLASSES]"

definition check_annotations :: "dict \<Rightarrow> exn + unit" where
  "check_annotations tool =
     (let a = dget tool ''annotations'' in
      steps
        [closed_set a ANNOTATION_KEYS,
         each (\<lambda>name. require (is_bool (dget (items a) name)) invalid_descriptor) ANNOTATION_KEYS])"

definition check_implications :: "dict \<Rightarrow> exn + unit" where
  "check_implications tool =
     (let a = items (dget tool ''annotations''); yes = JBool True; no = JBool False in
      steps
        [require (dget tool ''replay_class'' = jstr ''read_only'' \<longrightarrow>
           dget a ''read_only'' = yes \<and> dget a ''destructive'' = no \<and> dget a ''idempotent'' = yes)
           invalid_descriptor,
         require (\<not> (dget a ''read_only'' = yes \<and> dget a ''destructive'' \<noteq> no)) invalid_descriptor,
         require (\<not> (dget tool ''concurrency'' = jstr ''parallel'' \<and> dget a ''read_only'' \<noteq> yes))
           invalid_descriptor])"

definition check_renderer :: "json \<Rightarrow> renderer list \<Rightarrow> exn + unit" where
  "check_renderer r registry =
     (case by_id registry (the_str (dget (items r) ''id'')) (the_int (dget (items r) ''version'')) of
        None \<Rightarrow> Inl (DescriptorError ''renderer_not_approved'')
      | Some e \<Rightarrow>
          require (dget (items r) ''digest'' = JStr (rdigest (ref e)))
            (DescriptorError ''renderer_digest_mismatch''))"

definition validate_steps :: "json \<Rightarrow> pystr option \<Rightarrow> renderer list \<Rightarrow> (exn + unit) list" where
  "validate_steps v provide_key registry =
     (let tool = items (dget (items v) ''tool'') in
      [closed_set v [''v'', ''tool''],
       require (dget (items v) ''v'' = JInt 2) invalid_descriptor,
       closed_set (dget (items v) ''tool'') TOOL_KEYS,
       check_key (dget tool ''key''),
       check_description (dget tool ''description''),
       assert_supported (dget tool ''parameters'') ''parameters'',
       assert_supported (dget tool ''output_schema'') ''output_schema'',
       check_render (dget tool ''render''),
       check_limits (dget tool ''limits''),
       check_enums tool,
       check_annotations tool,
       check_implications tool,
       require (descriptor_depth v \<le> MAX_DESCRIPTOR_DEPTH) invalid_descriptor,
       andthen (compact_json v) (\<lambda>_. Inr ()),
       andthen (descriptor_pg_bytes v) (\<lambda>n. require (n \<le> MAX_DESCRIPTOR_PG_BYTES) invalid_descriptor),
       require (provide_key = None \<or> provide_key = Some (the_str (dget tool ''key'')))
         (DescriptorError ''descriptor_key_mismatch''),
       check_renderer (dget tool ''render'') registry])"

definition validate_inner :: "json \<Rightarrow> pystr option \<Rightarrow> renderer list \<Rightarrow> exn + json" where
  "validate_inner v provide_key registry =
     andthen (steps (validate_steps v provide_key registry)) (\<lambda>_. Inr v)"

fun normalised :: "exn \<Rightarrow> bool" where
  "normalised (SchemaError _) = True"
| "normalised (CanonicalError _) = True"
| "normalised TypeError = True"
| "normalised ValueError = True"
| "normalised (IntDigits _) = True"
| "normalised AttributeError = True"
| "normalised UnicodeError = True"
| "normalised RecursionError = True"
| "normalised _ = False"

definition validate_descriptor :: "json \<Rightarrow> pystr option \<Rightarrow> renderer list \<Rightarrow> exn + json" where
  "validate_descriptor v provide_key registry =
     (case validate_inner v provide_key registry of
        Inr w \<Rightarrow> Inr w
      | Inl e \<Rightarrow> if normalised e then Inl invalid_descriptor else Inl e)"

section \<open>The accepted descriptors\<close>

definition descriptor_reason :: "exn \<Rightarrow> bool" where
  "descriptor_reason e \<longleftrightarrow>
     e \<in> set (map DescriptorError
       [''invalid_descriptor'', ''descriptor_key_mismatch'', ''renderer_not_approved'',
        ''renderer_digest_mismatch''])"

text \<open>An exception a check of the descriptor may raise before normalisation.\<close>

definition descriptor_failure :: "exn \<Rightarrow> bool" where
  "descriptor_failure e \<longleftrightarrow> descriptor_reason e \<or> normalised e"

lemma failures [simp]:
  "descriptor_failure invalid_descriptor" "descriptor_failure UnicodeError" "descriptor_failure TypeError"
  "descriptor_failure (DescriptorError ''descriptor_key_mismatch'')"
  "descriptor_failure (DescriptorError ''renderer_not_approved'')"
  "descriptor_failure (DescriptorError ''renderer_digest_mismatch'')"
  by (simp_all add: descriptor_failure_def descriptor_reason_def invalid_descriptor_def)

lemma assert_supported_failure [only_intros]:
  "only descriptor_failure (assert_supported s ''parameters'')"
  "only descriptor_failure (assert_supported s ''output_schema'')"
  by (rule onlyI; auto simp: assert_supported_def andthen_Inl descriptor_failure_def schema_failure_def
      dest!: check_schema_Inl split: if_splits)+

lemma J_failure: "only (\<lambda>e. \<exists>r. e = CanonicalError r) (J v)"
  by (induction v rule: J.induct; simp only: J.simps; intro only_intros; force)

lemma compact_json_failure [only_intros]: "only descriptor_failure (compact_json v)"
  unfolding compact_json_J
  by (intro only_intros only_mono[OF J_failure]) (auto simp: descriptor_failure_def)

lemma pg_text_failure [only_intros]: "only descriptor_failure (pg_jsonb_text v)"
  by (induction v rule: pg_jsonb_text.induct; simp only: pg_jsonb_text.simps; intro only_intros;
      force simp: descriptor_failure_def)

lemma pg_bytes_failure [only_intros]: "only descriptor_failure (descriptor_pg_bytes v)"
  unfolding descriptor_pg_bytes_def by (intro only_intros failures)

lemma check_failures [only_intros]:
  "only descriptor_failure (closed_set v ks)"
  "only descriptor_failure (check_key k)"
  "only descriptor_failure (check_description k)"
  "only descriptor_failure (in_frozenset k names)"
  unfolding closed_set_def check_key_def check_description_def in_frozenset_def
  by (intro only_intros failures)+

lemma section_failures [only_intros]:
  "only descriptor_failure (check_render k)"
  "only descriptor_failure (check_limits k)"
  "only descriptor_failure (check_enums tool)"
  "only descriptor_failure (check_annotations tool)"
  "only descriptor_failure (check_implications tool)"
  "only descriptor_failure (check_renderer k reg)"
  unfolding check_render_def check_limits_def check_enums_def check_annotations_def
    check_implications_def check_renderer_def Let_def
  by (intro only_intros failures)+

lemma validate_inner_failure: "only descriptor_failure (validate_inner v k reg)"
  unfolding validate_inner_def validate_steps_def Let_def by (intro only_intros failures)

theorem validate_descriptor_reasons: "only descriptor_reason (validate_descriptor v k reg)"
  using validate_inner_failure[of v k reg]
  by (auto simp: validate_descriptor_def only_def descriptor_failure_def descriptor_reason_def
      invalid_descriptor_def split: sum.splits)

section \<open>What is accepted\<close>

definition annotations_ok :: "dict \<Rightarrow> bool" where
  "annotations_ok tool \<longleftrightarrow>
     (let v = dget tool ''annotations''; a = (\<lambda>k. dget (items v) k = JBool True);
          read_only_class = (dget tool ''replay_class'' = jstr ''read_only'') in
      is_dict v \<and> keys_are (items v) ANNOTATION_KEYS \<and>
      list_all (\<lambda>k. is_bool (dget (items v) k)) ANNOTATION_KEYS \<and>
      (read_only_class \<longrightarrow> a ''read_only'' \<and> a ''idempotent'') \<and>
      (a ''read_only'' \<longrightarrow> \<not> a ''destructive'') \<and>
      (dget tool ''concurrency'' = jstr ''parallel'' \<longrightarrow> a ''read_only''))"

definition limits_ok :: "dict \<Rightarrow> bool" where
  "limits_ok tool \<longleftrightarrow>
     (let v = dget tool ''limits'' in
      is_dict v \<and> keys_are (items v) (map fst LIMIT_RANGES) \<and>
      list_all (\<lambda>(k, low, high). is_int (dget (items v) k) \<and> low \<le> the_int (dget (items v) k) \<and>
        the_int (dget (items v) k) \<le> high) LIMIT_RANGES)"

lemma destructive_cases:
  "\<forall>k \<in> set ANNOTATION_KEYS. is_bool (dget d k) \<Longrightarrow>
     dget d ''destructive'' \<noteq> JBool True \<longleftrightarrow> dget d ''destructive'' = JBool False"
  by (cases "dget d ''destructive''") (auto simp: ANNOTATION_KEYS_def)

lemma annotations_checks:
  "check_annotations tool = Inr () \<and> check_implications tool = Inr () \<longleftrightarrow> annotations_ok tool"
  unfolding check_annotations_def check_implications_def annotations_ok_def Let_def closed_set_def
  by (auto simp: run_simps list_all_iff destructive_cases simp del: steps.simps each.simps)

lemma limits_checks: "check_limits (dget tool ''limits'') = Inr () \<longleftrightarrow> limits_ok tool"
proof -
  have "safe_value x \<and> low \<le> the_int x \<and> the_int x \<le> high \<longleftrightarrow>
      is_int x \<and> low \<le> the_int x \<and> the_int x \<le> high"
    if "(k, low, high) \<in> set LIMIT_RANGES" for k x low high
    using that by (auto simp: safe_value_def LIMIT_RANGES_def SAFE_INTEGER_MAX_def)
  then show ?thesis
    unfolding check_limits_def limits_ok_def Let_def closed_set_def
    by (auto simp: run_simps list_all_iff simp del: steps.simps each.simps)
qed

definition render_ok :: "dict \<Rightarrow> renderer list \<Rightarrow> bool" where
  "render_ok tool registry \<longleftrightarrow>
     (let v = dget tool ''render''; r = items v; i = dget r ''id''; ver = dget r ''version''; dig = dget r ''digest'' in
      is_dict v \<and> keys_are r RENDER_KEYS \<and> is_str i \<and> key_pattern (the_str i) \<and>
      is_int ver \<and> 1 \<le> the_int ver \<and> the_int ver \<le> SAFE_INTEGER_MAX \<and>
      is_str dig \<and> is_digest (the_str dig) \<and>
      (case by_id registry (the_str i) (the_int ver) of
         None \<Rightarrow> False
       | Some e \<Rightarrow> rdigest (ref e) = the_str dig))"

lemma render_checks:
  "check_render (dget tool ''render'') = Inr () \<and> check_renderer (dget tool ''render'') reg = Inr () \<longleftrightarrow>
     render_ok tool reg"
proof -
  have "is_str x \<Longrightarrow> x = JStr t \<longleftrightarrow> t = the_str x" for x t by (cases x) auto
  then show ?thesis
    unfolding check_render_def check_renderer_def render_ok_def Let_def closed_set_def safe_value_def
    by (auto simp: run_simps simp del: steps.simps split: option.splits)
qed

definition descriptor_ok :: "json \<Rightarrow> pystr option \<Rightarrow> renderer list \<Rightarrow> bool" where
  "descriptor_ok v provide_key registry \<longleftrightarrow>
     (let d = items v; tool = items (dget d ''tool''); key = dget tool ''key'';
          about = dget tool ''description'' in
      is_dict v \<and> keys_are d [''v'', ''tool''] \<and> dget d ''v'' = JInt 2 \<and>
      is_dict (dget d ''tool'') \<and> keys_are tool TOOL_KEYS \<and>
      is_str key \<and> key_pattern (the_str key) \<and> key \<noteq> jstr ''agent.spawn'' \<and>
      (provide_key = None \<or> provide_key = Some (the_str key)) \<and>
      is_str about \<and> 0 \<notin> set (the_str about) \<and>
      1 \<le> length (utf8 (the_str about)) \<and> length (utf8 (the_str about)) \<le> 4096 \<and>
      within_limits (dget tool ''parameters'') \<and> root_ok ''parameters'' (dget tool ''parameters'') \<and>
      within_limits (dget tool ''output_schema'') \<and>
      render_ok tool registry \<and> limits_ok tool \<and> annotations_ok tool \<and>
      the_str (dget tool ''concurrency'') \<in> set CONCURRENCY \<and>
      the_str (dget tool ''replay_class'') \<in> set REPLAY_CLASSES \<and>
      descriptor_depth v \<le> MAX_DESCRIPTOR_DEPTH \<and> J_domain v \<and>
      (case descriptor_pg_bytes v of Inl _ \<Rightarrow> False | Inr n \<Rightarrow> n \<le> MAX_DESCRIPTOR_PG_BYTES))"

lemma in_frozenset_Inr: "[] \<notin> set names \<Longrightarrow> in_frozenset v names = Inr () \<longleftrightarrow> the_str v \<in> set names"
  by (cases v) (auto simp: in_frozenset_def run_simps simp del: steps.simps)

lemma key_pattern_no_nul: "key_pattern s \<Longrightarrow> 0 \<notin> set s"
  by (cases s) (auto simp: key_pattern_def is_lower_def is_digit_def list_all_iff)

lemma descriptor_tool_scalar:
  assumes "J_domain v"
  shows "J_domain (dget (items v) k)"
  using assms J_domain_dget by (cases v) (auto simp: dget_def dget_or_def)

lemma scalar_tool_str: "J_domain v \<Longrightarrow> scalar_str (the_str (dget (items (dget (items v) ''tool'')) k))"
  using descriptor_tool_scalar[OF descriptor_tool_scalar[of v "''tool''"], of k]
  by (cases "dget (items (dget (items v) ''tool'')) k") auto

lemma validate_inner_ok: "validate_inner v k reg = Inr w \<longleftrightarrow> w = v \<and> descriptor_ok v k reg"
proof -
  let ?tool = "items (dget (items v) ''tool'')"
  have enums: "check_enums ?tool = Inr () \<longleftrightarrow> the_str (dget ?tool ''concurrency'') \<in> set CONCURRENCY \<and>
      the_str (dget ?tool ''replay_class'') \<in> set REPLAY_CLASSES"
    unfolding check_enums_def
    by (auto simp: run_simps in_frozenset_Inr CONCURRENCY_def REPLAY_CLASSES_def simp del: steps.simps)
  have jd: "(\<exists>x. compact_json v = Inr x) \<longleftrightarrow> J_domain v"
    by (auto simp: compact_json_iff)
  have pg: "(\<exists>x. descriptor_pg_bytes v = Inr x \<and> x \<le> MAX_DESCRIPTOR_PG_BYTES) \<longleftrightarrow>
      (case descriptor_pg_bytes v of Inl _ \<Rightarrow> False | Inr n \<Rightarrow> n \<le> MAX_DESCRIPTOR_PG_BYTES)"
    by (auto split: sum.splits)
  have about: "J_domain v \<Longrightarrow> check_description (dget ?tool ''description'') = Inr () \<longleftrightarrow>
      is_str (dget ?tool ''description'') \<and> 0 \<notin> set (the_str (dget ?tool ''description'')) \<and>
      1 \<le> length (utf8 (the_str (dget ?tool ''description''))) \<and>
      length (utf8 (the_str (dget ?tool ''description''))) \<le> 4096"
    using scalar_tool_str[of v "''description''"]
    by (auto simp: check_description_def run_simps simp del: steps.simps)
  have key: "check_key (dget ?tool ''key'') = Inr () \<longleftrightarrow>
      is_str (dget ?tool ''key'') \<and> key_pattern (the_str (dget ?tool ''key'')) \<and> dget ?tool ''key'' \<noteq> jstr ''agent.spawn''"
    by (auto simp: check_key_def run_simps key_pattern_no_nul simp del: steps.simps)
  have all: "validate_inner v k reg = Inr w \<longleftrightarrow> w = v \<and> (\<forall>r \<in> set (validate_steps v k reg). r = Inr ())"
    by (auto simp: validate_inner_def andthen_Inr steps_Inr)
  have out: "root_ok ''output_schema'' s" for s by (simp add: root_ok_def)
  show ?thesis
  proof (cases "J_domain v")
    case True
    show ?thesis
      unfolding all validate_steps_def descriptor_ok_def Let_def closed_set_def
        annotations_checks[symmetric] render_checks[symmetric] limits_checks[symmetric]
      by (simp only: list.set ball_simps about[OF True] jd pg key enums assert_supported_spec out
          run_simps simp_thms True)
         (intro iffI; elim conjE; intro conjI; assumption)
  next
    case False
    with jd show ?thesis
      unfolding all by (auto simp: validate_steps_def descriptor_ok_def Let_def andthen_Inr)
  qed
qed

theorem validate_descriptor_ok: "validate_descriptor v k reg = Inr w \<longleftrightarrow> w = v \<and> descriptor_ok v k reg"
  using validate_inner_ok[of v k reg w] by (auto simp: validate_descriptor_def split: sum.splits)

text \<open>C32: the gate passes a descriptor unchanged exactly when it satisfies the contract, and otherwise
  fails with one of the documented reasons.\<close>

theorem descriptor_gate:
  "case validate_descriptor v k reg of
     Inr w \<Rightarrow> w = v \<and> descriptor_ok v k reg
   | Inl e \<Rightarrow> descriptor_reason e \<and> \<not> descriptor_ok v k reg"
proof (cases "validate_descriptor v k reg")
  case (Inl e)
  then have "\<not> descriptor_ok v k reg" using validate_descriptor_ok[of v k reg v] by auto
  then show ?thesis using Inl onlyD[OF validate_descriptor_reasons Inl] by simp
next
  case (Inr u)
  then have "u = v \<and> descriptor_ok v k reg" using validate_descriptor_ok[of v k reg u] by simp
  with Inr show ?thesis by simp
qed

section \<open>The digest does not see the order of keys\<close>

lemma pg_key_inj:
  assumes "json_wf (JObj d)"
  shows "inj_on (\<lambda>kv. pg_key (fst kv)) (set d)"
proof (rule inj_onI)
  fix a b assume ab: "a \<in> set d" "b \<in> set d" "pg_key (fst a) = pg_key (fst b)"
  have "code_points (fst a)" "code_points (fst b)" using assms ab by (auto simp: list_all_iff)
  with ab(3) have "fst a = fst b" by (simp add: pg_key_def utf8_inject)
  with assms ab show "a = b" by (cases a; cases b) (auto dest: eq_key_imp_eq_value)
qed

lemma pg_sort_canon:
  assumes "json_wf (JObj d)"
  shows "pg_sort (map canon_item (sort_items d)) = map canon_item (pg_sort d)"
  unfolding pg_sort_def
proof (rule sort_key_inj_key_eq)
  show "mset (map canon_item (sort_items d)) = mset (map canon_item (sort_key (\<lambda>kv. pg_key (fst kv)) d))"
    by (simp add: sort_items_def)
  show "inj_on (\<lambda>kv. pg_key (fst kv)) (set (map canon_item (sort_items d)))"
    using pg_key_inj[OF assms] by (auto simp: inj_on_def canon_item_def)
  show "sorted (map (\<lambda>kv. pg_key (fst kv)) (map canon_item (sort_key (\<lambda>kv. pg_key (fst kv)) d)))"
    by (simp add: comp_def canon_item_def)
qed

lemma pg_jsonb_text_canon: "json_wf v \<Longrightarrow> pg_jsonb_text (canon v) = pg_jsonb_text v"
proof (induction v rule: pg_jsonb_text.induct)
  case (1 d)
  have keys: "set (keys (map canon_item (sort_items d))) = set (keys d)"
    by (force simp: keys_def canon_item_def)
  have "mapr (\<lambda>kv. andthen (pg_jsonb_text (snd kv)) (\<lambda>t. Inr (quote (fst kv) @ [58, 32] @ t)))
          (map canon_item (pg_sort d)) =
        mapr (\<lambda>kv. andthen (pg_jsonb_text (snd kv)) (\<lambda>t. Inr (quote (fst kv) @ [58, 32] @ t))) (pg_sort d)"
    if "\<forall>k \<in> set (keys d). scalar_str k"
    unfolding mapr_map
  proof (rule mapr_cong[OF refl])
    fix kv assume kv: "kv \<in> set (pg_sort d)"
    then have "json_wf (snd kv)" using 1(2) by (auto simp: list_all_iff)
    with 1(1)[OF _ kv] that show
      "andthen (pg_jsonb_text (snd (canon_item kv))) (\<lambda>t. Inr (quote (fst (canon_item kv)) @ [58, 32] @ t)) =
       andthen (pg_jsonb_text (snd kv)) (\<lambda>t. Inr (quote (fst kv) @ [58, 32] @ t))"
      by (auto simp: canon_item_def)
  qed
  then show ?case
    unfolding canon_object pg_jsonb_text.simps keys pg_sort_canon[OF 1(2)] by auto
next
  case (2 xs)
  have "mapr pg_jsonb_text (map canon xs) = mapr pg_jsonb_text xs"
    unfolding mapr_map by (rule mapr_cong[OF refl]) (use 2 in \<open>auto simp: list_all_iff\<close>)
  then show ?case by simp
qed simp_all

theorem descriptor_digest_canon: "json_wf v \<Longrightarrow> descriptor_digest (canon v) = descriptor_digest v"
  by (simp add: descriptor_digest_def pg_jsonb_text_canon)

end
