(* ===== verification/Registry.thy ===== *)
theory Registry
  imports Descriptor Posix_Path
begin

text \<open>
  \<open>v24/host/registry.py\<close>: the entries a host approves, the checks their constructors make,
  and the lookups by install and by pin. The fields of a dataclass have their declared type
  here, so the \<open>isinstance\<close> tests on them hold; values that come from JSON keep theirs. The
  file system is a parameter. Values formatted into a message are left out of it.
\<close>

section \<open>Python values as text\<close>

text \<open>\<open>str(v)\<close>; \<open>shown\<close> is the text of a list, a dict or a float.\<close>

definition py_str :: "(json \<Rightarrow> pystr) \<Rightarrow> json \<Rightarrow> pystr" where
  "py_str shown v = (if v = JNull then lit ''None'' else decimal shown v)"

text \<open>\<open>str.lower\<close>. Outside ASCII only U+212A has an ASCII lower-case form; other characters,
  which the source only ever compares with ASCII text, are left alone.\<close>

definition lower_char :: "nat \<Rightarrow> nat" where
  "lower_char c = (if is_upper c then c + 32 else if c = 0x212A then 107 else c)"

definition lower :: "pystr \<Rightarrow> pystr" where
  "lower s = map lower_char s"

section \<open>Entries\<close>

record approved_tool =
  tkey :: pystr
  tdescriptor :: json
  tdigest :: pystr
  ttimeout_ms :: int
  trender :: "renderer_ref option"
  toutput_schema :: "json option"
  parameters_check :: "(json \<Rightarrow> exn + unit) option"
  output_check :: "(json \<Rightarrow> exn + unit) option"

record approved_entry =
  adapter_id :: pystr
  language :: pystr
  ident :: pystr
  version :: pystr
  manifest_digest :: pystr
  artifact_digest :: pystr
  adapter_digest :: pystr
  argv :: "pystr list"
  cwd :: pystr
  environment_allowlist :: "pystr list"
  timeout_ms :: int
  stdout_limit :: int
  stderr_limit :: int

record approved_adapter = approved_entry +
  pinned_digest :: pystr
  tool_key :: pystr
  description :: pystr
  parameters :: dict

record approved_plugin = approved_entry +
  tools :: "approved_tool list"
  workspace_root :: pystr
  timeout_cap_ms :: int
  protocol :: int

datatype approved = Adapter approved_adapter | Plugin approved_plugin

fun base :: "approved \<Rightarrow> approved_entry" where
  "base (Adapter a) = approved_entry.truncate a"
| "base (Plugin p) = approved_entry.truncate p"

type_synonym install_key = "pystr \<times> pystr \<times> pystr \<times> pystr \<times> pystr"

definition canonical_key :: "'a approved_entry_scheme \<Rightarrow> install_key" where
  "canonical_key e = (ident e, version e, manifest_digest e, artifact_digest e, adapter_digest e)"

definition artifact_path :: "'a approved_entry_scheme \<Rightarrow> pystr" where
  "artifact_path e = argv e ! 1"

lemma canonical_key_base: "canonical_key (base (Adapter a)) = canonical_key a"
  "canonical_key (base (Plugin p)) = canonical_key p"
  by (simp_all add: canonical_key_def approved_entry.truncate_def)

section \<open>Artifacts and environment\<close>

text \<open>
  \<open>resolved\<close> is \<open>Path.resolve(strict=True)\<close>, \<open>regular\<close> whether a file is regular; both are
  \<open>None\<close> when the call raises \<open>OSError\<close>, and so is \<open>file_bytes\<close>.
\<close>

record host_fs =
  is_dir :: "pystr \<Rightarrow> bool"
  realpath :: "pystr \<Rightarrow> pystr"
  resolved :: "pystr \<Rightarrow> pystr option"
  regular :: "pystr \<Rightarrow> bool option"
  file_bytes :: "pystr \<Rightarrow> bytes option"

text \<open>\<open>os.path.commonpath\<close> of two paths; one absolute and one relative path are a \<open>ValueError\<close>.\<close>

definition clean_parts :: "pystr \<Rightarrow> pystr list" where
  "clean_parts p = filter (\<lambda>c. c \<noteq> [] \<and> c \<noteq> lit ''.'') (split_on 47 p)"

definition commonpath :: "pystr \<Rightarrow> pystr \<Rightarrow> pystr option" where
  "commonpath a b =
     (if isabs a \<noteq> isabs b then None
      else
        let xs = clean_parts a; ys = clean_parts b in
        Some ((if isabs a then [47] else []) @ join [47] (take (common_prefix xs ys) xs)))"

definition require_artifact :: "host_fs \<Rightarrow> 'a approved_entry_scheme \<Rightarrow> exn + unit" where
  "require_artifact f e =
     (case (resolved f (artifact_path e), resolved f (cwd e)) of
        (Some real_artifact, Some real_cwd) \<Rightarrow>
          if commonpath real_artifact real_cwd \<noteq> Some real_cwd then Inl (AdapterNotFound ''artifact_outside_cwd'')
          else
            (case regular f real_artifact of
               None \<Rightarrow> Inl (AdapterNotFound ''artifact_unreadable'')
             | Some False \<Rightarrow> Inl (AdapterNotFound ''artifact_not_regular'')
             | Some True \<Rightarrow>
                 (case file_bytes f real_artifact of
                    None \<Rightarrow> Inl OSError
                  | Some b \<Rightarrow>
                      if sha256_hex b \<noteq> artifact_digest e then Inl (AdapterNotFound ''artifact_digest_mismatch'')
                      else Inr ()))
      | _ \<Rightarrow> Inl (AdapterNotFound ''artifact_missing''))"

text \<open>\<open>environ\<close> is the host's environment; \<open>ws\<close> the workspace root of a plugin.\<close>

definition env_put :: "pystr \<Rightarrow> pystr \<Rightarrow> (pystr \<times> pystr) list \<Rightarrow> (pystr \<times> pystr) list" where
  "env_put k v env =
     (if k \<in> set (map fst env) then map (\<lambda>(k', v'). (k', if k' = k then v else v')) env else env @ [(k, v)])"

definition environment ::
  "(pystr \<times> pystr) list \<Rightarrow> 'a approved_entry_scheme \<Rightarrow> pystr option \<Rightarrow> (pystr \<times> pystr) list" where
  "environment environ e ws =
     (let env = foldl (\<lambda>acc key. case map_of environ key of None \<Rightarrow> acc | Some v \<Rightarrow> env_put key v acc) []
                  (environment_allowlist e) in
      case ws of
        None \<Rightarrow> env
      | Some r \<Rightarrow>
          if lit ''V24_WORKSPACE_ROOT'' \<in> set (environment_allowlist e)
          then env_put (lit ''V24_WORKSPACE_ROOT'') r env else env)"

section \<open>Constructors\<close>

definition hex64 :: "string \<Rightarrow> pystr \<Rightarrow> exn + unit" where
  "hex64 name value =
     steps [require (length value = 64) (RegistryError (name @ '' must be 64 lowercase hex characters'')),
            require (list_all (\<lambda>c. c \<in> set (lit ''0123456789abcdef'')) value)
              (RegistryError (name @ '' must be 64 lowercase hex characters''))]"

definition non_empty :: "(string \<times> pystr) list \<Rightarrow> exn + unit" where
  "non_empty fs = each (\<lambda>(name, value). require (value \<noteq> []) (RegistryError (name @ '' must be a non-empty string''))) fs"

definition check_argv :: "pystr list \<Rightarrow> exn + unit" where
  "check_argv xs =
     steps
       [require (xs \<noteq> []) (RegistryError ''argv must be a non-empty tuple''),
        each (\<lambda>item. require (item \<noteq> [] \<and> 0 \<notin> set item)
            (RegistryError ''argv entries must be non-empty NUL-free strings'')) xs,
        require (isabs (xs ! 0)) (RegistryError ''argv[0] must be an absolute executable path''),
        require (2 \<le> length xs \<and> isabs (xs ! 1)) (RegistryError ''argv[1] must be the absolute artifact path'')]"

definition check_place :: "host_fs \<Rightarrow> 'a approved_entry_scheme \<Rightarrow> exn + unit" where
  "check_place f e =
     steps
       [require (isabs (cwd e) \<and> is_dir f (cwd e)) (RegistryError ''cwd must be an existing absolute directory''),
        require (\<forall>key \<in> set (environment_allowlist e). key \<noteq> [])
          (RegistryError ''environment_allowlist must be a tuple of names'')]"

definition check_bounds :: "'a approved_entry_scheme \<Rightarrow> exn + unit" where
  "check_bounds e =
     steps
       [require (0 < timeout_ms e \<and> timeout_ms e \<le> 300000) (RegistryError ''timeout_ms must be in (0, 300000]''),
        require (1 \<le> stdout_limit e) (RegistryError ''stdout_limit must be a positive integer''),
        require (1 \<le> stderr_limit e) (RegistryError ''stderr_limit must be a positive integer'')]"

definition adapter_descriptor :: "approved_adapter \<Rightarrow> json" where
  "adapter_descriptor a =
     JObj [(lit ''v'', JInt 1),
           (lit ''tool'', JObj [(lit ''description'', JStr (description a)), (lit ''parameters'', JObj (parameters a))])]"

definition adapter_init :: "host_fs \<Rightarrow> approved_adapter \<Rightarrow> exn + approved_adapter" where
  "adapter_init f a =
     andthen (steps
       [non_empty [(''adapter_id'', adapter_id a), (''language'', language a), (''identity'', ident a),
          (''version'', version a), (''tool_key'', tool_key a), (''cwd'', cwd a), (''description'', description a)],
        hex64 ''manifest_digest'' (manifest_digest a), hex64 ''artifact_digest'' (artifact_digest a),
        hex64 ''adapter_digest'' (adapter_digest a), hex64 ''descriptor_digest'' (pinned_digest a),
        check_argv (argv a), check_place f a,
        andthen (descriptor_digest (adapter_descriptor a)) (\<lambda>computed.
          require (computed = pinned_digest a)
            (RegistryError ''descriptor_digest does not match the approved descriptor'')),
        check_bounds a])
       (\<lambda>_. Inr a)"

text \<open>\<open>RendererRef(**tool["render"])\<close> on a render object the descriptor check has accepted.\<close>

definition render_ref_of :: "json \<Rightarrow> renderer_ref" where
  "render_ref_of r =
     \<lparr>rid = the_str (dget (items r) ''id''), rversion = the_int (dget (items r) ''version''),
      rdigest = the_str (dget (items r) ''digest'')\<rparr>"

definition as_registry_error :: "exn \<Rightarrow> exn" where
  "as_registry_error e = (case e of DescriptorError r \<Rightarrow> RegistryError r | SchemaError _ \<Rightarrow> RegistryError ''invalid_descriptor'' | _ \<Rightarrow> e)"

definition handled :: "(exn \<Rightarrow> exn) \<Rightarrow> exn + 'a \<Rightarrow> exn + 'a" where
  "handled f r = (case r of Inl e \<Rightarrow> Inl (f e) | Inr x \<Rightarrow> Inr x)"

definition tool_v2_fields ::
  "(json \<Rightarrow> pystr) \<Rightarrow> approved_tool \<Rightarrow> exn + approved_tool" where
  "tool_v2_fields shown t =
     andthen (handled as_registry_error (validate_descriptor (tdescriptor t) (Some (tkey t)) (RENDERERS shown))) (\<lambda>frozen.
       let tool = items (dget (items frozen) ''tool'') in
       if \<not> (JInt (ttimeout_ms t) = dget (items (dget tool ''limits'')) ''timeout_ms'' \<and>
              trender t = Some (render_ref_of (dget tool ''render'')) \<and>
              (case toutput_schema t of None \<Rightarrow> False | Some s \<Rightarrow> py_eq s (dget tool ''output_schema'')))
       then Inl (RegistryError ''approved_tool_invalid'')
       else
         andthen (handled as_registry_error (compile_schema (dget tool ''parameters'') ''parameters'')) (\<lambda>pc.
         andthen (handled as_registry_error (compile_schema (dget tool ''output_schema'') ''output_schema'')) (\<lambda>oc.
           Inr (t\<lparr>tdescriptor := frozen, toutput_schema := Some (dget tool ''output_schema''),
                  parameters_check := Some pc, output_check := Some oc\<rparr>))))"

definition tool_init :: "(json \<Rightarrow> pystr) \<Rightarrow> approved_tool \<Rightarrow> exn + approved_tool" where
  "tool_init shown t =
     andthen (steps
       [require (tkey t \<noteq> [] \<and> is_dict (tdescriptor t) \<and> 0 < ttimeout_ms t \<and> ttimeout_ms t \<le> 300000 \<and>
                 (case toutput_schema t of None \<Rightarrow> True | Some s \<Rightarrow> is_dict s))
          (RegistryError ''approved_tool_invalid''),
        hex64 ''descriptor_digest'' (tdigest t),
        require (is_int (dget (items (tdescriptor t)) ''v'')) (RegistryError ''invalid_descriptor'')]) (\<lambda>_.
     andthen
       (if dget (items (tdescriptor t)) ''v'' = JInt 1 then
          (if trender t \<noteq> None \<or> toutput_schema t \<noteq> None then Inl (RegistryError ''approved_tool_invalid'') else Inr t)
        else if dget (items (tdescriptor t)) ''v'' = JInt 2 then tool_v2_fields shown t
        else Inl (RegistryError ''invalid_descriptor'')) (\<lambda>t'.
     andthen (descriptor_digest (tdescriptor t')) (\<lambda>computed.
     andthen (require (computed = tdigest t')
       (RegistryError ''descriptor_digest does not match the approved descriptor'')) (\<lambda>_. Inr t'))))"

definition new_tool ::
  "(json \<Rightarrow> pystr) \<Rightarrow> pystr \<Rightarrow> json \<Rightarrow> pystr \<Rightarrow> int \<Rightarrow> renderer_ref option \<Rightarrow> json option \<Rightarrow> exn + approved_tool" where
  "new_tool shown key descriptor digest timeout r schema =
     tool_init shown
       \<lparr>tkey = key, tdescriptor = descriptor, tdigest = digest, ttimeout_ms = timeout, trender = r,
        toutput_schema = schema, parameters_check = None, output_check = None\<rparr>"

text \<open>The exceptions \<open>from_descriptor\<close> turns into \<open>invalid_descriptor\<close>: \<open>ValueError\<close> with its
  subclasses, and five more.\<close>

fun value_error :: "exn \<Rightarrow> bool" where
  "value_error (CanonicalError _) = True"
| "value_error (SchemaError _) = True"
| "value_error (InstanceError _ _) = True"
| "value_error (RendererError _) = True"
| "value_error (ToolResultError _) = True"
| "value_error (ToolPageError _) = True"
| "value_error ValueError = True"
| "value_error (IntDigits _) = True"
| "value_error UnicodeError = True"
| "value_error JSONDecodeError = True"
| "value_error _ = False"

definition from_descriptor_error :: "exn \<Rightarrow> exn" where
  "from_descriptor_error e =
     (case e of DescriptorError r \<Rightarrow> RegistryError r
      | _ \<Rightarrow> if value_error e \<or> e \<in> {TypeError, RecursionError, KeyError, AttributeError}
            then RegistryError ''invalid_descriptor'' else e)"

definition from_descriptor :: "(json \<Rightarrow> pystr) \<Rightarrow> json \<Rightarrow> pystr \<Rightarrow> exn + approved_tool" where
  "from_descriptor shown descriptor key =
     handled from_descriptor_error
       (andthen (validate_descriptor descriptor (Some key) (RENDERERS shown)) (\<lambda>frozen.
        andthen (descriptor_digest frozen) (\<lambda>digest.
          let tool = items (dget (items frozen) ''tool'') in
          new_tool shown key frozen digest (the_int (dget (items (dget tool ''limits'')) ''timeout_ms''))
            (Some (render_ref_of (dget tool ''render''))) (Some (dget tool ''output_schema'')))))"

definition plugin_init :: "host_fs \<Rightarrow> approved_plugin \<Rightarrow> exn + approved_plugin" where
  "plugin_init f p =
     andthen (steps
       [non_empty [(''adapter_id'', adapter_id p), (''language'', language p), (''identity'', ident p),
          (''version'', version p), (''cwd'', cwd p)],
        hex64 ''manifest_digest'' (manifest_digest p), hex64 ''artifact_digest'' (artifact_digest p),
        hex64 ''adapter_digest'' (adapter_digest p),
        check_argv (argv p), check_place f p, check_bounds p,
        require (protocol p = 2) (RegistryError ''protocol_invalid''),
        require (1 \<le> length (tools p) \<and> length (tools p) \<le> 16) (RegistryError ''tools_invalid''),
        require (distinct (map tkey (tools p))) (RegistryError ''duplicate_tool_key''),
        require (\<forall>t \<in> set (tools p). py_eq (dget (items (tdescriptor t)) ''v'') (JInt 2))
          (RegistryError ''invalid_descriptor''),
        require (isabs (workspace_root p) \<and> realpath f (workspace_root p) = workspace_root p \<and>
                 is_dir f (workspace_root p)) (RegistryError ''workspace_root_invalid''),
        require (1 \<le> timeout_cap_ms p \<and> timeout_cap_ms p \<le> 25000) (RegistryError ''timeout_cap_invalid''),
        require (\<forall>t \<in> set (tools p). ttimeout_ms t \<le> timeout_cap_ms p) (RegistryError ''timeout_exceeds_cap'')])
       (\<lambda>_. Inr p)"

definition tool_for :: "approved_plugin \<Rightarrow> pystr \<Rightarrow> approved_tool option" where
  "tool_for p key = find (\<lambda>t. tkey t = key) (tools p)"

section \<open>Plugins from manifests\<close>

text \<open>\<open>from_manifest\<close> takes a decoded manifest, its bytes or its text.\<close>

datatype manifest = Parsed json | RawBytes bytes | RawText pystr

definition manifest_bytes :: "manifest \<Rightarrow> exn + (bytes \<times> json)" where
  "manifest_bytes m =
     (case m of
        Parsed v \<Rightarrow> if is_dict v then andthen (compact_json v) (\<lambda>b. Inr (b, v)) else Inl ValueError
      | RawBytes b \<Rightarrow> andthen (strict_loads_bytes b) (\<lambda>v. Inr (b, v))
      | RawText t \<Rightarrow>
          (case utf8_encode t of
             None \<Rightarrow> Inl UnicodeError
           | Some b \<Rightarrow> andthen (strict_loads t) (\<lambda>v. Inr (b, v))))"

definition manifest_invalid :: exn where
  "manifest_invalid = RegistryError ''manifest_invalid''"

definition nonempty_str :: "json \<Rightarrow> bool" where
  "nonempty_str v \<longleftrightarrow> is_str v \<and> the_str v \<noteq> []"

definition manifest_shape :: "json \<Rightarrow> bool" where
  "manifest_shape v \<longleftrightarrow>
     (let d = items v in
      is_dict v \<and> keys_are d [''identity'', ''version'', ''requires'', ''provides'', ''adapter_digest''] \<and>
      nonempty_str (dget d ''identity'') \<and> nonempty_str (dget d ''version'') \<and>
      is_list (dget d ''requires'') \<and> is_list (dget d ''provides'') \<and>
      1 \<le> length (elems (dget d ''provides'')) \<and> length (elems (dget d ''provides'')) \<le> 16)"

definition provide_ok :: "json \<Rightarrow> bool" where
  "provide_ok p \<longleftrightarrow>
     (let d = items p in
      is_dict p \<and> keys_are d [''realm'', ''key'', ''descriptor''] \<and>
      nonempty_str (dget d ''realm'') \<and> nonempty_str (dget d ''key'') \<and> is_dict (dget d ''descriptor''))"

definition provide_version :: "json \<Rightarrow> json" where
  "provide_version p = dget (items (dget (items p) ''descriptor'')) ''v''"

text \<open>The member of the set \<open>versions\<close>: the type of a version with its value, or with its \<open>repr\<close>
  when it cannot be hashed.\<close>

definition version_key :: "(json \<Rightarrow> pystr) \<Rightarrow> json \<Rightarrow> string \<times> pystr" where
  "version_key shown v =
     (case v of
        JNull \<Rightarrow> (''NoneType'', [])
      | JBool b \<Rightarrow> (''bool'', if b then lit ''True'' else lit ''False'')
      | JInt i \<Rightarrow> (''int'', int_text i)
      | JFloat _ \<Rightarrow> (''float'', shown v)
      | JStr s \<Rightarrow> (''str'', s)
      | JArr _ \<Rightarrow> (''list'', shown v)
      | JObj _ \<Rightarrow> (''dict'', shown v))"

definition adapter_declaration_digest :: "pystr \<Rightarrow> exn + pystr" where
  "adapter_declaration_digest lang =
     andthen (compact_json (JObj
        [(lit ''adapter'', jstr ''v24.line-json''), (lit ''language'', JStr lang),
         (lit ''protocol'', jstr ''v24.line-json.v2''), (lit ''version'', JInt 2)]))
       (\<lambda>b. Inr (sha256_hex b))"

definition hex64_ok :: "json \<Rightarrow> bool" where
  "hex64_ok v \<longleftrightarrow> is_str v \<and> length (the_str v) = 64 \<and>
     list_all (\<lambda>c. c \<in> set (lit ''0123456789abcdef'')) (the_str v)"

text \<open>The checks on the manifest; what remains is building the tools and the entry. The argument
  \<open>e\<close> holds what the caller approves besides the manifest.\<close>

definition check_manifest :: "(json \<Rightarrow> pystr) \<Rightarrow> pystr \<Rightarrow> json \<Rightarrow> exn + unit" where
  "check_manifest shown lang parsed =
     steps
       [require (manifest_shape parsed) manifest_invalid,
        require (\<forall>p \<in> set (elems (dget (items parsed) ''provides'')). provide_ok p) manifest_invalid,
        require (length (remdups (map (\<lambda>p. version_key shown (provide_version p))
            (elems (dget (items parsed) ''provides'')))) \<le> 1) (RegistryError ''mixed_descriptor_versions''),
        require (\<forall>p \<in> set (elems (dget (items parsed) ''provides'')). provide_version p = JInt 2) manifest_invalid,
        require (hex64_ok (dget (items parsed) ''adapter_digest'')) manifest_invalid,
        andthen (adapter_declaration_digest lang) (\<lambda>d.
          require (the_str (dget (items parsed) ''adapter_digest'') = d) (RegistryError ''adapter_digest_mismatch''))]"

definition from_manifest ::
  "host_fs \<Rightarrow> (json \<Rightarrow> pystr) \<Rightarrow> manifest \<Rightarrow> approved_plugin \<Rightarrow> exn + approved_plugin" where
  "from_manifest f shown m p =
     andthen (handled (\<lambda>_. manifest_invalid) (manifest_bytes m)) (\<lambda>(raw, parsed).
     andthen (check_manifest shown (language p) parsed) (\<lambda>_.
     andthen (mapr (\<lambda>q. from_descriptor shown (dget (items q) ''descriptor'') (the_str (dget (items q) ''key'')))
         (elems (dget (items parsed) ''provides''))) (\<lambda>ts.
       plugin_init f
         (p\<lparr>ident := the_str (dget (items parsed) ''identity''), version := the_str (dget (items parsed) ''version''),
            manifest_digest := sha256_hex raw, adapter_digest := the_str (dget (items parsed) ''adapter_digest''),
            tools := ts, protocol := 2\<rparr>))))"

section \<open>The registry\<close>

record approved_registry =
  entries :: "approved list"
  by_key :: "install_key \<rightharpoonup> approved"
  by_adapter :: "pystr \<rightharpoonup> approved"

definition register :: "approved \<Rightarrow> approved_registry \<Rightarrow> exn + approved_registry" where
  "register e r =
     (if by_key r (canonical_key (base e)) \<noteq> None
      then Inl (RegistryError ''ambiguous approved adapter for install key'')
      else if by_adapter r (adapter_id (base e)) \<noteq> None then Inl (RegistryError ''duplicate adapter_id'')
      else Inr (r\<lparr>by_key := (by_key r)(canonical_key (base e) \<mapsto> e),
                  by_adapter := (by_adapter r)(adapter_id (base e) \<mapsto> e)\<rparr>))"

definition registry :: "approved list \<Rightarrow> exn + approved_registry" where
  "registry es = sweep register es \<lparr>entries = es, by_key = Map.empty, by_adapter = Map.empty\<rparr>"

definition install_fields :: "string list" where
  "install_fields = [''identity'', ''version'', ''manifest_digest'', ''artifact_digest'', ''adapter_digest'']"

text \<open>The dict lookup hashes the tuple, so an unhashable identity or version is a \<open>TypeError\<close>;
  a value that is not a string equals no key.\<close>

definition lookup_install :: "(json \<Rightarrow> pystr) \<Rightarrow> approved_registry \<Rightarrow> json \<Rightarrow> exn + approved" where
  "lookup_install shown r install =
     (let d = items install; i = dget d ''identity''; v = dget d ''version''; text = (\<lambda>k. lower (py_str shown (dget d k))) in
      if \<not> is_dict install \<or> \<not> list_all (has d) install_fields then Inl (AdapterNotFound ''install_invalid'')
      else if is_dict i \<or> is_list i \<or> is_dict v \<or> is_list v then Inl TypeError
      else
        (case (if is_str i \<and> is_str v
               then by_key r (the_str i, the_str v, text ''manifest_digest'', text ''artifact_digest'', text ''adapter_digest'')
               else None) of
           None \<Rightarrow> Inl (AdapterNotFound ''adapter_not_approved'')
         | Some e \<Rightarrow> Inr e))"

text \<open>What \<open>match_tool\<close> and \<open>match_pin\<close> compare: the pin's descriptor and digest with the approved ones.\<close>

definition check_pin :: "json \<Rightarrow> json \<Rightarrow> pystr \<Rightarrow> exn + unit" where
  "check_pin pin descriptor digest =
     (let d = items pin in
      if \<not> is_dict (dget d ''descriptor'') then Inl (AdapterNotFound ''descriptor_missing'')
      else if \<not> is_str (dget d ''descriptor_digest'') then Inl (AdapterNotFound ''descriptor_digest_missing'')
      else
        andthen (pg_jsonb_text descriptor) (\<lambda>mine.
        andthen (pg_jsonb_text (dget d ''descriptor'')) (\<lambda>theirs.
          if mine \<noteq> theirs then Inl (AdapterNotFound ''descriptor_mismatch'')
          else if digest \<noteq> lower (the_str (dget d ''descriptor_digest''))
            then Inl (AdapterNotFound ''descriptor_digest_mismatch'')
          else Inr ())))"

definition tool_of_entry :: "(json \<Rightarrow> pystr) \<Rightarrow> approved \<Rightarrow> pystr \<Rightarrow> exn + approved_tool" where
  "tool_of_entry shown e key =
     (case e of
        Adapter a \<Rightarrow>
          if tool_key a \<noteq> key then Inl (AdapterNotFound ''tool_not_approved'')
          else new_tool shown (tool_key a) (adapter_descriptor a) (pinned_digest a) (timeout_ms a) None None
      | Plugin p \<Rightarrow>
          (case tool_for p key of None \<Rightarrow> Inl (AdapterNotFound ''tool_not_approved'') | Some t \<Rightarrow> Inr t))"

definition match_tool ::
  "(json \<Rightarrow> pystr) \<Rightarrow> approved_registry \<Rightarrow> json \<Rightarrow> json \<Rightarrow> pystr \<Rightarrow> exn + (approved \<times> approved_tool)" where
  "match_tool shown r install pin key =
     andthen (lookup_install shown r install) (\<lambda>e.
       if \<not> is_dict pin \<or> \<not> py_eq (dget (items pin) ''key'') (JStr key) then Inl (AdapterNotFound ''pin_key_mismatch'')
       else
         andthen (tool_of_entry shown e key) (\<lambda>t.
         andthen (check_pin pin (tdescriptor t) (tdigest t)) (\<lambda>_. Inr (e, t))))"

definition match_pin :: "(json \<Rightarrow> pystr) \<Rightarrow> approved_registry \<Rightarrow> json \<Rightarrow> json \<Rightarrow> exn + approved_adapter" where
  "match_pin shown r install pin =
     andthen (lookup_install shown r install) (\<lambda>e.
       case e of
         Plugin _ \<Rightarrow> Inl (AdapterNotFound ''protocol_mismatch'')
       | Adapter a \<Rightarrow> andthen (check_pin pin (adapter_descriptor a) (pinned_digest a)) (\<lambda>_. Inr a))"

end
