(* ===== verification/Process_Io.thy ===== *)
theory Process_Io
  imports Py_Text
begin

text \<open>
  \<open>v24/host/process_io.py\<close>: the preconditions of a spawn and the bounded read loop over the
  two output pipes. The operating system is a script: each turn of the loop either finds the
  deadline passed or gets the ready streams with the answer to each \<open>os.read\<close>, which is at
  most the number of bytes asked for. A script that ends is a deadline that passes.
\<close>

section \<open>Specifications and results\<close>

definition STDIN_LIMIT :: nat where "STDIN_LIMIT = 1024 * 1024"
definition STDOUT_LIMIT :: int where "STDOUT_LIMIT = 64 * 1024"
definition STDERR_LIMIT :: int where "STDERR_LIMIT = 16 * 1024"
definition PROCESS_TIMEOUT_MS :: int where "PROCESS_TIMEOUT_MS = 5000"

record process_spec =
  spec_argv :: "pystr list"
  spec_cwd :: pystr
  spec_env :: "(pystr \<times> pystr) list"
  spec_stdin :: bytes
  spec_timeout_ms :: int
  spec_stdout_limit :: int
  spec_stderr_limit :: int

record process_result =
  pid :: nat
  returncode :: int
  stdout :: bytes
  stderr :: bytes
  timed_out :: bool
  stdout_limited :: bool
  stderr_limited :: bool
  wall_ms :: int

definition process_ok :: "process_result \<Rightarrow> bool" where
  "process_ok r \<longleftrightarrow> returncode r = 0 \<and> \<not> timed_out r \<and> \<not> stdout_limited r \<and> \<not> stderr_limited r"

definition validate_spec :: "(pystr \<Rightarrow> bool) \<Rightarrow> process_spec \<Rightarrow> exn + unit" where
  "validate_spec isdir s =
     steps
       [require (spec_argv s \<noteq> []) (ProcessError ''argv must be a non-empty tuple''),
        each (\<lambda>item. require (item \<noteq> [] \<and> 0 \<notin> set item)
            (ProcessError ''argv entries must be non-empty NUL-free strings'')) (spec_argv s),
        require (isdir (spec_cwd s)) (ProcessError ''cwd must be an existing directory''),
        each (\<lambda>(key, value). require (key \<noteq> [] \<and> 61 \<notin> set key \<and> 0 \<notin> set value)
            (ProcessError ''env must be a flat str->str mapping'')) (spec_env s),
        require (length (spec_stdin s) \<le> STDIN_LIMIT) (ProcessError ''stdin exceeds the 1 MiB bound''),
        require (0 < spec_timeout_ms s \<and> spec_timeout_ms s \<le> 300000)
          (ProcessError ''timeout_ms must be in (0, 300000]''),
        require (1 \<le> spec_stdout_limit s \<and> 1 \<le> spec_stderr_limit s)
          (ProcessError ''output limits must be positive'')]"

section \<open>The read loop\<close>

datatype stream = Out | Err

datatype read_answer = Blocking | ReadFailed | Block bytes

datatype turn = DeadlinePassed | Ready "(stream \<times> read_answer) list"

record io_state =
  buffer :: "stream \<Rightarrow> bytes"
  limited :: "stream \<Rightarrow> bool"
  open_fds :: "stream list"
  expired :: bool
  killed :: bool

definition io_start :: io_state where
  "io_start = \<lparr>buffer = (\<lambda>_. []), limited = (\<lambda>_. False), open_fds = [Out, Err], expired = False,
     killed = False\<rparr>"

definition limit_of :: "process_spec \<Rightarrow> stream \<Rightarrow> nat" where
  "limit_of s fd = nat (case fd of Out \<Rightarrow> spec_stdout_limit s | Err \<Rightarrow> spec_stderr_limit s)"

text \<open>What \<open>os.read(fd, max(1, min(65536, capacity)))\<close> returns.\<close>

definition read_block :: "process_spec \<Rightarrow> stream \<Rightarrow> bytes \<Rightarrow> io_state \<Rightarrow> bytes" where
  "read_block s fd available st =
     take (nat (max 1 (min 65536 (int (limit_of s fd) + 1 - int (length (buffer st fd)))))) available"

definition close_stream :: "stream \<Rightarrow> io_state \<Rightarrow> io_state" where
  "close_stream fd st = st\<lparr>open_fds := removeAll fd (open_fds st)\<rparr>"

definition append_block :: "stream \<Rightarrow> bytes \<Rightarrow> io_state \<Rightarrow> io_state" where
  "append_block fd block st = st\<lparr>buffer := (buffer st)(fd := buffer st fd @ block)\<rparr>"

definition overflow :: "stream \<Rightarrow> io_state \<Rightarrow> io_state" where
  "overflow fd st = st\<lparr>limited := (limited st)(fd := True), open_fds := [], killed := True\<rparr>"

text \<open>The \<open>for key, _ in events\<close> loop; a breach of a limit leaves it.\<close>

fun handle_events :: "process_spec \<Rightarrow> (stream \<times> read_answer) list \<Rightarrow> io_state \<Rightarrow> io_state" where
  "handle_events s [] st = st"
| "handle_events s ((fd, Blocking) # es) st = handle_events s es st"
| "handle_events s ((fd, ReadFailed) # es) st = handle_events s es (close_stream fd st)"
| "handle_events s ((fd, Block available) # es) st =
     (let block = read_block s fd available st in
      if block = [] then handle_events s es (close_stream fd st)
      else
        let st' = append_block fd block st in
        if length (buffer st' fd) > limit_of s fd then overflow fd st'
        else handle_events s es st')"

definition expire :: "io_state \<Rightarrow> io_state" where
  "expire st = st\<lparr>expired := True, killed := True\<rparr>"

fun pump :: "process_spec \<Rightarrow> turn list \<Rightarrow> io_state \<Rightarrow> io_state" where
  "pump s turns st =
     (if open_fds st = [] then st
      else case turns of
             [] \<Rightarrow> expire st
           | DeadlinePassed # _ \<Rightarrow> expire st
           | Ready [] # _ \<Rightarrow> expire st
           | Ready (e # es) # rest \<Rightarrow> pump s rest (handle_events s (e # es) st))"

declare pump.simps [simp del]

text \<open>
  The operating system: which paths are directories, the process a spawn yields (\<open>None\<close> for an
  \<open>OSError\<close>), the turns of the loop, the status \<open>wait\<close> reports and the elapsed milliseconds.
\<close>

record os_world =
  is_directory :: "pystr \<Rightarrow> bool"
  spawned :: "process_spec \<Rightarrow> nat option"
  turns_of :: "process_spec \<Rightarrow> turn list"
  wait_status :: "process_spec \<Rightarrow> int"
  elapsed_ms :: "process_spec \<Rightarrow> int"

definition run_process :: "os_world \<Rightarrow> process_spec \<Rightarrow> exn + process_result" where
  "run_process w s =
     andthen (validate_spec (is_directory w) s) (\<lambda>_.
       case spawned w s of
         None \<Rightarrow> Inl (ProcessError ''spawn failed'')
       | Some p \<Rightarrow>
           (let st = pump s (turns_of w s) io_start in
            Inr \<lparr>pid = p, returncode = wait_status w s, stdout = buffer st Out, stderr = buffer st Err,
                 timed_out = expired st, stdout_limited = limited st Out, stderr_limited = limited st Err,
                 wall_ms = max 0 (elapsed_ms w s)\<rparr>))"

section \<open>The invariant of the loop\<close>

text \<open>
  While streams are open nothing is limited and every buffer is within its limit; a breach
  closes everything and kills the group; a buffer never exceeds its limit by more than a byte.
\<close>

definition io_ok :: "process_spec \<Rightarrow> io_state \<Rightarrow> bool" where
  "io_ok s st \<longleftrightarrow>
     (\<forall>fd. length (buffer st fd) \<le> limit_of s fd + 1 \<and> (limited st fd \<longleftrightarrow> length (buffer st fd) > limit_of s fd)) \<and>
     (open_fds st \<noteq> [] \<longrightarrow> (\<forall>fd. \<not> limited st fd)) \<and>
     (\<not> (limited st Out \<and> limited st Err)) \<and>
     (killed st \<longleftrightarrow> expired st \<or> limited st Out \<or> limited st Err) \<and>
     (expired st \<longrightarrow> (\<forall>fd. \<not> limited st fd))"

lemma all_streams: "(\<forall>fd. P fd) \<longleftrightarrow> P Out \<and> P Err"
  by (metis stream.exhaust)

lemmas io_ok_iff = io_ok_def[unfolded all_streams]

lemma io_start_ok: "io_ok s io_start"
  by (simp add: io_ok_iff io_start_def)

text \<open>Between two events of a turn no limit has been breached, whatever is still open.\<close>

definition io_quiet :: "process_spec \<Rightarrow> io_state \<Rightarrow> bool" where
  "io_quiet s st \<longleftrightarrow> (\<forall>fd. length (buffer st fd) \<le> limit_of s fd \<and> \<not> limited st fd) \<and> \<not> expired st \<and> \<not> killed st"

lemmas io_quiet_iff = io_quiet_def[unfolded all_streams]

lemma io_quiet_ok: "io_quiet s st \<Longrightarrow> io_ok s st \<and> \<not> expired st"
  by (simp add: io_quiet_iff io_ok_iff)

lemma io_ok_quiet: "io_ok s st \<Longrightarrow> \<not> expired st \<Longrightarrow> open_fds st \<noteq> [] \<Longrightarrow> io_quiet s st"
  by (auto simp: io_quiet_iff io_ok_iff not_less)

lemma expire_ok: "io_quiet s st \<Longrightarrow> io_ok s (expire st)"
  by (simp add: io_quiet_iff io_ok_iff expire_def)

lemma close_stream_quiet: "io_quiet s st \<Longrightarrow> io_quiet s (close_stream fd st)"
  by (simp add: io_quiet_def close_stream_def)

lemma length_read_block: "length (read_block s fd bs st) \<le> max 1 (limit_of s fd + 1 - length (buffer st fd))"
  by (simp add: read_block_def)

lemma length_append_block:
  assumes "io_quiet s st"
  shows "length (buffer st fd @ read_block s fd bs st) \<le> limit_of s fd + 1"
proof -
  have "length (buffer st fd) \<le> limit_of s fd" using assms by (simp add: io_quiet_def)
  with length_read_block[of s fd bs st] show ?thesis by simp
qed

lemma append_block_quiet:
  "io_quiet s st \<Longrightarrow> length (buffer st fd @ bs) \<le> limit_of s fd \<Longrightarrow> io_quiet s (append_block fd bs st)"
  by (simp add: io_quiet_def append_block_def)

lemma overflow_ok:
  assumes "io_quiet s st" "limit_of s fd < length (buffer st fd @ bs)" "length (buffer st fd @ bs) \<le> limit_of s fd + 1"
  shows "io_ok s (overflow fd (append_block fd bs st)) \<and> \<not> expired (overflow fd (append_block fd bs st))"
  using assms by (cases fd) (simp_all add: io_quiet_iff io_ok_iff overflow_def append_block_def)

lemma handle_events_ok: "io_quiet s st \<Longrightarrow> io_ok s (handle_events s es st) \<and> \<not> expired (handle_events s es st)"
proof (induction s es st rule: handle_events.induct)
  case (4 s fd available es st)
  have bound: "length (buffer st fd @ read_block s fd available st) \<le> limit_of s fd + 1"
    by (rule length_append_block[OF 4(3)])
  have buf: "buffer (append_block fd bs st) fd = buffer st fd @ bs" for bs by (simp add: append_block_def)
  consider (eof) "read_block s fd available st = []"
    | (over) "read_block s fd available st \<noteq> []" "limit_of s fd < length (buffer st fd @ read_block s fd available st)"
    | (within) "read_block s fd available st \<noteq> []" "length (buffer st fd @ read_block s fd available st) \<le> limit_of s fd"
    by linarith
  then show ?case
  proof cases
    case eof
    then show ?thesis using 4(1)[OF refl] close_stream_quiet[OF 4(3)] by simp
  next
    case over
    then show ?thesis using overflow_ok[OF 4(3) over(2) bound] by (simp add: Let_def buf)
  next
    case within
    have "\<not> limit_of s fd < length (buffer (append_block fd (read_block s fd available st) st) fd)"
      using within(2) by (simp add: buf)
    then show ?thesis
      using 4(2)[OF refl within(1) refl] append_block_quiet[OF 4(3) within(2)] within(1) by (simp add: Let_def)
  qed
qed (simp_all add: io_quiet_ok close_stream_quiet)

lemma pump_Nil: "pump s [] st = (if open_fds st = [] then st else expire st)"
  by (simp add: pump.simps)

lemma pump_Cons:
  "pump s (t # rest) st =
     (if open_fds st = [] then st
      else case t of DeadlinePassed \<Rightarrow> expire st
           | Ready es \<Rightarrow> if es = [] then expire st else pump s rest (handle_events s es st))"
  by (subst pump.simps) (auto split: turn.splits list.splits)

lemma pump_ok: "io_ok s st \<Longrightarrow> \<not> expired st \<Longrightarrow> io_ok s (pump s turns st)"
proof (induction turns arbitrary: st)
  case Nil
  then show ?case using expire_ok[OF io_ok_quiet] by (simp add: pump_Nil)
next
  case (Cons t rest)
  show ?case
  proof (cases "open_fds st = []")
    case False
    then have q: "io_quiet s st" using Cons.prems by (simp add: io_ok_quiet)
    show ?thesis
      using False expire_ok[OF q] handle_events_ok[OF q] Cons.IH
      by (cases t) (simp_all add: pump_Cons)
  qed (use Cons.prems in \<open>simp add: pump_Cons\<close>)
qed

lemma pump_closed: "\<not> expired (pump s turns st) \<Longrightarrow> open_fds (pump s turns st) = []"
proof (induction turns arbitrary: st)
  case Nil
  then show ?case by (simp add: pump_Nil expire_def split: if_splits)
next
  case (Cons t rest)
  then show ?case
    by (cases t) (auto simp: pump_Cons expire_def split: if_splits)
qed

section \<open>The contract of a runner\<close>

text \<open>
  What the callers of \<open>run_process\<close> rely on: it raises only before anything started, its
  flags say exactly which bound was breached, and its measurements are bounded.
\<close>

locale process_runner =
  fixes rp :: "process_spec \<Rightarrow> exn + process_result"
  assumes raises_before_start: "rp s = Inl e \<Longrightarrow> \<exists>m. e = ProcessError m"
    and flags: "rp s = Inr r \<Longrightarrow>
      (stdout_limited r \<longleftrightarrow> int (length (stdout r)) > spec_stdout_limit s) \<and>
      (stderr_limited r \<longleftrightarrow> int (length (stderr r)) > spec_stderr_limit s)"
    and overshoot: "rp s = Inr r \<Longrightarrow>
      int (length (stdout r)) \<le> spec_stdout_limit s + 1 \<and> int (length (stderr r)) \<le> spec_stderr_limit s + 1"
    and exclusive: "rp s = Inr r \<Longrightarrow>
      \<not> (stdout_limited r \<and> stderr_limited r) \<and> (timed_out r \<longrightarrow> \<not> stdout_limited r \<and> \<not> stderr_limited r)"
    and wall: "rp s = Inr r \<Longrightarrow> 0 \<le> wall_ms r"
    and stdin_bounded: "rp s = Inr r \<Longrightarrow> length (spec_stdin s) \<le> STDIN_LIMIT"
begin

lemma clean_output:
  assumes "rp s = Inr r" "process_ok r"
  shows "int (length (stdout r)) \<le> spec_stdout_limit s \<and> int (length (stderr r)) \<le> spec_stderr_limit s"
  using flags[OF assms(1)] assms(2) by (auto simp: process_ok_def)

end

lemma validate_spec_Inl: "validate_spec isdir s = Inl e \<Longrightarrow> \<exists>m. e = ProcessError m"
proof -
  have "only (\<lambda>e. \<exists>m. e = ProcessError m) (validate_spec isdir s)"
    unfolding validate_spec_def by (intro only_intros) auto
  then show "validate_spec isdir s = Inl e \<Longrightarrow> \<exists>m. e = ProcessError m" by (rule onlyD)
qed

lemma run_process_final:
  assumes "run_process w s = Inr r"
  obtains st where "io_ok s st" "st = pump s (turns_of w s) io_start"
    "stdout r = buffer st Out" "stderr r = buffer st Err" "timed_out r = expired st"
    "stdout_limited r = limited st Out" "stderr_limited r = limited st Err" "0 \<le> wall_ms r"
    "validate_spec (is_directory w) s = Inr ()"
  using assms pump_ok[OF io_start_ok, of s "turns_of w s"]
  by (auto simp: run_process_def andthen_Inr Let_def io_start_def split: option.splits)

lemma validated_limits:
  "validate_spec isdir s = Inr () \<Longrightarrow>
     int (limit_of s Out) = spec_stdout_limit s \<and> int (limit_of s Err) = spec_stderr_limit s \<and>
     length (spec_stdin s) \<le> STDIN_LIMIT"
  by (simp add: validate_spec_def run_simps limit_of_def del: steps.simps each.simps)

interpretation runner: process_runner "run_process w" for w
proof unfold_locales
  fix s e assume "run_process w s = Inl e"
  then show "\<exists>m. e = ProcessError m"
    by (auto simp: run_process_def andthen_Inl Let_def split: option.splits dest: validate_spec_Inl)
next
  fix s r assume r: "run_process w s = Inr r"
  then obtain st where st: "io_ok s st" "stdout r = buffer st Out" "stderr r = buffer st Err"
      "timed_out r = expired st" "stdout_limited r = limited st Out" "stderr_limited r = limited st Err"
      "0 \<le> wall_ms r" "validate_spec (is_directory w) s = Inr ()"
    by (rule run_process_final)
  have l: "int (limit_of s Out) = spec_stdout_limit s" "int (limit_of s Err) = spec_stderr_limit s"
      "length (spec_stdin s) \<le> STDIN_LIMIT"
    using validated_limits[OF st(8)] by auto
  have ok: "io_ok s st" by (rule st(1))
  note bounds = ok[unfolded io_ok_iff]
  have o: "stdout_limited r \<longleftrightarrow> int (length (stdout r)) > spec_stdout_limit s"
    "stderr_limited r \<longleftrightarrow> int (length (stderr r)) > spec_stderr_limit s"
    using bounds st(2-6) l by (simp_all flip: l(1,2))
  show
    "(stdout_limited r \<longleftrightarrow> int (length (stdout r)) > spec_stdout_limit s) \<and>
      (stderr_limited r \<longleftrightarrow> int (length (stderr r)) > spec_stderr_limit s)"
    "int (length (stdout r)) \<le> spec_stdout_limit s + 1 \<and> int (length (stderr r)) \<le> spec_stderr_limit s + 1"
    "\<not> (stdout_limited r \<and> stderr_limited r) \<and> (timed_out r \<longrightarrow> \<not> stdout_limited r \<and> \<not> stderr_limited r)"
    "0 \<le> wall_ms r" "length (spec_stdin s) \<le> STDIN_LIMIT"
    using bounds st(2-7) l o by auto
qed

end
