(* ===== verification/Line_Json.thy ===== *)
theory Line_Json
  imports Registry Process_Io Tool_Results
begin

text \<open>
  \<open>v24/host/line_json.py\<close>: one request line to a tool process, one classified answer. Version 1
  and version 2 of the protocol, the frames they build and how they read what comes back. The
  process is the argument \<open>rp\<close>, an operation with the contract of \<open>process_runner\<close>. \<open>fl\<close> reads a
  float literal. A document nested beyond Python's stack is outside the model of \<open>json.loads\<close>.
\<close>

section \<open>Invocations\<close>

record invocation =
  class_name :: string
  result :: "json option"
  started :: bool
  reason :: "pystr option"
  inv_returncode :: int
  inv_wall_ms :: int
  inv_pid :: nat
  inv_stdout :: bytes
  inv_stderr :: bytes

definition invocation_of :: "process_result \<Rightarrow> string \<Rightarrow> json option \<Rightarrow> pystr option \<Rightarrow> invocation" where
  "invocation_of r c v why =
     \<lparr>class_name = c, result = v, started = True, reason = why, inv_returncode = returncode r,
      inv_wall_ms = wall_ms r, inv_pid = pid r, inv_stdout = stdout r, inv_stderr = stderr r\<rparr>"

definition unknown_invocation :: "process_result \<Rightarrow> pystr \<Rightarrow> invocation" where
  "unknown_invocation r why = invocation_of r ''unknown'' None (Some why)"

definition OPERATIONS :: "string list" where
  "OPERATIONS = [''prepare'', ''invoke'', ''release'', ''inspect'']"

definition reservation_ok :: "json \<Rightarrow> bool" where
  "reservation_ok v \<longleftrightarrow> is_str v \<and> the_str v \<noteq> [] \<and> 0 \<notin> set (the_str v)"

section \<open>Version 1\<close>

definition build_frame :: "string \<Rightarrow> json \<Rightarrow> json \<Rightarrow> exn + bytes" where
  "build_frame operation reservation args =
     (if operation \<notin> set OPERATIONS then Inl (LineJsonPreflight ''operation_invalid'')
      else if \<not> reservation_ok reservation then Inl (LineJsonPreflight ''reservation_invalid'')
      else if \<not> is_dict args then Inl (LineJsonPreflight ''args_invalid'')
      else
        andthen (dumps_sorted (JObj [(lit ''v'', JInt 1), (lit ''operation'', jstr operation),
            (lit ''reservation'', reservation), (lit ''args'', args)])) (\<lambda>t.
          case utf8_encode (t @ [10]) of None \<Rightarrow> Inl UnicodeError | Some b \<Rightarrow> Inr b))"

text \<open>\<open>_frames\<close> with the text of the \<open>ValueError\<close> it raises; a numeral too long for \<open>int\<close> is one
  it does not convert.\<close>

definition int_digits_text :: "nat \<Rightarrow> pystr" where
  "int_digits_text n =
     lit ''Exceeds the limit (4300 digits) for integer string conversion: value has '' @ dec n @
     lit '' digits; use sys.set_int_max_str_digits() to increase the limit''"

definition frames :: "(pystr \<Rightarrow> pyfloat) \<Rightarrow> bytes \<Rightarrow> pystr + json" where
  "frames fl out =
     (case utf8_decode out of
        None \<Rightarrow> Inl (lit ''stdout_not_utf8'')
      | Some text \<Rightarrow>
          (case splitlines text of
             [] \<Rightarrow> Inl (lit ''eof'')
           | line # others \<Rightarrow>
               if list_all is_space line then Inl (lit ''eof'')
               else if others \<noteq> [] then Inl (lit ''extra_frame'')
               else
                 (case json_loads (default_hooks fl) line of
                    Inl (IntDigits n) \<Rightarrow> Inl (int_digits_text n)
                  | Inl _ \<Rightarrow> Inl (lit ''bad_frame'')
                  | Inr v \<Rightarrow> if is_dict v then Inr v else Inl (lit ''bad_frame''))))"

text \<open>The payload of a success frame is itself a JSON text; only its \<open>JSONDecodeError\<close> is caught.\<close>

definition success_frame :: "(pystr \<Rightarrow> pyfloat) \<Rightarrow> json \<Rightarrow> exn + json option" where
  "success_frame fl frame =
     (let d = items frame; payload = dget d ''result'' in
      if \<not> keys_are d [''ok'', ''result''] \<or> dget d ''ok'' \<noteq> JBool True \<or> \<not> is_str payload then Inr None
      else
        (case json_loads (default_hooks fl) (the_str payload) of
           Inl JSONDecodeError \<Rightarrow> Inr None
         | Inl e \<Rightarrow> Inl e
         | Inr v \<Rightarrow> Inr (if is_dict v then Some v else None)))"

definition failed_frame :: "json \<Rightarrow> json option" where
  "failed_frame frame =
     (let d = items frame; error = dget d ''error''; message = dget d ''message'' in
      if \<not> keys_are d [''ok'', ''error'', ''message''] \<or> dget d ''ok'' \<noteq> JBool False then None
      else if \<not> is_str error \<or> the_str error = [] \<or> \<not> is_str message then None
      else Some (JObj [(lit ''code'', error), (lit ''message'', message)]))"

text \<open>\<open>x or default\<close> on the numbers of an entry.\<close>

definition or_default :: "int \<Rightarrow> int \<Rightarrow> int" where
  "or_default n d = (if n = 0 then d else n)"

definition spec_of :: "(pystr \<times> pystr) list \<Rightarrow> pystr option \<Rightarrow> 'a approved_entry_scheme \<Rightarrow> bytes \<Rightarrow> process_spec" where
  "spec_of environ ws e frame =
     \<lparr>spec_argv = argv e, spec_cwd = cwd e, spec_env = environment environ e ws, spec_stdin = frame,
      spec_timeout_ms = or_default (timeout_ms e) PROCESS_TIMEOUT_MS,
      spec_stdout_limit = or_default (stdout_limit e) STDOUT_LIMIT,
      spec_stderr_limit = or_default (stderr_limit e) STDERR_LIMIT\<rparr>"

text \<open>The verdict both versions reach before they look at the output.\<close>

definition breach :: "process_result \<Rightarrow> pystr option" where
  "breach r =
     (if timed_out r then Some (lit ''timeout'')
      else if stdout_limited r then Some (lit ''stdout_limit'')
      else if stderr_limited r then Some (lit ''stderr_limit'')
      else if returncode r \<noteq> 0 \<and> returncode r \<noteq> 3 then Some (lit ''abnormal_exit'')
      else None)"

text \<open>A spawn that \<open>run_process\<close> refuses is a preflight failure.\<close>

definition spawn :: "(process_spec \<Rightarrow> exn + process_result) \<Rightarrow> process_spec \<Rightarrow> exn + process_result" where
  "spawn rp s =
     handled (\<lambda>e. case e of ProcessError _ \<Rightarrow> LineJsonPreflight ''spawn_failed'' | _ \<Rightarrow> e) (rp s)"

definition classify_v1 :: "(pystr \<Rightarrow> pyfloat) \<Rightarrow> process_result \<Rightarrow> exn + invocation" where
  "classify_v1 fl r =
     (case frames fl (stdout r) of
        Inl why \<Rightarrow> Inr (unknown_invocation r why)
      | Inr frame \<Rightarrow>
          if returncode r = 0 then
            andthen (success_frame fl frame) (\<lambda>v.
              Inr (case v of None \<Rightarrow> unknown_invocation r (lit ''bad_frame'')
                   | Some d \<Rightarrow> invocation_of r ''success'' (Some d) None))
          else
            Inr (case failed_frame frame of None \<Rightarrow> unknown_invocation r (lit ''bad_frame'')
                 | Some d \<Rightarrow> invocation_of r ''failure'' (Some d) None))"

definition run_v1 ::
  "(pystr \<Rightarrow> pyfloat) \<Rightarrow> (process_spec \<Rightarrow> exn + process_result) \<Rightarrow> (pystr \<times> pystr) list \<Rightarrow>
   pystr option \<Rightarrow> 'a approved_entry_scheme \<Rightarrow> string \<Rightarrow> json \<Rightarrow> json \<Rightarrow> exn + invocation" where
  "run_v1 fl rp environ ws e operation reservation args =
     andthen (build_frame operation reservation args) (\<lambda>frame.
     andthen (spawn rp (spec_of environ ws e frame)) (\<lambda>r.
       case breach r of
         Some why \<Rightarrow> Inr (unknown_invocation r why)
       | None \<Rightarrow> classify_v1 fl r))"

section \<open>Version 2\<close>

definition bad_request :: exn where
  "bad_request = LineJsonPreflight ''bad_request''"

definition tool_key_ok :: "pystr \<Rightarrow> bool" where
  "tool_key_ok k \<longleftrightarrow> key_pattern k \<and> k \<noteq> lit ''agent.spawn''"

definition frame_v2 :: "string \<Rightarrow> json \<Rightarrow> json \<Rightarrow> pystr option \<Rightarrow> json" where
  "frame_v2 operation reservation args tool =
     JObj ([(lit ''v'', JInt 2), (lit ''operation'', jstr operation), (lit ''reservation'', reservation),
            (lit ''args'', args)] @ (case tool of None \<Rightarrow> [] | Some k \<Rightarrow> [(lit ''tool'', JStr k)]))"

definition build_frame_v2 :: "string \<Rightarrow> json \<Rightarrow> json \<Rightarrow> pystr option \<Rightarrow> exn + bytes" where
  "build_frame_v2 operation reservation args tool =
     andthen (steps
       [require (operation \<in> set OPERATIONS) bad_request,
        require (reservation_ok reservation) bad_request,
        require (is_dict args) bad_request,
        require (if operation = ''invoke'' then (case tool of None \<Rightarrow> False | Some k \<Rightarrow> tool_key_ok k) else tool = None)
          bad_request]) (\<lambda>_.
     andthen (handled (\<lambda>_. bad_request) (compact_json (frame_v2 operation reservation args tool))) (\<lambda>b.
     andthen (require (length (b @ [10]) \<le> 1024 * 1024) bad_request) (\<lambda>_. Inr (b @ [10]))))"

text \<open>\<open>text[:-1].strip(" \t\r")\<close>\<close>

definition strip_blanks :: "pystr \<Rightarrow> pystr" where
  "strip_blanks s =
     (let blank = (\<lambda>c. c = 32 \<or> c = 9 \<or> c = 13) in rev (dropWhile blank (rev (dropWhile blank s))))"

definition result_ok :: "string \<Rightarrow> json \<Rightarrow> bool" where
  "result_ok operation r \<longleftrightarrow>
     (let d = items r in
      is_dict r \<and>
      (if operation = ''invoke'' then
         has d ''value'' \<and> keys_within d [''value'', ''meta''] \<and> (has d ''meta'' \<longrightarrow> is_dict (dget d ''meta''))
       else if operation = ''prepare'' then keys_are d [''prepared''] \<and> dget d ''prepared'' = JBool True
       else if operation = ''release'' then keys_are d [''released''] \<and> dget d ''released'' = JBool True
       else if operation = ''inspect'' then
         keys_are d [''observed''] \<and> (dget d ''observed'' = jstr ''known'' \<or> dget d ''observed'' = jstr ''absent'')
       else False))"

text \<open>The classification and the decoded payload: a value, an error object, or neither.\<close>

datatype verdict = Success json | KnownError json | Undecided string

definition classify_object :: "string \<Rightarrow> int \<Rightarrow> json \<Rightarrow> verdict" where
  "classify_object operation exit_code obj =
     (let d = items obj in
      if \<not> is_dict obj then Undecided ''bad_frame''
      else if \<not> py_eq (dget d ''v'') (JInt 2) then Undecided ''version_mismatch''
      else if \<not> is_bool (dget d ''ok'') then Undecided ''bad_frame''
      else if dget d ''ok'' = JBool True then
        (if exit_code \<noteq> 0 \<or> \<not> keys_are d [''ok'', ''v'', ''result''] then Undecided ''bad_frame''
         else if \<not> result_ok operation (dget d ''result'') then Undecided ''bad_frame''
         else Success (dget d ''result''))
      else
        (if exit_code \<noteq> 3 \<or> \<not> keys_are d [''ok'', ''v'', ''error''] then Undecided ''bad_frame''
         else
           (case assert_unknown_output (JObj [(lit ''error'', dget d ''error'')]) of
              Inl _ \<Rightarrow> Undecided ''bad_frame''
            | Inr _ \<Rightarrow> KnownError (dget d ''error''))))"

definition classify_v2 :: "bytes \<Rightarrow> string \<Rightarrow> int \<Rightarrow> verdict" where
  "classify_v2 raw operation exit_code =
     (if raw = [] then Undecided ''eof''
      else
        (case utf8_decode raw of
           None \<Rightarrow> Undecided ''stdout_not_utf8''
         | Some text \<Rightarrow>
             let lf_count = length (filter (\<lambda>b. b = 10) raw) in
             if lf_count > 1 then Undecided ''extra_frame''
             else if last raw \<noteq> 10 \<or> lf_count \<noteq> 1 \<or> take 1 text = [0xFEFF] then Undecided ''bad_frame''
             else
               (case strict_loads (strip_blanks (butlast text)) of
                  Inl _ \<Rightarrow> Undecided ''bad_frame''
                | Inr obj \<Rightarrow> classify_object operation exit_code obj)))"

definition spec_v2 ::
  "(pystr \<times> pystr) list \<Rightarrow> approved_plugin \<Rightarrow> string \<Rightarrow> pystr option \<Rightarrow> bytes \<Rightarrow> exn + process_spec" where
  "spec_v2 environ p operation tool frame =
     andthen
       (if operation = ''invoke'' then
          (case (case tool of None \<Rightarrow> None | Some k \<Rightarrow> tool_for p k) of
             None \<Rightarrow> Inl (LineJsonPreflight ''tool_not_approved'')
           | Some t \<Rightarrow> Inr (ttimeout_ms t))
        else Inr (timeout_ms p)) (\<lambda>timeout.
       Inr \<lparr>spec_argv = argv p, spec_cwd = cwd p, spec_env = environment environ p (Some (workspace_root p)),
            spec_stdin = frame, spec_timeout_ms = timeout, spec_stdout_limit = stdout_limit p,
            spec_stderr_limit = stderr_limit p\<rparr>)"

definition run_v2 ::
  "(process_spec \<Rightarrow> exn + process_result) \<Rightarrow> (pystr \<times> pystr) list \<Rightarrow> approved_plugin \<Rightarrow>
   string \<Rightarrow> json \<Rightarrow> json \<Rightarrow> pystr option \<Rightarrow> exn + invocation" where
  "run_v2 rp environ p operation reservation args tool =
     andthen (build_frame_v2 operation reservation args tool) (\<lambda>frame.
     andthen (spec_v2 environ p operation tool frame) (\<lambda>s.
     andthen (spawn rp s) (\<lambda>r.
       Inr (case breach r of
              Some why \<Rightarrow> unknown_invocation r why
            | None \<Rightarrow>
                (case classify_v2 (stdout r) operation (returncode r) of
                   Success v \<Rightarrow> invocation_of r ''success'' (Some v) None
                 | KnownError v \<Rightarrow> invocation_of r ''failure'' (Some v) None
                 | Undecided why \<Rightarrow> unknown_invocation r (lit why))))))"

text \<open>\<open>run\<close>: a plugin carries its protocol version, an adapter speaks version 1.\<close>

definition run ::
  "(pystr \<Rightarrow> pyfloat) \<Rightarrow> (process_spec \<Rightarrow> exn + process_result) \<Rightarrow> (pystr \<times> pystr) list \<Rightarrow>
   approved \<Rightarrow> string \<Rightarrow> json \<Rightarrow> json \<Rightarrow> pystr option \<Rightarrow> exn + invocation" where
  "run fl rp environ e operation reservation args tool =
     (case e of
        Adapter a \<Rightarrow> run_v1 fl rp environ None a operation reservation args
      | Plugin p \<Rightarrow>
          if protocol p = 2 then run_v2 rp environ p operation reservation args tool
          else if protocol p = 1 then run_v1 fl rp environ (Some (workspace_root p)) p operation reservation args
          else Inl (LineJsonPreflight ''protocol_mismatch''))"

end
