(* ===== verification/Plugins.thy ===== *)
theory Plugins
  imports Line_Json Tool_Pages
begin

text \<open>
  \<open>v24/host/plugins.py\<close>: from a claimed effect to the class and result the worker settles.
  The database reads are functions of the arguments the code passes; a page search that never
  ends is \<open>None\<close>. Every handler returns its answer with the dispatcher's \<open>last_invocation\<close>.
\<close>

section \<open>Constants\<close>

definition host_messages :: "(string \<times> string) list" where
  "host_messages =
     [(''invalid_tool_arguments'', ''arguments do not match the approved tool schema''),
      (''lease_insufficient'', ''remaining effect lease is shorter than the approved tool timeout''),
      (''workspace_unavailable'', ''the approved workspace root is not available''),
      (''invalid_tool_output'', ''tool output does not satisfy the approved contract''),
      (''output_too_large'', ''tool output exceeds the approved size budget''),
      (''render_failed'', ''the host renderer rejected the tool value''),
      (''invalid_tool_content'', ''the renderer produced an invalid content block''),
      (''renderer_not_approved'', ''the approved renderer is not available'')]"

definition host_message :: "string \<Rightarrow> string" where
  "host_message code =
     (case map_of host_messages code of Some m \<Rightarrow> m | None \<Rightarrow> ''tool dispatch failed before execution'')"

definition UNKNOWN_MESSAGE :: string where
  "UNKNOWN_MESSAGE = ''tool process did not produce a decidable outcome''"

definition RENDER_FAILURES :: "string list" where
  "RENDER_FAILURES = [''renderer_not_approved'', ''render_failed'', ''invalid_tool_content'']"

text \<open>A handler answers with a pair, or for version 2 with a dict that also carries the model's text.\<close>

datatype outcome = Pair string json | Dispatch string json json

record plugin_host =
  approvals :: approved_registry
  disk :: host_fs
  environ :: "(pystr \<times> pystr) list"
  process :: "process_spec \<Rightarrow> exn + process_result"
  float_of :: "pystr \<Rightarrow> pyfloat"
  shown_of :: "json \<Rightarrow> pystr"
  scope_installs :: "json \<Rightarrow> json \<Rightarrow> exn + json"
  run_pins :: "json \<Rightarrow> json \<Rightarrow> exn + json"
  lease_ms :: "pystr \<Rightarrow> exn + int"

section \<open>Paged reads\<close>

definition is_error :: "json \<Rightarrow> bool" where
  "is_error response \<longleftrightarrow> is_dict response \<and> is_dict (dget (items response) ''error'')"

fun search_items :: "(json \<Rightarrow> pystr) \<Rightarrow> string \<Rightarrow> pystr \<Rightarrow> json list \<Rightarrow> exn + json option" where
  "search_items shown k wanted [] = Inr None"
| "search_items shown k wanted (item # rest) =
     (if \<not> is_dict item then Inl AttributeError
      else if py_str shown (dget (items item) k) = wanted then Inr (Some item)
      else search_items shown k wanted rest)"

datatype page_step = Found json | Next json

text \<open>One turn of the loops of \<open>_install\<close> and \<open>_pin\<close>, which differ in the key and the messages.\<close>

definition search_page ::
  "(json \<Rightarrow> pystr) \<Rightarrow> string \<Rightarrow> string \<Rightarrow> pystr \<Rightarrow> json \<Rightarrow> exn + page_step" where
  "search_page shown noun k wanted response =
     (let d = items response; cursor = dget d ''next_cursor'' in
      if is_error response then Inl (PluginError (noun @ ''_read_failed''))
      else if \<not> is_dict response then Inl AttributeError
      else
        andthen (iterate (dget_or d ''items'' (JArr []))) (\<lambda>xs.
        andthen (search_items shown k wanted xs) (\<lambda>found.
          case found of
            Some item \<Rightarrow> Inr (Found item)
          | None \<Rightarrow>
              if \<not> truthy (dget d ''has_more'') then Inl (PluginError (noun @ ''_not_found''))
              else if \<not> is_dict cursor then Inl (PluginError (noun @ ''_cursor_invalid''))
              else if \<not> has (items cursor) k then Inl KeyError
              else Inr (Next (dget (items cursor) k)))))"

partial_function (option) find_row ::
  "(json \<Rightarrow> exn + json) \<Rightarrow> (json \<Rightarrow> exn + page_step) \<Rightarrow> json \<Rightarrow> (exn + json) option" where
  "find_row fetch step after =
     (case andthen (fetch after) step of
        Inl e \<Rightarrow> Some (Inl e)
      | Inr (Found item) \<Rightarrow> Some (Inr item)
      | Inr (Next cursor) \<Rightarrow> find_row fetch step cursor)"

definition find_install :: "plugin_host \<Rightarrow> json \<Rightarrow> json \<Rightarrow> (exn + json) option" where
  "find_install h scope_id install_id =
     (if \<not> is_str install_id then Some (Inl (PluginError ''install_id_invalid''))
      else find_row (scope_installs h scope_id)
        (search_page (shown_of h) ''install'' ''install_id'' (the_str install_id)) JNull)"

definition find_pin :: "plugin_host \<Rightarrow> dict \<Rightarrow> (exn + json) option" where
  "find_pin h effect =
     (let pin_id = dget effect ''pin_id''; run_id = dget effect ''run_id'' in
      if \<not> is_str pin_id \<or> \<not> is_str run_id then Some (Inl (PluginError ''pin_missing''))
      else find_row (run_pins h run_id) (search_page (shown_of h) ''pin'' ''pin_id'' (the_str pin_id)) JNull)"

section \<open>Results\<close>

definition v2_result :: "string \<Rightarrow> json \<Rightarrow> int \<Rightarrow> json" where
  "v2_result status out wall =
     JObj [(lit ''status'', jstr status), (lit ''output'', out),
           (lit ''usage'', JObj [(lit ''wall_ms'', JInt wall)])]"

definition v2_dispatch :: "string \<Rightarrow> json \<Rightarrow> pystr \<Rightarrow> exn + outcome" where
  "v2_dispatch c r text =
     andthen (dispatch_result (lit c) r (JStr text)) (\<lambda>d. Inr (Dispatch c r (model_text d)))"

definition error_content :: "pystr \<Rightarrow> pystr \<Rightarrow> json" where
  "error_content code message =
     JArr [text_block (JStr (lit ''Error ['' @ code @ lit '']: '' @ message))]"

definition v2_failure :: "(json \<Rightarrow> pystr) \<Rightarrow> json \<Rightarrow> json \<Rightarrow> int \<Rightarrow> exn + outcome" where
  "v2_failure shown code message wall =
     (let content = error_content (py_str shown code) (py_str shown message) in
      andthen (failure_output code message content JNull) (\<lambda>out.
      andthen (join_content content) (\<lambda>text.
        v2_dispatch ''failure'' (v2_result ''error'' out wall) text)))"

definition host_failure :: "(json \<Rightarrow> pystr) \<Rightarrow> string \<Rightarrow> int \<Rightarrow> exn + outcome" where
  "host_failure shown code wall = v2_failure shown (jstr code) (jstr (host_message code)) wall"

definition v2_unknown :: "invocation \<Rightarrow> exn + outcome" where
  "v2_unknown reply =
     (let code = (case reason reply of Some r \<Rightarrow> if r \<noteq> [] then r else lit ''unknown'' | None \<Rightarrow> lit ''unknown'') in
      andthen (unknown_output (JStr code) (jstr UNKNOWN_MESSAGE)) (\<lambda>out.
        v2_dispatch ''unknown'' (v2_result ''error'' out (inv_wall_ms reply)) []))"

definition v2_success :: "json \<Rightarrow> json \<Rightarrow> json \<Rightarrow> int \<Rightarrow> exn + outcome" where
  "v2_success value content meta wall =
     andthen (success_output value content meta) (\<lambda>out.
     andthen (join_content content) (\<lambda>text.
       v2_dispatch ''success'' (v2_result ''ok'' out wall) text))"

text \<open>A path that could leak something is replaced by the root; so is one the envelope refuses.\<close>

definition v2_instance_failure ::
  "(json \<Rightarrow> pystr) \<Rightarrow> string \<Rightarrow> pystr \<Rightarrow> string \<Rightarrow> int \<Rightarrow> exn + outcome" where
  "v2_instance_failure shown code path rule wall =
     (let r = (if rule = [] then ''invalid'' else rule);
          plain = lit ''$: '' @ lit r;
          message = (if length path > 256 \<or> 47 \<in> set path \<or> 92 \<in> set path \<or> 0 \<in> set path then plain
                     else path @ lit '': '' @ lit r) in
      case v2_failure shown (jstr code) (JStr message) wall of
        Inl (ToolResultError _) \<Rightarrow> v2_failure shown (jstr code) (JStr plain) wall
      | answer \<Rightarrow> answer)"

section \<open>A version-2 tool call\<close>

definition limit :: "approved_tool \<Rightarrow> string \<Rightarrow> int" where
  "limit t name = the_int (dget (items (dget (items (dget (items (tdescriptor t)) ''tool'')) ''limits'')) name)"

definition fits :: "json \<Rightarrow> int \<Rightarrow> bool" where
  "fits v bound \<longleftrightarrow> (case compact_json v of Inl _ \<Rightarrow> False | Inr b \<Rightarrow> int (length b) \<le> bound)"

text \<open>A schema validator that is absent cannot be called.\<close>

definition call_check :: "(json \<Rightarrow> exn + unit) option \<Rightarrow> json \<Rightarrow> exn + unit" where
  "call_check c v = (case c of None \<Rightarrow> Inl TypeError | Some f \<Rightarrow> f v)"

definition root_available :: "host_fs \<Rightarrow> approved_plugin \<Rightarrow> bool" where
  "root_available f p \<longleftrightarrow> realpath f (workspace_root p) = workspace_root p \<and> is_dir f (workspace_root p)"

definition lease_covers :: "plugin_host \<Rightarrow> dict \<Rightarrow> approved_tool \<Rightarrow> bool" where
  "lease_covers h effect t \<longleftrightarrow>
     (case dget effect ''lease_until'' of
        JStr s \<Rightarrow> (case lease_ms h s of Inl _ \<Rightarrow> False | Inr remaining \<Rightarrow> ttimeout_ms t + 5000 \<le> remaining)
      | _ \<Rightarrow> False)"

text \<open>Everything before the spawn: \<open>Inr (Some answer)\<close> is an early answer, \<open>Inr None\<close> admits the call.\<close>

definition admit_v2 :: "plugin_host \<Rightarrow> dict \<Rightarrow> approved_plugin \<Rightarrow> approved_tool \<Rightarrow> json \<Rightarrow> exn + outcome option" where
  "admit_v2 h effect p t args =
     (let early = (\<lambda>answer. andthen answer (\<lambda>a. Inr (Some a))) in
      if \<not> fits args (limit t ''max_args_bytes'')
      then early (host_failure (shown_of h) ''invalid_tool_arguments'' 0)
      else
        (case call_check (parameters_check t) args of
           Inl (InstanceError path rule) \<Rightarrow>
             early (v2_instance_failure (shown_of h) ''invalid_tool_arguments'' path rule 0)
         | Inl e \<Rightarrow> Inl e
         | Inr _ \<Rightarrow>
             andthen (require_artifact (disk h) p) (\<lambda>_.
               if \<not> root_available (disk h) p then early (host_failure (shown_of h) ''workspace_unavailable'' 0)
               else if \<not> lease_covers h effect t then early (host_failure (shown_of h) ''lease_insufficient'' 0)
               else Inr None)))"

definition tool_reservation :: "plugin_host \<Rightarrow> dict \<Rightarrow> exn + pystr" where
  "tool_reservation h effect =
     (if \<not> has effect ''effect_id'' then Inl KeyError
      else Inr (lit ''v24:tool_call:'' @ py_str (shown_of h) (dget effect ''effect_id'')))"

definition accept_v2 :: "plugin_host \<Rightarrow> approved_tool \<Rightarrow> json \<Rightarrow> invocation \<Rightarrow> exn + outcome" where
  "accept_v2 h t args reply =
     (let d = items (case result reply of None \<Rightarrow> JNull | Some v \<Rightarrow> v); value = dget d ''value'';
          wall = inv_wall_ms reply; fail = (\<lambda>code. host_failure (shown_of h) code wall) in
      case compact_json value of
        Inl _ \<Rightarrow> fail ''invalid_tool_output''
      | Inr b \<Rightarrow>
          if int (length b) > limit t ''max_value_bytes'' then fail ''output_too_large''
          else
            (case call_check (output_check t) value of
               Inl (InstanceError path rule) \<Rightarrow> v2_instance_failure (shown_of h) ''invalid_tool_output'' path rule wall
             | Inl e \<Rightarrow> Inl e
             | Inr _ \<Rightarrow>
                 (case andthen (assert_builtin_meta (dget d ''meta''))
                     (\<lambda>_. case trender t of None \<Rightarrow> Inl page_error
                          | Some r \<Rightarrow> validate_page (RENDERERS (shown_of h)) r args value) of
                    Inl (ToolResultError _) \<Rightarrow> fail ''invalid_tool_output''
                  | Inl (ToolPageError _) \<Rightarrow> fail ''invalid_tool_output''
                  | Inl e \<Rightarrow> Inl e
                  | Inr _ \<Rightarrow>
                      (case render (RENDERERS (shown_of h)) (the (trender t)) args value of
                         Inl (RendererError why) \<Rightarrow>
                           fail (if why \<in> set RENDER_FAILURES then why else ''render_failed'')
                       | Inl e \<Rightarrow> Inl e
                       | Inr (content, meta) \<Rightarrow>
                           (case measure_result args value content meta of
                              Inl (ToolResultError _) \<Rightarrow> fail ''invalid_tool_output''
                            | Inl e \<Rightarrow> Inl e
                            | Inr m \<Rightarrow>
                                if int (m_content m) > limit t ''max_content_bytes'' \<or>
                                   int (m_meta m) > limit t ''max_meta_bytes''
                                then fail ''output_too_large''
                                else v2_success value content meta wall)))))"

definition finish_v2 :: "plugin_host \<Rightarrow> approved_tool \<Rightarrow> json \<Rightarrow> invocation \<Rightarrow> exn + outcome" where
  "finish_v2 h t args reply =
     (if class_name reply = ''unknown'' then v2_unknown reply
      else if class_name reply = ''failure'' then
        (let err = items (case result reply of None \<Rightarrow> JNull | Some v \<Rightarrow> v) in
         v2_failure (shown_of h) (dget_or err ''code'' (jstr ''unknown'')) (dget_or err ''message'' (JStr []))
           (inv_wall_ms reply))
      else accept_v2 h t args reply)"

text \<open>The outer \<open>except (AdapterNotFound, LineJsonPreflight)\<close>.\<close>

definition recover_dispatch :: "(json \<Rightarrow> pystr) \<Rightarrow> exn + outcome \<Rightarrow> exn + outcome" where
  "recover_dispatch shown answer =
     (case answer of
        Inl (AdapterNotFound why) \<Rightarrow> host_failure shown why 0
      | Inl (LineJsonPreflight why) \<Rightarrow> host_failure shown why 0
      | _ \<Rightarrow> answer)"

type_synonym handled_effect = "(exn + outcome) \<times> invocation option"

definition tool_v2 ::
  "plugin_host \<Rightarrow> invocation option \<Rightarrow> dict \<Rightarrow> approved_plugin \<Rightarrow> json \<Rightarrow> json \<Rightarrow> pystr \<Rightarrow> json \<Rightarrow> handled_effect" where
  "tool_v2 h last_inv effect p install pin key args =
     (let fix_up = recover_dispatch (shown_of h) in
      case match_tool (shown_of h) (approvals h) install pin key of
        Inl e \<Rightarrow> (fix_up (Inl e), last_inv)
      | Inr (_, t) \<Rightarrow>
          (case admit_v2 h effect p t args of
             Inl e \<Rightarrow> (fix_up (Inl e), last_inv)
           | Inr (Some answer) \<Rightarrow> (Inr answer, last_inv)
           | Inr None \<Rightarrow>
               (case andthen (tool_reservation h effect) (\<lambda>reservation.
                   run (float_of h) (process h) (environ h) (Plugin p) ''invoke'' (JStr reservation) args (Some key)) of
                  Inl e \<Rightarrow> (fix_up (Inl e), last_inv)
                | Inr reply \<Rightarrow> (fix_up (finish_v2 h t args reply), Some reply))))"

section \<open>A version-1 tool call\<close>

definition v1_unknown :: "invocation \<Rightarrow> json" where
  "v1_unknown reply =
     (let code = (case reason reply of Some r \<Rightarrow> if r \<noteq> [] then r else lit ''unknown'' | None \<Rightarrow> lit ''unknown'') in
      JObj [(lit ''status'', jstr ''error''), (lit ''output'', JObj [(lit ''code'', JStr code)]),
            (lit ''usage'', JObj [(lit ''wall_ms'', JInt (inv_wall_ms reply))])])"

definition finish_v1 :: "invocation \<Rightarrow> outcome" where
  "finish_v1 reply =
     (let v = (case result reply of None \<Rightarrow> JNull | Some v \<Rightarrow> v) in
      if class_name reply = ''success'' then
        Pair ''success'' (JObj [(lit ''status'', jstr ''ok''), (lit ''output'', v),
          (lit ''usage'', JObj [(lit ''wall_ms'', JInt (inv_wall_ms reply))])])
      else if class_name reply = ''failure'' then
        Pair ''failure'' (JObj [(lit ''status'', jstr ''error''),
          (lit ''output'', JObj [(lit ''code'', dget (items v) ''code''), (lit ''message'', dget (items v) ''message'')])])
      else Pair ''unknown'' (v1_unknown reply))"

definition tool_v1 ::
  "plugin_host \<Rightarrow> invocation option \<Rightarrow> dict \<Rightarrow> json \<Rightarrow> json \<Rightarrow> pystr \<Rightarrow> json \<Rightarrow> handled_effect" where
  "tool_v1 h last_inv effect install pin key args =
     (case andthen (match_pin (shown_of h) (approvals h) install pin) (\<lambda>a.
           if tool_key a \<noteq> key then Inl (PluginError ''tool_key_mismatch'')
           else
             andthen (require_artifact (disk h) a) (\<lambda>_.
             andthen (tool_reservation h effect) (\<lambda>reservation.
               run (float_of h) (process h) (environ h) (Adapter a) ''invoke'' (JStr reservation) args None))) of
        Inl e \<Rightarrow> (Inl e, last_inv)
      | Inr reply \<Rightarrow> (Inr (finish_v1 reply), Some reply))"

section \<open>The handlers\<close>

definition as_object :: "json \<Rightarrow> string \<Rightarrow> exn + dict" where
  "as_object v why = (if is_dict v then Inr (items v) else Inl (PluginError why))"

text \<open>A read that never returns, then the rest of the handler.\<close>

definition after_row ::
  "invocation option \<Rightarrow> (exn + json) option \<Rightarrow> (json \<Rightarrow> handled_effect option) \<Rightarrow> handled_effect option" where
  "after_row last_inv row go =
     (case row of
        None \<Rightarrow> None
      | Some (Inl e) \<Rightarrow> Some (Inl e, last_inv)
      | Some (Inr v) \<Rightarrow> go v)"

definition tool_call :: "plugin_host \<Rightarrow> invocation option \<Rightarrow> dict \<Rightarrow> handled_effect option" where
  "tool_call h last_inv effect =
     (case as_object (dget effect ''request'') ''request_invalid'' of
        Inl e \<Rightarrow> Some (Inl e, last_inv)
      | Inr request \<Rightarrow>
          (let key = dget request ''key''; args = dget request ''args'' in
           if \<not> is_str key \<or> \<not> is_dict args then Some (Inl (PluginError ''tool_request_invalid''), last_inv)
           else
             after_row last_inv (find_pin h effect) (\<lambda>pin.
             after_row last_inv (find_install h (dget effect ''scope_id'') (dget (items pin) ''provider_install_id'')) (\<lambda>install.
               Some
                 (case lookup_install (shown_of h) (approvals h) install of
                    Inl e \<Rightarrow> (Inl e, last_inv)
                  | Inr (Plugin p) \<Rightarrow> tool_v2 h last_inv effect p install pin (the_str key) args
                  | Inr (Adapter _) \<Rightarrow> tool_v1 h last_inv effect install pin (the_str key) args)))))"

fun handler_reason :: "exn \<Rightarrow> string option" where
  "handler_reason (AdapterNotFound r) = Some r"
| "handler_reason (PluginError r) = Some r"
| "handler_reason (HostContractError r) = Some r"
| "handler_reason (LineJsonPreflight r) = Some r"
| "handler_reason _ = None"

definition tool_error_result :: "string \<Rightarrow> json" where
  "tool_error_result code = JObj [(lit ''status'', jstr ''error''), (lit ''output'', JObj [(lit ''code'', jstr code)])]"

definition tool_handler :: "plugin_host \<Rightarrow> invocation option \<Rightarrow> dict \<Rightarrow> handled_effect option" where
  "tool_handler h last_inv effect =
     map_option (\<lambda>(answer, reply).
       (case answer of
          Inr a \<Rightarrow> Inr a
        | Inl e \<Rightarrow> (case handler_reason e of Some r \<Rightarrow> Inr (Pair ''failure'' (tool_error_result r)) | None \<Rightarrow> Inl e),
        reply))
     (tool_call h last_inv effect)"

definition resource_failure :: "string \<Rightarrow> json \<Rightarrow> json" where
  "resource_failure k code =
     JObj [(lit ''v'', JInt 1), (lit (if k = ''host_prepare'' then ''prepared'' else ''released''), JBool False),
           (lit ''reason'', code)]"

definition finish_resource :: "string \<Rightarrow> approved_entry \<Rightarrow> json \<Rightarrow> invocation \<Rightarrow> outcome" where
  "finish_resource k e reservation reply =
     (if class_name reply = ''success'' then
        Pair ''success'' (JObj [(lit ''v'', JInt 1), (lit ''adapter_id'', JStr (adapter_id e)),
          (lit ''language'', JStr (language e)), (lit ''reservation'', reservation),
          (lit (if k = ''host_prepare'' then ''prepared'' else ''released''), JBool True)])
      else if class_name reply = ''failure'' then
        Pair ''failure'' (resource_failure k (dget (items (case result reply of None \<Rightarrow> JNull | Some v \<Rightarrow> v)) ''code''))
      else
        Pair ''unknown'' (JObj [(lit ''v'', JInt 1),
          (lit ''reason'', case reason reply of None \<Rightarrow> JNull | Some r \<Rightarrow> JStr r)]))"

text \<open>The approved entry with its artifact checked, then the run; the errors each stage catches are
  the business of the callers.\<close>

definition approved_artifact :: "plugin_host \<Rightarrow> json \<Rightarrow> exn + approved" where
  "approved_artifact h install =
     andthen (lookup_install (shown_of h) (approvals h) install) (\<lambda>e.
     andthen (require_artifact (disk h) (base e)) (\<lambda>_. Inr e))"

definition host_resource :: "plugin_host \<Rightarrow> invocation option \<Rightarrow> dict \<Rightarrow> string \<Rightarrow> handled_effect option" where
  "host_resource h last_inv effect k =
     (case as_object (dget effect ''request'') ''request_invalid'' of
        Inl e \<Rightarrow> Some (Inl e, last_inv)
      | Inr request \<Rightarrow>
          (let install_id = dget request ''install_id''; reservation = dget request ''reservation'' in
           after_row last_inv (find_install h (dget effect ''scope_id'') install_id) (\<lambda>install. Some
             (if \<not> is_str reservation \<or> \<not> starts_with (lit (''v24:'' @ k @ '':'')) (the_str reservation)
              then (Inl (PluginError ''reservation_invalid''), last_inv)
              else
                (case approved_artifact h install of
                   Inl (AdapterNotFound why) \<Rightarrow> (Inr (Pair ''failure'' (resource_failure k (jstr why))), last_inv)
                 | Inl e \<Rightarrow> (Inl e, last_inv)
                 | Inr e \<Rightarrow>
                     (case run (float_of h) (process h) (environ h) e
                         (if k = ''host_prepare'' then ''prepare'' else ''release'') reservation
                         (JObj [(lit ''install_id'', install_id)]) None of
                        Inl (LineJsonPreflight why) \<Rightarrow>
                          (Inr (Pair ''failure'' (resource_failure k (jstr why))), last_inv)
                      | Inl x \<Rightarrow> (Inl x, last_inv)
                      | Inr reply \<Rightarrow> (Inr (finish_resource k (base e) reservation reply), Some reply)))))))"

definition unobserved :: "string \<Rightarrow> json" where
  "unobserved why =
     JObj ([(lit ''v'', JInt 1), (lit ''observed'', jstr ''unknown'')] @
           (if why = [] then [] else [(lit ''reason'', jstr why)]))"

definition finish_inspect :: "dict \<Rightarrow> invocation \<Rightarrow> outcome" where
  "finish_inspect request reply =
     (if class_name reply = ''success'' then
        (let observed = dget (items (case result reply of None \<Rightarrow> JNull | Some v \<Rightarrow> v)) ''observed'' in
         if observed \<noteq> jstr ''known'' \<and> observed \<noteq> jstr ''absent'' then Pair ''unknown'' (unobserved [])
         else
           Pair ''success'' (JObj [(lit ''v'', JInt 1), (lit ''observed'', observed),
             (lit ''target_effect_id'', dget request ''target_effect_id''),
             (lit ''target_reservation'', dget request ''target_reservation'')]))
      else if class_name reply = ''failure'' then Pair ''failure'' (unobserved ''inspect_failed'')
      else Pair ''unknown'' (unobserved []))"

definition inspect_target :: "json \<Rightarrow> bool" where
  "inspect_target v \<longleftrightarrow> v = jstr ''host_prepare'' \<or> v = jstr ''host_release''"

definition inspect_resource :: "plugin_host \<Rightarrow> invocation option \<Rightarrow> dict \<Rightarrow> handled_effect option" where
  "inspect_resource h last_inv effect =
     (case as_object (dget effect ''request'') ''request_invalid'' of
        Inl e \<Rightarrow> Some (Inl e, last_inv)
      | Inr request \<Rightarrow>
          (let install_id = dget request ''install_id''; target = dget request ''target'';
               reservation = dget request ''target_reservation'' in
           after_row last_inv (find_install h (dget effect ''scope_id'') install_id) (\<lambda>install. Some
             (if \<not> inspect_target target \<or> \<not> is_str reservation
              then (Inl (PluginError ''inspect_request_invalid''), last_inv)
              else
                (case approved_artifact h install of
                   Inl (AdapterNotFound _) \<Rightarrow> (Inr (Pair ''failure'' (unobserved ''inspect_failed'')), last_inv)
                 | Inl e \<Rightarrow> (Inl e, last_inv)
                 | Inr e \<Rightarrow>
                     (case run (float_of h) (process h) (environ h) e ''inspect'' reservation
                         (JObj [(lit ''install_id'', install_id), (lit ''target'', target)]) None of
                        Inl (LineJsonPreflight _) \<Rightarrow> (Inr (Pair ''failure'' (unobserved ''inspect_failed'')), last_inv)
                      | Inl x \<Rightarrow> (Inl x, last_inv)
                      | Inr reply \<Rightarrow> (Inr (finish_inspect request reply), Some reply)))))))"

definition resource_handler :: "plugin_host \<Rightarrow> invocation option \<Rightarrow> dict \<Rightarrow> handled_effect option" where
  "resource_handler h last_inv effect =
     (let k = dget effect ''kind'' in
      if k = jstr ''inspect_resource'' then inspect_resource h last_inv effect
      else if k = jstr ''host_prepare'' then host_resource h last_inv effect ''host_prepare''
      else if k = jstr ''host_release'' then host_resource h last_inv effect ''host_release''
      else Some (Inr (Pair ''failure'' (unobserved ''unsupported_host_effect'')), last_inv))"

end
