(* ===== verification/Line_Json_Facts.thy ===== *)
theory Line_Json_Facts
  imports Line_Json Frames
begin

text \<open>
  What a caller of the exchange relies on, proved for any process with the contract
  \<open>process_runner\<close> and then stated for \<open>run_process\<close>: nothing but \<open>LineJsonPreflight\<close> is raised,
  and an answer is classified from its exit code and its one line of output.
\<close>

section \<open>The process\<close>

text \<open>C35: a run of a process raises only \<open>ProcessError\<close>, and that before anything started; a result
  says exactly which stream exceeded its limit, holds at most one byte more than the limit, and
  never reports two breaches; its wall time is not negative and its input was within the bound.\<close>

theorem run_process_bounded:
  "case run_process w s of
     Inl e \<Rightarrow> \<exists>m. e = ProcessError m
   | Inr r \<Rightarrow>
       stdout_limited r = (spec_stdout_limit s < int (length (stdout r))) \<and>
       stderr_limited r = (spec_stderr_limit s < int (length (stderr r))) \<and>
       int (length (stdout r)) \<le> spec_stdout_limit s + 1 \<and> int (length (stderr r)) \<le> spec_stderr_limit s + 1 \<and>
       \<not> (stdout_limited r \<and> stderr_limited r) \<and> \<not> (timed_out r \<and> (stdout_limited r \<or> stderr_limited r)) \<and>
       0 \<le> wall_ms r \<and> length (spec_stdin s) \<le> STDIN_LIMIT"
  using runner.raises_before_start runner.flags runner.overshoot runner.exclusive runner.wall runner.stdin_bounded
  by (fastforce split: sum.split)

text \<open>C36: the read loop ends with both streams closed or with the process group killed, and it kills
  the group exactly when the deadline passed or a stream went over its limit.\<close>

theorem pump_leaves_nothing:
  "killed (pump s turns io_start) =
     (expired (pump s turns io_start) \<or> limited (pump s turns io_start) Out \<or> limited (pump s turns io_start) Err) \<and>
   (open_fds (pump s turns io_start) = [] \<or> expired (pump s turns io_start))"
  using pump_ok[OF io_start_ok, of s turns] pump_closed[of s turns io_start]
  by (auto simp: io_ok_iff io_start_def)

section \<open>Preflight\<close>

definition preflight :: "exn \<Rightarrow> bool" where
  "preflight e \<longleftrightarrow> (\<exists>m. e = LineJsonPreflight m)"

lemma preflight_simps [simp]: "preflight (LineJsonPreflight m)" "preflight bad_request"
  by (simp_all add: preflight_def bad_request_def)

lemma only_handled: "(\<And>e. r = Inl e \<Longrightarrow> P (f e)) \<Longrightarrow> only P (handled f r)"
  by (cases r) (simp_all add: handled_def only_def)

lemma build_frame_v2_only [only_intros]: "only preflight (build_frame_v2 operation reservation args tool)"
  unfolding build_frame_v2_def by (intro only_intros only_handled) simp_all

lemma spec_v2_only [only_intros]: "only preflight (spec_v2 environ p operation tool frame)"
  unfolding spec_v2_def by (intro only_intros) simp_all

context process_runner
begin

lemma spawn_only: "only preflight (spawn rp s)"
  unfolding spawn_def by (rule only_handled) (auto dest: raises_before_start)

lemma run_v2_only: "only preflight (run_v2 rp environ p operation reservation args tool)"
  unfolding run_v2_def by (intro only_intros spawn_only)

lemma spawn_Inr: "spawn rp s = Inr r \<Longrightarrow> rp s = Inr r"
  by (simp add: spawn_def handled_def split: sum.splits)

lemma no_breach:
  assumes "rp s = Inr r" "breach r = None"
  shows "\<not> timed_out r \<and> (returncode r = 0 \<or> returncode r = 3) \<and>
    int (length (stdout r)) \<le> spec_stdout_limit s \<and> int (length (stderr r)) \<le> spec_stderr_limit s"
  using assms(2) flags[OF assms(1)] by (auto simp: breach_def split: if_splits)

end

section \<open>Classification\<close>

definition UNKNOWN_REASONS :: "string list" where
  "UNKNOWN_REASONS =
     [''timeout'', ''stdout_limit'', ''stderr_limit'', ''abnormal_exit'', ''eof'', ''stdout_not_utf8'', ''extra_frame'',
      ''bad_frame'', ''version_mismatch'']"

lemma breach_reason: "breach r = Some why \<Longrightarrow> why \<in> lit ` set UNKNOWN_REASONS"
  by (auto simp: breach_def UNKNOWN_REASONS_def split: if_splits)

lemma strip_blanks_set: "set (strip_blanks s) \<subseteq> set s"
  by (auto simp: strip_blanks_def Let_def dest!: set_dropWhileD)

text \<open>A line is one text whose value a classifier may accept.\<close>

definition answer_line :: "bytes \<Rightarrow> json \<Rightarrow> bool" where
  "answer_line raw obj \<longleftrightarrow>
     (\<exists>line. utf8_decode raw = Some line \<and> length (filter (\<lambda>b. b = 10) raw) = 1 \<and> last raw = 10 \<and>
        strict_loads (strip_blanks (butlast line)) = Inr obj)"

lemma answer_line_domain: "answer_line raw obj \<Longrightarrow> J_domain obj \<and> json_wf obj"
proof -
  assume "answer_line raw obj"
  then obtain line where l: "utf8_decode raw = Some line" "strict_loads (strip_blanks (butlast line)) = Inr obj"
    by (auto simp: answer_line_def)
  have "code_points line" using utf8_decode_code_points[OF l(1)] by simp
  moreover have "set (strip_blanks (butlast line)) \<subseteq> set line" using strip_blanks_set in_set_butlastD by fastforce
  ultimately have "code_points (strip_blanks (butlast line))" by (auto simp: code_points_def)
  with l(2) show ?thesis by (rule strict_loads_domain)
qed

lemma classify_v2_cases:
  obtains (undecided) why where "classify_v2 raw operation code = Undecided why" "why \<in> set UNKNOWN_REASONS"
  | (object) obj where "answer_line raw obj" "classify_v2 raw operation code = classify_object operation code obj"
proof -
  consider "raw = []" | "raw \<noteq> []" "utf8_decode raw = None" | line where "raw \<noteq> []" "utf8_decode raw = Some line"
    by (cases "utf8_decode raw") auto
  then show ?thesis
  proof cases
    case 3
    show ?thesis
    proof (cases "length (filter (\<lambda>b. b = 10) raw) = 1 \<and> last raw = 10 \<and> take 1 line \<noteq> [0xFEFF]")
      case True
      with 3 show ?thesis
        by (cases "strict_loads (strip_blanks (butlast line))")
           (auto simp: classify_v2_def answer_line_def UNKNOWN_REASONS_def intro: undecided object)
    next
      case False
      then have "classify_v2 raw operation code =
          Undecided (if 1 < length (filter (\<lambda>b. b = 10) raw) then ''extra_frame'' else ''bad_frame'')"
        using 3 by (auto simp: classify_v2_def Let_def)
      then show ?thesis by (rule undecided) (simp add: UNKNOWN_REASONS_def)
    qed
  qed (auto simp: classify_v2_def UNKNOWN_REASONS_def intro: undecided)
qed

lemma unknown_output_error: "assert_unknown_output (JObj [(lit ''error'', e)]) = assert_error e"
  by (simp add: assert_unknown_output_def keys_are_def keys_def dict_eval require_def split: sum.splits)

lemma classify_object_success:
  "classify_object operation code obj = Success v \<longleftrightarrow>
     is_dict obj \<and> keys_are (items obj) [''ok'', ''v'', ''result''] \<and> py_eq (dget (items obj) ''v'') (JInt 2) \<and>
     dget (items obj) ''ok'' = JBool True \<and> dget (items obj) ''result'' = v \<and> result_ok operation v \<and> code = 0"
  by (auto simp: classify_object_def Let_def split: if_splits sum.splits)

lemma classify_object_error:
  "classify_object operation code obj = KnownError v \<longleftrightarrow>
     is_dict obj \<and> keys_are (items obj) [''ok'', ''v'', ''error''] \<and> py_eq (dget (items obj) ''v'') (JInt 2) \<and>
     dget (items obj) ''ok'' = JBool False \<and> dget (items obj) ''error'' = v \<and> assert_error v = Inr () \<and> code = 3"
  by (cases "dget (items obj) ''ok''"; auto simp: classify_object_def Let_def unknown_output_error split: if_splits sum.splits)

lemma classify_object_undecided: "classify_object operation code obj = Undecided why \<Longrightarrow> why \<in> set UNKNOWN_REASONS"
  by (auto simp: classify_object_def Let_def UNKNOWN_REASONS_def split: if_splits sum.splits)

section \<open>Version 2\<close>

definition v2_answer_ok :: "string \<Rightarrow> invocation \<Rightarrow> bool" where
  "v2_answer_ok operation i \<longleftrightarrow>
     started i \<and>
     (class_name i = ''success'' \<and> inv_returncode i = 0 \<and> reason i = None \<and>
        (case result i of None \<Rightarrow> False | Some v \<Rightarrow> result_ok operation v \<and> J_domain v \<and> json_wf v) \<or>
      class_name i = ''failure'' \<and> inv_returncode i = 3 \<and> reason i = None \<and>
        (case result i of None \<Rightarrow> False | Some v \<Rightarrow> assert_error v = Inr () \<and> J_domain v \<and> json_wf v) \<or>
      class_name i = ''unknown'' \<and> result i = None \<and> reason i \<in> Some ` lit ` set UNKNOWN_REASONS)"

lemma classified_ok:
  "v2_answer_ok operation
     (case classify_v2 (stdout r) operation (returncode r) of
        Success v \<Rightarrow> invocation_of r ''success'' (Some v) None
      | KnownError v \<Rightarrow> invocation_of r ''failure'' (Some v) None
      | Undecided why \<Rightarrow> unknown_invocation r (lit why))"
proof (cases rule: classify_v2_cases[of "stdout r" operation "returncode r"])
  case (undecided why)
  then show ?thesis by (simp add: v2_answer_ok_def unknown_invocation_def invocation_of_def)
next
  case (object obj)
  note dom = answer_line_domain[OF object(1)]
  have sub: "J_domain (dget (items obj) k) \<and> json_wf (dget (items obj) k)" for k
    using dom domain_dget wf_dget by blast
  show ?thesis
  proof (cases "classify_object operation (returncode r) obj")
    case (Success v)
    with object(2) sub show ?thesis
      by (auto simp: classify_object_success v2_answer_ok_def invocation_of_def)
  next
    case (KnownError v)
    with object(2) sub show ?thesis
      by (auto simp: classify_object_error v2_answer_ok_def invocation_of_def)
  next
    case (Undecided why)
    with object(2) classify_object_undecided[OF Undecided] show ?thesis
      by (simp add: v2_answer_ok_def unknown_invocation_def invocation_of_def)
  qed
qed

context process_runner
begin

lemma run_v2_answer:
  assumes "run_v2 rp environ p operation reservation args tool = Inr i"
  shows "v2_answer_ok operation i \<and> 0 \<le> inv_wall_ms i"
proof -
  from assms obtain s r where r: "rp s = Inr r" and
    i: "i = (case breach r of
              Some why \<Rightarrow> unknown_invocation r why
            | None \<Rightarrow>
                (case classify_v2 (stdout r) operation (returncode r) of
                   Success v \<Rightarrow> invocation_of r ''success'' (Some v) None
                 | KnownError v \<Rightarrow> invocation_of r ''failure'' (Some v) None
                 | Undecided why \<Rightarrow> unknown_invocation r (lit why)))"
    by (auto simp: run_v2_def run_simps dest!: spawn_Inr)
  have "inv_wall_ms i = wall_ms r"
    unfolding i by (simp add: unknown_invocation_def invocation_of_def split: option.splits verdict.splits)
  moreover have "v2_answer_ok operation i"
  proof (cases "breach r")
    case None
    then show ?thesis unfolding i using classified_ok[of operation r] by simp
  next
    case (Some why)
    then show ?thesis
      unfolding i using breach_reason[OF Some] by (auto simp: v2_answer_ok_def unknown_invocation_def invocation_of_def)
  qed
  ultimately show ?thesis using wall[OF r] by simp
qed

lemma run_v2_wall:
  assumes "run_v2 rp environ p operation reservation args tool = Inr i"
  shows "\<exists>s r. rp s = Inr r \<and> inv_wall_ms i = wall_ms r"
proof -
  from assms obtain s r where r: "spawn rp s = Inr r" "inv_wall_ms i = wall_ms r"
    by (auto simp: run_v2_def run_simps unknown_invocation_def invocation_of_def split: option.splits verdict.splits)
  then show ?thesis using spawn_Inr by blast
qed

end


section \<open>Canonical answers\<close>

text \<open>An answer written with the canonical encoder and a line feed is classified by its content.\<close>

lemma jtext_object: "jtext (JObj d) = 123 # join [44] (map (\<lambda>(k, v). quote k @ 58 # jtext v) d) @ [125]"
  by (simp add: lit_def)

lemma strip_blanks_object: "strip_blanks (jtext (JObj d)) = jtext (JObj d)"
  by (simp add: strip_blanks_def jtext_object Let_def del: jtext.simps)

lemma classify_canonical:
  assumes "compact_json obj = Inr b" "json_wf obj" "is_dict obj"
  shows "classify_v2 (b @ [10]) operation exit_code = classify_object operation exit_code (canon obj)"
proof -
  obtain d where d: "canon obj = JObj d" using assms(3) by (cases obj) auto
  note dec = decode_line[OF assms(1,2)]
  have one: "filter (\<lambda>x. x = 10) b = []" using compact_json_no_lf[OF assms(1)] by (auto simp: filter_empty_conv)
  have start: "take 1 (jtext (canon obj) @ [10]) = [123]" unfolding d by (simp add: jtext_object del: jtext.simps)
  have "strict_loads (strip_blanks (jtext (canon obj))) = Inr (canon obj)"
    using strict_reads[OF assms(1,2)] by (simp add: d strip_blanks_object del: jtext.simps)
  then show ?thesis
    using one start by (simp add: classify_v2_def dec Let_def del: jtext.simps)
qed
section \<open>Version 1 and long numerals\<close>

lemma loads_ones:
  assumes "4300 \<le> k"
  shows "json_loads (default_hooks fl) (replicate (Suc k) 49) = Inl (IntDigits (Suc k))"
proof -
  have d: "takeWhile is_digit (replicate n 49) = replicate n 49" "dropWhile is_digit (replicate n 49) = []" for n
    by (simp_all add: takeWhile_eq_all_conv dropWhile_eq_Nil_conv is_digit_def)
  have n: "scan_number (replicate (Suc k) 49) = Some (False, replicate (Suc k) 49, [])"
    by (simp add: scan_number_def Let_def d) (simp add: is_digit_def)
  have s: "\<not> starts (replicate (Suc k) 49) t"
    if "t \<in> {''null'', ''true'', ''false'', ''NaN'', ''Infinity'', ''-Infinity''}" for t
    using that by (auto simp: starts_def lit_Cons)
  have "scan_value (Suc m) (default_hooks fl) (replicate (Suc k) 49) = Inl (IntDigits (Suc k))" for m
    using assms s n by (simp add: scan_value.simps) (simp add: default_hooks_def)
  moreover have "skip_ws (replicate (Suc k) 49) = replicate (Suc k) 49"
    by (simp add: skip_ws_def is_ws_def)
  ultimately show ?thesis by (simp add: json_loads_def del: replicate.simps) (simp add: numeral_2_eq_2)?
qed

definition ones_frame :: "nat \<Rightarrow> json" where
  "ones_frame k = JObj [(lit ''ok'', JBool True), (lit ''result'', JStr (replicate (Suc k) 49))]"

lemma ones_text: "jtext (ones_frame k) = lit ''{\"ok\":true,\"result\":\"'' @ replicate (Suc k) 49 @ lit ''\"}''"
proof -
  have "quote_char 49 = [49]" by (simp add: quote_char_def)
  then have "concat (map quote_char (replicate n 49)) = replicate n 49" for n by (induction n) simp_all
  then show ?thesis by (simp add: ones_frame_def quote_def lit_Cons quote_char_def del: replicate.simps)
qed

lemma splitlines_one:
  assumes "s \<noteq> []" "\<forall>c \<in> set s. \<not> line_break c"
  shows "splitlines (s @ [10]) = [s]"
proof -
  have "takeWhile (\<lambda>x. \<not> line_break x) (s @ [10]) = s" "dropWhile (\<lambda>x. \<not> line_break x) (s @ [10]) = [10]"
    using assms(2) by (auto simp: line_break_def takeWhile_append dropWhile_append)
  with assms(1) show ?thesis by (subst splitlines.simps) (simp add: splitlines.simps)
qed


definition sample_long_result :: process_result where
  "sample_long_result =
     \<lparr>pid = 7, returncode = 0, stdout = utf8 (jtext (ones_frame 4300)) @ [10], stderr = [], timed_out = False,
      stdout_limited = False, stderr_limited = False, wall_ms = 3\<rparr>"


end
