(* ===== verification/Registry_Facts.thy ===== *)
theory Registry_Facts
  imports Registry
begin

text \<open>
  What the registry guarantees: what an approved tool and an approved plugin satisfy once
  their constructors return, when a registry can be built and what its lookups find, what a
  matched pin says about the entry behind it, and what the artifact check rests on.
\<close>

section \<open>Approved tools\<close>

text \<open>A tool whose digest is the digest of its descriptor, with the validators of its schemas when
  the descriptor is of version 2.\<close>

definition tool_ok :: "(json \<Rightarrow> pystr) \<Rightarrow> approved_tool \<Rightarrow> bool" where
  "tool_ok shown t \<longleftrightarrow>
     tkey t \<noteq> [] \<and> descriptor_digest (tdescriptor t) = Inr (tdigest t) \<and>
     0 < ttimeout_ms t \<and> ttimeout_ms t \<le> 300000 \<and>
     (let tool = items (dget (items (tdescriptor t)) ''tool'') in
      dget (items (tdescriptor t)) ''v'' = JInt 1 \<and> trender t = None \<and> toutput_schema t = None \<or>
      descriptor_ok (tdescriptor t) (Some (tkey t)) (RENDERERS shown) \<and>
      JInt (ttimeout_ms t) = dget (items (dget tool ''limits'')) ''timeout_ms'' \<and>
      trender t = Some (render_ref_of (dget tool ''render'')) \<and>
      toutput_schema t = Some (dget tool ''output_schema'') \<and>
      parameters_check t = Some (\<lambda>v. validate_instance (dget tool ''parameters'') v (lit ''$'')) \<and>
      output_check t = Some (\<lambda>v. validate_instance (dget tool ''output_schema'') v (lit ''$'')))"

lemma handled_Inr [run_simps]: "handled f r = Inr x \<longleftrightarrow> r = Inr x"
  by (cases r) (simp_all add: handled_def)

lemma handled_Inl: "handled f r = Inl e \<longleftrightarrow> (\<exists>e'. r = Inl e' \<and> e = f e')"
  by (cases r) (auto simp: handled_def)

lemma tool_v2_fields_Inr:
  assumes "tool_v2_fields shown t = Inr t'"
  shows "descriptor_ok (tdescriptor t) (Some (tkey t)) (RENDERERS shown) \<and>
    t' = t\<lparr>toutput_schema := Some (dget (items (dget (items (tdescriptor t)) ''tool'')) ''output_schema''),
      parameters_check := Some (\<lambda>v. validate_instance
        (dget (items (dget (items (tdescriptor t)) ''tool'')) ''parameters'') v (lit ''$'')),
      output_check := Some (\<lambda>v. validate_instance
        (dget (items (dget (items (tdescriptor t)) ''tool'')) ''output_schema'') v (lit ''$''))\<rparr> \<and>
    JInt (ttimeout_ms t) = dget (items (dget (items (dget (items (tdescriptor t)) ''tool'')) ''limits'')) ''timeout_ms'' \<and>
    trender t = Some (render_ref_of (dget (items (dget (items (tdescriptor t)) ''tool'')) ''render''))"
  using assms
  by (auto simp: tool_v2_fields_def run_simps validate_descriptor_ok compile_schema_def Let_def
      split: if_splits option.splits)

lemma tool_init_ok: "tool_init shown t = Inr t' \<Longrightarrow> tool_ok shown t' \<and> tkey t' = tkey t \<and> tdescriptor t' = tdescriptor t"
  by (auto simp: tool_init_def tool_ok_def run_simps Let_def simp del: steps.simps
      split: if_splits dest!: tool_v2_fields_Inr)

lemma from_descriptor_ok:
  assumes "from_descriptor shown d key = Inr t"
  shows "tool_ok shown t \<and> tkey t = key \<and> tdescriptor t = d \<and> descriptor_ok d (Some key) (RENDERERS shown)"
  using assms
  by (auto simp: from_descriptor_def run_simps validate_descriptor_ok new_tool_def Let_def dest!: tool_init_ok)

section \<open>Approved entries\<close>

definition plugin_ok :: "(json \<Rightarrow> pystr) \<Rightarrow> approved_plugin \<Rightarrow> bool" where
  "plugin_ok shown p \<longleftrightarrow>
     1 \<le> length (tools p) \<and> length (tools p) \<le> 16 \<and> distinct (map tkey (tools p)) \<and>
     protocol p = 2 \<and> 2 \<le> length (argv p) \<and> isabs (argv p ! 0) \<and> isabs (artifact_path p) \<and>
     is_digest (manifest_digest p) \<and> is_digest (artifact_digest p) \<and> is_digest (adapter_digest p) \<and>
     timeout_cap_ms p \<le> 25000 \<and> 0 < timeout_ms p \<and> timeout_ms p \<le> 300000 \<and>
     1 \<le> stdout_limit p \<and> 1 \<le> stderr_limit p \<and>
     (\<forall>t \<in> set (tools p). tool_ok shown t \<and> ttimeout_ms t \<le> timeout_cap_ms p \<and>
        descriptor_ok (tdescriptor t) (Some (tkey t)) (RENDERERS shown))"

lemma hex_set: "c \<in> set (lit ''0123456789abcdef'') \<longleftrightarrow> hex_lower c"
  by (simp add: lit_def hex_lower_def is_digit_def) presburger

lemma hex64_Inr [run_simps]: "hex64 name v = Inr z \<longleftrightarrow> is_digest v"
  by (auto simp: hex64_def is_digest_def run_simps hex_set simp del: steps.simps)

lemma plugin_init_ok:
  assumes "plugin_init f p = Inr q" "\<forall>t \<in> set (tools p). tool_ok shown t"
  shows "q = p \<and> plugin_ok shown q \<and> is_dir f (workspace_root q) \<and> realpath f (workspace_root q) = workspace_root q"
proof -
  have v: "descriptor_ok (tdescriptor t) (Some (tkey t)) (RENDERERS shown)"
    if "tool_ok shown t" "py_eq (dget (items (tdescriptor t)) ''v'') (JInt 2)" for t
    using that by (auto simp: tool_ok_def Let_def)
  from assms show ?thesis
    by (auto simp: plugin_init_def plugin_ok_def check_argv_def check_bounds_def run_simps artifact_path_def v
        simp del: steps.simps each.simps py_eq.simps)
qed


section \<open>Building a registry\<close>

definition key_of :: "approved \<Rightarrow> install_key" where
  "key_of e = canonical_key (base e)"

definition id_of :: "approved \<Rightarrow> pystr" where
  "id_of e = adapter_id (base e)"

lemma register_Inr:
  "register e r = Inr r' \<longleftrightarrow> by_key r (key_of e) = None \<and> by_adapter r (id_of e) = None \<and>
     r' = r\<lparr>by_key := (by_key r)(key_of e \<mapsto> e), by_adapter := (by_adapter r)(id_of e \<mapsto> e)\<rparr>"
  by (auto simp: register_def key_of_def id_of_def)

definition indexed :: "('k \<rightharpoonup> approved) \<Rightarrow> (approved \<Rightarrow> 'k) \<Rightarrow> approved list \<Rightarrow> bool" where
  "indexed m f es \<longleftrightarrow> distinct (map f es) \<and> (\<forall>k e. m k = Some e \<longleftrightarrow> e \<in> set es \<and> f e = k)"

lemma indexedD: "indexed m f es \<Longrightarrow> m k = Some e \<longleftrightarrow> e \<in> set es \<and> f e = k"
  by (simp add: indexed_def)

lemma indexed_snoc:
  "indexed m f es \<Longrightarrow> m (f e) = None \<longleftrightarrow> f e \<notin> f ` set es"
proof -
  assume "indexed m f es"
  then have "(\<exists>e'. m (f e) = Some e') \<longleftrightarrow> f e \<in> f ` set es"
    by (auto simp: indexed_def image_iff dest: sym)
  then show ?thesis by auto
qed

lemma indexed_update: "indexed m f es \<Longrightarrow> m (f e) = None \<Longrightarrow> indexed (m(f e \<mapsto> e)) f (es @ [e])"
  using indexed_snoc[of m f es e] by (auto simp: indexed_def image_iff)

lemma sweep_register:
  assumes "indexed (by_key r) key_of es" "indexed (by_adapter r) id_of es"
  shows "(\<exists>r'. sweep register xs r = Inr r') \<longleftrightarrow>
      distinct (map key_of (es @ xs)) \<and> distinct (map id_of (es @ xs))"
    and "sweep register xs r = Inr r' \<Longrightarrow> entries r' = entries r \<and>
      indexed (by_key r') key_of (es @ xs) \<and> indexed (by_adapter r') id_of (es @ xs)"
  using assms
proof (induction xs arbitrary: r es)
  case (Cons x xs)
  {
    case 1
    let ?r = "r\<lparr>by_key := (by_key r)(key_of x \<mapsto> x), by_adapter := (by_adapter r)(id_of x \<mapsto> x)\<rparr>"
    show ?case
    proof (cases "by_key r (key_of x) = None \<and> by_adapter r (id_of x) = None")
      case True
      then have "register x r = Inr ?r" by (simp add: register_Inr)
      moreover have ix: "indexed (by_key ?r) key_of (es @ [x])" "indexed (by_adapter ?r) id_of (es @ [x])"
        using indexed_update[OF 1(1), of x] indexed_update[OF 1(2), of x] True by (simp_all del: fun_upd_apply)
      ultimately show ?thesis using Cons.IH(1)[OF ix] by simp
    next
      case False
      then have "\<exists>e. register x r = Inl e" by (cases "by_key r (key_of x)") (simp_all add: register_def key_of_def id_of_def)
      then obtain e where "register x r = Inl e" by blast
      moreover have "key_of x \<in> key_of ` set es \<or> id_of x \<in> id_of ` set es"
        using False indexed_snoc[OF 1(1)] indexed_snoc[OF 1(2)] by auto
      ultimately show ?thesis by auto
    qed
  next
    case 2
    then obtain r1 where r1: "register x r = Inr r1" "sweep register xs r1 = Inr r'"
      by (auto split: sum.splits)
    with Cons.IH(2)[of r1 "es @ [x]"] 2(2,3) show ?case by (auto simp: register_Inr indexed_update)
  }
qed (auto simp: indexed_def)

lemma registry_iff: "(\<exists>r. registry es = Inr r) \<longleftrightarrow> distinct (map key_of es) \<and> distinct (map id_of es)"
  using sweep_register(1)[where es = "[]" and xs = es and
      r = "\<lparr>entries = es, by_key = Map.empty, by_adapter = Map.empty\<rparr>"]
  by (simp add: registry_def indexed_def)

lemma registry_indexed:
  "registry es = Inr r \<Longrightarrow> entries r = es \<and> indexed (by_key r) key_of es \<and> indexed (by_adapter r) id_of es"
  using sweep_register(2)[where es = "[]" and xs = es and r' = r and
      r = "\<lparr>entries = es, by_key = Map.empty, by_adapter = Map.empty\<rparr>"]
  by (simp add: registry_def indexed_def)


section \<open>Lookups\<close>

lemma lookup_install_Inr:
  assumes "lookup_install shown r install = Inr e"
  shows "is_dict install \<and>
    by_key r (the_str (dget (items install) ''identity''), the_str (dget (items install) ''version''),
      lower (py_str shown (dget (items install) ''manifest_digest'')),
      lower (py_str shown (dget (items install) ''artifact_digest'')),
      lower (py_str shown (dget (items install) ''adapter_digest''))) = Some e"
  using assms by (auto simp: lookup_install_def Let_def split: if_splits option.splits)

lemma check_pin_Inr:
  assumes "check_pin pin d digest = Inr ()"
  shows "is_dict (dget (items pin) ''descriptor'') \<and> digest = lower (the_str (dget (items pin) ''descriptor_digest'')) \<and>
    (\<exists>t. pg_jsonb_text d = Inr t \<and> pg_jsonb_text (dget (items pin) ''descriptor'') = Inr t)"
  using assms by (auto simp: check_pin_def Let_def run_simps split: if_splits)

text \<open>An entry as its constructor leaves it.\<close>

definition entry_ok :: "(json \<Rightarrow> pystr) \<Rightarrow> approved \<Rightarrow> bool" where
  "entry_ok shown e \<longleftrightarrow>
     (case e of
        Adapter a \<Rightarrow> \<exists>f. adapter_init f a = Inr a
      | Plugin p \<Rightarrow> plugin_ok shown p)"

lemma tool_of_entry_ok:
  assumes "tool_of_entry shown e key = Inr t" "entry_ok shown e"
  shows "tool_ok shown t \<and> tkey t = key"
  using assms
  by (cases e)
     (auto simp: tool_of_entry_def new_tool_def tool_for_def entry_ok_def plugin_ok_def find_Some_iff
       split: if_splits option.splits dest!: tool_init_ok)

text \<open>C5: a binding \<open>match_tool\<close> returns is an approved entry whose five install fields are the
  install's, with a tool of the requested key whose descriptor is, as \<open>jsonb\<close>, the pinned one and
  whose digest is both the pinned digest and the SHA-256 of that descriptor.\<close>

theorem match_tool_sound:
  assumes "registry es = Inr r" "\<forall>e \<in> set es. entry_ok shown e"
    "match_tool shown r install pin key = Inr (e, t)"
  shows "e \<in> set es \<and> tkey t = key \<and>
    key_of e = (the_str (dget (items install) ''identity''), the_str (dget (items install) ''version''),
      lower (py_str shown (dget (items install) ''manifest_digest'')),
      lower (py_str shown (dget (items install) ''artifact_digest'')),
      lower (py_str shown (dget (items install) ''adapter_digest''))) \<and>
    lower (the_str (dget (items pin) ''descriptor_digest'')) = tdigest t \<and>
    descriptor_digest (tdescriptor t) = Inr (tdigest t) \<and>
    descriptor_digest (dget (items pin) ''descriptor'') = Inr (tdigest t)"
proof -
  from assms(3) have look: "lookup_install shown r install = Inr e"
    and tool: "tool_of_entry shown e key = Inr t"
    and pin: "check_pin pin (tdescriptor t) (tdigest t) = Inr ()"
    by (auto simp: match_tool_def run_simps split: if_splits)
  have e: "e \<in> set es" "key_of e = (the_str (dget (items install) ''identity''), the_str (dget (items install) ''version''),
      lower (py_str shown (dget (items install) ''manifest_digest'')),
      lower (py_str shown (dget (items install) ''artifact_digest'')),
      lower (py_str shown (dget (items install) ''adapter_digest'')))"
    using lookup_install_Inr[OF look] indexedD[of "by_key r" key_of es] registry_indexed[OF assms(1)] by blast+
  then have ok: "tool_ok shown t" "tkey t = key" using tool_of_entry_ok[OF tool] assms(2) by auto
  then have d: "descriptor_digest (tdescriptor t) = Inr (tdigest t)" by (simp add: tool_ok_def)
  with check_pin_Inr[OF pin] have "descriptor_digest (dget (items pin) ''descriptor'') = Inr (tdigest t)"
    by (auto simp: descriptor_digest_def andthen_Inr split: if_splits)
  with e ok d check_pin_Inr[OF pin] show ?thesis by simp
qed

section \<open>Artifacts\<close>

lemma common_prefix_take: "take (common_prefix xs ys) xs = ys \<Longrightarrow> \<exists>zs. xs = ys @ zs"
  by (metis append_take_drop_id)

lemma common_prefix_le: "common_prefix xs ys \<le> length ys"
  by (induction xs ys rule: common_prefix.induct) auto

definition canonical_dir :: "pystr \<Rightarrow> bool" where
  "canonical_dir p \<longleftrightarrow> p = 47 # join [47] (clean_parts p)"

lemma clean_parts_abs: "\<forall>c \<in> set cs. part c \<and> c \<noteq> lit ''.'' \<Longrightarrow> clean_parts (47 # join [47] cs) = cs"
proof (cases cs)
  case (Cons c cs')
  assume "\<forall>c \<in> set cs. part c \<and> c \<noteq> lit ''.''"
  moreover from this have "split_on 47 (join [47] cs) = cs" using Cons by (intro split_on_join) (auto simp: part_def)
  ultimately show ?thesis by (auto simp: clean_parts_def part_def filter_id_conv)
qed (simp add: clean_parts_def)

lemma clean_parts_part: "c \<in> set (clean_parts p) \<Longrightarrow> part c \<and> c \<noteq> lit ''.''"
proof -
  have "\<forall>x \<in> set (split_on 47 p). 47 \<notin> set x"
    by (induction p) (auto split: list.splits if_splits)
  then show "c \<in> set (clean_parts p) \<Longrightarrow> part c \<and> c \<noteq> lit ''.''" by (auto simp: clean_parts_def part_def)
qed

lemma commonpath_inside:
  assumes "commonpath a c = Some c" "canonical_dir c"
  shows "\<exists>zs. clean_parts a = clean_parts c @ zs"
proof -
  let ?cs = "take (common_prefix (clean_parts a) (clean_parts c)) (clean_parts a)"
  have abs: "isabs c" using assms(2) by (metis canonical_dir_def isabs_def starts_with_def take0 take_Suc_Cons
        One_nat_def length_Cons list.size(3))
  with assms(1) have "c = 47 # join [47] ?cs" by (auto simp: commonpath_def Let_def split: if_splits)
  moreover have "\<forall>x \<in> set ?cs. part x \<and> x \<noteq> lit ''.''"
    using clean_parts_part by (meson in_set_takeD)
  ultimately have "clean_parts c = ?cs" using clean_parts_abs[of ?cs] by metis
  then show ?thesis using common_prefix_take by metis
qed

text \<open>C33: an artifact is accepted only when its real path lies inside the real working directory,
  it is a regular file and its bytes have the approved SHA-256. Real paths are canonical.\<close>

theorem require_artifact_sound:
  assumes "require_artifact f e = Inr ()" "\<forall>p d. resolved f p = Some d \<longrightarrow> canonical_dir d"
  shows "\<exists>a c b. resolved f (artifact_path e) = Some a \<and> resolved f (cwd e) = Some c \<and>
    (\<exists>zs. clean_parts a = clean_parts c @ zs) \<and> regular f a = Some True \<and> file_bytes f a = Some b \<and>
    sha256_hex b = artifact_digest e"
  using assms commonpath_inside
  by (fastforce simp: require_artifact_def split: option.splits if_splits bool.splits)

section \<open>Environments\<close>

lemma map_of_overwrite:
  "map_of (map (\<lambda>(k', v'). (k', if k' = k then v else v')) env) j =
     (if j = k \<and> k \<in> set (map fst env) then Some v else map_of env j)"
proof (induction env)
  case (Cons e env)
  then show ?case by (cases e; cases "j = k") auto
qed simp

lemma map_of_env_put: "map_of (env_put k v env) = (map_of env)(k \<mapsto> v)"
proof (cases "k \<in> set (map fst env)")
  case True
  then show ?thesis by (auto simp: env_put_def fun_eq_iff map_of_overwrite)
next
  case False
  then have "map_of env k = None" by (simp add: map_of_eq_None_iff)
  with False show ?thesis by (auto simp: env_put_def fun_eq_iff map_add_def split: option.splits)
qed

lemma map_of_env_fold:
  "map_of (foldl (\<lambda>acc key. case map_of environ key of None \<Rightarrow> acc | Some v \<Rightarrow> env_put key v acc) acc ks) j =
     (if j \<in> set ks \<and> map_of environ j \<noteq> None then map_of environ j else map_of acc j)"
  by (induction ks arbitrary: acc) (auto simp: map_of_env_put split: option.splits)

text \<open>C37: the environment of a spawned process is the host's environment restricted to the
  allowlisted names, with the approved workspace root in place of whatever value the host has for
  \<open>V24_WORKSPACE_ROOT\<close> when that name is allowlisted.\<close>

theorem environment_restricted:
  "map_of (environment environ e ws) k =
     (if k \<notin> set (environment_allowlist e) then None
      else if k = lit ''V24_WORKSPACE_ROOT'' \<and> ws \<noteq> None then ws
      else map_of environ k)"
  by (cases ws) (auto simp: environment_def Let_def map_of_env_put map_of_env_fold)

end
