(* ===== verification/Plugins_Facts.thy ===== *)
theory Plugins_Facts
  imports Plugins Line_Json_Facts Registry_Facts
begin

text \<open>
  What the dispatcher guarantees the worker: every version-2 tool call is settled by a valid
  envelope, a success satisfies the approved schemas, page relations and size limits, and the
  paged reads find what a keyset-ordered source holds.
\<close>

section \<open>Envelopes\<close>

definition envelope_error :: "exn \<Rightarrow> bool" where
  "envelope_error e \<longleftrightarrow> (\<exists>r. e = ToolResultError r)"

lemma envelope_errors [simp]: "envelope_error invalid_output" "envelope_error invalid_outcome" "envelope_error (ToolResultError r)"
  by (simp_all add: envelope_error_def invalid_output_def invalid_outcome_def)

lemma only_json_case: "(\<And>d. v = JObj d \<Longrightarrow> only P (f d)) \<Longrightarrow> P e \<Longrightarrow>
    only P (case v of JObj d \<Rightarrow> f d | _ \<Rightarrow> Inl e)"
  by (cases v) (simp_all add: only_Inl)

lemma only_sum [only_intros]:
  "(\<And>e. r = Inl e \<Longrightarrow> only P (f e)) \<Longrightarrow> (\<And>x. r = Inr x \<Longrightarrow> only P (g x)) \<Longrightarrow>
     only P (case r of Inl e \<Rightarrow> f e | Inr x \<Rightarrow> g x)"
  by (cases r) simp_all

lemma assert_only [only_intros]:
  "only envelope_error (assert_jsonable v)" "only envelope_error (assert_content v)" "only envelope_error (assert_meta v)"
  "only envelope_error (assert_error v)" "only envelope_error (assert_usage v)" "only envelope_error (assert_builtin_meta v)"
  unfolding assert_jsonable_def assert_content_def assert_meta_def assert_error_def assert_usage_def
    assert_builtin_meta_def Let_def
  by (intro only_intros only_json_case envelope_errors)+

lemma output_only [only_intros]:
  "only envelope_error (assert_success_output v)" "only envelope_error (assert_failure_output v)"
  "only envelope_error (assert_unknown_output v)" "only envelope_error (join_content v)"
  unfolding assert_success_output_def assert_failure_output_def assert_unknown_output_def meta_if_present_def join_content_def
  by (intro only_intros only_json_case envelope_errors)+

lemma dispatch_only [only_intros]: "only envelope_error (dispatch_result c r t)"
  unfolding dispatch_result_def Let_def by (intro only_intros envelope_errors)

lemma v2_failure_only: "only envelope_error (v2_failure shown code message wall)"
  unfolding v2_failure_def failure_output_def v2_dispatch_def Let_def by (intro only_intros envelope_errors)

text \<open>The answer is an envelope the constructor of the dispatch result accepts.\<close>

definition dispatched :: "exn + outcome \<Rightarrow> bool" where
  "dispatched a \<longleftrightarrow> (\<exists>c r t. a = Inr (Dispatch c r t) \<and> returns (dispatch_result (lit c) r t))"

lemma dispatch_result_Inr: "dispatch_result c r t = Inr d \<Longrightarrow> model_text d = t"
  by (auto simp: dispatch_result_def Let_def run_simps simp del: steps.simps)

lemma v2_dispatch_Inr: "v2_dispatch c r t = Inr a \<Longrightarrow> dispatched (Inr a) \<and> a = Dispatch c r (JStr t)"
  by (auto simp: v2_dispatch_def run_simps dispatched_def) (simp_all add: dispatch_result_Inr)

section \<open>Messages\<close>

definition clean_message :: "pystr \<Rightarrow> bool" where
  "clean_message m \<longleftrightarrow> scalar_str m \<and> length (utf8 m) \<le> MAX_MESSAGE_BYTES \<and> \<not> message_is_leaked m"

lemma take_in_set: "take (length p) s = p \<Longrightarrow> set p \<subseteq> set s"
  by (metis set_take_subset)

lemma occurs_set: "occurs p s \<Longrightarrow> set p \<subseteq> set s"
  by (auto simp: occurs_iff)

lemma split_words_set: "w \<in> set (split_words s) \<Longrightarrow> set w \<subseteq> set s"
proof (induction s rule: split_words.induct)
  case (1 s)
  show ?case
  proof (cases "dropWhile is_space s")
    case (Cons c r)
    have sub: "set (c # r) \<subseteq> set s" using set_dropWhileD[of _ is_space s] Cons by auto
    have rest: "set (dropWhile (\<lambda>x. \<not> is_space x) r) \<subseteq> set r" by (auto dest: set_dropWhileD)
    have word: "set (takeWhile (\<lambda>x. \<not> is_space x) (c # r)) \<subseteq> set (c # r)" by (meson set_takeWhileD subsetI)
    have "w = takeWhile (\<lambda>x. \<not> is_space x) (c # r) \<or> w \<in> set (split_words (dropWhile (\<lambda>x. \<not> is_space x) r))"
      using 1(2) unfolding split_words.simps[of s] Cons by auto
    then show ?thesis using 1(1)[OF Cons] word rest sub by (metis order_trans set_subset_Cons)
  next
    case Nil
    then have "split_words s = []" by (subst split_words.simps) (simp only: Nil list.case)
    with 1(2) show ?thesis by simp
  qed
qed

lemma not_leaked:
  assumes "set m \<inter> {0, 40, 47, 61, 92} = {}" "\<not> occurs (lit ''stack trace'') m"
  shows "\<not> message_is_leaked m"
proof -
  have "\<not> occurs p m" if "p \<in> set FORBIDDEN_MESSAGE_FRAGMENTS" for p
    using that assms occurs_set[of p m] by (auto simp: FORBIDDEN_MESSAGE_FRAGMENTS_def lit_Cons)
  moreover have "\<not> (starts_with [47] w \<or> windows_drive w \<or> starts_with [92, 92] w)" if "w \<in> set (split_words m)" for w
  proof -
    have "47 \<notin> set w" "92 \<notin> set w" using split_words_set[OF that] assms(1) by auto
    then show ?thesis by (cases w rule: windows_drive.cases) (auto simp: starts_with_def)
  qed
  ultimately show ?thesis by (auto simp: message_is_leaked_def list_ex_iff)
qed

definition plain_text :: "string \<Rightarrow> bool" where
  "plain_text m \<longleftrightarrow> length m \<le> 1024 \<and> list_all (\<lambda>c. c < 128 \<and> c \<noteq> 0 \<and> c \<noteq> 40 \<and> c \<noteq> 47 \<and> c \<noteq> 61 \<and> c \<noteq> 92) (lit m) \<and>
     \<not> occurs (lit ''stack trace'') (lit m)"

lemma clean_lit: "plain_text m \<Longrightarrow> clean_message (lit m)"
proof -
  assume p: "plain_text m"
  have "\<forall>c \<in> set s. c < 128 \<Longrightarrow> length (utf8 s) = length s" for s by (induction s) (simp_all add: utf8_char_def)
  with p have "length (utf8 (lit m)) \<le> 1024" by (simp add: plain_text_def list_all_iff)
  moreover have "\<not> message_is_leaked (lit m)"
    using p by (intro not_leaked) (auto simp: plain_text_def list_all_iff)
  ultimately show ?thesis by (simp add: clean_message_def MAX_MESSAGE_BYTES_def)
qed

lemma host_messages_plain: "list_all (\<lambda>m. plain_text m) (''tool dispatch failed before execution'' # map snd host_messages)"
  by (simp add: host_messages_def plain_text_def lit_def)

lemma host_messages_clean: "clean_message (lit (host_message code))"
proof -
  have "host_message code \<in> set (''tool dispatch failed before execution'' # map snd host_messages)"
    by (auto simp: host_message_def split: option.splits dest!: map_of_SomeD intro: rev_image_eqI)
  then show ?thesis by (intro clean_lit bspec[OF host_messages_plain[unfolded list_all_iff]])
qed

lemma unknown_message_clean: "clean_message (lit UNKNOWN_MESSAGE)"
  by (rule clean_lit) (simp add: UNKNOWN_MESSAGE_def plain_text_def lit_def)

lemma rule_messages_clean: "rule \<in> set INSTANCE_RULES \<Longrightarrow> clean_message (lit ''$: '' @ lit rule)"
proof -
  have "list_all (\<lambda>r. plain_text (''$: '' @ r)) INSTANCE_RULES"
    by (simp add: INSTANCE_RULES_def plain_text_def lit_def)
  then show "rule \<in> set INSTANCE_RULES \<Longrightarrow> clean_message (lit ''$: '' @ lit rule)"
    using clean_lit[of "''$: '' @ rule", unfolded lit_append] unfolding list_all_iff by blast
qed

section \<open>Failures and unknowns\<close>

definition wall_ok :: "int \<Rightarrow> bool" where
  "wall_ok w \<longleftrightarrow> 0 \<le> w \<and> w \<le> SAFE_INTEGER_MAX"

lemma jsonable_iff: "assert_jsonable v = Inr () \<longleftrightarrow> J_domain v"
proof (cases "compact_json v")
  case (Inl e)
  then have "\<not> J_domain v" using compact_json_iff[of v "utf8 (jtext (canon v))"] by auto
  with Inl show ?thesis by (simp add: assert_jsonable_def)
next
  case (Inr b)
  then show ?thesis using compact_json_iff[of v b] by (simp add: assert_jsonable_def)
qed

lemma block_content: "scalar_str t \<Longrightarrow> assert_content (JArr [text_block (JStr t)]) = Inr ()"
  using jsonable_iff[of "JArr [text_block (JStr t)]"]
  by (simp add: assert_content_def require_def MAX_CONTENT_BLOCKS_def text_block_ok_def text_block_def dict_eval
      keys_are_def keys_def)

lemma error_ok:
  assumes "code_pattern c" "clean_message m"
  shows "assert_error (error_object (JStr c) (JStr m)) = Inr ()"
  using assms
  by (simp add: assert_error_def error_object_def dict_eval keys_are_def keys_def require_def clean_message_def)

lemma code_scalar: "code_pattern c \<Longrightarrow> scalar_str c"
  by (cases c) (auto simp: code_pattern_def scalar_str_def list_all_iff is_lower_def is_digit_def surrogate_def)

lemma usage_ok: "wall_ok w \<Longrightarrow> assert_usage (JObj [(lit ''wall_ms'', JInt w)]) = Inr ()"
  by (simp add: assert_usage_def dict_eval keys_are_def keys_def require_def wall_ok_def)

lemma meta_ok: "assert_meta (JObj []) = Inr ()"
  using jsonable_iff[of "JObj []"] by (simp add: assert_meta_def require_def)

lemma result_fields:
  "dget (items (v2_result st out wall)) ''status'' = jstr st" "dget (items (v2_result st out wall)) ''output'' = out"
  "dget (items (v2_result st out wall)) ''usage'' = JObj [(lit ''wall_ms'', JInt wall)]"
  "is_dict (v2_result st out wall)" "keys_are (items (v2_result st out wall)) [''status'', ''output'', ''usage'']"
  by (simp_all add: v2_result_def dict_eval keys_are_def keys_def)

lemma failure_ok:
  assumes "assert_error (error_object code message) = Inr ()" "assert_content content = Inr ()"
  shows "failure_output code message content JNull =
    Inr (JObj [(lit ''error'', error_object code message), (lit ''content'', content), (lit ''meta'', JObj [])])"
  using assms meta_ok
  by (simp add: failure_output_def assert_failure_output_def Let_def default_meta_def dict_eval keys_are_def keys_def
      require_def meta_if_present_def)

lemma failure_dispatch:
  assumes "assert_failure_output out = Inr ()" "wall_ok wall"
  shows "v2_dispatch ''failure'' (v2_result ''error'' out wall) t = Inr (Dispatch ''failure'' (v2_result ''error'' out wall) (JStr t))"
  using assms usage_ok
  by (simp add: v2_dispatch_def dispatch_result_def Let_def result_fields require_def RESULT_CLASSES_def)

lemma unknown_dispatch:
  assumes "assert_unknown_output out = Inr ()" "wall_ok wall"
  shows "v2_dispatch ''unknown'' (v2_result ''error'' out wall) [] = Inr (Dispatch ''unknown'' (v2_result ''error'' out wall) (JStr []))"
  using assms usage_ok
  by (simp add: v2_dispatch_def dispatch_result_def Let_def result_fields require_def RESULT_CLASSES_def)

lemma success_dispatch:
  assumes "assert_success_output out = Inr ()" "wall_ok wall"
  shows "v2_dispatch ''success'' (v2_result ''ok'' out wall) t = Inr (Dispatch ''success'' (v2_result ''ok'' out wall) (JStr t))"
  using assms usage_ok
  by (simp add: v2_dispatch_def dispatch_result_def Let_def result_fields require_def RESULT_CLASSES_def)

lemma v2_failure_dispatched:
  assumes "assert_error (error_object (JStr c) (JStr m)) = Inr ()" "scalar_str c" "scalar_str m" "wall_ok wall"
  shows "dispatched (v2_failure shown (JStr c) (JStr m) wall)"
proof -
  let ?content = "error_content c m"
  have content: "assert_content ?content = Inr ()"
    unfolding error_content_def using assms(2,3) by (intro block_content) simp
  have out: "failure_output (JStr c) (JStr m) ?content JNull =
      Inr (JObj [(lit ''error'', error_object (JStr c) (JStr m)), (lit ''content'', ?content), (lit ''meta'', JObj [])])"
    by (rule failure_ok[OF assms(1) content])
  then have "assert_failure_output (JObj [(lit ''error'', error_object (JStr c) (JStr m)), (lit ''content'', ?content),
      (lit ''meta'', JObj [])]) = Inr ()"
    by (auto simp: failure_output_def Let_def run_simps default_meta_def)
  from failure_dispatch[OF this assms(4)] out content
  have "v2_failure shown (JStr c) (JStr m) wall =
      v2_dispatch ''failure'' (v2_result ''error'' (JObj [(lit ''error'', error_object (JStr c) (JStr m)),
        (lit ''content'', ?content), (lit ''meta'', JObj [])]) wall)
        (join [10] (map (\<lambda>b. the_str (dget (items b) ''text'')) (elems ?content)))"
    by (simp add: v2_failure_def py_str_def decimal_def join_content_def Let_def)
  then show ?thesis using failure_dispatch[OF _ assms(4)] v2_dispatch_Inr by (metis \<open>assert_failure_output _ = _\<close>)
qed

lemma clean_failure_dispatched:
  "code_pattern c \<Longrightarrow> clean_message m \<Longrightarrow> wall_ok wall \<Longrightarrow> dispatched (v2_failure shown (JStr c) (JStr m) wall)"
  using v2_failure_dispatched error_ok code_scalar by (simp add: clean_message_def)

lemma host_failure_dispatched: "code_pattern (lit code) \<Longrightarrow> wall_ok wall \<Longrightarrow> dispatched (host_failure shown code wall)"
  unfolding host_failure_def by (intro clean_failure_dispatched host_messages_clean)

lemma v2_unknown_dispatched:
  assumes "reason reply \<in> Some ` lit ` set UNKNOWN_REASONS" "wall_ok (inv_wall_ms reply)"
  shows "dispatched (v2_unknown reply)"
proof -
  obtain why where why: "reason reply = Some (lit why)" "why \<in> set UNKNOWN_REASONS" using assms(1) by auto
  have "list_all (\<lambda>w. code_pattern (lit w) \<and> w \<noteq> []) UNKNOWN_REASONS"
    by (simp add: UNKNOWN_REASONS_def code_pattern_def lit_def is_lower_def is_digit_def)
  with why(2) have code: "code_pattern (lit why)" "why \<noteq> []" by (auto simp: list_all_iff)
  have err: "assert_error (error_object (JStr (lit why)) (jstr UNKNOWN_MESSAGE)) = Inr ()"
    by (rule error_ok[OF code(1) unknown_message_clean])
  then have out: "assert_unknown_output (JObj [(lit ''error'', error_object (JStr (lit why)) (jstr UNKNOWN_MESSAGE))]) = Inr ()"
    by (simp add: unknown_output_error)
  have "v2_unknown reply = v2_dispatch ''unknown''
      (v2_result ''error'' (JObj [(lit ''error'', error_object (JStr (lit why)) (jstr UNKNOWN_MESSAGE))]) (inv_wall_ms reply)) []"
    using out by (simp add: v2_unknown_def why(1) code(2) unknown_output_def)
  with unknown_dispatch[OF out assms(2)] v2_dispatch_Inr show ?thesis by metis
qed

lemma retried_dispatched:
  "only envelope_error r \<Longrightarrow> (\<And>a. r = Inr a \<Longrightarrow> dispatched (Inr a)) \<Longrightarrow> dispatched q \<Longrightarrow>
     dispatched (case r of Inl (ToolResultError _) \<Rightarrow> q | answer \<Rightarrow> answer)"
  by (cases r) (auto simp: only_def envelope_error_def)

lemma instance_failure_dispatched:
  assumes "code_pattern (lit code)" "rule \<in> set INSTANCE_RULES" "wall_ok wall"
  shows "dispatched (v2_instance_failure shown code path rule wall)"
proof -
  have "rule \<noteq> []" using assms(2) by (auto simp: INSTANCE_RULES_def)
  have plain: "dispatched (v2_failure shown (jstr code) (JStr (lit ''$: '' @ lit rule)) wall)"
    by (rule clean_failure_dispatched[OF assms(1) rule_messages_clean[OF assms(2)] assms(3)])
  have sent: "v2_failure shown (jstr code) (JStr m) wall = Inr a \<Longrightarrow> dispatched (Inr a)" for m a
    by (auto simp: v2_failure_def run_simps Let_def dest: v2_dispatch_Inr)
  show ?thesis
    unfolding v2_instance_failure_def Let_def if_not_P[OF \<open>rule \<noteq> []\<close>]
    by (rule retried_dispatched[OF v2_failure_only sent plain])
qed

section \<open>Accepting an answer\<close>

definition payload :: "invocation \<Rightarrow> dict" where
  "payload reply = items (case result reply of None \<Rightarrow> JNull | Some v \<Rightarrow> v)"

definition page_check :: "plugin_host \<Rightarrow> approved_tool \<Rightarrow> json \<Rightarrow> dict \<Rightarrow> exn + unit" where
  "page_check h t args d =
     andthen (assert_builtin_meta (dget d ''meta''))
       (\<lambda>_. case trender t of None \<Rightarrow> Inl page_error
            | Some r \<Rightarrow> validate_page (RENDERERS (shown_of h)) r args (dget d ''value''))"

text \<open>What a success has passed, with the rendered content and meta it carries.\<close>

definition accepted :: "plugin_host \<Rightarrow> approved_tool \<Rightarrow> json \<Rightarrow> dict \<Rightarrow> json \<Rightarrow> json \<Rightarrow> bool" where
  "accepted h t args d content meta \<longleftrightarrow>
     fits (dget d ''value'') (limit t ''max_value_bytes'') \<and>
     call_check (output_check t) (dget d ''value'') = Inr () \<and> page_check h t args d = Inr () \<and>
     render (RENDERERS (shown_of h)) (the (trender t)) args (dget d ''value'') = Inr (content, meta) \<and>
     (\<exists>m. measure_result args (dget d ''value'') content meta = Inr m \<and>
        int (m_content m) \<le> limit t ''max_content_bytes'' \<and> int (m_meta m) \<le> limit t ''max_meta_bytes'')"

definition OUTPUT_CODES :: "string list" where
  "OUTPUT_CODES = [''invalid_tool_output'', ''output_too_large''] @ RENDER_FAILURES"

lemma accept_v2_cases:
  obtains (failed) code where "accept_v2 h t args reply = host_failure (shown_of h) code (inv_wall_ms reply)"
      "code \<in> set OUTPUT_CODES"
  | (by_path) path rule where
      "accept_v2 h t args reply = v2_instance_failure (shown_of h) ''invalid_tool_output'' path rule (inv_wall_ms reply)"
      "call_check (output_check t) (dget (payload reply) ''value'') = Inl (InstanceError path rule)"
      "J_domain (dget (payload reply) ''value'')"
  | (check_raises) e where "call_check (output_check t) (dget (payload reply) ''value'') = Inl e" "\<forall>p r. e \<noteq> InstanceError p r"
      "J_domain (dget (payload reply) ''value'')"
  | (page_raises) e where "page_check h t args (payload reply) = Inl e" "\<forall>r. e \<noteq> ToolResultError r \<and> e \<noteq> ToolPageError r"
      "J_domain (dget (payload reply) ''value'')"
  | (render_raises) e where "render (RENDERERS (shown_of h)) (the (trender t)) args (dget (payload reply) ''value'') = Inl e"
      "\<forall>r. e \<noteq> RendererError r"
  | (measure_raises) content meta e where "measure_result args (dget (payload reply) ''value'') content meta = Inl e"
      "\<forall>r. e \<noteq> ToolResultError r"
  | (succeeded) content meta where "accepted h t args (payload reply) content meta"
      "accept_v2 h t args reply = v2_success (dget (payload reply) ''value'') content meta (inv_wall_ms reply)"
proof -
  let ?v = "dget (payload reply) ''value''"
  note unfolded = accept_v2_def[of h t args reply, unfolded Let_def, folded payload_def page_check_def]
  have codes: "''invalid_tool_output'' \<in> set OUTPUT_CODES" "''output_too_large'' \<in> set OUTPUT_CODES"
    "(if why \<in> set RENDER_FAILURES then why else ''render_failed'') \<in> set OUTPUT_CODES" for why
    by (simp_all add: OUTPUT_CODES_def RENDER_FAILURES_def)
  show ?thesis
  proof (cases "fits ?v (limit t ''max_value_bytes'')")
    case False
    then show ?thesis using codes unfolded failed by (auto simp: fits_def split: sum.splits)
  next
    case True
    then obtain b where b: "compact_json ?v = Inr b" "\<not> int (length b) > limit t ''max_value_bytes''"
      by (auto simp: fits_def split: sum.splits)
    then have dom: "J_domain ?v" by (simp add: compact_json_iff)
    note u1 = unfolded[unfolded b(1) sum.case if_not_P[OF b(2)]]
    show ?thesis
    proof (cases "call_check (output_check t) ?v")
      case (Inl e)
      then show ?thesis using u1 check_raises[OF Inl _ dom] by_path[OF _ _ dom]
        by (cases e) auto
    next
      case (Inr z)
      then have ok: "call_check (output_check t) ?v = Inr ()" by simp
      note u2 = u1[unfolded ok sum.case]
      show ?thesis
      proof (cases "page_check h t args (payload reply)")
        case (Inl e)
        then show ?thesis using u2 page_raises[OF Inl] failed[of "''invalid_tool_output''"] codes dom by (cases e) auto
      next
        case (Inr z)
        then have page_ok: "page_check h t args (payload reply) = Inr ()" by simp
        note u3 = u2[unfolded page_ok sum.case]
        show ?thesis
        proof (cases "render (RENDERERS (shown_of h)) (the (trender t)) args ?v")
          case (Inl e)
          then show ?thesis
            using u3 render_raises[OF Inl] failed[of "if _ \<in> set RENDER_FAILURES then _ else ''render_failed''"] codes
            by (cases e) auto
        next
          case (Inr cm)
          then obtain content meta where cm: "render (RENDERERS (shown_of h)) (the (trender t)) args ?v = Inr (content, meta)"
            by (cases cm) auto
          note u4 = u3[unfolded cm sum.case prod.case]
          show ?thesis
          proof (cases "measure_result args ?v content meta")
            case (Inl e)
            then show ?thesis using u4 measure_raises[OF Inl] failed[of "''invalid_tool_output''"] codes by (cases e) auto
          next
            case (Inr m)
            show ?thesis
            proof (cases "int (m_content m) \<le> limit t ''max_content_bytes'' \<and> int (m_meta m) \<le> limit t ''max_meta_bytes''")
              case True
              with Inr have "accepted h t args (payload reply) content meta"
                using \<open>fits _ _\<close> ok page_ok cm by (auto simp: accepted_def)
              then show ?thesis using u4 Inr True by (intro succeeded) auto
            next
              case False
              then show ?thesis using u4 Inr codes by (intro failed[of "''output_too_large''"]) auto
            qed
          qed
        qed
      qed
    qed
  qed
qed

lemma only_page: "only (\<lambda>e. e = page_error) (ensure b)"
  by (simp add: ensure_def only_def require_def)

lemma split_on_scalar: "scalar_str s \<Longrightarrow> l \<in> set (split_on sep s) \<Longrightarrow> scalar_str l"
proof -
  have "\<forall>l \<in> set (split_on sep s). set l \<subseteq> set s"
    by (induction s) (auto split: list.splits if_splits)
  then show "scalar_str s \<Longrightarrow> l \<in> set (split_on sep s) \<Longrightarrow> scalar_str l" by (force simp: scalar_str_def)
qed

lemma safe_domain_only: "only (\<lambda>e. e = page_error) (safe_domain_loop vs)"
  by (induction vs rule: safe_domain_loop.induct) (auto intro: only_intros)

lemma check_page_only:
  assumes "J_domain (JObj d)"
  shows "only (\<lambda>e. e = page_error) (check_read d offset n)"
    "only (\<lambda>e. e = page_error) (check_list d offset n)"
    "only (\<lambda>e. e = page_error) (check_search d offset n)"
    "only (\<lambda>e. e = page_error) (check_text d n)"
proof -
  have "scalar_str (the_str (dget d ''text''))"
    using domain_dget[OF assms, of "''text''"] by (cases "dget d ''text''") auto
  then have line: "only (\<lambda>e. e = page_error) (check_line l)" if "l \<in> set (split_on 10 (the_str (dget d ''text'')))" for l
    using split_on_scalar[OF _ that] by (simp add: check_line_def only_page)
  show "only (\<lambda>e. e = page_error) (check_read d offset n)"
    unfolding check_read_def check_empty_read_def check_cursor_def Let_def
    by (intro only_intros only_page line)
  show "only (\<lambda>e. e = page_error) (check_list d offset n)"
    unfolding check_list_def check_entry_def check_cursor_def Let_def
    by (intro only_intros only_page only_json_case refl)
  show "only (\<lambda>e. e = page_error) (check_search d offset n)"
    "only (\<lambda>e. e = page_error) (check_text d n)"
    unfolding check_search_def check_text_def check_cursor_def Let_def
    by (intro only_intros only_page)+
qed

lemma validate_page_only:
  assumes "J_domain value"
  shows "only (\<lambda>e. e = page_error) (validate_page renderers r args value)"
proof (cases "is_dict value")
  case True
  then obtain d where "value = JObj d" by (cases "value") auto
  with assms show ?thesis
    unfolding validate_page_def check_safe_domain_def check_args_def Let_def
    by (auto intro!: only_intros only_page safe_domain_only check_page_only split: page_kind.split)
next
  case False
  then show ?thesis
    unfolding validate_page_def
    by (intro only_intros only_page refl) (simp_all add: ensure_def require_def)
qed

lemma render_only: "only (\<lambda>e. \<exists>r. e = RendererError r) (render renderers r args value)"
  unfolding render_def lookup_renderer_def render_failed_def validate_result_def Let_def
  by (intro only_intros) auto

lemma measure_only: "only envelope_error (measure_result args value content meta)"
  unfolding measure_result_def json_bytes_def frame_bytes_def by (intro only_intros envelope_errors)

lemma page_check_only:
  "J_domain (dget d ''value'') \<Longrightarrow>
     only (\<lambda>e. (\<exists>r. e = ToolResultError r) \<or> (\<exists>r. e = ToolPageError r)) (page_check h t args d)"
  unfolding page_check_def assert_builtin_meta_def
  by (intro only_intros only_mono[OF validate_page_only]) (auto simp: page_error_def invalid_output_def)

section \<open>Every call is settled\<close>

definition v2_tool :: "(json \<Rightarrow> pystr) \<Rightarrow> approved_tool \<Rightarrow> bool" where
  "v2_tool shown t \<longleftrightarrow> tool_ok shown t \<and> descriptor_ok (tdescriptor t) (Some (tkey t)) (RENDERERS shown)"

definition tool_schema :: "approved_tool \<Rightarrow> string \<Rightarrow> json" where
  "tool_schema t name = dget (items (dget (items (tdescriptor t)) ''tool'')) name"

lemma v2_tool_checks:
  assumes "v2_tool shown t"
  shows "parameters_check t = Some (\<lambda>v. validate_instance (tool_schema t ''parameters'') v (lit ''$''))"
    "output_check t = Some (\<lambda>v. validate_instance (tool_schema t ''output_schema'') v (lit ''$''))"
    "supported (tool_schema t ''parameters'')" "supported (tool_schema t ''output_schema'')"
    "J_domain (tool_schema t name)"
  using assms domain_dget[OF domain_dget[of "tdescriptor t" "''tool''"], of name]
  by (auto simp: v2_tool_def tool_ok_def descriptor_ok_def tool_schema_def Let_def within_limits_def)

lemma call_check_Inl:
  assumes "call_check c v = Inl e" "c = Some (\<lambda>v. validate_instance s v (lit ''$''))" "supported s" "J_domain s" "J_domain v"
  shows "\<exists>path rule. e = InstanceError path rule \<and> rule \<in> set INSTANCE_RULES"
proof -
  have "instance_failure (lit ''$'') e"
    using assms by (intro validate_instance_Inl[of s v]) (simp_all add: call_check_def)
  then show ?thesis by (auto simp: instance_failure_def split: exn.splits)
qed

lemma codes_ok: "code \<in> set (OUTPUT_CODES @ [''invalid_tool_arguments'', ''workspace_unavailable'', ''lease_insufficient'']) \<Longrightarrow>
    code_pattern (lit code)"
proof -
  have "list_all (\<lambda>c. code_pattern (lit c)) (OUTPUT_CODES @ [''invalid_tool_arguments'', ''workspace_unavailable'', ''lease_insufficient''])"
    by (simp add: OUTPUT_CODES_def RENDER_FAILURES_def code_pattern_def lit_def is_lower_def is_digit_def)
  then show "code \<in> set (OUTPUT_CODES @ [''invalid_tool_arguments'', ''workspace_unavailable'', ''lease_insufficient'']) \<Longrightarrow>
    code_pattern (lit code)" unfolding list_all_iff by blast
qed

lemma validate_result_Inr:
  assumes "validate_result (content, meta) = Inr q"
  shows "q = (content, meta) \<and> is_list content \<and> 1 \<le> length (elems content) \<and> length (elems content) \<le> 16 \<and>
    (\<forall>b \<in> set (elems content). block_ok b) \<and> is_dict meta \<and> J_domain content \<and> J_domain meta"
  using assms
  by (auto simp: validate_result_def Let_def run_simps compact_json_iff simp del: steps.simps each.simps split: sum.splits)

lemma block_ok_text: "block_ok b \<Longrightarrow> text_block_ok b"
  by (cases b) (auto simp: block_ok_def text_block_ok_def)

lemma rendered_content:
  assumes "render renderers r args v = Inr (content, meta)"
  shows "assert_content content = Inr () \<and> assert_meta meta = Inr () \<and> is_dict meta"
proof -
  from assms obtain e :: renderer where "(case fn e args v of Inl _ \<Rightarrow> Inl render_failed | Inr x \<Rightarrow> validate_result x) = Inr (content, meta)"
    by (auto simp: render_def andthen_Inr)
  then obtain c m where "validate_result (c, m) = Inr (content, meta)" by (cases "fn e args v") auto
  from validate_result_Inr[OF this] have "content = c" "meta = m" "is_list c" "1 \<le> length (elems c)" "length (elems c) \<le> 16"
    "\<forall>b \<in> set (elems c). text_block_ok b" "is_dict m" "assert_jsonable c = Inr ()" "assert_jsonable m = Inr ()"
    by (auto simp: jsonable_iff block_ok_text)
  then show ?thesis
    by (simp add: assert_content_def assert_meta_def run_simps MAX_CONTENT_BLOCKS_def del: steps.simps each.simps)
qed

lemma success_dispatched:
  assumes "assert_content content = Inr ()" "assert_meta meta = Inr ()" "is_dict meta" "J_domain v" "wall_ok wall"
  shows "v2_success v content meta wall = Inr (Dispatch ''success''
    (v2_result ''ok'' (JObj [(lit ''value'', v), (lit ''content'', content), (lit ''meta'', meta)]) wall)
    (JStr (join [10] (map (\<lambda>b. the_str (dget (items b) ''text'')) (elems content)))))"
proof -
  have m: "default_meta meta = meta" using assms(3) by (auto simp: default_meta_def)
  have out: "assert_success_output (JObj [(lit ''value'', v), (lit ''content'', content), (lit ''meta'', meta)]) = Inr ()"
    using assms(1,2,4) jsonable_iff[of v]
    by (simp add: assert_success_output_def dict_eval keys_are_def keys_def require_def meta_if_present_def)
  show ?thesis
    using success_dispatch[OF out assms(5)] out assms(1)
    by (simp add: v2_success_def success_output_def Let_def m join_content_def)
qed

lemma v2_success_Inr: "v2_success v content meta wall = Inr a \<Longrightarrow> dispatched (Inr a)"
  by (auto simp: v2_success_def run_simps dest: v2_dispatch_Inr)

lemma accepted_domain: "accepted h t args d content meta \<Longrightarrow> J_domain (dget d ''value'')"
  by (auto simp: accepted_def fits_def compact_json_iff split: sum.splits)

lemma accept_v2_dispatched:
  assumes "v2_tool (shown_of h) t" "wall_ok (inv_wall_ms reply)"
  shows "dispatched (accept_v2 h t args reply)"
proof (cases rule: accept_v2_cases[of h t args reply])
  case (failed code)
  then show ?thesis using host_failure_dispatched[OF codes_ok assms(2)] by simp
next
  case (by_path path rule)
  then have "rule \<in> set INSTANCE_RULES"
    using call_check_Inl[OF by_path(2) v2_tool_checks(2)[OF assms(1)] v2_tool_checks(4)[OF assms(1)]
        v2_tool_checks(5)[OF assms(1)]] by auto
  then show ?thesis
    unfolding by_path(1) by (intro instance_failure_dispatched assms(2) codes_ok) (simp add: OUTPUT_CODES_def)
next
  case (check_raises e)
  then show ?thesis
    using call_check_Inl[OF check_raises(1) v2_tool_checks(2)[OF assms(1)] v2_tool_checks(4)[OF assms(1)]
        v2_tool_checks(5)[OF assms(1)]] by auto
next
  case (page_raises e)
  then show ?thesis using page_check_only[of "payload reply" h t args] by (auto simp: only_def)
next
  case (render_raises e)
  then show ?thesis
    using render_only[of "RENDERERS (shown_of h)" "the (trender t)" args "dget (payload reply) ''value''"] by (auto simp: only_def)
next
  case (measure_raises content meta e)
  then show ?thesis
    using measure_only[of args "dget (payload reply) ''value''" content meta] by (auto simp: only_def envelope_error_def)
next
  case (succeeded content meta)
  from succeeded(1) have "render (RENDERERS (shown_of h)) (the (trender t)) args (dget (payload reply) ''value'') = Inr (content, meta)"
    by (simp add: accepted_def)
  from rendered_content[OF this] success_dispatched[OF _ _ _ accepted_domain[OF succeeded(1)] assms(2), of content meta]
  show ?thesis unfolding succeeded(2) using v2_success_Inr by auto
qed

lemma error_parts:
  assumes "assert_error e = Inr ()"
  shows "\<exists>c m. dget_or (items e) ''code'' z = JStr c \<and> dget_or (items e) ''message'' z' = JStr m \<and> scalar_str c \<and> scalar_str m \<and>
    assert_error (error_object (JStr c) (JStr m)) = Inr ()"
proof -
  obtain d where e: "e = JObj d" using assms by (cases e) (auto simp: assert_error_def)
  have p: "keys_are d [''code'', ''message'']" "is_str (dget d ''code'')" "code_pattern (the_str (dget d ''code''))"
    "is_str (dget d ''message'')" "clean_message (the_str (dget d ''message''))"
    using assms by (auto simp: assert_error_def e Let_def run_simps clean_message_def simp del: steps.simps)
  then have "has d ''code''" "has d ''message''" by (simp_all add: keys_are_has)
  then have "dget_or d ''code'' z = JStr (the_str (dget d ''code''))" "dget_or d ''message'' z' = JStr (the_str (dget d ''message''))"
    using p by (cases "dget d ''code''"; cases "dget d ''message''"; simp add: dget_dget_or)+
  with p error_ok code_scalar show ?thesis by (auto simp: e clean_message_def)
qed

lemma finish_v2_dispatched:
  assumes "v2_tool (shown_of h) t" "v2_answer_ok operation reply" "wall_ok (inv_wall_ms reply)"
  shows "dispatched (finish_v2 h t args reply)"
proof -
  consider "class_name reply = ''unknown''" "reason reply \<in> Some ` lit ` set UNKNOWN_REASONS"
    | e where "class_name reply = ''failure''" "result reply = Some e" "assert_error e = Inr ()"
    | "class_name reply = ''success''"
    using assms(2) by (auto simp: v2_answer_ok_def split: option.splits)
  then show ?thesis
  proof cases
    case 1
    then show ?thesis using v2_unknown_dispatched[OF 1(2) assms(3)] by (simp add: finish_v2_def)
  next
    case 2
    obtain c m where cm: "dget_or (items e) ''code'' (jstr ''unknown'') = JStr c" "dget_or (items e) ''message'' (JStr []) = JStr m"
      "scalar_str c" "scalar_str m" "assert_error (error_object (JStr c) (JStr m)) = Inr ()"
      using error_parts[OF 2(3)] by blast
    have "finish_v2 h t args reply = v2_failure (shown_of h) (JStr c) (JStr m) (inv_wall_ms reply)"
      by (simp add: finish_v2_def 2(1,2) cm(1,2))
    then show ?thesis using v2_failure_dispatched[OF cm(5,3,4) assms(3)] by simp
  next
    case 3
    then show ?thesis using accept_v2_dispatched[OF assms(1,3)] by (simp add: finish_v2_def)
  qed
qed

lemma wall_zero: "wall_ok 0"
  by (simp add: wall_ok_def SAFE_INTEGER_MAX_def)

definition ARTIFACT_REASONS :: "string list" where
  "ARTIFACT_REASONS =
     [''artifact_missing'', ''artifact_outside_cwd'', ''artifact_unreadable'', ''artifact_not_regular'',
      ''artifact_digest_mismatch'']"

lemma require_artifact_Inl:
  "require_artifact f e = Inl x \<Longrightarrow> x = OSError \<or> (\<exists>r \<in> set ARTIFACT_REASONS. x = AdapterNotFound r)"
  by (auto simp: require_artifact_def ARTIFACT_REASONS_def split: option.splits if_splits bool.splits)

lemma admit_v2_cases:
  assumes "v2_tool (shown_of h) t"
  obtains (early) a where "admit_v2 h effect p t args = Inr (Some a)" "dispatched (Inr a)"
  | (admitted) "admit_v2 h effect p t args = Inr None" "fits args (limit t ''max_args_bytes'')"
      "call_check (parameters_check t) args = Inr ()" "require_artifact (disk h) p = Inr ()"
      "root_available (disk h) p" "lease_covers h effect t"
  | (artifact) e where "admit_v2 h effect p t args = Inl e" "require_artifact (disk h) p = Inl e"
proof -
  have host: "\<exists>a. andthen (host_failure (shown_of h) code 0) (\<lambda>a. Inr (Some a)) = Inr (Some a) \<and> dispatched (Inr a)"
    if "code \<in> {''invalid_tool_arguments'', ''workspace_unavailable'', ''lease_insufficient''}" for code
  proof -
    have "dispatched (host_failure (shown_of h) code 0)"
      using that by (intro host_failure_dispatched codes_ok wall_zero) auto
    then show ?thesis by (auto simp: dispatched_def)
  qed
  show ?thesis
  proof (cases "fits args (limit t ''max_args_bytes'')")
    case False
    then show ?thesis using host[of "''invalid_tool_arguments''"] early by (auto simp: admit_v2_def)
  next
    case True
    then have dom: "J_domain args" by (auto simp: fits_def compact_json_iff split: sum.splits)
    show ?thesis
    proof (cases "call_check (parameters_check t) args")
      case (Inl e)
      obtain path rule where e: "e = InstanceError path rule" "rule \<in> set INSTANCE_RULES"
        using call_check_Inl[OF Inl v2_tool_checks(1,3,5)[OF assms] dom] by blast
      have "dispatched (v2_instance_failure (shown_of h) ''invalid_tool_arguments'' path rule 0)"
        by (intro instance_failure_dispatched codes_ok wall_zero e) simp
      with True Inl e early show ?thesis by (auto simp: admit_v2_def dispatched_def)
    next
      case (Inr z)
      then show ?thesis
        using True host[of "''workspace_unavailable''"] host[of "''lease_insufficient''"] early admitted artifact
        by (cases "require_artifact (disk h) p"; cases "root_available (disk h) p"; cases "lease_covers h effect t")
           (auto simp: admit_v2_def)
    qed
  qed
qed

section \<open>The whole call\<close>

lemma fix_up_adapter: "code_pattern (lit r) \<Longrightarrow> dispatched (recover_dispatch shown (Inl (AdapterNotFound r)))"
  by (simp add: recover_dispatch_def host_failure_dispatched wall_zero)

definition PREFLIGHT_REASONS :: "string list" where
  "PREFLIGHT_REASONS = [''bad_request'', ''tool_not_approved'', ''spawn_failed'']"

lemma reasons_ok:
  "r \<in> set (ARTIFACT_REASONS @ PREFLIGHT_REASONS) \<Longrightarrow> code_pattern (lit r)"
proof -
  have "list_all (\<lambda>r. code_pattern (lit r)) (ARTIFACT_REASONS @ PREFLIGHT_REASONS)"
    by (simp add: ARTIFACT_REASONS_def PREFLIGHT_REASONS_def code_pattern_def lit_def is_lower_def is_digit_def)
  then show "r \<in> set (ARTIFACT_REASONS @ PREFLIGHT_REASONS) \<Longrightarrow> code_pattern (lit r)" unfolding list_all_iff by blast
qed

definition known_preflight :: "exn \<Rightarrow> bool" where
  "known_preflight e \<longleftrightarrow> (\<exists>r \<in> set PREFLIGHT_REASONS. e = LineJsonPreflight r)"

lemma build_frame_v2_known: "only known_preflight (build_frame_v2 operation reservation args tool)"
  unfolding build_frame_v2_def
  by (intro only_intros only_handled) (simp_all add: known_preflight_def PREFLIGHT_REASONS_def bad_request_def)

context process_runner
begin

lemma run_v2_known: "only known_preflight (run_v2 rp host_env p operation reservation args tool)"
proof -
  have "only known_preflight (spawn rp s)" for s
    unfolding spawn_def by (rule only_handled) (auto dest: raises_before_start simp: known_preflight_def PREFLIGHT_REASONS_def)
  moreover have "only known_preflight (spec_v2 host_env p operation tool frame)" for frame
    unfolding spec_v2_def by (intro only_intros) (simp_all add: known_preflight_def PREFLIGHT_REASONS_def)
  ultimately show ?thesis unfolding run_v2_def by (intro only_intros build_frame_v2_known)
qed

lemma tool_v2_settled:
  assumes host: "process h = rp" and tool: "v2_tool (shown_of h) t" and p: "protocol p = 2"
    and m: "match_tool (shown_of h) (approvals h) install pin key = Inr (e, t)"
    and id: "has effect ''effect_id''"
    and short: "\<And>s r. rp s = Inr r \<Longrightarrow> wall_ms r \<le> SAFE_INTEGER_MAX"
  shows "dispatched (fst (tool_v2 h last_inv effect p install pin key args)) \<or>
    fst (tool_v2 h last_inv effect p install pin key args) = Inl OSError"
  using tool
proof (cases rule: admit_v2_cases[of h t effect p args])
  case (early a)
  then show ?thesis by (simp add: tool_v2_def m Let_def)
next
  case (artifact x)
  then show ?thesis
    using require_artifact_Inl[OF artifact(2)] fix_up_adapter reasons_ok
    by (auto simp: tool_v2_def m Let_def) (simp_all add: recover_dispatch_def)?
next
  case admitted
  let ?run = "run_v2 rp (environ h) p ''invoke'' (JStr (lit ''v24:tool_call:'' @ py_str (shown_of h) (dget effect ''effect_id''))) args (Some key)"
  have run: "andthen (tool_reservation h effect) (\<lambda>reservation.
      run (float_of h) (process h) (environ h) (Plugin p) ''invoke'' (JStr reservation) args (Some key)) = ?run"
    using id by (simp add: tool_reservation_def run_def p host)
  show ?thesis
  proof (cases ?run)
    case (Inl x)
    then obtain r where "x = LineJsonPreflight r" "r \<in> set PREFLIGHT_REASONS"
      using run_v2_known[of "environ h" p "''invoke''" _ args "Some key"] by (metis known_preflight_def onlyD)
    then show ?thesis
      using reasons_ok[of r]
      by (simp add: tool_v2_def m Let_def admitted run Inl recover_dispatch_def host_failure_dispatched wall_zero)
  next
    case (Inr reply)
    have "v2_answer_ok ''invoke'' reply" "wall_ok (inv_wall_ms reply)"
      using run_v2_answer[OF Inr] run_v2_wall[OF Inr] short by (auto simp: wall_ok_def)
    from finish_v2_dispatched[OF tool this, of args] obtain c a b
      where "finish_v2 h t args reply = Inr (Dispatch c a b)" "returns (dispatch_result (lit c) a b)"
      by (auto simp: dispatched_def)
    then show ?thesis by (simp add: tool_v2_def m Let_def admitted run Inr recover_dispatch_def dispatched_def)
  qed
qed

end

lemma plugin_tools:
  assumes "plugin_ok shown p" "match_tool shown r install pin key = Inr (Plugin p, t)"
  shows "v2_tool shown t \<and> protocol p = 2 \<and> tool_for p key = Some t"
proof -
  have "tool_for p key = Some t"
    using assms(2) by (auto simp: match_tool_def tool_of_entry_def run_simps split: if_splits option.splits)
  moreover from this have "t \<in> set (tools p)" by (auto simp: tool_for_def find_Some_iff)
  ultimately show ?thesis using assms(1) by (auto simp: plugin_ok_def v2_tool_def)
qed

text \<open>C2: once a call is matched to a tool of an approved plugin it is settled: whatever the plugin's
  process does, the answer is an envelope that the constructor of the dispatch result accepts. The
  only exception left is the error of reading the artifact's file.\<close>

theorem tool_v2_settles:
  assumes "process h = run_process w" "\<forall>s. elapsed_ms w s \<le> SAFE_INTEGER_MAX" "plugin_ok (shown_of h) p"
    "match_tool (shown_of h) (approvals h) install pin key = Inr (Plugin p, t)" "has effect ''effect_id''"
  shows "dispatched (fst (tool_v2 h last_inv effect p install pin key args)) \<or>
    fst (tool_v2 h last_inv effect p install pin key args) = Inl OSError"
proof -
  note p = plugin_tools[OF assms(3,4)]
  have "run_process w s = Inr r \<Longrightarrow> wall_ms r \<le> SAFE_INTEGER_MAX" for s r
    using assms(2) by (auto simp: run_process_def run_simps Let_def SAFE_INTEGER_MAX_def split: option.splits)
  with p assms show ?thesis by (intro runner.tool_v2_settled) auto
qed

section \<open>What a success means\<close>

lemma failure_class: "v2_failure shown code message wall = Inr (Dispatch c r t) \<Longrightarrow> c = ''failure''"
  by (auto simp: v2_failure_def run_simps Let_def dest: v2_dispatch_Inr)

lemma other_classes:
  "host_failure shown code wall = Inr (Dispatch c r t) \<Longrightarrow> c = ''failure''"
  "v2_instance_failure shown code path rule wall = Inr (Dispatch c r t) \<Longrightarrow> c = ''failure''"
  "v2_unknown reply = Inr (Dispatch c r t) \<Longrightarrow> c = ''unknown''"
  "recover_dispatch shown (Inl e) = Inr (Dispatch c r t) \<Longrightarrow> c = ''failure''"
     apply (auto simp: host_failure_def dest: failure_class)[1]
    apply (auto simp: v2_instance_failure_def Let_def split: sum.splits exn.splits dest: failure_class)[1]
   apply (auto simp: v2_unknown_def run_simps Let_def dest: v2_dispatch_Inr)[1]
  apply (auto simp: recover_dispatch_def host_failure_def split: exn.splits dest: failure_class)[1]
  done

lemma early_class: "admit_v2 h effect p t args = Inr (Some (Dispatch c r x)) \<Longrightarrow> c = ''failure''"
  by (auto simp: admit_v2_def run_simps Let_def split: if_splits sum.splits exn.splits dest: other_classes)

lemma finish_v2_success:
  assumes "finish_v2 h t args reply = Inr (Dispatch ''success'' r x)"
  obtains content meta where "accepted h t args (payload reply) content meta"
    "v2_success (dget (payload reply) ''value'') content meta (inv_wall_ms reply) = Inr (Dispatch ''success'' r x)"
proof -
  have a: "accept_v2 h t args reply = Inr (Dispatch ''success'' r x)"
    using assms by (auto simp: finish_v2_def Let_def split: if_splits dest: other_classes failure_class)
  show ?thesis
  proof (cases rule: accept_v2_cases[of h t args reply])
    case (succeeded content meta)
    then show ?thesis using that a by simp
  next
    case (check_raises e)
    have "J_domain (dget (payload reply) ''value'')" by (rule check_raises(3))
    then obtain b where "compact_json (dget (payload reply) ''value'') = Inr b" using compact_json_iff by blast
    then show ?thesis
      using a check_raises(1,2)
      by (auto simp: accept_v2_def Let_def payload_def split: if_splits exn.splits dest: other_classes)
  next
    case (page_raises e)
    then show ?thesis using page_check_only[of "payload reply" h t args] by (auto simp: only_def)
  next
    case (render_raises e)
    then show ?thesis
      using render_only[of "RENDERERS (shown_of h)" "the (trender t)" args "dget (payload reply) ''value''"] by (auto simp: only_def)
  next
    case (measure_raises content meta e)
    then show ?thesis
      using measure_only[of args "dget (payload reply) ''value''" content meta] by (auto simp: only_def envelope_error_def)
  next
    case (failed code)
    from other_classes(1)[OF failed(1)[symmetric, unfolded a]] show ?thesis by simp
  next
    case (by_path path rule)
    from other_classes(2)[OF by_path(1)[symmetric, unfolded a]] show ?thesis by simp
  qed
qed

lemma v2_success_parts:
  assumes "v2_success v content meta wall = Inr (Dispatch c r x)" "is_dict meta"
  shows "r = v2_result ''ok'' (JObj [(lit ''value'', v), (lit ''content'', content), (lit ''meta'', meta)]) wall \<and>
    x = JStr (join [10] (map (\<lambda>b. the_str (dget (items b) ''text'')) (elems content)))"
  using assms
  by (auto simp: v2_success_def success_output_def join_content_def default_meta_def run_simps Let_def dest!: v2_dispatch_Inr)

lemma measured_fits:
  assumes "measure_result args v content meta = Inr m" "is_dict meta"
    "int (m_content m) \<le> a" "int (m_meta m) \<le> b"
  shows "fits content a \<and> fits meta b"
  using assms by (auto simp: measure_result_def json_bytes_def run_simps fits_def default_meta_def split: sum.splits if_splits)

text \<open>A success the dispatcher may report: the tool is approved, its arguments and its value pass the
  approved schemas, the page relations hold, the text is what the approved renderer makes of the
  value, and every part is within the limits of the descriptor.\<close>

definition approved_success :: "plugin_host \<Rightarrow> approved_tool \<Rightarrow> json \<Rightarrow> json \<Rightarrow> json \<Rightarrow> json \<Rightarrow> bool" where
  "approved_success h t args v content meta \<longleftrightarrow>
     validate_instance (tool_schema t ''parameters'') args (lit ''$'') = Inr () \<and>
     validate_instance (tool_schema t ''output_schema'') v (lit ''$'') = Inr () \<and>
     fits args (limit t ''max_args_bytes'') \<and> fits v (limit t ''max_value_bytes'') \<and>
     fits content (limit t ''max_content_bytes'') \<and> fits meta (limit t ''max_meta_bytes'') \<and>
     (\<exists>ref. trender t = Some ref \<and> validate_page (RENDERERS (shown_of h)) ref args v = Inr () \<and>
        render (RENDERERS (shown_of h)) ref args v = Inr (content, meta))"

text \<open>C1: a success is reported only for an approved tool whose artifact, workspace root and lease were
  checked before the spawn; arguments and value pass the approved schemas, the value satisfies the
  page relations, the content is the approved renderer's and every part is within its limit. The
  result and the model's text are those of exactly this value and content.\<close>

theorem tool_v2_success_safe:
  assumes "plugin_ok (shown_of h) p"
    "tool_v2 h last_inv effect p install pin key args = (Inr (Dispatch ''success'' r text), reply)"
    "match_tool (shown_of h) (approvals h) install pin key = Inr (Plugin p, t)"
  shows "\<exists>v content meta wall. approved_success h t args v content meta \<and>
    r = v2_result ''ok'' (JObj [(lit ''value'', v), (lit ''content'', content), (lit ''meta'', meta)]) wall \<and>
    text = JStr (join [10] (map (\<lambda>b. the_str (dget (items b) ''text'')) (elems content))) \<and>
    require_artifact (disk h) p = Inr () \<and> root_available (disk h) p \<and> lease_covers h effect t"
proof -
  note tool = plugin_tools[OF assms(1,3), THEN conjunct1]
  note checks = v2_tool_checks[OF tool]
  from tool show ?thesis
  proof (cases rule: admit_v2_cases[of h t effect p args])
    case (early a)
    then show ?thesis using assms(2,3) early_class by (fastforce simp: tool_v2_def Let_def)
  next
    case (artifact e)
    then show ?thesis using assms(2,3) other_classes(4) by (fastforce simp: tool_v2_def Let_def)
  next
    case admitted
    from assms(2) obtain i where i: "recover_dispatch (shown_of h) (finish_v2 h t args i) = Inr (Dispatch ''success'' r text)"
      by (auto simp: tool_v2_def Let_def assms(3) admitted(1) split: sum.splits dest: other_classes)
    have "finish_v2 h t args i = Inr (Dispatch ''success'' r text)"
    proof (cases "finish_v2 h t args i")
      case (Inl e)
      then show ?thesis using i other_classes(4) by fastforce
    next
      case (Inr a)
      then show ?thesis using i by (simp add: recover_dispatch_def)
    qed
    from finish_v2_success[OF this] obtain content meta where acc: "accepted h t args (payload i) content meta"
      and out: "v2_success (dget (payload i) ''value'') content meta (inv_wall_ms i) = Inr (Dispatch ''success'' r text)" .
    let ?v = "dget (payload i) ''value''"
    from acc obtain ref m where ref: "trender t = Some ref" "validate_page (RENDERERS (shown_of h)) ref args ?v = Inr ()"
        "render (RENDERERS (shown_of h)) ref args ?v = Inr (content, meta)"
      and m: "measure_result args ?v content meta = Inr m" "int (m_content m) \<le> limit t ''max_content_bytes''"
        "int (m_meta m) \<le> limit t ''max_meta_bytes''"
      and v: "fits ?v (limit t ''max_value_bytes'')" "call_check (output_check t) ?v = Inr ()"
      by (auto simp: accepted_def page_check_def run_simps split: option.splits)
    have meta: "is_dict meta" using rendered_content[OF ref(3)] by simp
    have "approved_success h t args ?v content meta"
      using ref v admitted(2,3) measured_fits[OF m(1) meta m(2,3)] by (simp add: approved_success_def checks call_check_def)
    with v2_success_parts[OF out meta] admitted show ?thesis by blast
  qed
qed

section \<open>Paged reads\<close>

text \<open>A source that serves its rows in pages: \<open>rest c\<close> are the rows after the cursor \<open>c\<close>, and a page
  that announces more is not empty and names the cursor to go on from.\<close>

definition pages_of :: "string \<Rightarrow> (json \<Rightarrow> exn + json) \<Rightarrow> json set \<Rightarrow> (json \<Rightarrow> json list) \<Rightarrow> bool" where
  "pages_of k fetch cursors rest \<longleftrightarrow>
     JNull \<in> cursors \<and>
     (\<forall>c \<in> cursors. \<exists>d xs. fetch c = Inr (JObj d) \<and> \<not> is_dict (dget d ''error'') \<and>
        dget_or d ''items'' (JArr []) = JArr xs \<and> list_all is_dict xs \<and>
        (if truthy (dget d ''has_more'')
         then xs \<noteq> [] \<and> is_dict (dget d ''next_cursor'') \<and> has (items (dget d ''next_cursor'')) k \<and>
           dget (items (dget d ''next_cursor'')) k \<in> cursors \<and>
           rest c = xs @ rest (dget (items (dget d ''next_cursor'')) k)
         else rest c = xs))"

definition lookup_row :: "(json \<Rightarrow> pystr) \<Rightarrow> string \<Rightarrow> string \<Rightarrow> pystr \<Rightarrow> json list \<Rightarrow> exn + json" where
  "lookup_row shown noun k wanted rows =
     (case find (\<lambda>row. py_str shown (dget (items row) k) = wanted) rows of
        Some row \<Rightarrow> Inr row
      | None \<Rightarrow> Inl (PluginError (noun @ ''_not_found'')))"

lemma search_items_find:
  "list_all is_dict xs \<Longrightarrow>
     search_items shown k wanted xs = Inr (find (\<lambda>row. py_str shown (dget (items row) k) = wanted) xs)"
  by (induction xs) auto

lemma find_append: "find P (xs @ ys) = (case find P xs of None \<Rightarrow> find P ys | Some x \<Rightarrow> Some x)"
  by (induction xs) auto

lemma find_row_pages:
  assumes "pages_of k fetch cursors rest" "c \<in> cursors"
  shows "find_row fetch (search_page shown noun k wanted) c = Some (lookup_row shown noun k wanted (rest c))"
  using assms(2)
proof (induction "length (rest c)" arbitrary: c rule: less_induct)
  case less
  let ?P = "\<lambda>row. py_str shown (dget (items row) k) = wanted"
  from assms(1) less.prems obtain d xs where d: "fetch c = Inr (JObj d)" "\<not> is_dict (dget d ''error'')"
      "dget_or d ''items'' (JArr []) = JArr xs" "list_all is_dict xs"
    and more: "if truthy (dget d ''has_more'')
         then xs \<noteq> [] \<and> is_dict (dget d ''next_cursor'') \<and> has (items (dget d ''next_cursor'')) k \<and>
           dget (items (dget d ''next_cursor'')) k \<in> cursors \<and>
           rest c = xs @ rest (dget (items (dget d ''next_cursor'')) k)
         else rest c = xs"
    unfolding pages_of_def by blast
  have page: "search_page shown noun k wanted (JObj d) =
      (case find ?P xs of
         Some item \<Rightarrow> Inr (Found item)
       | None \<Rightarrow>
           if \<not> truthy (dget d ''has_more'') then Inl (PluginError (noun @ ''_not_found''))
           else Inr (Next (dget (items (dget d ''next_cursor'')) k)))"
    using d more by (auto simp: search_page_def is_error_def iterate_def search_items_find split: option.splits)
  show ?case
  proof (cases "find ?P xs")
    case (Some item)
    have "find ?P (rest c) = Some item" using more Some by (auto simp: find_append split: if_splits)
    then show ?thesis by (subst find_row.simps) (simp add: d(1) page Some lookup_row_def)
  next
    case None
    show ?thesis
    proof (cases "truthy (dget d ''has_more'')")
      case True
      let ?next = "dget (items (dget d ''next_cursor'')) k"
      have r: "rest c = xs @ rest ?next" "xs \<noteq> []" "?next \<in> cursors" using more True by auto
      then have "find_row fetch (search_page shown noun k wanted) ?next = Some (lookup_row shown noun k wanted (rest ?next))"
        by (intro less.hyps) auto
      moreover have "lookup_row shown noun k wanted (rest c) = lookup_row shown noun k wanted (rest ?next)"
        by (simp add: lookup_row_def r(1) find_append None)
      ultimately show ?thesis by (subst find_row.simps) (simp add: d(1) page None True)
    next
      case False
      then have "rest c = xs" using more by simp
      then show ?thesis using False None by (subst find_row.simps) (simp add: d(1) page lookup_row_def)
    qed
  qed
qed

text \<open>C39: reading an install or a pin page by page returns, and finds the first row with the wanted id
  among all rows the source has, or reports that there is none.\<close>

theorem paged_reads_look_up:
  assumes "pages_of ''pin_id'' (run_pins h (JStr run_id)) pin_cursors pins"
    "pages_of ''install_id'' (scope_installs h scope_id) install_cursors installs"
    "dget effect ''pin_id'' = JStr pin_id" "dget effect ''run_id'' = JStr run_id"
  shows "find_pin h effect = Some (lookup_row (shown_of h) ''pin'' ''pin_id'' pin_id (pins JNull)) \<and>
    find_install h scope_id (JStr install_id) =
      Some (lookup_row (shown_of h) ''install'' ''install_id'' install_id (installs JNull))"
  using find_row_pages[OF assms(1)] find_row_pages[OF assms(2)] assms
  by (auto simp: find_pin_def find_install_def pages_of_def)

end
