(* ===== verification/Exchange.thy ===== *)
theory Exchange
  imports Fs_Samples Plugins_Facts
begin

text \<open>
  The two ends of the line protocol together: the request \<open>line_json.py\<close> writes, the answer
  \<open>fs_read.py\<close> gives to it and what \<open>line_json.py\<close> makes of that answer.
\<close>

section \<open>What the tool can fail with\<close>

definition TOOL_ERRORS :: "(string \<times> string) list" where
  "TOOL_ERRORS =
     [(''not_found'', ''path does not exist''), (''permission_denied'', ''path is not readable''),
      (''io_error'', ''path could not be inspected''), (''permission_denied'', ''file is not readable''),
      (''io_error'', ''file could not be read''), (''invalid_path'', ''path is not a valid string''),
      (''invalid_path'', ''path is not valid UTF-8''), (''invalid_path'', ''path is longer than 1024 bytes''),
      (''path_escape'', ''path must not contain ..''), (''path_escape'', ''absolute path is outside the workspace''),
      (''symlink_denied'', ''path contains a symlink''), (''path_excluded'', ''path is excluded''),
      (''io_error'', ''file could not be opened''), (''io_error'', ''file changed while opening''),
      (''file_too_large'', ''file is larger than 1 MiB''), (''io_error'', ''file changed while scanning''),
      (''io_error'', ''file changed while reading''), (''line_too_long'', ''a selected line is too long''),
      (''not_utf8'', ''selected text is not valid UTF-8''), (''line_too_long'', ''no page fits the approved budgets''),
      (''binary_file'', ''file contains a NUL byte''), (''offset_out_of_range'', ''offset is outside the file''),
      (''output_too_large'', ''empty page exceeds output budgets''), (''invalid_path'', ''offset or limit is invalid''),
      (''not_a_file'', ''path is not a regular file''), (''inspect_request_invalid'', ''inspect request is invalid''),
      (''bad_request'', ''request frame is invalid''),
      (''root_unavailable'', ''the approved workspace root is not available''),
      (''reservation_invalid'', ''prepare reservation mismatch''), (''reservation_invalid'', ''release reservation mismatch''),
      (''tool_not_approved'', ''tool is not approved''), (''io_error'', ''tool execution failed'')]"

definition known_failure :: "exn \<Rightarrow> bool" where
  "known_failure e \<longleftrightarrow> (case e of ToolError c m \<Rightarrow> (c, m) \<in> set TOOL_ERRORS | _ \<Rightarrow> True)"

lemma known_failure_other [simp]:
  "known_failure KeyError" "known_failure UnicodeError" "known_failure ValueError"
  by (simp_all add: known_failure_def)

lemma tool_error_only [only_intros]: "(c, m) \<in> set TOOL_ERRORS \<Longrightarrow> only known_failure (tool_error c m)"
  by (simp add: only_def tool_error_def known_failure_def)

lemma only_os_case [only_intros]:
  "(\<And>x. r = Inr x \<Longrightarrow> only P (f x)) \<Longrightarrow> (\<And>e. r = Inl e \<Longrightarrow> only P (g e)) \<Longrightarrow> only P (case r of Inl e \<Rightarrow> g e | Inr x \<Rightarrow> f x)"
  by (cases r) auto

lemma only_let [only_intros]: "only P (f x) \<Longrightarrow> only P (Let x f)"
  by simp

lemma os_error_only [only_intros]:
  "only P a \<Longrightarrow> only P b \<Longrightarrow> only P c \<Longrightarrow> only P d \<Longrightarrow>
     only P (case e of FileNotFound \<Rightarrow> a | PermissionDenied \<Rightarrow> b | LinkLoop \<Rightarrow> c | OtherError \<Rightarrow> d)"
  by (cases e) auto

lemma in_errors: "list_all (\<lambda>p. plain_text (snd p) \<and> code_pattern (lit (fst p))) TOOL_ERRORS"
  by (simp add: TOOL_ERRORS_def plain_text_def code_pattern_def lit_def is_lower_def is_digit_def)

lemmas listed = TOOL_ERRORS_def list.set insert_iff

lemma results_only [only_intros]:
  "only known_failure (lstat_result r)" "only known_failure (fstat_result r)" "only known_failure (read_result b)"
  unfolding lstat_result_def fstat_result_def read_result_def
  by (intro only_intros; simp add: TOOL_ERRORS_def)+

lemma dumps_sorted_only [only_intros]: "only known_failure (dumps_sorted v)"
proof (induction v rule: dumps_sorted.induct)
  case (1 d)
  then show ?case by (simp only: dumps_sorted.simps) (intro only_intros; simp add: sort_by_code_point_def)
next
  case (2 xs)
  then show ?case by (simp only: dumps_sorted.simps) (intro only_intros; simp)
qed (simp_all add: only_def)

lemma json_len_only [only_intros]: "only known_failure (json_len v)"
  unfolding json_len_def by (intro only_intros) simp_all

lemma path_only [only_intros]: "only known_failure (path_arg v)"
  unfolding path_arg_def by (cases v) (auto intro!: only_intros simp: TOOL_ERRORS_def)

lemma components_only [only_intros]: "only known_failure (components_of s)" "only known_failure (absolute_components s r)"
  unfolding components_of_def absolute_components_def Let_def
  by (intro only_intros; simp add: TOOL_ERRORS_def)+

lemma walk_only [only_intros]: "only known_failure (walk f current cs)"
proof (induction cs arbitrary: current)
  case (Cons c cs)
  then show ?case unfolding walk.simps Let_def by (intro only_intros) (simp_all add: TOOL_ERRORS_def)
qed (simp add: only_def)

lemma resolve_only [only_intros]: "only known_failure (resolve f v r)"
  unfolding resolve_def by (intro only_intros) (simp_all add: TOOL_ERRORS_def)

lemma open_regular_only [only_intros]: "only known_failure (open_regular f target info)"
  unfolding open_regular_def by (intro only_intros) (simp_all add: TOOL_ERRORS_def)

lemma scan_only [only_intros]: "only known_failure (scan_chunk lo hi c s)" "only known_failure (scan_loop lo hi rs s)"
  "only known_failure (line_bound s i)"
proof -
  show chunk: "only known_failure (scan_chunk lo hi c s)" for c s
    unfolding scan_chunk_def Let_def by (intro only_intros) (simp add: TOOL_ERRORS_def)
  show "only known_failure (scan_loop lo hi rs s)"
  proof (induction rs arbitrary: s)
    case (Cons r rs)
    then show ?case unfolding scan_loop.simps by (intro only_intros chunk)
  qed (simp add: only_def)
  show "only known_failure (line_bound s i)"
    unfolding line_bound_def by (intro only_intros) simp_all
qed

lemma scan_file_only [only_intros]: "only known_failure (scan_file fd st offset lmt)"
  unfolding scan_file_def Let_def by (intro only_intros) (simp_all add: TOOL_ERRORS_def)

lemma decode_lines_only [only_intros]: "only known_failure (decode_lines raws)"
proof (induction raws)
  case (Cons r raws)
  then show ?case unfolding decode_lines.simps by (intro only_intros) (simp_all add: TOOL_ERRORS_def)
qed (simp add: only_def)

lemma page_measures_only [only_intros]: "only known_failure (page_measures r offset lmt n_total final ls n acc)"
proof (induction ls arbitrary: n acc)
  case (Cons l ls)
  then show ?case unfolding page_measures.simps page_measure_of_def Let_def by (intro only_intros)
qed (simp add: only_def)

lemma read_only [only_intros]: "only known_failure (read_window fd bounds)"
  "only known_failure (read_page relative fd st offset lmt n_total final bounds)"
proof -
  show w: "only known_failure (read_window fd bounds)"
    unfolding read_window_def Let_def by (intro only_intros) (simp_all add: TOOL_ERRORS_def)
  show "only known_failure (read_page relative fd st offset lmt n_total final bounds)"
    unfolding read_page_def Let_def by (intro only_intros w) (simp_all add: TOOL_ERRORS_def)
qed

lemma read_tool_only [only_intros]: "only known_failure (read_tool f args r)"
  unfolding read_tool_def read_opened_def empty_measures_def Let_def
  by (intro only_intros) (simp_all add: TOOL_ERRORS_def)

lemma serve_request_only: "only known_failure (serve_request f r frame)"
  unfolding serve_request_def inspect_result_def Let_def by (intro only_intros) (simp_all add: TOOL_ERRORS_def)

section \<open>The request\<close>

lemma request_read:
  assumes "build_frame_v2 operation reservation args tool = Inr line" "json_wf (frame_v2 operation reservation args tool)"
  shows "request_frame fl line = Inr (canon (frame_v2 operation reservation args tool))"
proof -
  obtain b where b: "compact_json (frame_v2 operation reservation args tool) = Inr b" "line = b @ [10]"
    using assms(1) by (auto simp: build_frame_v2_def run_simps handled_def split: sum.splits)
  then show ?thesis
    using decode_line[OF b(1) assms(2)] default_reads_line[OF b(1) assms(2)] by (simp add: request_frame_def)
qed

lemma request_fields:
  assumes "json_wf (frame_v2 operation reservation args tool)"
  defines "d \<equiv> items (canon (frame_v2 operation reservation args tool))"
  shows "is_dict (canon (frame_v2 operation reservation args tool))" "dget d ''v'' = JInt 2" "dget d ''operation'' = jstr operation"
    "dget d ''reservation'' = canon reservation" "dget d ''args'' = canon args"
    "dget d ''tool'' = (case tool of None \<Rightarrow> JNull | Some k \<Rightarrow> JStr k)"
proof -
  note g = dget_canon[OF assms(1)]
  show "is_dict (canon (frame_v2 operation reservation args tool))" by (simp add: frame_v2_def)
  show "dget d ''v'' = JInt 2" "dget d ''operation'' = jstr operation" "dget d ''reservation'' = canon reservation"
    "dget d ''args'' = canon args" "dget d ''tool'' = (case tool of None \<Rightarrow> JNull | Some k \<Rightarrow> JStr k)"
    unfolding d_def g by (cases tool; simp add: frame_v2_def dict_eval)+
qed

text \<open>The results of the tool have the shape their operation asks for.\<close>

lemma read_tool_value:
  assumes "read_tool f args ws_root = Inr v" "json_wf (JObj args)"
  shows "J_domain v \<and> json_wf v"
  using assms
proof (cases rule: read_tool_cases)
  case (empty relative)
  then show ?thesis using empty_value_ok by simp
next
  case (page relative target fd b offset limit ts k)
  have "1 \<le> k" "k \<le> length ts" using page(11) by (auto simp: longest_page_def)
  then show ?thesis
    unfolding page(12) using page(2,3,8,10,13) file_lines_small[OF page(7)]
    by (intro conjI page_json_ok) (auto dest: in_set_takeD)
qed

lemma served_result:
  assumes "serve_request f ws_root (canon (frame_v2 operation reservation args tool)) = Inr r"
    "operation \<in> set OPERATIONS" "json_wf (frame_v2 operation reservation args tool)"
  shows "J_domain r \<and> json_wf r \<and> result_ok operation (canon r)"
proof -
  note fields = request_fields[OF assms(3)]
  have wf: "json_wf (canon args)" using assms(3) by (simp add: frame_v2_def json_wf_canon)
  have value_ok: "result_ok ''invoke'' (canon (JObj [(lit ''value'', v)]))" for v
    by (simp add: result_ok_def dict_eval keys_within_def keys_def sort_items_def canon_item_def)
  have const: "result_ok ''prepare'' (canon (JObj [(lit ''prepared'', JBool True)]))"
    "result_ok ''release'' (canon (JObj [(lit ''released'', JBool True)]))"
    "result_ok ''inspect'' (canon (JObj [(lit ''observed'', jstr ''known'')]))"
    "result_ok ''inspect'' (canon (JObj [(lit ''observed'', jstr ''absent'')]))"
    by (simp_all add: result_ok_def dict_eval keys_are_def keys_def sort_items_def canon_item_def)
  consider "operation = ''prepare''" | "operation = ''release''" | "operation = ''inspect''" | "operation = ''invoke''"
    using assms(2) by (auto simp: OPERATIONS_def)
  then show ?thesis
  proof cases
    case 4
    then obtain v where v: "read_tool f (items (canon args)) (the ws_root) = Inr v" "r = JObj [(lit ''value'', v)]"
      using assms(1) unfolding serve_request_def Let_def fields
      by (auto simp: run_simps tool_error_def split: if_splits option.splits)
    have "is_dict (canon args)"
      using assms(1) unfolding serve_request_def request_ok_def Let_def fields by (auto simp: tool_error_def split: if_splits)
    then have "json_wf (JObj (items (canon args)))" using wf by (cases "canon args") auto
    from read_tool_value[OF v(1) this] show ?thesis using value_ok 4 by (simp add: v(2))
  next
    case 1
    then have "r = JObj [(lit ''prepared'', JBool True)]"
      using assms(1) unfolding serve_request_def Let_def fields by (simp add: tool_error_def split: if_split_asm option.split_asm)
    then show ?thesis using const(1) 1 by simp
  next
    case 2
    then have "r = JObj [(lit ''released'', JBool True)]"
      using assms(1) unfolding serve_request_def Let_def fields by (simp add: tool_error_def split: if_split_asm option.split_asm)
    then show ?thesis using const(2) 2 by simp
  next
    case 3
    then have "r = JObj [(lit ''observed'', jstr ''known'')] \<or> r = JObj [(lit ''observed'', jstr ''absent'')]"
      using assms(1) unfolding serve_request_def inspect_result_def Let_def fields
      by (simp add: tool_error_def split: if_split_asm option.split_asm)
    then show ?thesis using const(3,4) 3 by auto
  qed
qed

section \<open>The answer\<close>

lemma emit_domain:
  assumes "J_domain p" "json_wf p"
  obtains b where "compact_json p = Inr b" "emit p code = Inr (code, b @ [10])"
proof -
  obtain b where b: "compact_json p = Inr b" using assms(1) compact_json_iff by blast
  then have e: "b = utf8 (jtext (canon p))" by (simp add: compact_json_iff)
  have "dumps_sorted p = Inr (jtext (canon p))" using assms by (simp add: dumps_sorted_domain)
  moreover have "utf8_encode (jtext (canon p)) = Some (utf8 (jtext (canon p)))"
    using scalar_jtext[of "canon p"] assms by (simp add: utf8_encode_def)
  ultimately have "emit p code = Inr (code, b @ [10])" by (simp add: emit_def e)
  with b show thesis by (rule that)
qed

lemma answered_ok:
  assumes "J_domain r" "json_wf r" "result_ok operation (canon r)"
  shows "\<exists>out. emit (ok_frame r) 0 = Inr (0, out) \<and> classify_v2 out operation 0 = Success (canon r)"
proof -
  have dom: "J_domain (ok_frame r)" "json_wf (ok_frame r)" "is_dict (ok_frame r)"
    using assms by (simp_all add: ok_frame_def safe_int_def SAFE_INTEGER_MAX_def)
  obtain b where b: "compact_json (ok_frame r) = Inr b" "emit (ok_frame r) 0 = Inr (0, b @ [10])"
    by (rule emit_domain[OF dom(1,2)])
  have "classify_object operation 0 (canon (ok_frame r)) = Success (canon r)"
    using assms(3)
    by (simp add: classify_object_def Let_def dget_canon[OF dom(2)] del: canon.simps)
      (simp add: ok_frame_def dict_eval keys_are_def keys_def)
  with b classify_canonical[OF b(1) dom(2,3)] show ?thesis by simp
qed

lemma answered_error:
  assumes "(c, m) \<in> set TOOL_ERRORS"
  shows "\<exists>out. emit (error_frame c m) 3 = Inr (3, out) \<and>
    classify_v2 out operation 3 = KnownError (error_object (jstr c) (jstr m))"
proof -
  let ?e = "error_object (jstr c) (jstr m)"
  have dom: "J_domain (error_frame c m)" "json_wf (error_frame c m)" "is_dict (error_frame c m)"
    by (simp_all add: error_frame_def safe_int_def SAFE_INTEGER_MAX_def)
  obtain b where b: "compact_json (error_frame c m) = Inr b" "emit (error_frame c m) 3 = Inr (3, b @ [10])"
    by (rule emit_domain[OF dom(1,2)])
  have ok: "assert_error ?e = Inr ()"
    using assms in_errors by (intro error_ok clean_lit) (auto simp: list_all_iff)
  have e: "canon ?e = ?e" by (simp add: error_object_def sort_items_def canon_item_def lit_Cons)
  have parts: "dget (items (error_frame c m)) ''error'' = ?e" "dget (items (error_frame c m)) ''v'' = JInt 2"
    "dget (items (error_frame c m)) ''ok'' = JBool False" "keys_are (items (error_frame c m)) [''ok'', ''v'', ''error'']"
    by (simp_all add: error_frame_def error_object_def dict_eval keys_are_def keys_def)
  have "assert_unknown_output (JObj [(lit ''error'', ?e)]) = Inr ()"
    by (simp add: assert_unknown_output_def require_def keys_are_def keys_def dict_eval ok)
  then have "classify_object operation 3 (canon (error_frame c m)) = KnownError ?e"
    by (simp add: classify_object_def Let_def dget_canon[OF dom(2)] parts e del: canon.simps) (simp add: error_frame_def)
  with b classify_canonical[OF b(1) dom(2,3)] show ?thesis by simp
qed

text \<open>What the tool reports for a request it fails.\<close>

fun reported :: "exn \<Rightarrow> json" where
  "reported (ToolError c m) = error_object (jstr c) (jstr m)"
| "reported _ = error_object (jstr ''io_error'') (jstr ''tool execution failed'')"

lemma other_failure:
  assumes "\<nexists>c m. e = ToolError c m"
  shows "reported e = error_object (jstr ''io_error'') (jstr ''tool execution failed'')"
    "(case Inl e of Inr out \<Rightarrow> Inr out | Inl (ToolError c m) \<Rightarrow> g c m | Inl _ \<Rightarrow> b) = b"
  using assms by (cases e; simp)+



end
