(* ===== verification/Samples.thy ===== *)
theory Samples
  imports Registry_Facts
begin

text \<open>
  Concrete inputs for the witnesses: a version-2 descriptor of a tool that renders with
  \<open>v24.text.plain\<close>, the tool approved from it, a manifest that provides it, the plugin approved
  from that manifest and a registry with this plugin as its only entry. Digests stay applications
  of \<open>sha256_hex\<close>; nothing evaluates them.
\<close>

section \<open>A descriptor\<close>

definition sample_render :: json where
  "sample_render =
     JObj [(lit ''id'', jstr ''v24.text.plain''), (lit ''version'', JInt 1),
           (lit ''digest'', jstr ''30ff1803fc2a2ec0f375da475a08f23c99e83e0ddf8c32502c26bc82a026a011'')]"

definition sample_limits :: json where
  "sample_limits =
     JObj [(lit ''timeout_ms'', JInt 5000), (lit ''max_args_bytes'', JInt 1024), (lit ''max_value_bytes'', JInt 4096),
           (lit ''max_content_bytes'', JInt 4096), (lit ''max_meta_bytes'', JInt 64)]"

definition sample_annotations :: json where
  "sample_annotations =
     JObj [(lit ''read_only'', JBool True), (lit ''destructive'', JBool False), (lit ''idempotent'', JBool True),
           (lit ''open_world'', JBool False)]"

definition sample_output :: json where
  "sample_output =
     JObj [(lit ''type'', jstr ''object''),
           (lit ''properties'', JObj [(lit ''text'', JObj [(lit ''type'', jstr ''string'')]),
              (lit ''truncated'', JObj [(lit ''type'', jstr ''boolean'')]),
              (lit ''spill_path'', JObj [(lit ''type'', jstr ''string'')])]),
           (lit ''required'', JArr [jstr ''text'', jstr ''truncated'', jstr ''spill_path'']),
           (lit ''additionalProperties'', JBool False)]"

lemma sample_output_within: "within_limits sample_output"
  by (simp add: within_limits_def sample_output_def schema_eval MAX_DEPTH_def MAX_NODES_def)

definition sample_tool_fields :: dict where
  "sample_tool_fields =
     [(lit ''key'', jstr ''t.x''), (lit ''description'', jstr ''d''), (lit ''parameters'', sample_schema),
      (lit ''output_schema'', sample_output), (lit ''render'', sample_render), (lit ''limits'', sample_limits),
      (lit ''concurrency'', jstr ''parallel''), (lit ''replay_class'', jstr ''read_only''),
      (lit ''annotations'', sample_annotations)]"

definition sample_descriptor :: json where
  "sample_descriptor = JObj [(lit ''v'', JInt 2), (lit ''tool'', JObj sample_tool_fields)]"

lemma sample_items: "items sample_descriptor = [(lit ''v'', JInt 2), (lit ''tool'', JObj sample_tool_fields)]"
  by (simp add: sample_descriptor_def)

lemma sample_fields:
  "dget sample_tool_fields ''key'' = jstr ''t.x''" "dget sample_tool_fields ''description'' = jstr ''d''"
  "dget sample_tool_fields ''parameters'' = sample_schema" "dget sample_tool_fields ''output_schema'' = sample_output"
  "dget sample_tool_fields ''render'' = sample_render" "dget sample_tool_fields ''limits'' = sample_limits"
  "dget sample_tool_fields ''concurrency'' = jstr ''parallel''"
  "dget sample_tool_fields ''replay_class'' = jstr ''read_only''"
  "dget sample_tool_fields ''annotations'' = sample_annotations"
  by (simp_all add: sample_tool_fields_def dict_eval)

lemma sample_descriptor_domain: "J_domain sample_descriptor" "json_wf sample_descriptor"
  by (simp_all add: sample_descriptor_def sample_tool_fields_def sample_render_def sample_limits_def
      sample_annotations_def sample_schema_def sample_output_def safe_int_def SAFE_INTEGER_MAX_def)

lemma sample_depth: "descriptor_depth sample_descriptor \<le> 16"
  by (simp add: sample_descriptor_def sample_tool_fields_def sample_render_def sample_limits_def
      sample_annotations_def sample_schema_def sample_output_def)

lemma sample_limits_ok: "limits_ok sample_tool_fields"
  unfolding limits_ok_def sample_fields Let_def
  by (simp add: sample_limits_def dict_eval keys_are_def keys_def LIMIT_RANGES_def)

lemma sample_annotations_ok: "annotations_ok sample_tool_fields"
  unfolding annotations_ok_def sample_fields Let_def
  by (simp add: sample_annotations_def dict_eval keys_are_def keys_def ANNOTATION_KEYS_def)

lemma sample_render_ok: "render_ok sample_tool_fields (RENDERERS shown)"
proof -
  have r: "dget (items sample_render) ''id'' = jstr ''v24.text.plain''" "dget (items sample_render) ''version'' = JInt 1"
    "dget (items sample_render) ''digest'' = jstr ''30ff1803fc2a2ec0f375da475a08f23c99e83e0ddf8c32502c26bc82a026a011''"
    "is_dict sample_render" "keys_are (items sample_render) RENDER_KEYS"
    by (simp_all add: sample_render_def dict_eval keys_are_def keys_def RENDER_KEYS_def)
  show ?thesis
    unfolding render_ok_def sample_fields Let_def r
    by (simp add: r by_id_def RENDERERS_def builtin_def)
       (simp add: key_pattern_def is_digest_def is_lower_def is_digit_def hex_lower_def SAFE_INTEGER_MAX_def lit_Cons)
qed

lemma sample_pg: "\<exists>n \<le> 16384. descriptor_pg_bytes sample_descriptor = Inr n"
proof -
  have s: "surrogate c \<longleftrightarrow> False" if "c < 256" for c using that by (simp add: surrogate_def)
  show ?thesis
    by (simp add: descriptor_pg_bytes_def sample_descriptor_def sample_tool_fields_def sample_render_def sample_limits_def
      sample_annotations_def sample_schema_def sample_output_def pg_sort_def pg_key_def lit_Cons utf8_def utf8_char_def keys_def s
      utf8_encode_def quote_def quote_char_def int_text_def dec.simps)
qed

lemma sample_descriptor_ok: "descriptor_ok sample_descriptor (Some (lit ''t.x'')) (RENDERERS shown)"
proof -
  obtain n where n: "n \<le> 16384" "descriptor_pg_bytes sample_descriptor = Inr n" using sample_pg by blast
  have d: "dget (items sample_descriptor) ''v'' = JInt 2" "dget (items sample_descriptor) ''tool'' = JObj sample_tool_fields"
    "keys_are (items sample_descriptor) [''v'', ''tool'']" "is_dict sample_descriptor"
    by (simp_all add: sample_descriptor_def dict_eval keys_are_def keys_def)
  have t: "keys_are sample_tool_fields TOOL_KEYS"
    by (auto simp: sample_tool_fields_def keys_are_def keys_def TOOL_KEYS_def)
  have k: "key_pattern (lit ''t.x'')" by (simp add: key_pattern_def is_lower_def is_digit_def lit_Cons)
  have r: "root_ok ''parameters'' sample_schema" by (simp add: root_ok_def sample_schema_def dict_eval)
  have a: "utf8 (lit ''d'') = [100]" "0 \<notin> set (lit ''d'')" by (simp_all add: lit_Cons)
  show ?thesis
    unfolding descriptor_ok_def Let_def d sample_fields items.simps
    by (simp add: n t k r a sample_within sample_output_within sample_render_ok sample_limits_ok sample_annotations_ok sample_depth sample_descriptor_domain
        d MAX_DESCRIPTOR_DEPTH_def MAX_DESCRIPTOR_PG_BYTES_def CONCURRENCY_def REPLAY_CLASSES_def)
qed

section \<open>The tool approved from it\<close>

definition sample_digest :: pystr where
  "sample_digest = (case descriptor_digest sample_descriptor of Inl _ \<Rightarrow> [] | Inr d \<Rightarrow> d)"

lemma sample_digest: "descriptor_digest sample_descriptor = Inr sample_digest" "is_digest sample_digest"
proof -
  obtain t b where "pg_jsonb_text sample_descriptor = Inr t" "utf8_encode t = Some b"
    using sample_pg by (auto simp: descriptor_pg_bytes_def andthen_Inr split: option.splits)
  moreover have "is_dict sample_descriptor" by (simp add: sample_descriptor_def)
  ultimately have "descriptor_digest sample_descriptor = Inr (sha256_hex b)" by (simp add: descriptor_digest_def)
  then show "descriptor_digest sample_descriptor = Inr sample_digest" "is_digest sample_digest"
    by (simp_all add: sample_digest_def sha256_hex_digest)
qed

definition sample_tool :: approved_tool where
  "sample_tool =
     \<lparr>tkey = lit ''t.x'', tdescriptor = sample_descriptor, tdigest = sample_digest, ttimeout_ms = 5000,
      trender = Some (render_ref_of sample_render), toutput_schema = Some sample_output,
      parameters_check = Some (\<lambda>v. validate_instance sample_schema v (lit ''$'')),
      output_check = Some (\<lambda>v. validate_instance sample_output v (lit ''$''))\<rparr>"

lemma sample_compiled:
  "compile_schema sample_schema ''parameters'' = Inr (\<lambda>v. validate_instance sample_schema v (lit ''$''))"
  "compile_schema sample_output ''output_schema'' = Inr (\<lambda>v. validate_instance sample_output v (lit ''$''))"
  by (simp_all add: compile_schema_def run_simps assert_supported_spec root_ok_def sample_within sample_output_within)
     (simp add: sample_schema_def dict_eval)

lemma sample_approved: "from_descriptor shown sample_descriptor (lit ''t.x'') = Inr sample_tool"
proof -
  have v: "validate_descriptor sample_descriptor (Some (lit ''t.x'')) (RENDERERS shown) = Inr sample_descriptor"
    using sample_descriptor_ok by (simp add: validate_descriptor_ok)
  have d: "dget (items sample_descriptor) ''v'' = JInt 2" "dget (items sample_descriptor) ''tool'' = JObj sample_tool_fields"
    "is_dict sample_descriptor"
    by (simp_all add: sample_descriptor_def dict_eval)
  have l: "dget (items sample_limits) ''timeout_ms'' = JInt 5000" by (simp add: sample_limits_def dict_eval)
  have s: "is_dict sample_schema" "is_dict sample_output" by (simp_all add: sample_schema_def sample_output_def)
  have h: "hex64 ''descriptor_digest'' sample_digest = Inr ()" by (simp add: hex64_Inr sample_digest)
  have e: "py_eq sample_output sample_output" by (simp add: sample_output_def)
  show ?thesis
    unfolding from_descriptor_def v sample_digest new_tool_def d sample_fields Let_def items.simps l
    by (simp add: d handled_def tool_init_def sample_digest tool_v2_fields_def v sample_fields l s require_def h e
        sample_compiled sample_tool_def)
qed

section \<open>The manifest and the plugin\<close>

definition sample_adapter :: pystr where
  "sample_adapter = (case adapter_declaration_digest (lit ''py'') of Inl _ \<Rightarrow> [] | Inr d \<Rightarrow> d)"

definition sample_provide :: json where
  "sample_provide =
     JObj [(lit ''realm'', jstr ''r''), (lit ''key'', jstr ''t.x''), (lit ''descriptor'', sample_descriptor)]"

definition sample_manifest :: json where
  "sample_manifest =
     JObj [(lit ''identity'', jstr ''i''), (lit ''version'', jstr ''1''), (lit ''requires'', JArr []),
           (lit ''provides'', JArr [sample_provide]), (lit ''adapter_digest'', JStr sample_adapter)]"

definition sample_template :: approved_plugin where
  "sample_template =
     \<lparr>adapter_id = lit ''a'', language = lit ''py'', ident = [], version = [], manifest_digest = [],
      artifact_digest = sha256_hex [], adapter_digest = [], argv = [lit ''/p'', lit ''/w/t''], cwd = lit ''/w'',
      environment_allowlist = [lit ''PATH''], timeout_ms = 5000, stdout_limit = 65536, stderr_limit = 16384,
      tools = [], workspace_root = lit ''/w'', timeout_cap_ms = 25000, protocol = 2\<rparr>"

definition sample_fs :: host_fs where
  "sample_fs =
     \<lparr>is_dir = (\<lambda>p. p = lit ''/w''), realpath = (\<lambda>p. p), resolved = (\<lambda>p. if p = lit ''/w'' \<or> p = lit ''/w/t'' then Some p else None), regular = (\<lambda>p. Some (p = lit ''/w/t'')),
      file_bytes = (\<lambda>p. if p = lit ''/w/t'' then Some [] else None)\<rparr>"

definition sample_raw :: bytes where
  "sample_raw = utf8 (jtext (canon sample_manifest))"

definition sample_plugin :: approved_plugin where
  "sample_plugin =
     sample_template\<lparr>ident := lit ''i'', version := lit ''1'', manifest_digest := sha256_hex sample_raw,
       adapter_digest := sample_adapter, tools := [sample_tool]\<rparr>"

lemma sample_adapter: "adapter_declaration_digest (lit ''py'') = Inr sample_adapter" "is_digest sample_adapter"
proof -
  have "compact_json (JObj [(lit ''adapter'', jstr ''v24.line-json''), (lit ''language'', JStr (lit ''py'')),
      (lit ''protocol'', jstr ''v24.line-json.v2''), (lit ''version'', JInt 2)]) = Inr b \<Longrightarrow> is_digest (sha256_hex b)" for b
    by (simp add: sha256_hex_digest)
  moreover have "\<exists>b. compact_json (JObj [(lit ''adapter'', jstr ''v24.line-json''), (lit ''language'', JStr (lit ''py'')),
      (lit ''protocol'', jstr ''v24.line-json.v2''), (lit ''version'', JInt 2)]) = Inr b"
    by (simp add: compact_json_iff safe_int_def SAFE_INTEGER_MAX_def)
  ultimately obtain b where "adapter_declaration_digest (lit ''py'') = Inr (sha256_hex b)"
    by (auto simp: adapter_declaration_digest_def)
  then show "adapter_declaration_digest (lit ''py'') = Inr sample_adapter" "is_digest sample_adapter"
    by (simp_all add: sample_adapter_def sha256_hex_digest)
qed

lemma digest_scalar: "is_digest s \<Longrightarrow> scalar_str s \<and> code_points s"
  by (auto simp: is_digest_def list_all_iff scalar_str_def code_points_def hex_lower_def is_digit_def surrogate_def)

lemma sample_manifest_bytes: "manifest_bytes (Parsed sample_manifest) = Inr (sample_raw, sample_manifest)"
proof -
  have "J_domain sample_manifest"
    using digest_scalar[OF sample_adapter(2)] sample_descriptor_domain by (simp add: sample_manifest_def sample_provide_def)
  then have "compact_json sample_manifest = Inr sample_raw" by (simp add: compact_json_iff sample_raw_def)
  moreover have "is_dict sample_manifest" by (simp add: sample_manifest_def)
  ultimately show ?thesis by (simp add: manifest_bytes_def)
qed

lemma sample_plugin_init: "plugin_init sample_fs sample_plugin = Inr sample_plugin"
proof -
  have hexes: "hex64 n (sha256_hex b) = Inr ()" "hex64 n sample_adapter = Inr ()" for n b
    by (simp_all add: hex64_Inr sha256_hex_digest sample_adapter)
  have t: "dget (items (tdescriptor sample_tool)) ''v'' = JInt 2" "ttimeout_ms sample_tool = 5000"
    by (simp_all add: sample_tool_def sample_descriptor_def dict_eval)
  show ?thesis
    by (simp add: plugin_init_def sample_plugin_def sample_template_def sample_fs_def non_empty_def hexes check_argv_def
        check_place_def check_bounds_def t require_def isabs_def starts_with_def lit_Cons)
qed

lemma sample_plugin_approved: "from_manifest sample_fs shown (Parsed sample_manifest) sample_template = Inr sample_plugin"
proof -
  have m: "dget (items sample_manifest) ''provides'' = JArr [sample_provide]"
    "dget (items sample_manifest) ''identity'' = jstr ''i''" "dget (items sample_manifest) ''version'' = jstr ''1''"
    "dget (items sample_manifest) ''adapter_digest'' = JStr sample_adapter"
    "dget (items sample_provide) ''descriptor'' = sample_descriptor" "dget (items sample_provide) ''key'' = jstr ''t.x''"
    by (simp_all add: sample_manifest_def sample_provide_def dict_eval)
  have shape: "manifest_shape sample_manifest" "provide_ok sample_provide" "provide_version sample_provide = JInt 2"
    by (simp_all add: manifest_shape_def sample_manifest_def provide_ok_def sample_provide_def provide_version_def
        sample_descriptor_def dict_eval keys_are_def keys_def nonempty_str_def)
  have lang: "language sample_template = lit ''py''" by (simp add: sample_template_def)
  have hex: "hex64_ok (JStr sample_adapter)"
    using sample_adapter(2) by (simp add: hex64_ok_def is_digest_def hex_set)
  have check: "check_manifest shown (lit ''py'') sample_manifest = Inr ()"
    using hex by (simp add: check_manifest_def m shape sample_adapter require_def)
  have "sample_plugin = sample_template\<lparr>ident := lit ''i'', version := lit ''1'', manifest_digest := sha256_hex sample_raw,
      adapter_digest := sample_adapter, tools := [sample_tool], protocol := 2\<rparr>"
    by (simp add: sample_plugin_def sample_template_def)
  with sample_plugin_init show ?thesis
    unfolding from_manifest_def sample_manifest_bytes lang
    by (simp add: handled_def check m sample_approved)
qed

section \<open>The registry\<close>

definition sample_registry :: approved_registry where
  "sample_registry =
     \<lparr>entries = [Plugin sample_plugin], by_key = [key_of (Plugin sample_plugin) \<mapsto> Plugin sample_plugin],
      by_adapter = [lit ''a'' \<mapsto> Plugin sample_plugin]\<rparr>"

definition sample_install :: json where
  "sample_install =
     JObj [(lit ''identity'', jstr ''i''), (lit ''version'', jstr ''1''),
           (lit ''manifest_digest'', JStr (sha256_hex sample_raw)), (lit ''artifact_digest'', JStr (sha256_hex [])),
           (lit ''adapter_digest'', JStr sample_adapter)]"

definition sample_pin :: json where
  "sample_pin =
     JObj [(lit ''key'', jstr ''t.x''), (lit ''descriptor'', sample_descriptor), (lit ''descriptor_digest'', JStr sample_digest)]"

lemma sample_registered: "registry [Plugin sample_plugin] = Inr sample_registry"
  by (simp add: registry_def register_def sample_registry_def key_of_def approved_entry.truncate_def sample_plugin_def
      sample_template_def)

lemma sample_entry_ok: "entry_ok shown (Plugin sample_plugin)"
  using plugin_init_ok[OF sample_plugin_init, of shown] from_descriptor_ok[OF sample_approved, of shown]
  by (simp add: entry_ok_def sample_plugin_def)

lemma lower_digest: "is_digest s \<Longrightarrow> lower s = s"
  unfolding lower_def is_digest_def
  by (rule map_idI) (auto simp: list_all_iff hex_lower_def is_digit_def lower_char_def is_upper_def)

lemma sample_lookup: "lookup_install shown sample_registry sample_install = Inr (Plugin sample_plugin)"
proof -
  have "dget (items sample_install) ''identity'' = jstr ''i''" "dget (items sample_install) ''version'' = jstr ''1''"
    "dget (items sample_install) ''manifest_digest'' = JStr (sha256_hex sample_raw)"
    "dget (items sample_install) ''artifact_digest'' = JStr (sha256_hex [])"
    "dget (items sample_install) ''adapter_digest'' = JStr sample_adapter"
    "is_dict sample_install" "list_all (has (items sample_install)) install_fields"
    by (simp_all add: sample_install_def dict_eval install_fields_def)
  then show ?thesis
    by (simp add: lookup_install_def Let_def py_str_def decimal_def lower_digest sha256_hex_digest sample_adapter
        sample_registry_def key_of_def canonical_key_def sample_plugin_def sample_template_def approved_entry.truncate_def)
qed

lemma sample_match: "match_tool shown sample_registry sample_install sample_pin (lit ''t.x'') = Inr (Plugin sample_plugin, sample_tool)"
proof -
  obtain t where t: "pg_jsonb_text sample_descriptor = Inr t"
    using sample_pg by (auto simp: descriptor_pg_bytes_def andthen_Inr)
  have p: "dget (items sample_pin) ''key'' = jstr ''t.x''" "dget (items sample_pin) ''descriptor'' = sample_descriptor"
    "dget (items sample_pin) ''descriptor_digest'' = JStr sample_digest" "is_dict sample_pin" "is_dict sample_descriptor"
    by (simp_all add: sample_pin_def dict_eval sample_descriptor_def)
  have "tool_for sample_plugin (lit ''t.x'') = Some sample_tool"
    by (simp add: tool_for_def sample_plugin_def sample_tool_def)
  moreover have "check_pin sample_pin sample_descriptor sample_digest = Inr ()"
    by (simp add: check_pin_def p t lower_digest sample_digest)
  moreover have "tdescriptor sample_tool = sample_descriptor" "tdigest sample_tool = sample_digest"
    by (simp_all add: sample_tool_def)
  ultimately show ?thesis by (simp add: match_tool_def sample_lookup p tool_of_entry_def)
qed

section \<open>Witnesses for the registry\<close>



theorem match_tool_sound_witness:
  "tkey sample_tool = lit ''t.x'' \<and> descriptor_digest (tdescriptor sample_tool) = Inr (tdigest sample_tool)"
  using match_tool_sound[OF sample_registered _ sample_match, of jtext] sample_entry_ok by simp

lemma sample_resolved: "\<forall>p d. resolved sample_fs p = Some d \<longrightarrow> canonical_dir d"
  by (auto simp: sample_fs_def canonical_dir_def clean_parts_def lit_Cons)

lemma sample_artifact: "require_artifact sample_fs sample_plugin = Inr ()"
proof -
  have p: "clean_parts (lit ''/w'') = [lit ''w'']" "clean_parts (lit ''/w/t'') = [lit ''w'', lit ''t'']"
    by (simp_all add: clean_parts_def lit_Cons)
  have "commonpath (lit ''/w/t'') (lit ''/w'') = Some (lit ''/w'')"
    unfolding commonpath_def p by (simp add: lit_Cons isabs_def starts_with_def)
  then show ?thesis
    by (simp add: require_artifact_def sample_fs_def artifact_path_def sample_plugin_def sample_template_def)
qed

theorem require_artifact_sound_witness:
  "\<exists>a b. file_bytes sample_fs a = Some b \<and> sha256_hex b = artifact_digest sample_plugin"
  using require_artifact_sound[OF sample_artifact sample_resolved] by blast

end
