(* ===== verification/Plugin_Samples.thy ===== *)
theory Plugin_Samples
  imports Samples Plugins_Facts
begin

text \<open>
  The sample tool called end to end: a host whose registry holds the sample plugin and whose
  database serves installs and pins in two pages, a process that answers with one canonical frame,
  and one that hangs until the deadline.
\<close>

section \<open>A host\<close>

definition sample_value :: json where
  "sample_value =
     JObj [(lit ''spill_path'', JStr []), (lit ''text'', jstr ''hi''), (lit ''truncated'', JBool False)]"

definition sample_answer :: json where
  "sample_answer =
     JObj [(lit ''ok'', JBool True), (lit ''result'', JObj [(lit ''value'', sample_value)]), (lit ''v'', JInt 2)]"

definition sample_out :: bytes where
  "sample_out = utf8 (jtext sample_answer) @ [10]"

definition sample_world :: "turn list \<Rightarrow> os_world" where
  "sample_world ts =
     \<lparr>is_directory = (\<lambda>_. True), spawned = (\<lambda>_. Some 7), turns_of = (\<lambda>_. ts), wait_status = (\<lambda>_. 0),
      elapsed_ms = (\<lambda>_. 5)\<rparr>"

definition sample_turns :: "turn list" where
  "sample_turns = [Ready [(Out, Block sample_out)], Ready [(Out, Block []), (Err, Block [])]]"

definition sample_rows :: "string \<Rightarrow> json \<Rightarrow> json list" where
  "sample_rows k after =
     (if after = JNull then [JObj [(lit k, jstr ''r1'')], JObj [(lit k, jstr ''r2'')]] else [JObj [(lit k, jstr ''r2'')]])"

definition sample_pages :: "string \<Rightarrow> json \<Rightarrow> exn + json" where
  "sample_pages k after =
     Inr (JObj (if after = JNull
       then [(lit ''items'', JArr [JObj [(lit k, jstr ''r1'')]]), (lit ''has_more'', JBool True),
             (lit ''next_cursor'', JObj [(lit k, jstr ''r1'')])]
       else [(lit ''items'', JArr [JObj [(lit k, jstr ''r2'')]]), (lit ''has_more'', JBool False)]))"

definition sample_host :: "turn list \<Rightarrow> plugin_host" where
  "sample_host ts =
     \<lparr>approvals = sample_registry, disk = sample_fs, environ = [], process = run_process (sample_world ts),
      float_of = (\<lambda>_. NonFinite []), shown_of = jtext, scope_installs = (\<lambda>_. sample_pages ''install_id''),
      run_pins = (\<lambda>_. sample_pages ''pin_id''), lease_ms = (\<lambda>_. Inr 60000)\<rparr>"

definition sample_effect :: dict where
  "sample_effect =
     [(lit ''effect_id'', jstr ''e1''), (lit ''lease_until'', jstr ''t''), (lit ''pin_id'', jstr ''r2''),
      (lit ''run_id'', jstr ''n1'')]"

lemma sample_plugin_ok: "plugin_ok jtext sample_plugin"
  using sample_entry_ok[of jtext] by (simp add: entry_ok_def)

section \<open>Witnesses\<close>

theorem tool_v2_settles_witness:
  "dispatched (fst (tool_v2 (sample_host []) None sample_effect sample_plugin sample_install sample_pin
      (lit ''t.x'') (sample_args 1))) \<or>
   fst (tool_v2 (sample_host []) None sample_effect sample_plugin sample_install sample_pin
      (lit ''t.x'') (sample_args 1)) = Inl OSError"
proof (rule tool_v2_settles)
  show "process (sample_host []) = run_process (sample_world [])" by (simp add: sample_host_def)
qed (simp_all add: sample_host_def sample_world_def SAFE_INTEGER_MAX_def sample_plugin_ok sample_match
    sample_effect_def dict_eval)

theorem paged_reads_look_up_witness:
  "find_pin (sample_host []) sample_effect = Some (Inr (JObj [(lit ''pin_id'', jstr ''r2'')]))"
proof -
  have pages: "pages_of k (sample_pages k) {JNull, jstr ''r1''} (sample_rows k)" for k
    by (auto simp: pages_of_def sample_pages_def sample_rows_def dict_eval)
  then have "pages_of ''pin_id'' (run_pins (sample_host []) (jstr ''n1'')) {JNull, jstr ''r1''} (sample_rows ''pin_id'')"
    "pages_of ''install_id'' (scope_installs (sample_host []) JNull) {JNull, jstr ''r1''} (sample_rows ''install_id'')"
    by (simp_all add: sample_host_def)
  moreover have "dget sample_effect ''pin_id'' = jstr ''r2''" "dget sample_effect ''run_id'' = jstr ''n1''"
    by (simp_all add: sample_effect_def dict_eval)
  moreover have "lookup_row (shown_of (sample_host [])) ''pin'' ''pin_id'' (lit ''r2'') (sample_rows ''pin_id'' JNull) =
      Inr (JObj [(lit ''pin_id'', jstr ''r2'')])"
    by (simp add: lookup_row_def sample_rows_def py_str_def dict_eval decimal_def lit_Cons)
  ultimately show ?thesis
    using paged_reads_look_up[of "sample_host []" "lit ''n1''" _ "sample_rows ''pin_id''" JNull _
        "sample_rows ''install_id''" sample_effect "lit ''r2''"] by metis
qed

section \<open>A successful call\<close>

lemma sample_value_domain: "J_domain sample_value" "json_wf sample_value"
  "J_domain sample_answer" "json_wf sample_answer"
  by (simp_all add: sample_value_def sample_answer_def safe_int_def SAFE_INTEGER_MAX_def)

lemma sample_canon: "canon sample_value = sample_value" "canon sample_answer = sample_answer"
  by (simp_all add: sample_value_def sample_answer_def sort_items_def canon_item_def lit_Cons)

lemma sample_answer_bytes: "compact_json sample_answer = Inr (utf8 (jtext sample_answer))"
  by (simp add: compact_json_iff sample_value_domain sample_canon)

lemma sample_classified: "classify_v2 sample_out ''invoke'' 0 = Success (JObj [(lit ''value'', sample_value)])"
proof -
  have "is_dict sample_answer" by (simp add: sample_answer_def)
  from classify_canonical[OF sample_answer_bytes sample_value_domain(4) this]
  have "classify_v2 sample_out ''invoke'' 0 = classify_object ''invoke'' 0 sample_answer"
    by (simp add: sample_out_def sample_canon)
  moreover have "keys_are (items sample_answer) [''ok'', ''v'', ''result'']" "is_dict sample_answer"
    "dget (items sample_answer) ''ok'' = JBool True" "dget (items sample_answer) ''v'' = JInt 2"
    "dget (items sample_answer) ''result'' = JObj [(lit ''value'', sample_value)]"
    by (auto simp: sample_answer_def dict_eval keys_are_def keys_def)
  moreover have "result_ok ''invoke'' (JObj [(lit ''value'', sample_value)])"
    by (simp add: result_ok_def keys_within_def keys_def dict_eval)
  ultimately show ?thesis by (simp add: classify_object_def)
qed

lemma sample_out_size: "length sample_out \<le> 100"
  by (simp add: sample_out_def sample_answer_def sample_value_def lit_Cons quote_def quote_char_def utf8_char_def int_text_def dec.simps)

definition sample_spec :: "bytes \<Rightarrow> process_spec" where
  "sample_spec frame =
     \<lparr>spec_argv = [lit ''/p'', lit ''/w/t''], spec_cwd = lit ''/w'', spec_env = environment [] sample_plugin (Some (lit ''/w'')),
      spec_stdin = frame, spec_timeout_ms = 5000, spec_stdout_limit = 65536, spec_stderr_limit = 16384\<rparr>"

definition sample_result :: process_result where
  "sample_result =
     \<lparr>pid = 7, returncode = 0, stdout = sample_out, stderr = [], timed_out = False, stdout_limited = False,
      stderr_limited = False, wall_ms = 5\<rparr>"

lemma sample_pump:
  "pump (sample_spec frame) sample_turns io_start =
     io_start\<lparr>buffer := (\<lambda>_. [])(Out := sample_out), open_fds := []\<rparr>"
proof -
  have "sample_out \<noteq> []" by (simp add: sample_out_def)
  moreover have l: "limit_of (sample_spec frame) Out = 65536" "limit_of (sample_spec frame) Err = 16384"
    by (simp_all add: limit_of_def sample_spec_def)
  moreover have "take n sample_out = sample_out" if "65536 \<le> n" for n using sample_out_size that by simp
  ultimately show ?thesis
    using sample_out_size
    by (simp add: sample_turns_def pump.simps io_start_def read_block_def append_block_def close_stream_def Let_def)
qed

lemma sample_run_process:
  assumes "length frame \<le> 1024 * 1024"
  shows "run_process (sample_world sample_turns) (sample_spec frame) = Inr sample_result"
proof -
  have "environment [] sample_plugin (Some (lit ''/w'')) = []"
    by (simp add: environment_def sample_plugin_def sample_template_def lit_Cons)
  then have "validate_spec (is_directory (sample_world sample_turns)) (sample_spec frame) = Inr ()"
    using assms by (simp add: validate_spec_def sample_spec_def sample_world_def require_def lit_Cons STDIN_LIMIT_def)
  then show ?thesis
    by (simp add: run_process_def sample_world_def sample_pump Let_def) (simp add: sample_result_def io_start_def)
qed

definition sample_reservation :: pystr where
  "sample_reservation = lit ''v24:tool_call:e1''"

lemma sample_frame:
  obtains b where "build_frame_v2 ''invoke'' (JStr sample_reservation) (sample_args 1) (Some (lit ''t.x'')) = Inr b"
    "length b \<le> 1024 * 1024"
proof -
  let ?v = "frame_v2 ''invoke'' (JStr sample_reservation) (sample_args 1) (Some (lit ''t.x''))"
  have dom: "J_domain ?v"
    by (simp add: frame_v2_def sample_reservation_def sample_args_def safe_int_def SAFE_INTEGER_MAX_def)
  have size: "length (utf8 (jtext (canon ?v)) @ [10]) \<le> 1024 * 1024"
    by (simp add: frame_v2_def sample_reservation_def sample_args_def sort_items_def canon_item_def lit_Cons)
       (simp add: quote_def quote_char_def utf8_char_def int_text_def dec.simps lit_Cons)
  have ok: "''invoke'' \<in> set OPERATIONS" "reservation_ok (JStr sample_reservation)" "is_dict (sample_args 1)"
    "tool_key_ok (lit ''t.x'')"
    by (simp_all add: OPERATIONS_def reservation_ok_def sample_reservation_def sample_args_def lit_Cons tool_key_ok_def
        key_pattern_def is_lower_def is_digit_def)
  have "compact_json ?v = Inr (utf8 (jtext (canon ?v)))" using dom by (simp add: compact_json_iff)
  with ok size have "build_frame_v2 ''invoke'' (JStr sample_reservation) (sample_args 1) (Some (lit ''t.x'')) =
      Inr (utf8 (jtext (canon ?v)) @ [10])"
    by (simp add: build_frame_v2_def require_def handled_def del: length_append)
  with size show thesis by (rule that[rotated])
qed

lemma sample_run:
  "run_v2 (run_process (sample_world sample_turns)) [] sample_plugin ''invoke'' (JStr sample_reservation) (sample_args 1)
     (Some (lit ''t.x'')) =
   Inr (invocation_of sample_result ''success'' (Some (JObj [(lit ''value'', sample_value)])) None)"
proof -
  obtain b where b: "build_frame_v2 ''invoke'' (JStr sample_reservation) (sample_args 1) (Some (lit ''t.x'')) = Inr b"
    "length b \<le> 1024 * 1024" by (rule sample_frame)
  have "tool_for sample_plugin (lit ''t.x'') = Some sample_tool"
    by (simp add: tool_for_def sample_plugin_def sample_tool_def)
  then have "spec_v2 [] sample_plugin ''invoke'' (Some (lit ''t.x'')) b = Inr (sample_spec b)"
    by (simp add: spec_v2_def sample_spec_def sample_plugin_def sample_template_def sample_tool_def)
  moreover have "spawn (run_process (sample_world sample_turns)) (sample_spec b) = Inr sample_result"
    using sample_run_process[OF b(2)] by (simp add: spawn_def handled_def)
  moreover have "breach sample_result = None" "stdout sample_result = sample_out" "returncode sample_result = 0"
    by (simp_all add: breach_def sample_result_def)
  ultimately show ?thesis by (simp add: run_v2_def b(1) sample_classified)
qed

lemma sample_limit:
  "limit sample_tool ''max_args_bytes'' = 1024" "limit sample_tool ''max_value_bytes'' = 4096"
  "limit sample_tool ''max_content_bytes'' = 4096" "limit sample_tool ''max_meta_bytes'' = 64"
  by (simp_all add: limit_def sample_tool_def sample_descriptor_def sample_tool_fields_def sample_limits_def dict_eval)

lemma sample_args_pass: "call_check (parameters_check sample_tool) (sample_args 1) = Inr ()"
proof -
  have "declared_types (items sample_schema) = Inr (Some [lit ''object''])"
    "declared_types [(lit ''type'', jstr ''integer''), (lit ''minimum'', JInt 1)] = Inr (Some [lit ''integer''])"
    by (simp_all add: sample_schema_def declared_types_def dict_eval JSON_TYPES_def)
  moreover have "path_of (lit ''$'') (lit ''a'') = Inr (lit ''$.a'')"
    by (simp add: path_of_def is_identifier_def ascii_alpha_def lit_def)
  ultimately show ?thesis
    by (simp add: call_check_def sample_tool_def sample_schema_def sample_args_def matches_def check_keys_def
        required_names_def dict_eval keys_def admits_def sorted_entries_def sort_items_def prop_list_def check_member_def
        check_range_def require_def at_least_def at_most_def SAFE_INTEGER_MAX_def)
qed

lemma sample_value_passes: "call_check (output_check sample_tool) sample_value = Inr ()"
proof -
  have "declared_types (items sample_output) = Inr (Some [lit ''object''])"
    "declared_types [(lit ''type'', jstr ''string'')] = Inr (Some [lit ''string''])"
    "declared_types [(lit ''type'', jstr ''boolean'')] = Inr (Some [lit ''boolean''])"
    by (simp_all add: sample_output_def declared_types_def dict_eval JSON_TYPES_def)
  moreover have "path_of (lit ''$'') (lit ''text'') = Inr (lit ''$.text'')"
    "path_of (lit ''$'') (lit ''truncated'') = Inr (lit ''$.truncated'')"
    "path_of (lit ''$'') (lit ''spill_path'') = Inr (lit ''$.spill_path'')"
    by (simp_all add: path_of_def is_identifier_def ascii_alpha_def lit_def is_digit_def)
  moreover have "sorted_entries (items sample_value) = Inr (items sample_value)"
    by (simp add: sample_value_def sorted_entries_def sort_items_def lit_Cons keys_def scalar_str_def code_points_def surrogate_def)
  ultimately show ?thesis
    by (simp add: call_check_def sample_tool_def sample_output_def sample_value_def matches_def check_keys_def
        required_names_def dict_eval keys_def admits_def prop_list_def check_member_def check_range_def require_def at_least_def at_most_def)
qed

lemma sample_rendered:
  "lookup_renderer (RENDERERS shown) (render_ref_of sample_render) =
     Inr (builtin ''v24.text.plain'' ''30ff1803fc2a2ec0f375da475a08f23c99e83e0ddf8c32502c26bc82a026a011'' (text_render shown))"
  "page_contract_of (rid (render_ref_of sample_render)) = Some \<lparr>renderer_id = lit ''v24.text.plain'', kind = TextPage, default_limit = 2000\<rparr>"
proof -
  have r: "dget (items sample_render) ''id'' = jstr ''v24.text.plain''" "dget (items sample_render) ''version'' = JInt 1"
    "dget (items sample_render) ''digest'' = jstr ''30ff1803fc2a2ec0f375da475a08f23c99e83e0ddf8c32502c26bc82a026a011''"
    by (simp_all add: sample_render_def dict_eval)
  show "lookup_renderer (RENDERERS shown) (render_ref_of sample_render) =
     Inr (builtin ''v24.text.plain'' ''30ff1803fc2a2ec0f375da475a08f23c99e83e0ddf8c32502c26bc82a026a011'' (text_render shown))"
    by (simp add: lookup_renderer_def RENDERERS_def builtin_def render_ref_of_def r)
  show "page_contract_of (rid (render_ref_of sample_render)) = Some \<lparr>renderer_id = lit ''v24.text.plain'', kind = TextPage, default_limit = 2000\<rparr>"
    by (simp add: page_contract_of_def BUILTIN_PAGE_CONTRACTS_def TEXT_PAGE_CONTRACTS_def render_ref_of_def r)
qed

definition sample_content :: json where
  "sample_content = JArr [text_block (jstr ''hi'')]"

lemma sample_parts:
  "dget (items sample_value) ''text'' = jstr ''hi''" "dget (items sample_value) ''truncated'' = JBool False"
  "dget (items sample_value) ''spill_path'' = JStr []" "keys_within (items sample_value) TEXT_KEYS"
  "\<not> has (items sample_value) ''exit_code''" "\<not> has (items sample_value) ''status''"
  by (simp_all add: sample_value_def dict_eval keys_within_def keys_def TEXT_KEYS_def)

lemma sample_page: "validate_page (RENDERERS shown) (render_ref_of sample_render) args sample_value = Inr ()"
proof -
  have "check_safe_domain sample_value = Inr ()"
    by (simp add: check_safe_domain_def sample_value_def)
  moreover have "splitlines (lit ''hi'') = [lit ''hi'']" "length (utf8 (lit ''hi'')) = 2" "scalar_str (lit ''hi'')" "0 \<notin> set (lit ''hi'')"
    by (simp_all add: splitlines.simps line_break_def lit_Cons utf8_char_def surrogate_def)
  moreover have "is_dict sample_value" by (simp add: sample_value_def)
  ultimately show ?thesis
    by (simp add: validate_page_def sample_rendered ensure_def require_def check_text_def Let_def sample_parts MAX_TEXT_BYTES_def)
qed

lemma sample_content_bytes:
  "compact_json sample_content = Inr (utf8 (jtext (canon sample_content)))" "length (utf8 (jtext (canon sample_content))) \<le> 4096"
  "compact_json (JObj []) = Inr [123, 125]"
  by (simp_all add: compact_json_iff sample_content_def text_block_def)
     (simp_all add: sort_items_def canon_item_def lit_Cons quote_def quote_char_def utf8_char_def)

lemma sample_render_result:
  "render (RENDERERS shown) (render_ref_of sample_render) args sample_value = Inr (sample_content, JObj [])"
proof -
  obtain d where d: "sample_value = JObj d" by (simp add: sample_value_def)
  have z: "0 \<notin> set (lit ''hi'')" by (simp add: lit_Cons)
  have "text_render shown args sample_value = Inr (sample_content, JObj [])"
    unfolding text_render_def d using z
    by (simp add: sample_parts[unfolded d items.simps] require_def sample_content_def)
  moreover have "block_ok (text_block (jstr ''hi''))" by (simp add: block_ok_def text_block_def dict_eval keys_are_def keys_def)
  then have "validate_result (sample_content, JObj []) = Inr (sample_content, JObj [])"
    using sample_content_bytes by (simp add: validate_result_def require_def) (simp add: sample_content_def)
  ultimately show ?thesis by (simp add: render_def sample_rendered builtin_def)
qed

lemma sample_fits: "fits (sample_args 1) 1024" "fits sample_value 4096"
proof -
  have "compact_json (sample_args 1) = Inr (utf8 (jtext (canon (sample_args 1))))"
    by (simp add: compact_json_iff sample_args_def safe_int_def SAFE_INTEGER_MAX_def)
  moreover have "length (utf8 (jtext (canon (sample_args 1)))) \<le> 1024"
    by (simp add: sample_args_def sort_items_def canon_item_def lit_Cons)
       (simp add: quote_def quote_char_def utf8_char_def int_text_def dec.simps)
  ultimately show "fits (sample_args 1) 1024" by (simp add: fits_def)
  have "compact_json sample_value = Inr (utf8 (jtext sample_value))"
    by (simp add: compact_json_iff sample_value_domain sample_canon)
  moreover have "length (utf8 (jtext sample_value)) \<le> 4096"
    by (simp add: sample_value_def lit_Cons) (simp add: quote_def quote_char_def utf8_char_def)
  ultimately show "fits sample_value 4096" by (simp add: fits_def)
qed

lemma sample_admitted: "admit_v2 (sample_host ts) sample_effect sample_plugin sample_tool (sample_args 1) = Inr None"
proof -
  have "root_available sample_fs sample_plugin"
    by (simp add: root_available_def sample_fs_def sample_plugin_def sample_template_def)
  moreover have "lease_covers (sample_host ts) sample_effect sample_tool"
    by (simp add: lease_covers_def sample_effect_def dict_eval sample_host_def sample_tool_def)
  moreover have "disk (sample_host ts) = sample_fs" by (simp add: sample_host_def)
  ultimately show ?thesis by (simp add: admit_v2_def sample_limit sample_fits sample_args_pass sample_artifact)
qed

lemma sample_measured:
  "\<exists>m. measure_result (sample_args 1) sample_value sample_content (JObj []) = Inr m \<and> m_content m \<le> 4096 \<and> m_meta m = 2"
proof -
  have "compact_json (sample_args 1) = Inr (utf8 (jtext (canon (sample_args 1))))"
    "compact_json (tool_frame sample_value) = Inr (utf8 (jtext (canon (tool_frame sample_value))))"
    by (simp_all add: compact_json_iff sample_args_def safe_int_def SAFE_INTEGER_MAX_def tool_frame_def sample_value_domain)
  moreover have "compact_json sample_value = Inr (utf8 (jtext sample_value))"
    by (simp add: compact_json_iff sample_value_domain sample_canon)
  ultimately show ?thesis
    using sample_content_bytes by (simp add: measure_result_def json_bytes_def frame_bytes_def default_meta_def)
qed

definition sample_outcome :: outcome where
  "sample_outcome =
     Dispatch ''success''
       (v2_result ''ok'' (JObj [(lit ''value'', sample_value), (lit ''content'', sample_content), (lit ''meta'', JObj [])]) 5)
       (jstr ''hi'')"

lemma sample_success: "v2_success sample_value sample_content (JObj []) 5 = Inr sample_outcome"
proof -
  let ?out = "JObj [(lit ''value'', sample_value), (lit ''content'', sample_content), (lit ''meta'', JObj [])]"
  have "text_block_ok (text_block (jstr ''hi''))"
    by (simp add: text_block_ok_def text_block_def dict_eval keys_are_def keys_def)
  then have content: "assert_content sample_content = Inr ()"
    using sample_content_bytes
    by (simp add: assert_content_def require_def assert_jsonable_def MAX_CONTENT_BLOCKS_def) (simp add: sample_content_def)
  have v: "compact_json sample_value = Inr (utf8 (jtext sample_value))"
    by (simp add: compact_json_iff sample_value_domain sample_canon)
  have out: "assert_success_output ?out = Inr ()"
    by (simp add: assert_success_output_def keys_are_def keys_def dict_eval require_def assert_jsonable_def meta_if_present_def
        assert_meta_def v sample_content_bytes(3) content)
  have d: "items (v2_result ''ok'' ?out 5) = [(lit ''status'', jstr ''ok''), (lit ''output'', ?out),
      (lit ''usage'', JObj [(lit ''wall_ms'', JInt 5)])]"
    by (simp add: v2_result_def)
  have joined: "join_content sample_content = Inr (lit ''hi'')"
    by (simp add: join_content_def content) (simp add: sample_content_def text_block_def dict_eval)
  have "dispatch_result (lit ''success'') (v2_result ''ok'' ?out 5) (jstr ''hi'') =
      Inr \<lparr>dclass = lit ''success'', dresult = v2_result ''ok'' ?out 5, model_text = jstr ''hi''\<rparr>"
    by (simp add: dispatch_result_def d Let_def dict_eval keys_are_def keys_def RESULT_CLASSES_def require_def out
        assert_usage_def SAFE_INTEGER_MAX_def) (simp add: v2_result_def)
  then show ?thesis
    by (simp add: v2_success_def success_output_def default_meta_def out joined v2_dispatch_def sample_outcome_def)
qed

lemma sample_finished:
  "finish_v2 (sample_host ts) sample_tool (sample_args 1)
     (invocation_of sample_result ''success'' (Some (JObj [(lit ''value'', sample_value)])) None) = Inr sample_outcome"
proof -
  obtain m where m: "measure_result (sample_args 1) sample_value sample_content (JObj []) = Inr m" "m_content m \<le> 4096" "m_meta m = 2"
    using sample_measured by blast
  obtain b where "compact_json sample_value = Inr b" "length b \<le> 4096"
    using sample_fits by (auto simp: fits_def split: sum.splits)
  moreover have "shown_of (sample_host ts) = jtext" "trender sample_tool = Some (render_ref_of sample_render)"
    by (simp_all add: sample_host_def sample_tool_def)
  ultimately show ?thesis
    using m
    by (simp add: finish_v2_def accept_v2_def Let_def invocation_of_def dict_eval sample_limit sample_value_passes
        assert_builtin_meta_def sample_page sample_render_result sample_success) (simp add: sample_result_def sample_success)
qed

theorem tool_v2_success_safe_witness:
  "\<exists>v content meta. approved_success (sample_host sample_turns) sample_tool (sample_args 1) v content meta \<and>
     root_available sample_fs sample_plugin"
proof -
  have shown: "shown_of (sample_host sample_turns) = jtext" "approvals (sample_host sample_turns) = sample_registry"
    "disk (sample_host sample_turns) = sample_fs"
    "process (sample_host sample_turns) = run_process (sample_world sample_turns)"
    "environ (sample_host sample_turns) = []" "protocol sample_plugin = 2"
    by (simp_all add: sample_host_def sample_plugin_def sample_template_def)
  have "tool_reservation (sample_host sample_turns) sample_effect = Inr sample_reservation"
    by (simp add: tool_reservation_def sample_effect_def dict_eval sample_host_def sample_reservation_def py_str_def decimal_def lit_Cons)
  then have "\<exists>reply. tool_v2 (sample_host sample_turns) None sample_effect sample_plugin sample_install sample_pin
      (lit ''t.x'') (sample_args 1) = (Inr sample_outcome, reply)"
    by (simp add: tool_v2_def Let_def shown sample_match sample_admitted run_def sample_run sample_finished recover_dispatch_def)
  then show ?thesis
    using tool_v2_success_safe[of "sample_host sample_turns" sample_plugin None sample_effect sample_install sample_pin
        "lit ''t.x''" "sample_args 1"] sample_match sample_plugin_ok
    by (fastforce simp: shown sample_outcome_def)
qed

end
