(* ===== verification/Journal.thy ===== *)
theory Journal
  imports Json_Decode Sha256 Registry
begin

text \<open>
  \<open>v24/host/journal.py\<close>: the append-only JSONL journal. The state is the file's bytes with the
  instance that owns it. A write may store only part of its bytes or fail; \<open>fsync\<close> has no
  effect on the state. \<open>fl\<close> reads a float literal. Values formatted into messages are left out.
\<close>

section \<open>Canonical text and digests\<close>

definition EVENT_TYPES :: "pystr list" where
  "EVENT_TYPES = map lit [''command_prepared'', ''command_committed'', ''effect_prepared'',
     ''dispatch_started'', ''dispatch_finished'', ''settlement_committed'']"

definition CORE_KEYS :: "string list" where
  "CORE_KEYS = [''v'', ''seq'', ''event_type'', ''effect_id'', ''request_digest'', ''payload'']"

definition RECORD_KEYS :: "string list" where
  "RECORD_KEYS = CORE_KEYS @ [''claim'', ''run_id'']"

definition SECRET_KEYS :: "pystr list" where
  "SECRET_KEYS = map lit [''api_key'', ''apikey'', ''authorization'', ''dsn'', ''database_url'',
     ''deepseek_api_key'', ''openai_api_key'', ''access_token'', ''bearer'']"

text \<open>\<open>canonical_json(value).encode("utf-8")\<close>\<close>

definition canonical_bytes :: "json \<Rightarrow> exn + bytes" where
  "canonical_bytes v =
     andthen (dumps_sorted v) (\<lambda>t. case utf8_encode t of None \<Rightarrow> Inl UnicodeError | Some b \<Rightarrow> Inr b)"

definition request_digest :: "json \<Rightarrow> exn + pystr" where
  "request_digest v = andthen (canonical_bytes v) (\<lambda>b. Inr (sha256_hex b))"

section \<open>Secrets\<close>

text \<open>A literal under \<open>re.IGNORECASE\<close>: the long s (U+017F) also matches \<open>s\<close>.\<close>

definition same_letter :: "nat \<Rightarrow> nat \<Rightarrow> bool" where
  "same_letter p c \<longleftrightarrow> lower_char c = p \<or> (p = 115 \<and> c = 0x17F)"

definition begins_like :: "string \<Rightarrow> pystr \<Rightarrow> bool" where
  "begins_like p s \<longleftrightarrow> length p \<le> length s \<and> list_all (\<lambda>(a, c). same_letter a c) (zip (lit p) s)"

definition dsn_like :: "pystr \<Rightarrow> bool" where
  "dsn_like s \<longleftrightarrow> begins_like ''postgres://'' s \<or> begins_like ''postgresql://'' s"

definition bearer_like :: "pystr \<Rightarrow> bool" where
  "bearer_like s \<longleftrightarrow> begins_like ''bearer'' s \<and> 6 < length s \<and> is_space (s ! 6)"

fun scan_secrets :: "json \<Rightarrow> exn + unit" where
  "scan_secrets (JObj d) =
     each (\<lambda>kv. if lower (fst kv) \<in> set SECRET_KEYS
        then Inl (JournalError ''credentials must never be written to the journal'')
        else scan_secrets (snd kv)) d"
| "scan_secrets (JArr xs) = each scan_secrets xs"
| "scan_secrets (JStr s) =
     (if dsn_like s then Inl (JournalError ''DSN must never be written to the journal'')
      else if bearer_like s then Inl (JournalError ''bearer token must never be written to the journal'')
      else Inr ())"
| "scan_secrets _ = Inr ()"

section \<open>The private directory\<close>

record parent_dir =
  present :: bool
  directory :: bool
  dir_mode :: nat

text \<open>\<open>mode & 0o077\<close> reads the low six bits.\<close>

definition check_private_dir :: "parent_dir \<Rightarrow> exn + parent_dir" where
  "check_private_dir d =
     (let d' = (if \<not> present d then \<lparr>present = True, directory = True, dir_mode = 448\<rparr> else d) in
      if \<not> directory d' then Inl (JournalError ''journal parent is not a directory'')
      else if dir_mode d' mod 64 \<noteq> 0 then Inl (JournalError ''journal directory must be private (0700)'')
      else Inr d')"

section \<open>Records\<close>

text \<open>Membership in a frozenset hashes the value: a list or a dict is a \<open>TypeError\<close>.\<close>

definition validate_record :: "json \<Rightarrow> exn + unit" where
  "validate_record record =
     (let d = items record; event = dget d ''event_type''; eid = dget d ''effect_id'';
          digest = dget d ''request_digest''; claim = dget d ''claim'' in
      steps
        [require (is_dict record) (JournalCorrupt ''not an object''),
         require (py_eq (dget d ''v'') (JInt 1)) JournalVersionError,
         require (\<not> is_dict event \<and> \<not> is_list event) TypeError,
         require (is_str event \<and> the_str event \<in> set EVENT_TYPES) (JournalCorrupt ''unknown event_type''),
         require (set (map lit CORE_KEYS) \<subseteq> set (keys d) \<and> keys_within d RECORD_KEYS)
           (JournalCorrupt ''invalid key set''),
         require (is_str eid \<and> the_str eid \<noteq> []) (JournalCorrupt ''no effect_id''),
         require (is_str digest \<and> is_digest (the_str digest)) (JournalCorrupt ''no request_digest''),
         require (is_dict (dget d ''payload'')) (JournalCorrupt ''payload is not an object''),
         require (has d ''run_id'' \<longrightarrow> is_str (dget d ''run_id'')) (JournalCorrupt ''run_id is not a string''),
         require (claim = JNull \<or> is_dict claim) (JournalCorrupt ''claim is not an object'')])"

section \<open>Loading\<close>

text \<open>\<open>bytes.splitlines\<close> ends a line at LF, CR or CRLF only.\<close>

function byte_lines :: "bytes \<Rightarrow> bytes list" where
  "byte_lines s =
     (if s = [] then []
      else takeWhile (\<lambda>x. x \<noteq> 10 \<and> x \<noteq> 13) s #
        (case dropWhile (\<lambda>x. x \<noteq> 10 \<and> x \<noteq> 13) s of
           [] \<Rightarrow> []
         | c # r \<Rightarrow> byte_lines (if c = 13 \<and> take 1 r = [10] then drop 1 r else r)))"
  by pat_completeness auto
termination
proof (relation "measure length", simp)
  fix s c r assume "dropWhile (\<lambda>x. x \<noteq> 10 \<and> x \<noteq> 13) s = c # (r :: bytes)"
  then have "length r < length s" using length_dropWhile_le[of "\<lambda>x. x \<noteq> 10 \<and> x \<noteq> 13" s] by simp
  then show "(if c = 13 \<and> take 1 r = [10] then drop 1 r else r, s) \<in> Wellfounded.measure length" by auto
qed

declare byte_lines.simps [simp del]

definition byte_space :: "nat \<Rightarrow> bool" where
  "byte_space c \<longleftrightarrow> 9 \<le> c \<and> c \<le> 13 \<or> c = 32"

text \<open>The file without a partly written final line.\<close>

definition trimmed :: "bytes \<Rightarrow> bytes" where
  "trimmed raw = rev (dropWhile (\<lambda>c. c \<noteq> 10) (rev raw))"

definition load_line :: "(pystr \<Rightarrow> pyfloat) \<Rightarrow> nat \<Rightarrow> bytes \<Rightarrow> exn + json" where
  "load_line fl number line =
     (if list_all byte_space line then Inl (JournalCorrupt ''blank journal line'')
      else
        (case utf8_decode line of
           None \<Rightarrow> Inl (JournalCorrupt ''not JSON'')
         | Some t \<Rightarrow>
             (case json_loads (default_hooks fl) t of
                Inl JSONDecodeError \<Rightarrow> Inl (JournalCorrupt ''not JSON'')
              | Inl e \<Rightarrow> Inl e
              | Inr record \<Rightarrow>
                  andthen (validate_record record) (\<lambda>_.
                    if \<not> py_eq (dget (items record) ''seq'') (JInt (int number))
                    then Inl (JournalCorrupt ''line has another seq'') else Inr record))))"

definition load :: "(pystr \<Rightarrow> pyfloat) \<Rightarrow> bytes \<Rightarrow> exn + json list" where
  "load fl raw = mapr (\<lambda>(number, line). load_line fl number line) (enumerate 1 (byte_lines (trimmed raw)))"

section \<open>The journal\<close>

record journal =
  jfile :: bytes
  jopen :: bool
  jrecords :: "json list"
  jseq :: int

text \<open>\<open>open\<close> truncates a torn tail before it parses, so the file is trimmed whatever follows.\<close>

definition open_journal :: "(pystr \<Rightarrow> pyfloat) \<Rightarrow> parent_dir \<Rightarrow> bool \<Rightarrow> bytes \<Rightarrow> (exn + journal) \<times> bytes" where
  "open_journal fl d locked raw =
     (case check_private_dir d of
        Inl e \<Rightarrow> (Inl e, raw)
      | Inr _ \<Rightarrow>
          if locked then (Inl JournalLocked, raw)
          else
            (andthen (load fl raw) (\<lambda>rs.
               Inr \<lparr>jfile = trimmed raw, jopen = True, jrecords = rs, jseq = int (length rs)\<rparr>),
             trimmed raw))"

definition close_journal :: "journal \<Rightarrow> journal" where
  "close_journal j = j\<lparr>jopen := False\<rparr>"

text \<open>\<open>os.write\<close>: the number of bytes it stored, or an error.\<close>

datatype write_answer = Written nat | WriteFailed

definition record_of ::
  "int \<Rightarrow> pystr \<Rightarrow> pystr \<Rightarrow> pystr \<Rightarrow> dict \<Rightarrow> pystr option \<Rightarrow> dict option \<Rightarrow> json" where
  "record_of seq event eid digest payload run_id claim =
     JObj ([(lit ''v'', JInt 1), (lit ''seq'', JInt seq), (lit ''event_type'', JStr event),
            (lit ''effect_id'', JStr eid), (lit ''request_digest'', JStr digest),
            (lit ''claim'', case claim of None \<Rightarrow> JNull | Some c \<Rightarrow> JObj c), (lit ''payload'', JObj payload)] @
           (case run_id of None \<Rightarrow> [] | Some r \<Rightarrow> [(lit ''run_id'', JStr r)]))"

definition prepare_append ::
  "journal \<Rightarrow> pystr \<Rightarrow> pystr \<Rightarrow> pystr \<Rightarrow> dict \<Rightarrow> pystr option \<Rightarrow> dict option \<Rightarrow> exn + (json \<times> bytes)" where
  "prepare_append j event eid digest payload run_id claim =
     andthen (steps
       [require (jopen j) (JournalError ''journal is closed''),
        require (event \<in> set EVENT_TYPES) (JournalCorrupt ''unknown event_type''),
        require (eid \<noteq> []) (JournalError ''effect_id is required''),
        require (is_digest digest) (JournalError ''request_digest must be 64 lowercase hex characters''),
        scan_secrets (JObj payload),
        validate_record (record_of (jseq j + 1) event eid digest payload run_id claim)]) (\<lambda>_.
     andthen (canonical_bytes (record_of (jseq j + 1) event eid digest payload run_id claim)) (\<lambda>b.
       Inr (record_of (jseq j + 1) event eid digest payload run_id claim, b @ [10])))"

definition append_record ::
  "journal \<Rightarrow> write_answer \<Rightarrow> pystr \<Rightarrow> pystr \<Rightarrow> pystr \<Rightarrow> dict \<Rightarrow> pystr option \<Rightarrow> dict option \<Rightarrow> (exn + json) \<times> journal" where
  "append_record j write event eid digest payload run_id claim =
     (case prepare_append j event eid digest payload run_id claim of
        Inl e \<Rightarrow> (Inl e, j)
      | Inr (record, line) \<Rightarrow>
          (case write of
             WriteFailed \<Rightarrow> (Inl OSError, j)
           | Written n \<Rightarrow>
               let stored = jfile j @ take n line; back = take (length line) (drop (length (jfile j)) stored) in
               if back \<noteq> line
               then (Inl (JournalCorrupt ''journal read-back differs from the appended bytes''), j\<lparr>jfile := stored\<rparr>)
               else (Inr record, j\<lparr>jfile := stored, jrecords := jrecords j @ [record], jseq := jseq j + 1\<rparr>)))"

section \<open>Queries\<close>

definition effect_of :: "json \<Rightarrow> json" where
  "effect_of r = dget (items r) ''effect_id''"

definition event_is :: "string \<Rightarrow> json \<Rightarrow> bool" where
  "event_is event r \<longleftrightarrow> dget (items r) ''event_type'' = jstr event"

definition records_for :: "journal \<Rightarrow> pystr \<Rightarrow> json list" where
  "records_for j eid = filter (\<lambda>r. effect_of r = JStr eid) (jrecords j)"

definition records_for_run :: "journal \<Rightarrow> pystr \<Rightarrow> json list" where
  "records_for_run j run_id = filter (\<lambda>r. dget (items r) ''run_id'' = JStr run_id) (jrecords j)"

definition has_event :: "journal \<Rightarrow> string \<Rightarrow> pystr \<Rightarrow> bool" where
  "has_event j event eid \<longleftrightarrow> list_ex (\<lambda>r. event_is event r \<and> effect_of r = JStr eid) (jrecords j)"

definition last_event :: "journal \<Rightarrow> string \<Rightarrow> pystr \<Rightarrow> json option" where
  "last_event j event eid = find (\<lambda>r. event_is event r \<and> effect_of r = JStr eid) (rev (jrecords j))"

definition effects_with :: "string \<Rightarrow> json list \<Rightarrow> json list" where
  "effects_with event rs = map effect_of (filter (event_is event) rs)"

text \<open>The loop the three recovery queries share: effects of one event, in order, without those of
  \<open>excluded\<close> and without repetition.\<close>

fun collect :: "string \<Rightarrow> json list \<Rightarrow> json list \<Rightarrow> json list \<Rightarrow> json list \<Rightarrow> json list" where
  "collect event excluded seen ordered [] = ordered"
| "collect event excluded seen ordered (r # rs) =
     (let e = effect_of r in
      if e \<in> set excluded \<or> e \<in> set seen then collect event excluded seen ordered rs
      else if event_is event r then collect event excluded (e # seen) (ordered @ [e]) rs
      else collect event excluded seen ordered rs)"

definition prepared_without_dispatch :: "journal \<Rightarrow> json list" where
  "prepared_without_dispatch j =
     collect ''effect_prepared''
       (effects_with ''dispatch_started'' (jrecords j) @ effects_with ''settlement_committed'' (jrecords j)) [] [] (jrecords j)"

definition pending_settlements :: "journal \<Rightarrow> json list" where
  "pending_settlements j =
     collect ''dispatch_finished'' (effects_with ''settlement_committed'' (jrecords j)) [] [] (jrecords j)"

definition unfinished_dispatches :: "journal \<Rightarrow> json list" where
  "unfinished_dispatches j =
     collect ''dispatch_started'' (effects_with ''dispatch_finished'' (jrecords j)) [] [] (jrecords j)"

end
