(* ===== verification/Journal_Facts.thy ===== *)
theory Journal_Facts
  imports Journal Frames
begin

text \<open>
  The journal's guarantees: what it appends it loads again, a torn tail loses at most the record
  being written, records are numbered without gaps, credentials never reach the file, and the
  recovery queries list exactly the effects between two events.
\<close>

section \<open>Lines of a file\<close>

definition line_bytes :: "bytes \<Rightarrow> bool" where
  "line_bytes b \<longleftrightarrow> 10 \<notin> set b \<and> 13 \<notin> set b"

definition whole_lines :: "bytes \<Rightarrow> bool" where
  "whole_lines f \<longleftrightarrow> f = [] \<or> last f = 10"

lemma trimmed_whole: "whole_lines f \<Longrightarrow> trimmed f = f"
  by (cases f rule: rev_cases) (auto simp: whole_lines_def trimmed_def)

lemma trimmed_is_whole: "whole_lines (trimmed f)"
proof (cases "dropWhile (\<lambda>c. c \<noteq> 10) (rev f)")
  case (Cons c r)
  then have "c = 10" using hd_dropWhile[of "\<lambda>c. c \<noteq> 10" "rev f"] by auto
  with Cons show ?thesis by (simp add: trimmed_def whole_lines_def)
qed (simp add: trimmed_def whole_lines_def)

lemma trimmed_append: "whole_lines f \<Longrightarrow> 10 \<notin> set p \<Longrightarrow> trimmed (f @ p) = f"
proof -
  assume f: "whole_lines f" and p: "10 \<notin> set p"
  have "dropWhile (\<lambda>c. c \<noteq> 10) (rev p @ rev f) = dropWhile (\<lambda>c. c \<noteq> 10) (rev f)"
    using p by (intro dropWhile_append2) auto
  then have "trimmed (f @ p) = trimmed f" by (simp add: trimmed_def)
  with f show ?thesis by (simp add: trimmed_whole)
qed

lemma byte_lines_Nil [simp]: "byte_lines [] = []"
  by (simp add: byte_lines.simps)

lemma byte_lines_one: "line_bytes b \<Longrightarrow> byte_lines (b @ 10 # r) = b # byte_lines r"
proof -
  assume b: "line_bytes b"
  have "takeWhile (\<lambda>x. x \<noteq> 10 \<and> x \<noteq> 13) (b @ 10 # r) = b" "dropWhile (\<lambda>x. x \<noteq> 10 \<and> x \<noteq> 13) (b @ 10 # r) = 10 # r"
    using b by (induction b) (auto simp: line_bytes_def)
  then show ?thesis by (subst byte_lines.simps) simp
qed

lemma byte_lines_append: "whole_lines f \<Longrightarrow> byte_lines (f @ g) = byte_lines f @ byte_lines g"
proof (induction f rule: byte_lines.induct)
  case (1 f)
  show ?case
  proof (cases "f = []")
    case False
    with 1(2) have "last f = 10" by (simp add: whole_lines_def)
    with False have ten: "10 \<in> set f" "last f = 10" using last_in_set[of f] by auto
    let ?P = "\<lambda>x. x \<noteq> 10 \<and> x \<noteq> (13::nat)"
    obtain c r where cr: "dropWhile ?P f = c # r" using ten(1) by (cases "dropWhile ?P f") (auto simp: dropWhile_eq_Nil_conv)
    have tw: "takeWhile ?P (f @ g) = takeWhile ?P f" "dropWhile ?P (f @ g) = c # r @ g"
      using cr ten(1) by (auto simp: takeWhile_append1 dropWhile_append1)
    have "f = takeWhile ?P f @ c # r" using cr takeWhile_dropWhile_id[of ?P f] by simp
    then have lst: "last (c # r) = 10" using ten(2) by (metis last_appendR list.distinct(1))
    define r' where "r' = (if c = 13 \<and> take 1 r = [10] then drop 1 r else r)"
    have rg: "(if c = 13 \<and> take 1 (r @ g) = [10] then drop 1 (r @ g) else r @ g) = r' @ g"
      using lst by (cases r) (auto simp: r'_def)
    have "whole_lines r'" using lst by (cases r) (auto simp: r'_def whole_lines_def split: if_splits)
    then have ih: "byte_lines (r' @ g) = byte_lines r' @ byte_lines g"
      using 1(1)[OF False cr] by (simp add: r'_def)
    have "byte_lines (f @ g) = takeWhile ?P f # byte_lines (r' @ g)"
      using False tw rg by (subst byte_lines.simps) simp
    moreover have "byte_lines f = takeWhile ?P f # byte_lines r'"
      using False cr by (subst byte_lines.simps) (simp add: r'_def)
    ultimately show ?thesis using ih by simp
  qed simp
qed

lemma byte_lines_snoc: "whole_lines f \<Longrightarrow> line_bytes b \<Longrightarrow> byte_lines (f @ b @ [10]) = byte_lines f @ [b]"
  by (simp add: byte_lines_append byte_lines_one)

section \<open>Appending and loading\<close>

lemma load_append:
  assumes "load fl f = Inr rs" "whole_lines f" "line_bytes b"
    and "load_line fl (Suc (length rs)) b = Inr r"
  shows "load fl (f @ b @ [10]) = Inr (rs @ [r])" "whole_lines (f @ b @ [10])"
proof -
  show w: "whole_lines (f @ b @ [10])" by (simp add: whole_lines_def)
  have len: "length (byte_lines f) = length rs"
    using assms(1,2) by (auto simp: load_def trimmed_whole mapr_Inr_iff dest: list_all2_lengthD)
  with assms w show "load fl (f @ b @ [10]) = Inr (rs @ [r])"
    by (simp add: load_def trimmed_whole byte_lines_snoc enumerate_append_eq mapr_append split: sum.splits)
qed

lemma validate_record_canon: "json_wf v \<Longrightarrow> validate_record v = Inr () \<Longrightarrow> validate_record (canon v) = Inr ()"
  by (auto simp: validate_record_def Let_def run_simps dget_canon canon_atom simp del: steps.simps py_eq.simps)

lemma load_line_record:
  assumes "compact_json v = Inr b" "json_wf v" "validate_record v = Inr ()"
    "dget (items v) ''seq'' = JInt (int n)"
  shows "load_line fl n b = Inr (canon v)" "line_bytes b"
proof -
  show "line_bytes b" using compact_json_no_lf[OF assms(1)] by (simp add: line_bytes_def)
  have "is_dict v" using assms(3) by (simp add: validate_record_def Let_def run_simps del: steps.simps)
  then obtain d where "v = JObj d" by (cases v) auto
  then have head: "\<exists>q. b = 123 # q" using assms(1) by (auto simp: compact_json_iff)
  then have "\<not> list_all byte_space b" by (auto simp: byte_space_def)
  with assms show "load_line fl n b = Inr (canon v)"
    by (simp add: load_line_def decode_compact default_reads validate_record_canon dget_canon)
qed

text \<open>The instance and its file agree: loading the file gives the instance's records, up to the
  order of their keys, and the next sequence number follows theirs.\<close>

definition journal_ok :: "(pystr \<Rightarrow> pyfloat) \<Rightarrow> journal \<Rightarrow> bool" where
  "journal_ok fl j \<longleftrightarrow> whole_lines (jfile j) \<and> jseq j = int (length (jrecords j)) \<and>
     (\<exists>rs. load fl (jfile j) = Inr rs \<and> map canon rs = map canon (jrecords j))"

lemma open_journal_ok: "open_journal fl d locked raw = (Inr j, f) \<Longrightarrow> journal_ok fl j \<and> jfile j = f"
  by (auto simp: open_journal_def journal_ok_def run_simps trimmed_is_whole load_def trimmed_whole
      split: sum.splits if_splits)

definition plain_value :: "json \<Rightarrow> bool" where
  "plain_value v \<longleftrightarrow> J_domain v \<and> json_wf v"

definition plain_args :: "pystr \<Rightarrow> dict \<Rightarrow> pystr option \<Rightarrow> dict option \<Rightarrow> bool" where
  "plain_args eid payload run_id claim \<longleftrightarrow>
     plain_value (JStr eid) \<and> plain_value (JObj payload) \<and>
     (case run_id of None \<Rightarrow> True | Some r \<Rightarrow> plain_value (JStr r)) \<and>
     (case claim of None \<Rightarrow> True | Some c \<Rightarrow> plain_value (JObj c))"

lemma hex_plain: "is_digest s \<Longrightarrow> plain_value (JStr s)"
  by (auto simp: is_digest_def plain_value_def list_all_iff hex_lower_def is_digit_def scalar_str_def surrogate_def
      code_points_def)

lemma event_plain: "event \<in> set EVENT_TYPES \<Longrightarrow> plain_value (JStr event)"
  by (auto simp: EVENT_TYPES_def plain_value_def)

lemma record_plain:
  assumes "plain_args eid payload run_id claim" "is_digest digest" "event \<in> set EVENT_TYPES" "safe_int seq"
  shows "plain_value (record_of seq event eid digest payload run_id claim)"
  using assms hex_plain[of digest] event_plain[of event]
  by (auto simp: plain_value_def plain_args_def record_of_def safe_int_def SAFE_INTEGER_MAX_def
      split: option.splits)

lemma canonical_bytes_plain:
  "plain_value v \<Longrightarrow> canonical_bytes v = Inr b \<longleftrightarrow> compact_json v = Inr b"
  using scalar_jtext[of "canon v"]
  by (auto simp: canonical_bytes_def plain_value_def dumps_sorted_domain compact_json_iff utf8_encode_def)

lemma record_seq: "dget (items (record_of seq event eid digest payload run_id claim)) ''seq'' = JInt seq"
  by (simp add: record_of_def dict_eval)

lemma prepare_append_Inr:
  assumes "prepare_append j event eid digest payload run_id claim = Inr (record, line)"
  shows "record = record_of (jseq j + 1) event eid digest payload run_id claim"
    "event \<in> set EVENT_TYPES" "is_digest digest" "scan_secrets (JObj payload) = Inr ()"
    "validate_record record = Inr ()" "\<exists>b. canonical_bytes record = Inr b \<and> line = b @ [10]"
  using assms by (auto simp: prepare_append_def run_simps simp del: steps.simps scan_secrets.simps)

lemma prepared_line:
  assumes "journal_ok fl j" "prepare_append j event eid digest payload run_id claim = Inr (record, line)"
    "plain_args eid payload run_id claim" "jseq j < 2 ^ 52"
  obtains b where "line = b @ [10]" "line_bytes b"
    "load_line fl (Suc (length (jrecords j))) b = Inr (canon record)"
proof -
  note p = prepare_append_Inr[OF assms(2)]
  have seq: "safe_int (jseq j + 1)" using assms(1,4) by (auto simp: safe_int_def SAFE_INTEGER_MAX_def journal_ok_def)
  have plain: "plain_value record" unfolding p(1) using record_plain[OF assms(3) p(3,2) seq] .
  obtain b where b: "canonical_bytes record = Inr b" "line = b @ [10]" using p(6) by blast
  then have c: "compact_json record = Inr b" using plain by (simp add: canonical_bytes_plain)
  have n: "dget (items record) ''seq'' = JInt (int (Suc (length (jrecords j))))"
    unfolding p(1) record_seq using assms(1) by (simp add: journal_ok_def)
  have wf: "json_wf record" using plain by (simp add: plain_value_def)
  from load_line_record[OF c wf p(5) n] b(2) that show ?thesis by blast
qed

text \<open>C7: appending keeps the journal in step with its file: after a write that stores the line the
  record is the last one, the file loads to the records in memory, and the numbering has no gap.\<close>

theorem append_keeps_journal:
  assumes "journal_ok fl j" "plain_args eid payload run_id claim" "jseq j < 2 ^ 52"
    "append_record j write event eid digest payload run_id claim = (Inr record, j')"
  shows "journal_ok fl j' \<and> jrecords j' = jrecords j @ [record] \<and> jseq j' = jseq j + 1 \<and>
    dget (items record) ''seq'' = JInt (int (length (jrecords j')))"
proof -
  from assms(4) obtain line n where pre: "prepare_append j event eid digest payload run_id claim = Inr (record, line)"
    and w: "write = Written n" "take (length line) (take n line) = line"
    and j': "j' = j\<lparr>jfile := jfile j @ take n line, jrecords := jrecords j @ [record], jseq := jseq j + 1\<rparr>"
    by (auto simp: append_record_def Let_def split: sum.splits write_answer.splits if_splits)
  from w(2) have all: "take n line = line" by (metis length_take min.cobounded2 take_all take_take min.absorb1 min_def)
  obtain b where b: "line = b @ [10]" "line_bytes b" "load_line fl (Suc (length (jrecords j))) b = Inr (canon record)"
    by (rule prepared_line[OF assms(1) pre assms(2,3)])
  from assms(1) obtain rs where rs: "load fl (jfile j) = Inr rs" "map canon rs = map canon (jrecords j)"
    "whole_lines (jfile j)" "jseq j = int (length (jrecords j))" by (auto simp: journal_ok_def)
  from rs(2) have len: "length rs = length (jrecords j)" by (metis length_map)
  have "load fl (jfile j @ b @ [10]) = Inr (rs @ [canon record])" "whole_lines (jfile j @ b @ [10])"
    using load_append[OF rs(1,3) b(2), of "canon record"] b(3) len by auto
  with rs j' all b(1) have "journal_ok fl j'" by (auto simp: journal_ok_def)
  moreover have "dget (items record) ''seq'' = JInt (jseq j + 1)"
    using prepare_append_Inr(1)[OF pre] record_seq by simp
  ultimately show ?thesis using j' rs(4) by simp
qed

text \<open>C8: a crash while a line is written loses that record and nothing else: whatever part of the
  line reached the file, loading it gives the records committed before, or those and the new one
  when the whole line is there.\<close>

theorem torn_append_recovers:
  assumes "journal_ok fl j" "plain_args eid payload run_id claim" "jseq j < 2 ^ 52"
    "prepare_append j event eid digest payload run_id claim = Inr (record, line)"
  shows "load fl (jfile j @ take n line) =
    (if length line \<le> n then andthen (load fl (jfile j)) (\<lambda>rs. Inr (rs @ [canon record])) else load fl (jfile j))"
proof -
  obtain b where b: "line = b @ [10]" "line_bytes b" "load_line fl (Suc (length (jrecords j))) b = Inr (canon record)"
    by (rule prepared_line[OF assms(1,4,2,3)])
  from assms(1) obtain rs where rs: "load fl (jfile j) = Inr rs" "map canon rs = map canon (jrecords j)"
    "whole_lines (jfile j)" by (auto simp: journal_ok_def)
  from rs(2) have len: "length rs = length (jrecords j)" by (metis length_map)
  show ?thesis
  proof (cases "length line \<le> n")
    case True
    with load_append[OF rs(1,3) b(2), of "canon record"] b len rs(1) show ?thesis by simp
  next
    case False
    then have "10 \<notin> set (take n line)" using b(1,2) by (auto simp: line_bytes_def dest: in_set_takeD)
    then have "trimmed (jfile j @ take n line) = jfile j" by (rule trimmed_append[OF rs(3)])
    with False rs(3) show ?thesis by (simp add: load_def trimmed_whole)
  qed
qed

section \<open>Credentials\<close>

text \<open>Every key and every string inside a value.\<close>

fun all_keys :: "json \<Rightarrow> pystr list" where
  "all_keys (JObj d) = map fst d @ concat (map (\<lambda>kv. all_keys (snd kv)) d)"
| "all_keys (JArr xs) = concat (map all_keys xs)"
| "all_keys _ = []"

fun all_strings :: "json \<Rightarrow> pystr list" where
  "all_strings (JObj d) = concat (map (\<lambda>kv. all_strings (snd kv)) d)"
| "all_strings (JArr xs) = concat (map all_strings xs)"
| "all_strings (JStr s) = [s]"
| "all_strings _ = []"

lemma scan_secrets_iff:
  "scan_secrets v = Inr () \<longleftrightarrow>
     (\<forall>k \<in> set (all_keys v). lower k \<notin> set SECRET_KEYS) \<and>
     (\<forall>s \<in> set (all_strings v). \<not> dsn_like s \<and> \<not> bearer_like s)"
proof (induction v rule: scan_secrets.induct)
  case (1 d)
  have "scan_secrets (JObj d) = Inr () \<longleftrightarrow>
      (\<forall>kv \<in> set d. lower (fst kv) \<notin> set SECRET_KEYS \<and> scan_secrets (snd kv) = Inr ())"
    by (auto simp: each_Inr split: if_splits)
  also have "\<dots> \<longleftrightarrow> (\<forall>kv \<in> set d. lower (fst kv) \<notin> set SECRET_KEYS \<and>
      (\<forall>k \<in> set (all_keys (snd kv)). lower k \<notin> set SECRET_KEYS) \<and>
      (\<forall>s \<in> set (all_strings (snd kv)). \<not> dsn_like s \<and> \<not> bearer_like s))"
    using 1 by blast
  finally show ?case by auto
next
  case (2 xs)
  then show ?case by (auto simp: each_Inr)
qed auto


section \<open>Recovery queries\<close>

text \<open>First occurrences, in order.\<close>

fun firsts :: "'a list \<Rightarrow> 'a list \<Rightarrow> 'a list" where
  "firsts seen [] = []"
| "firsts seen (x # xs) = (if x \<in> set seen then firsts seen xs else x # firsts (x # seen) xs)"

lemma firsts_set: "set (firsts seen xs) = set xs - set seen" "distinct (firsts seen xs)"
  by (induction seen xs rule: firsts.induct) auto

lemma collect_firsts:
  "collect event excluded seen ordered rs =
     ordered @ firsts seen (filter (\<lambda>e. e \<notin> set excluded) (effects_with event rs))"
  by (induction event excluded seen ordered rs rule: collect.induct) (auto simp: effects_with_def Let_def)

text \<open>C38: the three recovery queries list, each effect once and in the order it first got there, the
  effects prepared but neither dispatched nor settled, those finished but not settled, and those
  started but not finished.\<close>

theorem recovery_queries:
  "prepared_without_dispatch j = firsts [] (filter
     (\<lambda>e. e \<notin> set (effects_with ''dispatch_started'' (jrecords j)) \<union> set (effects_with ''settlement_committed'' (jrecords j)))
     (effects_with ''effect_prepared'' (jrecords j))) \<and>
   pending_settlements j = firsts [] (filter
     (\<lambda>e. e \<notin> set (effects_with ''settlement_committed'' (jrecords j))) (effects_with ''dispatch_finished'' (jrecords j))) \<and>
   unfinished_dispatches j = firsts [] (filter
     (\<lambda>e. e \<notin> set (effects_with ''dispatch_finished'' (jrecords j))) (effects_with ''dispatch_started'' (jrecords j)))"
  by (simp add: prepared_without_dispatch_def pending_settlements_def unfinished_dispatches_def collect_firsts)

section \<open>Witnesses\<close>

definition sample_journal :: journal where
  "sample_journal = \<lparr>jfile = [], jopen = True, jrecords = [], jseq = 0\<rparr>"

definition sample_record :: json where
  "sample_record = record_of 1 (lit ''effect_prepared'') (lit ''e1'') (sha256_hex []) [] None None"

definition sample_line :: bytes where
  "sample_line = utf8 (jtext (canon sample_record)) @ [10]"

lemma sample_journal_ok: "journal_ok fl sample_journal"
  by (simp add: journal_ok_def sample_journal_def whole_lines_def load_def trimmed_def byte_lines.simps)

lemma sample_plain: "plain_args (lit ''e1'') [] None None"
  by (simp add: plain_args_def plain_value_def)

lemma sample_prepared:
  "prepare_append sample_journal (lit ''effect_prepared'') (lit ''e1'') (sha256_hex []) [] None None =
     Inr (sample_record, sample_line)"
proof -
  have event: "lit ''effect_prepared'' \<in> set EVENT_TYPES" by (simp add: EVENT_TYPES_def)
  have "plain_value sample_record"
    unfolding sample_record_def
    by (rule record_plain[OF sample_plain sha256_hex_digest event]) (simp add: safe_int_def SAFE_INTEGER_MAX_def)
  then have "canonical_bytes sample_record = Inr (utf8 (jtext (canon sample_record)))"
    by (simp add: canonical_bytes_plain compact_json_iff plain_value_def)
  moreover have "validate_record sample_record = Inr ()"
    using event
    by (simp add: validate_record_def sample_record_def record_of_def dict_eval require_def sha256_hex_digest keys_def
        keys_within_def CORE_KEYS_def RECORD_KEYS_def EVENT_TYPES_def)
  ultimately show ?thesis
    using event
    by (simp add: prepare_append_def sample_journal_def sample_record_def[symmetric] sample_line_def require_def
        sha256_hex_digest)
qed

lemma sample_appended:
  "append_record sample_journal (Written (length sample_line)) (lit ''effect_prepared'') (lit ''e1'') (sha256_hex []) []
     None None = (Inr sample_record, \<lparr>jfile = sample_line, jopen = True, jrecords = [sample_record], jseq = 1\<rparr>)"
  by (simp add: append_record_def sample_prepared) (simp add: sample_journal_def)

theorem append_keeps_journal_witness:
  "journal_ok (\<lambda>r. Finite 0 r) \<lparr>jfile = sample_line, jopen = True, jrecords = [sample_record], jseq = 1\<rparr>"
  using append_keeps_journal[OF sample_journal_ok sample_plain _ sample_appended] by (simp add: sample_journal_def)

theorem torn_append_recovers_witness: "load (\<lambda>r. Finite 0 r) (take (length sample_line - 1) sample_line) = Inr []"
proof -
  have "jseq sample_journal < 2 ^ 52" "load (\<lambda>r. Finite 0 r) [] = Inr []" "jfile sample_journal = []"
    "\<not> length sample_line \<le> length sample_line - 1"
    by (simp_all add: sample_journal_def load_def trimmed_def byte_lines.simps sample_line_def)
  then show ?thesis
    using torn_append_recovers[OF sample_journal_ok sample_plain _ sample_prepared, of "\<lambda>r. Finite 0 r" "length sample_line - 1"] by simp
qed

end
