(* ===== verification/Wire.thy ===== *)
theory Wire
  imports Frames Sha256 Registry
begin

text \<open>
  \<open>v24/session/wire.py\<close>: normalisation of the requests of the session service, the cursors and
  snapshots it answers with and the reason a waiter wakes. A request is any JSON value; a
  \<open>WireError\<close> carries its code and field. \<open>Path.resolve\<close> is a parameter, and so is \<open>int\<close> of a
  text, which no snapshot of stored rows reaches.
\<close>

section \<open>Bytes and digests\<close>

text \<open>\<open>json.dumps(value, ensure_ascii=False, sort_keys=True, separators=(",", ":"))\<close>, which prints
  the non-finite floats.\<close>

definition nan_text :: "pystr \<Rightarrow> pystr" where
  "nan_text r = (if r = lit ''nan'' then lit ''NaN'' else if r = lit ''inf'' then lit ''Infinity'' else lit ''-Infinity'')"

function (sequential) dumps_any :: "json \<Rightarrow> pystr" where
  "dumps_any (JObj d) =
     [123] @ join [44] (map (\<lambda>kv. quote (fst kv) @ [58] @ dumps_any (snd kv)) (sort_by_code_point d)) @ [125]"
| "dumps_any (JArr xs) = [91] @ join [44] (map dumps_any xs) @ [93]"
| "dumps_any (JStr s) = quote s"
| "dumps_any (JBool b) = (if b then lit ''true'' else lit ''false'')"
| "dumps_any JNull = lit ''null''"
| "dumps_any (JInt i) = int_text i"
| "dumps_any (JFloat (Finite _ r)) = r"
| "dumps_any (JFloat (NonFinite r)) = nan_text r"
  by pat_completeness auto
termination
  by (relation "Wellfounded.measure size") (auto dest: size_member_snd simp: less_Suc_eq_le size_list_estimation')

text \<open>An integer of more than 4300 digits has no decimal text.\<close>

fun digits_ok :: "json \<Rightarrow> bool" where
  "digits_ok (JInt i) = (length (dec (nat \<bar>i\<bar>)) \<le> 4300)"
| "digits_ok (JArr xs) = list_all digits_ok xs"
| "digits_ok (JObj d) = list_all (\<lambda>(k, v). digits_ok v) d"
| "digits_ok _ = True"

definition wire_bytes :: "json \<Rightarrow> exn + bytes" where
  "wire_bytes v =
     (if \<not> digits_ok v then Inl ValueError else case utf8_encode (dumps_any v) of None \<Rightarrow> Inl UnicodeError | Some b \<Rightarrow> Inr b)"

definition wire_digest :: "json \<Rightarrow> exn + pystr" where
  "wire_digest v = andthen (wire_bytes v) (\<lambda>b. Inr (sha256_hex b))"

definition key_hash :: "pystr \<Rightarrow> exn + pystr" where
  "key_hash key = (case utf8_encode key of None \<Rightarrow> Inl UnicodeError | Some b \<Rightarrow> Inr (sha256_hex b))"

section \<open>Fields\<close>

definition MAX_MESSAGE :: nat where "MAX_MESSAGE = 65536"
definition MAX_KEY :: nat where "MAX_KEY = 256"
definition MAX_NAME :: nat where "MAX_NAME = 120"
definition MAX_TIMEOUT_MS :: int where "MAX_TIMEOUT_MS = 600000"
definition DEFAULT_TOKENS :: int where "DEFAULT_TOKENS = 20000"

definition TOOLS :: "pystr list" where
  "TOOLS = map lit [''read'', ''write'', ''exec'']"

definition BUDGET_KEYS :: "string list" where
  "BUDGET_KEYS = [''steps'', ''tool_calls'', ''tokens'', ''wall_ms'']"

definition invalid_args :: "string \<Rightarrow> exn" where
  "invalid_args name = WireError ''invalid_args'' name"

definition text_field :: "json \<Rightarrow> string \<Rightarrow> nat \<Rightarrow> exn + json" where
  "text_field v name maximum =
     (if is_str v \<and> 1 \<le> length (the_str v) \<and> length (the_str v) \<le> maximum then Inr v else Inl (invalid_args name))"

definition int_field :: "json \<Rightarrow> string \<Rightarrow> int \<Rightarrow> int \<Rightarrow> exn + json" where
  "int_field v name minimum maximum =
     (if is_int v \<and> minimum \<le> the_int v \<and> the_int v \<le> maximum then Inr v else Inl (invalid_args name))"

text \<open>\<open>None\<close>, or a value with the given test.\<close>

definition optional :: "json \<Rightarrow> (json \<Rightarrow> bool) \<Rightarrow> string \<Rightarrow> exn + json" where
  "optional v ok name = (if v = JNull \<or> ok v then Inr v else Inl (invalid_args name))"

definition optional_text :: "json \<Rightarrow> string \<Rightarrow> nat \<Rightarrow> exn + json" where
  "optional_text v name maximum = (if v = JNull then Inr v else text_field v name maximum)"

definition optional_generation :: "dict \<Rightarrow> exn + json" where
  "optional_generation d =
     (let v = dget d ''expected_generation'' in
      if v = JNull then Inr v else int_field v ''expected_generation'' 0 (10 ^ 9))"

definition bool_field :: "json \<Rightarrow> string \<Rightarrow> exn + json" where
  "bool_field v name = (if is_bool v then Inr v else Inl (invalid_args name))"

definition op_is :: "json \<Rightarrow> string \<Rightarrow> bool" where
  "op_is request name \<longleftrightarrow> dget (items request) ''op'' = JNull \<or> dget (items request) ''op'' = jstr name"

section \<open>Starting\<close>

definition normalize_budget :: "json \<Rightarrow> exn + json" where
  "normalize_budget v =
     (let d = items v in
      if v = JNull then
        Inr (JObj [(lit ''steps'', JInt 24), (lit ''tool_calls'', JInt 24), (lit ''tokens'', JInt DEFAULT_TOKENS),
                   (lit ''wall_ms'', JInt 600000)])
      else if \<not> is_dict v \<or> \<not> keys_within d BUDGET_KEYS then Inl (invalid_args ''budget'')
      else
        andthen (int_field (dget d ''steps'') ''budget.steps'' 1 256) (\<lambda>steps.
        andthen (int_field (dget d ''tool_calls'') ''budget.tool_calls'' 0 1024) (\<lambda>tool_calls.
        andthen (int_field (dget_or d ''wall_ms'' (JInt 600000)) ''budget.wall_ms'' 1 86400000) (\<lambda>wall.
        andthen (if has d ''tokens''
                 then andthen (int_field (dget d ''tokens'') ''budget.tokens'' 1 (10 ^ 12)) (\<lambda>t. Inr [(lit ''tokens'', t)])
                 else Inr []) (\<lambda>tokens.
          Inr (JObj ([(lit ''steps'', steps), (lit ''tool_calls'', tool_calls), (lit ''wall_ms'', wall)] @ tokens)))))))"

text \<open>Membership in the frozenset \<open>TOOLS\<close> hashes the value.\<close>

definition toolset_field :: "json \<Rightarrow> exn + json" where
  "toolset_field v =
     (if v = JNull then Inr v
      else if is_list v \<or> is_dict v then Inl TypeError
      else if is_str v \<and> the_str v \<in> set TOOLS then Inr v
      else Inl (invalid_args ''toolset''))"

definition workspace_field :: "(pystr \<Rightarrow> exn + pystr) \<Rightarrow> json \<Rightarrow> exn + json" where
  "workspace_field resolve_path v =
     (if v = JNull then Inr v
      else if \<not> is_str v \<or> \<not> isabs (the_str v) then Inl (invalid_args ''workspace_root'')
      else andthen (resolve_path (the_str v)) (\<lambda>p. Inr (JStr p)))"

definition start_fields :: "json \<Rightarrow> json \<Rightarrow> json \<Rightarrow> json \<Rightarrow> json \<Rightarrow> json \<Rightarrow> json" where
  "start_fields message name model budget toolset workspace =
     JObj [(lit ''message'', message), (lit ''session_name'', name), (lit ''model'', model), (lit ''budget'', budget),
           (lit ''toolset'', toolset), (lit ''workspace_root'', workspace)]"

definition start_normal :: "(pystr \<Rightarrow> exn + pystr) \<Rightarrow> dict \<Rightarrow> exn + (json \<times> json \<times> json \<times> json)" where
  "start_normal resolve_path d =
     andthen (text_field (dget d ''message'') ''message'' MAX_MESSAGE) (\<lambda>message.
     andthen (text_field (dget d ''request_key'') ''request_key'' MAX_KEY) (\<lambda>request_key.
     andthen (optional_text (dget_or d ''name'' (dget d ''session_name'')) ''session_name'' MAX_NAME) (\<lambda>name.
     andthen (toolset_field (dget d ''toolset'')) (\<lambda>toolset.
     andthen (optional_text (dget d ''model'') ''model'' 200) (\<lambda>model.
     andthen (workspace_field resolve_path (dget d ''workspace_root'')) (\<lambda>workspace.
     andthen (normalize_budget (dget d ''budget'')) (\<lambda>budget.
     andthen (bool_field (dget_or d ''detach'' (JBool True)) ''detach'') (\<lambda>detach.
     andthen (int_field (dget_or d ''timeout_ms'' (JInt 0)) ''timeout_ms'' 0 MAX_TIMEOUT_MS) (\<lambda>timeout.
       Inr (request_key, start_fields message name model budget toolset workspace, detach, timeout))))))))))"

definition normalize_start :: "(pystr \<Rightarrow> exn + pystr) \<Rightarrow> json \<Rightarrow> exn + json" where
  "normalize_start resolve_path request =
     (if \<not> is_dict request then Inl (invalid_args ''request'')
      else if \<not> op_is request ''start'' then Inl (invalid_args ''op'')
      else if has (items request) ''session_id'' then Inl (invalid_args ''start_does_not_accept_session_id'')
      else
        andthen (start_normal resolve_path (items request)) (\<lambda>(request_key, normal, detach, timeout).
        andthen (wire_digest normal) (\<lambda>digest.
        andthen (key_hash (the_str request_key)) (\<lambda>hash.
          Inr (JObj [(lit ''request_key'', request_key), (lit ''normalized'', normal), (lit ''digest'', JStr digest),
                     (lit ''key_hash'', JStr hash), (lit ''detach'', detach), (lit ''timeout_ms'', timeout)])))))"

section \<open>Polling and waiting\<close>

definition session_ids_ok :: "json \<Rightarrow> bool" where
  "session_ids_ok v \<longleftrightarrow> is_list v \<and> 1 \<le> length (elems v) \<and> length (elems v) \<le> 32 \<and> list_all is_str (elems v)"

definition check_targets :: "dict \<Rightarrow> exn + unit" where
  "check_targets d =
     (let single = dget d ''session_id''; many = dget d ''session_ids'' in
      steps
        [require ((single = JNull) \<noteq> (many = JNull)) (invalid_args ''session_id_xor_session_ids''),
         require (single = JNull \<or> is_str single) (invalid_args ''session_id''),
         require (many = JNull \<or> session_ids_ok many) (invalid_args ''session_ids'')])"

definition normalize_poll :: "json \<Rightarrow> exn + json" where
  "normalize_poll request =
     (let d = items request in
      if \<not> is_dict request \<or> \<not> op_is request ''poll'' then Inl (invalid_args ''request'')
      else
        andthen (check_targets d) (\<lambda>_.
        andthen (bool_field (dget_or d ''include_events'' (JBool False)) ''include_events'') (\<lambda>include.
        andthen (optional (dget d ''cursor'') is_dict ''cursor'') (\<lambda>cursor.
          Inr (JObj [(lit ''session_id'', dget d ''session_id''), (lit ''session_ids'', dget d ''session_ids''),
                     (lit ''include_events'', include), (lit ''cursor'', cursor)])))))"

definition cursors_ok :: "json \<Rightarrow> bool" where
  "cursors_ok v \<longleftrightarrow> is_dict v \<and> length (items v) \<le> 32 \<and> (\<forall>kv \<in> set (items v). is_dict (snd kv))"

definition normalize_wait :: "json \<Rightarrow> exn + json" where
  "normalize_wait request =
     (let d = items request; cursor = dget d ''cursor''; cursors = dget d ''cursors'' in
      if \<not> is_dict request \<or> \<not> op_is request ''wait'' then Inl (invalid_args ''request'')
      else
        andthen (check_targets d) (\<lambda>_.
        andthen (steps
          [require (cursor = JNull \<or> cursors = JNull) (invalid_args ''cursor_xor_cursors''),
           require (cursor = JNull \<or> is_dict cursor) (invalid_args ''cursor''),
           require (cursors = JNull \<or> cursors_ok cursors) (invalid_args ''cursors'')]) (\<lambda>_.
        andthen (int_field (dget_or d ''timeout_ms'' (JInt 120000)) ''timeout_ms'' 0 MAX_TIMEOUT_MS) (\<lambda>timeout.
        andthen (bool_field (dget_or d ''include_events'' (JBool False)) ''include_events'') (\<lambda>include.
          Inr (JObj [(lit ''session_id'', dget d ''session_id''), (lit ''session_ids'', dget d ''session_ids''),
                     (lit ''cursor'', cursor), (lit ''cursors'', cursors), (lit ''timeout_ms'', timeout),
                     (lit ''include_events'', include)]))))))"

section \<open>Control commands\<close>

definition sealed :: "dict \<Rightarrow> json \<Rightarrow> json \<Rightarrow> exn + json" where
  "sealed shown normal request_key =
     andthen (wire_digest normal) (\<lambda>digest.
     andthen (key_hash (the_str request_key)) (\<lambda>hash.
       Inr (JObj (shown @ [(lit ''normalized'', normal), (lit ''digest'', JStr digest), (lit ''key_hash'', JStr hash)]))))"

definition normalize_cancel :: "json \<Rightarrow> exn + json" where
  "normalize_cancel request =
     (let d = items request in
      if \<not> is_dict request \<or> \<not> op_is request ''cancel'' then Inl (invalid_args ''request'')
      else
        andthen (text_field (dget d ''session_id'') ''session_id'' 64) (\<lambda>sid.
        andthen (text_field (dget d ''request_key'') ''request_key'' MAX_KEY) (\<lambda>key.
        andthen (optional (dget d ''expected_run_id'') is_str ''expected_run_id'') (\<lambda>run_id.
        andthen (optional_generation d) (\<lambda>generation.
          (let normal = [(lit ''session_id'', sid), (lit ''expected_run_id'', run_id),
                         (lit ''expected_generation'', generation)] in
           sealed normal (JObj normal) key))))))"

definition normalize_steer :: "json \<Rightarrow> exn + json" where
  "normalize_steer request =
     (let d = items request in
      if \<not> is_dict request \<or> \<not> op_is request ''steer'' then Inl (invalid_args ''request'')
      else
        andthen (text_field (dget d ''session_id'') ''session_id'' 64) (\<lambda>sid.
        andthen (text_field (dget d ''message'') ''message'' 8192) (\<lambda>message.
        andthen (text_field (dget d ''request_key'') ''request_key'' MAX_KEY) (\<lambda>key.
        andthen (optional (dget d ''expected_run_id'') is_str ''expected_run_id'') (\<lambda>run_id.
        andthen (optional_generation d) (\<lambda>generation.
        andthen (bool_field (dget_or d ''wait'' (JBool False)) ''wait'') (\<lambda>waits.
        andthen (int_field (dget_or d ''timeout_ms'' (JInt 0)) ''timeout_ms'' 0 MAX_TIMEOUT_MS) (\<lambda>timeout.
          if truthy (dget d ''queue'') then Inl (invalid_args ''queue'')
          else
            (let normal = [(lit ''session_id'', sid), (lit ''message'', message), (lit ''expected_run_id'', run_id),
                           (lit ''expected_generation'', generation)] in
             sealed (normal @ [(lit ''wait'', waits), (lit ''timeout_ms'', timeout)]) (JObj normal) key)))))))))"

definition kernel_response :: "json \<Rightarrow> json \<Rightarrow> json \<Rightarrow> json \<Rightarrow> json \<Rightarrow> json" where
  "kernel_response response answers content meta amendment =
     (if amendment \<noteq> JNull then
        JObj [(lit ''action'', jstr ''accept_with_amendment''), (lit ''amendment'', amendment)]
      else if answers \<noteq> JNull then JObj [(lit ''answers'', answers)]
      else if content \<noteq> JNull \<or> meta \<noteq> JNull then
        JObj ([(lit ''action'', if truthy response then response else jstr ''accept'')] @
              (if content \<noteq> JNull then [(lit ''content'', content)] else []) @
              (if meta \<noteq> JNull then [(lit ''meta'', meta)] else []))
      else JObj [(lit ''text'', response)])"

definition normalize_respond :: "json \<Rightarrow> exn + json" where
  "normalize_respond request =
     (let d = items request; response = dget d ''response''; answers = dget d ''answers''; content = dget d ''content'';
          meta = dget d ''meta''; amendment = dget d ''amendment'' in
      if \<not> is_dict request \<or> \<not> op_is request ''respond'' then Inl (invalid_args ''request'')
      else
        andthen (text_field (dget d ''session_id'') ''session_id'' 64) (\<lambda>sid.
        andthen (text_field (dget d ''interaction_id'') ''interaction_id'' 128) (\<lambda>iid.
        andthen (text_field (dget d ''request_key'') ''request_key'' MAX_KEY) (\<lambda>key.
        andthen (steps
          [require (response = JNull \<or> is_str response) (invalid_args ''response''),
           require (answers = JNull \<or> is_dict answers) (invalid_args ''answers''),
           require (content = JNull \<or> is_dict content) (invalid_args ''content''),
           require (meta = JNull \<or> is_dict meta) (invalid_args ''meta''),
           require (amendment = JNull \<or> is_str amendment) (invalid_args ''amendment''),
           require (\<exists>v \<in> set [response, answers, content, meta, amendment]. v \<noteq> JNull) (invalid_args ''response_required''),
           require (response \<noteq> JStr [] \<and> amendment \<noteq> JStr [] \<and> answers \<noteq> JObj []) (invalid_args ''response_empty'')]) (\<lambda>_.
        andthen (optional_generation d) (\<lambda>generation.
          (let normal = [(lit ''session_id'', sid), (lit ''interaction_id'', iid),
                         (lit ''response'', kernel_response response answers content meta amendment),
                         (lit ''expected_generation'', generation)] in
           sealed normal (JObj normal) key)))))))"

section \<open>Wakes\<close>

text \<open>\<open>a > b\<close>: numbers by value, texts by code points, lists at the first place where they
  differ, anything else is a \<open>TypeError\<close>; a \<open>nan\<close> or an
  infinity compares as its \<open>repr\<close> says.\<close>

definition extended :: "json \<Rightarrow> (rat option \<times> pystr) option" where
  "extended v = (case v of JFloat (NonFinite r) \<Rightarrow> Some (None, r)
     | _ \<Rightarrow> (case numeric v of Some q \<Rightarrow> Some (Some q, []) | None \<Rightarrow> None))"

definition above :: "rat option \<times> pystr \<Rightarrow> rat option \<times> pystr \<Rightarrow> bool" where
  "above a b \<longleftrightarrow>
     (case (a, b) of
        ((Some p, _), (Some q, _)) \<Rightarrow> q < p
      | ((None, r), (Some _, _)) \<Rightarrow> r = lit ''inf''
      | ((Some _, _), (None, r)) \<Rightarrow> r = lit ''-inf''
      | ((None, r), (None, s)) \<Rightarrow> r = lit ''inf'' \<and> s = lit ''-inf'')"

function (sequential) py_gt :: "json \<Rightarrow> json \<Rightarrow> exn + bool" where
  "py_gt (JStr s) (JStr t) = Inr (t < s)"
| "py_gt (JArr []) (JArr ys) = Inr False"
| "py_gt (JArr (x # xs)) (JArr []) = Inr True"
| "py_gt (JArr (x # xs)) (JArr (y # ys)) = (if py_eq x y then py_gt (JArr xs) (JArr ys) else py_gt x y)"
| "py_gt a b = (case (extended a, extended b) of (Some p, Some q) \<Rightarrow> Inr (above p q) | _ \<Rightarrow> Inl TypeError)"
  by pat_completeness auto
termination by (relation "Wellfounded.measure (\<lambda>(a, b). size a)") auto

text \<open>\<open>v or {}\<close>, of which a field is read.\<close>

definition or_empty :: "json \<Rightarrow> exn + dict" where
  "or_empty v = (if \<not> truthy v then Inr [] else if is_dict v then Inr (items v) else Inl AttributeError)"

definition differs :: "dict \<Rightarrow> dict \<Rightarrow> string \<Rightarrow> bool" where
  "differs a b k \<longleftrightarrow> \<not> py_eq (dget a k) (dget b k)"

definition wake_reason :: "json \<Rightarrow> dict \<Rightarrow> bool \<Rightarrow> exn + string option" where
  "wake_reason cursor snap include_events =
     (let now_at = items (dget snap ''cursor''); seen = items cursor in
      if cursor = JNull then Inr None
      else if differs now_at seen ''run_id'' then Inr (Some ''run_started'')
      else if truthy (dget snap ''terminal'') then Inr (Some ''terminal'')
      else
        andthen (if dget snap ''status'' = jstr ''waiting_for_input''
                 then andthen (or_empty (dget snap ''interaction'')) (\<lambda>i. Inr (differs i seen ''interaction_id''))
                 else Inr False) (\<lambda>asks.
          if asks then Inr (Some ''interaction'')
          else if differs now_at seen ''registration_generation'' then Inr (Some ''epoch'')
          else if differs now_at seen ''epoch_no'' \<or> differs now_at seen ''generation'' then Inr (Some ''epoch'')
          else if include_events then
            andthen (py_gt (dget_or now_at ''event_seq'' (JInt 0)) (dget_or seen ''event_seq'' (JInt 0))) (\<lambda>newer.
              Inr (if newer then Some ''event'' else None))
          else Inr None))"

section \<open>Snapshots\<close>

definition TERMINAL :: "string list" where
  "TERMINAL = [''completed'', ''failed'', ''cancelled'', ''blocked_unknown'']"

definition among :: "json \<Rightarrow> string list \<Rightarrow> bool" where
  "among v names \<longleftrightarrow> is_str v \<and> the_str v \<in> set (map lit names)"

definition public_status :: "dict \<Rightarrow> json \<Rightarrow> json" where
  "public_status session run =
     (let st = dget_or session ''state'' (jstr ''starting''); status = dget (items run) ''status'' in
      if st = jstr ''closed'' then jstr ''closed''
      else if \<not> truthy run then (if st = jstr ''active'' then jstr ''idle'' else jstr ''starting'')
      else if status = jstr ''waiting'' then jstr ''waiting_for_input''
      else if among status (''running'' # TERMINAL) then status
      else jstr ''starting'')"

definition RUN_KEYS :: "string list" where
  "RUN_KEYS = [''run_id'', ''status'', ''epoch_no'', ''registration_generation'', ''turn_no'',
     ''driving_generation'', ''revision'', ''created_at'', ''updated_at'', ''ended_at'',
     ''remaining_steps'', ''remaining_tokens'', ''remaining_tool_calls'',
     ''remaining_wall_ms'', ''interaction'', ''pending_steer'', ''close_intent'', ''result'']"

definition run_view :: "json \<Rightarrow> json" where
  "run_view run =
     (if \<not> is_dict run then JNull
      else
        let d = items run; view = map (\<lambda>k. (lit k, dget d k)) (filter (has d) RUN_KEYS) in
        JObj (if among (dget view ''status'') TERMINAL then view else dset view ''result'' JNull))"

text \<open>\<open>int(v or 0)\<close>; \<open>read_int\<close> is \<open>int\<close> of a text.\<close>

definition truncate_rat :: "rat \<Rightarrow> int" where
  "truncate_rat q = (if q < 0 then - \<lfloor>- q\<rfloor> else \<lfloor>q\<rfloor>)"

definition int_or_zero :: "(pystr \<Rightarrow> exn + int) \<Rightarrow> json \<Rightarrow> exn + json" where
  "int_or_zero read_int v =
     (if \<not> truthy v then Inr (JInt 0)
      else case v of
             JInt i \<Rightarrow> Inr (JInt i)
           | JBool b \<Rightarrow> Inr (JInt 1)
           | JFloat (Finite q _) \<Rightarrow> Inr (JInt (truncate_rat q))
           | JFloat (NonFinite _) \<Rightarrow> Inl ValueError
           | JStr s \<Rightarrow> andthen (read_int s) (\<lambda>i. Inr (JInt i))
           | _ \<Rightarrow> Inl TypeError)"

definition cursor_for :: "(pystr \<Rightarrow> exn + int) \<Rightarrow> dict \<Rightarrow> json \<Rightarrow> json \<Rightarrow> exn + json" where
  "cursor_for read_int session run event_seq =
     andthen (or_empty run) (\<lambda>r.
       let interaction = dget r ''interaction''; num = (\<lambda>d k. int_or_zero read_int (dget_or d k (JInt 0))) in
       andthen (num r ''revision'') (\<lambda>revision.
       andthen (int_or_zero read_int event_seq) (\<lambda>seq.
       andthen (num r ''registration_generation'') (\<lambda>registration.
       andthen (num r ''epoch_no'') (\<lambda>epoch.
       andthen (num r ''driving_generation'') (\<lambda>generation.
       andthen (num session ''user_turn_no'') (\<lambda>turn.
       andthen (num session ''session_revision'') (\<lambda>session_revision.
         Inr (JObj
           [(lit ''session_id'', dget session ''session_id''), (lit ''run_id'', dget r ''run_id''),
            (lit ''run_revision'', revision), (lit ''event_seq'', seq),
            (lit ''registration_generation'', registration), (lit ''epoch_no'', epoch),
            (lit ''generation'', generation),
            (lit ''interaction_id'', dget (items interaction) ''interaction_id''),
            (lit ''user_turn_no'', turn), (lit ''session_revision'', session_revision)])))))))))"

definition snapshot :: "(pystr \<Rightarrow> exn + int) \<Rightarrow> dict \<Rightarrow> json \<Rightarrow> json \<Rightarrow> exn + json" where
  "snapshot read_int session run event_seq =
     (let status = public_status session run; view = run_view run in
        andthen (cursor_for read_int session run event_seq) (\<lambda>cursor.
        andthen (int_or_zero read_int (dget_or session ''run_no'' (JInt 0))) (\<lambda>run_no.
        andthen (int_or_zero read_int (dget_or session ''user_turn_no'' (JInt 0))) (\<lambda>turn_no.
          Inr (JObj
            [(lit ''v'', JInt 1), (lit ''session_id'', dget session ''session_id''), (lit ''name'', dget session ''name''),
             (lit ''state'', dget_or session ''state'' (jstr ''starting'')), (lit ''status'', status),
             (lit ''active'', JBool (among status [''running'', ''waiting_for_input''])),
             (lit ''terminal'', JBool (among status (TERMINAL @ [''closed'']))),
             (lit ''workspace_root'', dget session ''workspace_root''), (lit ''toolset'', dget session ''toolset''),
             (lit ''model'', dget session ''model''), (lit ''created_at'', dget session ''created_at''),
             (lit ''updated_at'', dget session ''updated_at''), (lit ''run_no'', run_no), (lit ''user_turn_no'', turn_no),
             (lit ''current_run'', view), (lit ''last_run'', view),
             (lit ''interaction'',
               if status = jstr ''waiting_for_input'' then dget (items run) ''interaction'' else JNull),
             (lit ''pending_steer'', dget (items run) ''pending_steer''),
             (lit ''counters'', JObj [(lit ''runs'', run_no), (lit ''effect_settlement_no'', JNull),
                (lit ''model_round_no'', JNull), (lit ''tool_round_no'', JNull), (lit ''user_turn_no'', turn_no)]),
             (lit ''cursor'', cursor)])))))"

definition changed :: "json \<Rightarrow> dict \<Rightarrow> bool" where
  "changed cursor current \<longleftrightarrow>
     \<not> is_dict cursor \<or> differs (items cursor) current ''session_id'' \<or>
     list_ex (differs (items cursor) current) [''run_id'', ''run_revision'', ''session_revision'']"

section \<open>Envelopes\<close>

definition error_envelope :: "string \<Rightarrow> string \<Rightarrow> string \<Rightarrow> json \<Rightarrow> json \<Rightarrow> json" where
  "error_envelope op code message details session_id =
     JObj ([(lit ''v'', JInt 1), (lit ''op'', jstr op), (lit ''ok'', JBool False), (lit ''disposition'', jstr ''rejected''),
            (lit ''error'', JObj ([(lit ''code'', jstr code)] @
               (if message = [] then [] else [(lit ''message'', jstr message)]) @
               (if details = JNull then [] else [(lit ''details'', details)])))] @
           (if session_id = JNull then [] else [(lit ''session_id'', session_id)]))"

definition start_envelope ::
  "(pystr \<Rightarrow> exn + int) \<Rightarrow> string \<Rightarrow> dict \<Rightarrow> json \<Rightarrow> json \<Rightarrow> json \<Rightarrow> json \<Rightarrow> exn + json" where
  "start_envelope read_int disposition session run run_id begun error =
     andthen (snapshot read_int session run (JInt 0)) (\<lambda>snap.
       Inr (JObj
         [(lit ''v'', JInt 1), (lit ''op'', jstr ''start''), (lit ''ok'', JBool (disposition = ''committed'')),
          (lit ''disposition'', jstr disposition), (lit ''session_id'', dget session ''session_id''),
          (lit ''run_id'', run_id), (lit ''started'', begun), (lit ''snapshot'', snap),
          (lit ''cursor'', dget (items snap) ''cursor''), (lit ''error'', error)]))"

end
