(* ===== verification/Session_Text.thy ===== *)
theory Session_Text
  imports Wire Journal
begin

text \<open>
  What the session files are made of: \<open>json.dumps\<close> in insertion order, \<open>json.loads\<close> of a byte
  string with its guess of the encoding, UUIDs, and the ways the code reads values it did not
  check (\<open>x.get(k)\<close>, \<open>x[k]\<close>, \<open>for y in x\<close>, \<open>int(x)\<close>).
\<close>

section \<open>json.dumps in insertion order\<close>

text \<open>\<open>json.dumps(v, ensure_ascii=False, separators=(item, key))\<close>\<close>

fun dumps_text :: "pystr \<Rightarrow> pystr \<Rightarrow> json \<Rightarrow> pystr" where
  "dumps_text item key (JObj d) =
     [123] @ join item (map (\<lambda>(k, v). quote k @ key @ dumps_text item key v) d) @ [125]"
| "dumps_text item key (JArr xs) = [91] @ join item (map (dumps_text item key) xs) @ [93]"
| "dumps_text item key (JStr s) = quote s"
| "dumps_text item key (JBool b) = (if b then lit ''true'' else lit ''false'')"
| "dumps_text item key JNull = lit ''null''"
| "dumps_text item key (JInt i) = int_text i"
| "dumps_text item key (JFloat (Finite _ r)) = r"
| "dumps_text item key (JFloat (NonFinite r)) = nan_text r"

text \<open>\<open>(json.dumps(...) + "\n").encode()\<close>\<close>

definition encode_line :: "pystr \<Rightarrow> pystr \<Rightarrow> json \<Rightarrow> exn + bytes" where
  "encode_line item key v =
     (if \<not> digits_ok v then Inl ValueError
      else case utf8_encode (dumps_text item key v @ [10]) of None \<Rightarrow> Inl UnicodeError | Some b \<Rightarrow> Inr b)"

lemma dumps_text_jtext: "J_domain v \<Longrightarrow> dumps_text [44] [58] v = jtext v"
proof (induction v rule: jtext.induct)
  case (1 d)
  then have "map (\<lambda>(k, v). quote k @ [58] @ dumps_text [44] [58] v) d = map (\<lambda>(k, v). quote k @ [58] @ jtext v) d"
    by (intro map_cong) (auto simp: list_all_iff)
  then show ?case by (simp only: dumps_text.simps jtext.simps)
next
  case (2 xs)
  then have "map (dumps_text [44] [58]) xs = map jtext xs" by (intro map_cong) (auto simp: list_all_iff)
  then show ?case by (simp only: dumps_text.simps jtext.simps)
qed auto

lemma digits_ok_domain: "J_domain v \<Longrightarrow> digits_ok v"
proof (induction v rule: digits_ok.induct)
  case (1 i)
  then have "length (dec (nat \<bar>i\<bar>)) \<le> 16"
    by (intro length_dec) (auto simp: safe_int_def SAFE_INTEGER_MAX_def)
  then show ?case by simp
qed (auto simp: list_all_iff)

section \<open>json.loads of bytes\<close>

text \<open>\<open>decode("utf-8", "surrogatepass")\<close>, the strict decoder with surrogates let through.\<close>

fun utf8_pass :: "bytes \<Rightarrow> pystr option" where
  "utf8_pass [] = Some []"
| "utf8_pass (b # r) =
     (if b < 0x80 then map_option ((#) b) (utf8_pass r)
      else if b < 0xC2 then None
      else if b < 0xE0 then
        (case r of
           b1 # r1 \<Rightarrow>
             if cont_byte b1 then map_option ((#) ((b - 0xC0) * 64 + (b1 - 0x80))) (utf8_pass r1) else None
         | _ \<Rightarrow> None)
      else if b < 0xF0 then
        (case r of
           b1 # b2 # r2 \<Rightarrow>
             (let c = (b - 0xE0) * 4096 + (b1 - 0x80) * 64 + (b2 - 0x80) in
              if cont_byte b1 \<and> cont_byte b2 \<and> 0x800 \<le> c then map_option ((#) c) (utf8_pass r2) else None)
         | _ \<Rightarrow> None)
      else if b < 0xF5 then
        (case r of
           b1 # b2 # b3 # r3 \<Rightarrow>
             (let c = (b - 0xF0) * 262144 + (b1 - 0x80) * 4096 + (b2 - 0x80) * 64 + (b3 - 0x80) in
              if cont_byte b1 \<and> cont_byte b2 \<and> cont_byte b3 \<and> 0x10000 \<le> c \<and> c < 0x110000
              then map_option ((#) c) (utf8_pass r3) else None)
         | _ \<Rightarrow> None)
      else None)"

lemma utf8_pass_strict: "utf8_decode b = Some s \<Longrightarrow> utf8_pass b = Some s"
  by (induction b arbitrary: s rule: utf8_decode.induct) (auto split: if_splits list.splits simp: Let_def)

fun units :: "bool \<Rightarrow> bytes \<Rightarrow> nat list option" where
  "units big [] = Some []"
| "units big [b] = None"
| "units big (a # b # r) = map_option ((#) (if big then a * 256 + b else b * 256 + a)) (units big r)"

fun pairs_of_units :: "nat list \<Rightarrow> pystr" where
  "pairs_of_units (h # l # r) =
     (if 0xD800 \<le> h \<and> h \<le> 0xDBFF \<and> 0xDC00 \<le> l \<and> l \<le> 0xDFFF
      then (0x10000 + (h - 0xD800) * 0x400 + (l - 0xDC00)) # pairs_of_units r
      else h # pairs_of_units (l # r))"
| "pairs_of_units r = r"

definition utf16_pass :: "bool \<Rightarrow> bytes \<Rightarrow> pystr option" where
  "utf16_pass big b = map_option pairs_of_units (units big b)"

fun quads :: "bool \<Rightarrow> nat list \<Rightarrow> pystr option" where
  "quads big [] = Some []"
| "quads big [u] = None"
| "quads big (u # v # r) =
     (let c = (if big then u * 65536 + v else v * 65536 + u) in
      if c < 0x110000 then map_option ((#) c) (quads big r) else None)"

definition utf32_pass :: "bool \<Rightarrow> bytes \<Rightarrow> pystr option" where
  "utf32_pass big b = (case units big b of None \<Rightarrow> None | Some us \<Rightarrow> quads big us)"

text \<open>\<open>json.detect_encoding\<close> and the decoding it selects: a byte order mark, or the place of the
  zero bytes among the first four.\<close>

definition decode_json :: "bytes \<Rightarrow> pystr option" where
  "decode_json b =
     (if take 4 b = [0, 0, 0xFE, 0xFF] then utf32_pass True (drop 4 b)
      else if take 4 b = [0xFF, 0xFE, 0, 0] then utf32_pass False (drop 4 b)
      else if take 2 b = [0xFE, 0xFF] then utf16_pass True (drop 2 b)
      else if take 2 b = [0xFF, 0xFE] then utf16_pass False (drop 2 b)
      else if take 3 b = [0xEF, 0xBB, 0xBF] then utf8_pass (drop 3 b)
      else
        case b of
          a # c # d # e # _ \<Rightarrow>
            if a = 0 then (if c \<noteq> 0 then utf16_pass True b else utf32_pass True b)
            else if c = 0 then (if d \<noteq> 0 \<or> e \<noteq> 0 then utf16_pass False b else utf32_pass False b)
            else utf8_pass b
        | [a, c] \<Rightarrow>
            if a = 0 then utf16_pass True b else if c = 0 then utf16_pass False b else utf8_pass b
        | _ \<Rightarrow> utf8_pass b)"

definition loads_bytes :: "(pystr \<Rightarrow> pyfloat) \<Rightarrow> bytes \<Rightarrow> exn + json" where
  "loads_bytes fl b =
     (case decode_json b of None \<Rightarrow> Inl UnicodeError | Some t \<Rightarrow> json_loads (default_hooks fl) t)"

text \<open>The subclasses of \<open>ValueError\<close> that reading can raise.\<close>

definition value_failure :: "exn \<Rightarrow> bool" where
  "value_failure e \<longleftrightarrow>
     (case e of ValueError \<Rightarrow> True | UnicodeError \<Rightarrow> True | JSONDecodeError \<Rightarrow> True | IntDigits _ \<Rightarrow> True | _ \<Rightarrow> False)"

lemma value_failure_simps [simp]:
  "value_failure ValueError" "value_failure UnicodeError" "value_failure JSONDecodeError" "value_failure (IntDigits n)"
  "\<not> value_failure KeyError" "\<not> value_failure TypeError" "\<not> value_failure OSError" "\<not> value_failure (StoreError r)"
  "\<not> value_failure AttributeError" "\<not> value_failure (RuntimeError r)"
  by (simp_all add: value_failure_def)

section \<open>UUIDs\<close>

fun remove_all :: "pystr \<Rightarrow> pystr \<Rightarrow> pystr" where
  "remove_all p [] = []"
| "remove_all p (c # s) =
     (if p \<noteq> [] \<and> take (length p) (c # s) = p then remove_all p (drop (length p - 1) s)
      else c # remove_all p s)"

definition strip_set :: "nat set \<Rightarrow> pystr \<Rightarrow> pystr" where
  "strip_set cs s = rev (dropWhile (\<lambda>c. c \<in> cs) (rev (dropWhile (\<lambda>c. c \<in> cs) s)))"

text \<open>\<open>int(s, 16)\<close>; \<open>exotic\<close> is its answer on a text with other characters than hexadecimal digits
  (a sign, underscores, blanks, a prefix, digits of other scripts).\<close>

definition hex_number :: "pystr \<Rightarrow> nat option" where
  "hex_number s = foldl (\<lambda>a c. case (a, hex_val c) of (Some n, Some h) \<Rightarrow> Some (n * 16 + h) | _ \<Rightarrow> None) (Some 0) s"

definition int16 :: "(pystr \<Rightarrow> int option) \<Rightarrow> pystr \<Rightarrow> int option" where
  "int16 exotic s = (case hex_number s of Some n \<Rightarrow> if s = [] then None else Some (int n) | None \<Rightarrow> exotic s)"

text \<open>\<open>uuid.UUID(s).int\<close>\<close>

definition uuid_int :: "(pystr \<Rightarrow> int option) \<Rightarrow> pystr \<Rightarrow> exn + nat" where
  "uuid_int exotic s =
     (let h = remove_all [45] (strip_set {123, 125} (remove_all (lit ''uuid:'') (remove_all (lit ''urn:'') s))) in
      if length h \<noteq> 32 then Inl ValueError
      else case int16 exotic h of
             None \<Rightarrow> Inl ValueError
           | Some i \<Rightarrow> if 0 \<le> i \<and> i < 2 ^ 128 then Inr (nat i) else Inl ValueError)"

definition valid_uuid :: "(pystr \<Rightarrow> int option) \<Rightarrow> json \<Rightarrow> exn + nat" where
  "valid_uuid exotic v = (if \<not> is_str v then Inl ValueError else uuid_int exotic (the_str v))"

fun hex_fixed :: "nat \<Rightarrow> nat \<Rightarrow> pystr" where
  "hex_fixed 0 n = []"
| "hex_fixed (Suc k) n = hex_fixed k (n div 16) @ [hex_digit (n mod 16)]"

text \<open>\<open>str(uuid)\<close>\<close>

definition uuid_text :: "nat \<Rightarrow> pystr" where
  "uuid_text n =
     (let h = hex_fixed 32 n in
      take 8 h @ [45] @ take 4 (drop 8 h) @ [45] @ take 4 (drop 12 h) @ [45] @ take 4 (drop 16 h) @ [45] @ drop 20 h)"

section \<open>Reading unchecked values\<close>

text \<open>\<open>x.get(k)\<close> and \<open>x.get(k, default)\<close>\<close>

definition attr_or :: "json \<Rightarrow> string \<Rightarrow> json \<Rightarrow> exn + json" where
  "attr_or v k z = (if is_dict v then Inr (dget_or (items v) k z) else Inl AttributeError)"

definition attr :: "json \<Rightarrow> string \<Rightarrow> exn + json" where
  "attr v k = attr_or v k JNull"

text \<open>\<open>len(x or [])\<close>\<close>

definition len_or_empty :: "json \<Rightarrow> exn + int" where
  "len_or_empty v = (if \<not> truthy v then Inr 0 else andthen (iterate v) (\<lambda>xs. Inr (int (length xs))))"

text \<open>\<open>int(x)\<close>; \<open>read_int\<close> is \<open>int\<close> of a text.\<close>

definition as_int :: "(pystr \<Rightarrow> exn + int) \<Rightarrow> json \<Rightarrow> exn + int" where
  "as_int read_int v =
     (case v of
        JInt i \<Rightarrow> Inr i
      | JBool b \<Rightarrow> Inr (if b then 1 else 0)
      | JFloat (Finite q _) \<Rightarrow> Inr (truncate_rat q)
      | JFloat (NonFinite _) \<Rightarrow> Inl ValueError
      | JStr s \<Rightarrow> read_int s
      | _ \<Rightarrow> Inl TypeError)"

definition hashable :: "json \<Rightarrow> bool" where
  "hashable v \<longleftrightarrow> \<not> is_list v \<and> \<not> is_dict v"

definition last_n :: "nat \<Rightarrow> 'a list \<Rightarrow> 'a list" where
  "last_n n xs = drop (length xs - n) xs"

fun position :: "('a \<Rightarrow> bool) \<Rightarrow> 'a list \<Rightarrow> nat option" where
  "position f [] = None"
| "position f (x # xs) = (if f x then Some 0 else map_option Suc (position f xs))"

lemma length_last_n: "length (last_n n xs) = min n (length xs)"
  by (simp add: last_n_def)

lemma set_last_n: "set (last_n n xs) \<subseteq> set xs"
  by (simp add: last_n_def set_drop_subset)

lemma position_Some: "position f xs = Some i \<longleftrightarrow> i < length xs \<and> f (xs ! i) \<and> (\<forall>j < i. \<not> f (xs ! j))"
proof (induction xs arbitrary: i)
  case (Cons x xs)
  show ?case
  proof (cases i)
    case (Suc j)
    show ?thesis
    proof (cases "f x")
      case True
      then show ?thesis using Suc by force
    next
      case False
      then show ?thesis using Suc Cons.IH[of j] by (auto simp: less_Suc_eq_0_disj)
    qed
  qed (cases "f x"; simp)
qed simp

lemma position_None: "position f xs = None \<longleftrightarrow> (\<forall>x \<in> set xs. \<not> f x)"
  by (induction xs) auto

end
