(* ===== verification/Stateful.thy ===== *)
theory Stateful
  imports Prelude
begin

text \<open>
  Code that mutates an object and may raise: an action takes the state and gives the outcome with
  the state it leaves, also when it raises, because what was assigned before a \<open>raise\<close> stays
  assigned. \<open>keeps P m\<close> says that \<open>m\<close> never leaves a state of \<open>P\<close>, raising or not; its rules follow
  the shape of the code and form the collection \<open>keeps_intros\<close>.
\<close>

type_synonym ('s, 'a) action = "'s \<Rightarrow> (exn + 'a) \<times> 's"

definition pure :: "'a \<Rightarrow> ('s, 'a) action" where
  "pure x = (\<lambda>s. (Inr x, s))"

definition throw :: "exn \<Rightarrow> ('s, 'a) action" where
  "throw e = (\<lambda>s. (Inl e, s))"

definition seq :: "('s, 'a) action \<Rightarrow> ('a \<Rightarrow> ('s, 'b) action) \<Rightarrow> ('s, 'b) action" where
  "seq m f = (\<lambda>s. case m s of (Inl e, t) \<Rightarrow> (Inl e, t) | (Inr x, t) \<Rightarrow> f x t)"

definition reads :: "('s \<Rightarrow> 'a) \<Rightarrow> ('s, 'a) action" where
  "reads f = (\<lambda>s. (Inr (f s), s))"

definition updates :: "('s \<Rightarrow> 's) \<Rightarrow> ('s, unit) action" where
  "updates f = (\<lambda>s. (Inr (), f s))"

text \<open>A computation without effects.\<close>

definition lift :: "exn + 'a \<Rightarrow> ('s, 'a) action" where
  "lift r = (\<lambda>s. (r, s))"

text \<open>\<open>if not b: raise e\<close>\<close>

definition demand :: "bool \<Rightarrow> exn \<Rightarrow> ('s, unit) action" where
  "demand b e = (if b then pure () else throw e)"

text \<open>\<open>try: m except E as e: handler(e)\<close> for the exceptions that \<open>caught\<close> names.\<close>

definition attempt :: "('s, 'a) action \<Rightarrow> (exn \<Rightarrow> bool) \<Rightarrow> (exn \<Rightarrow> ('s, 'a) action) \<Rightarrow> ('s, 'a) action" where
  "attempt m caught handler =
     (\<lambda>s. case m s of (Inl e, t) \<Rightarrow> if caught e then handler e t else (Inl e, t) | (Inr x, t) \<Rightarrow> (Inr x, t))"

fun run_each :: "('a \<Rightarrow> ('s, unit) action) \<Rightarrow> 'a list \<Rightarrow> ('s, unit) action" where
  "run_each f [] = pure ()"
| "run_each f (x # xs) = seq (f x) (\<lambda>_. run_each f xs)"

text \<open>An action of a part of the state.\<close>

definition zoom :: "('s \<Rightarrow> 't) \<Rightarrow> ('t \<Rightarrow> 's \<Rightarrow> 's) \<Rightarrow> ('t, 'a) action \<Rightarrow> ('s, 'a) action" where
  "zoom view store m = (\<lambda>s. case m (view s) of (r, t) \<Rightarrow> (r, store t s))"

lemma pure_run [simp]: "pure x s = (Inr x, s)"
  by (simp add: pure_def)

lemma throw_run [simp]: "throw e s = (Inl e, s)"
  by (simp add: throw_def)

lemma reads_run [simp]: "reads f s = (Inr (f s), s)"
  by (simp add: reads_def)

lemma updates_run [simp]: "updates f s = (Inr (), f s)"
  by (simp add: updates_def)

lemma lift_run [simp]: "lift r s = (r, s)"
  by (simp add: lift_def)

lemma demand_run [simp]: "demand b e s = (if b then Inr () else Inl e, s)"
  by (simp add: demand_def)

lemma seq_run: "seq m f s = (case m s of (Inl e, t) \<Rightarrow> (Inl e, t) | (Inr x, t) \<Rightarrow> f x t)"
  by (simp add: seq_def)

lemma seq_Inr: "m s = (Inr x, t) \<Longrightarrow> seq m f s = f x t"
  by (simp add: seq_def)

lemma seq_Inl: "m s = (Inl e, t) \<Longrightarrow> seq m f s = (Inl e, t)"
  by (simp add: seq_def)

lemma seq_simps [simp]:
  "seq (pure x) f = f x" "seq (throw e) g = throw e" "seq (reads h) k s = k (h s) s"
  "seq (updates u) l s = l () (u s)"
  by (simp_all add: seq_def pure_def throw_def reads_def updates_def)

lemma seq_lift [simp]: "seq (lift r) f s = (case r of Inl e \<Rightarrow> (Inl e, s) | Inr x \<Rightarrow> f x s)"
  by (simp add: seq_def split: sum.splits)

lemma seq_demand [simp]: "seq (demand b e) f s = (if b then f () s else (Inl e, s))"
  by (simp add: seq_def)

lemma seq_assoc: "seq (seq m f) g = seq m (\<lambda>x. seq (f x) g)"
  by (rule ext) (auto simp: seq_def split: prod.splits sum.splits)

lemma seq_returns:
  "seq m f s = (Inr y, u) \<longleftrightarrow> (\<exists>x t. m s = (Inr x, t) \<and> f x t = (Inr y, u))"
  by (auto simp: seq_def split: prod.splits sum.splits)

lemma seq_returns_unit:
  fixes m :: "('s, unit) action"
  shows "seq m f s = (Inr y, u) \<longleftrightarrow> (\<exists>t. m s = (Inr (), t) \<and> f () t = (Inr y, u))"
  by (simp add: seq_returns)

lemma seq_cases:
  assumes "seq m f s = (r, t)"
  obtains e where "m s = (Inl e, t)" "r = Inl e" | x u where "m s = (Inr x, u)" "f x u = (r, t)"
  using assms by (auto simp: seq_def split: prod.splits sum.splits)

section \<open>What an action leaves\<close>

definition keeps :: "('s \<Rightarrow> bool) \<Rightarrow> ('s, 'a) action \<Rightarrow> bool" where
  "keeps P m \<longleftrightarrow> (\<forall>s r t. P s \<longrightarrow> m s = (r, t) \<longrightarrow> P t)"

named_theorems keeps_intros \<open>rules that show that an action keeps a property of the state\<close>

lemma keepsI: "(\<And>s r t. P s \<Longrightarrow> m s = (r, t) \<Longrightarrow> P t) \<Longrightarrow> keeps P m"
  by (auto simp: keeps_def)

lemma keepsD: "keeps P m \<Longrightarrow> P s \<Longrightarrow> m s = (r, t) \<Longrightarrow> P t"
  by (auto simp: keeps_def)

lemma keeps_pure [keeps_intros]: "keeps P (pure x)"
  by (auto simp: keeps_def)

lemma keeps_throw [keeps_intros]: "keeps P (throw e)"
  by (auto simp: keeps_def)

lemma keeps_reads [keeps_intros]: "keeps P (reads f)"
  by (auto simp: keeps_def)

lemma keeps_lift [keeps_intros]: "keeps P (lift r)"
  by (auto simp: keeps_def)

lemma keeps_demand [keeps_intros]: "keeps P (demand b e)"
  by (auto simp: keeps_def)

lemma keeps_updates: "(\<And>s. P s \<Longrightarrow> P (f s)) \<Longrightarrow> keeps P (updates f)"
  by (auto simp: keeps_def)

lemma keeps_seq [keeps_intros]: "keeps P m \<Longrightarrow> (\<And>x. keeps P (f x)) \<Longrightarrow> keeps P (seq m f)"
  by (rule keepsI) (auto simp: seq_def split: prod.splits sum.splits dest: keepsD)

text \<open>The continuation only sees values that the first action can return.\<close>

lemma keeps_seq_result:
  assumes "keeps P m" "\<And>s x t. m s = (Inr x, t) \<Longrightarrow> keeps P (f x)"
  shows "keeps P (seq m f)"
proof (rule keepsI)
  fix s r t assume s: "P s" and run: "seq m f s = (r, t)"
  from run show "P t"
  proof (cases rule: seq_cases)
    case (2 x u)
    then show ?thesis using assms(2)[OF 2(1)] keepsD[OF assms(1) s 2(1)] keepsD by metis
  qed (use keepsD[OF assms(1) s] in blast)
qed

lemma keeps_if [keeps_intros]:
  "(b \<Longrightarrow> keeps P m) \<Longrightarrow> (\<not> b \<Longrightarrow> keeps P n) \<Longrightarrow> keeps P (if b then m else n)"
  by simp

lemma keeps_option [keeps_intros]:
  "(x = None \<Longrightarrow> keeps P m) \<Longrightarrow> (\<And>y. x = Some y \<Longrightarrow> keeps P (f y)) \<Longrightarrow>
     keeps P (case x of None \<Rightarrow> m | Some y \<Rightarrow> f y)"
  by (cases x) auto

lemma keeps_prod [keeps_intros]: "(\<And>a b. x = (a, b) \<Longrightarrow> keeps P (f a b)) \<Longrightarrow> keeps P (case x of (a, b) \<Rightarrow> f a b)"
  by (cases x) auto

lemma keeps_attempt [keeps_intros]:
  "keeps P m \<Longrightarrow> (\<And>e. keeps P (handler e)) \<Longrightarrow> keeps P (attempt m caught handler)"
  by (rule keepsI) (auto simp: attempt_def split: prod.splits sum.splits if_splits dest: keepsD)

lemma keeps_run_each [keeps_intros]: "(\<And>x. x \<in> set xs \<Longrightarrow> keeps P (f x)) \<Longrightarrow> keeps P (run_each f xs)"
  by (induction xs) (auto intro: keeps_intros)

lemma keeps_zoom:
  "(\<And>s r t. P s \<Longrightarrow> m (view s) = (r, t) \<Longrightarrow> P (store t s)) \<Longrightarrow> keeps P (zoom view store m)"
  by (rule keepsI) (auto simp: zoom_def split: prod.splits)

text \<open>\<open>after Q m\<close>: when \<open>m\<close> returns, the state it leaves satisfies \<open>Q\<close>; the last step decides.\<close>

definition after :: "('s \<Rightarrow> bool) \<Rightarrow> ('s, 'a) action \<Rightarrow> bool" where
  "after Q m \<longleftrightarrow> (\<forall>s x t. m s = (Inr x, t) \<longrightarrow> Q t)"

lemma afterD: "after Q m \<Longrightarrow> m s = (Inr x, t) \<Longrightarrow> Q t"
  by (auto simp: after_def)

lemma after_seq: "(\<And>x. after Q (f x)) \<Longrightarrow> after Q (seq m f)"
  by (auto simp: after_def seq_returns)

end
