(* ===== verification/Session_Store.thy ===== *)
theory Session_Store
  imports Session_Text Stateful
begin

text \<open>
  \<open>v24/session/store.py\<close>: the registry of sessions. A session is a dict that the code mutates in
  place; here the store holds the list of these dicts and an operation names one by its index.
  The two files are their bytes, with the copies \<open>.prev\<close> and \<open>.v1.bak\<close>; each write may fail
  before, between or after its steps, as the list \<open>faults\<close> says. What the code asks of its
  environment is the record \<open>env\<close>.
\<close>

section \<open>State\<close>

text \<open>\<open>exotic_hex\<close> and \<open>read_int\<close> complete \<open>int\<close> on texts, \<open>floats\<close> is \<open>float\<close> of a JSON token,
  \<open>read_run\<close> the reader of runs that the constructor may be given.\<close>

record env =
  clock :: "nat \<Rightarrow> pystr"
  uuids :: "nat \<Rightarrow> nat"
  tokens :: "nat \<Rightarrow> pystr"
  exotic_hex :: "pystr \<Rightarrow> int option"
  read_int :: "pystr \<Rightarrow> exn + int"
  floats :: "pystr \<Rightarrow> pyfloat"
  resolve_root :: "pystr \<Rightarrow> exn + pystr"
  read_run :: "(json \<Rightarrow> exn + json) option"

datatype disk_fault = Early | Torn nat | Late

record saved =
  content :: "bytes option"
  prev_copy :: "bytes option"
  v1_copy :: "bytes option"

record session_store =
  sessions :: "dict list"
  turns :: "dict list"
  warnings :: "string list"
  active_session_id :: json
  owner_epoch :: json
  failed :: "string option"
  owner :: nat
  running :: nat
  session_file :: saved
  turn_file :: saved
  faults :: "disk_fault option list"
  draws :: nat

type_synonym 'a store_action = "(session_store, 'a) action"

definition VERSION :: int where "VERSION = 2"
definition MAX_BINDINGS :: nat where "MAX_BINDINGS = 200"
definition MAX_RECEIPTS :: nat where "MAX_RECEIPTS = 256"
definition MAX_TURNS :: nat where "MAX_TURNS = 200"

definition STATES :: "string list" where
  "STATES = [''starting'', ''active'', ''closed'']"

text \<open>Fresh values: each call of \<open>now\<close>, \<open>uuid4\<close> or \<open>token_urlsafe\<close> takes the next number.\<close>

definition draw :: "(nat \<Rightarrow> 'a) \<Rightarrow> 'a store_action" where
  "draw f = (\<lambda>s. (Inr (f (draws s)), s\<lparr>draws := draws s + 1\<rparr>))"

definition now :: "env \<Rightarrow> json store_action" where
  "now w = draw (\<lambda>n. JStr (clock w n))"

definition check :: "unit store_action" where
  "check = seq (reads (\<lambda>s. running s = owner s)) (\<lambda>ok. demand ok (RuntimeError ''session_thread_mismatch''))"

definition fail_load :: "string \<Rightarrow> unit store_action" where
  "fail_load reason =
     updates (\<lambda>s. s\<lparr>failed := Some reason,
       warnings := (if reason \<in> set (warnings s) then warnings s else warnings s @ [reason])\<rparr>)"

section \<open>Files\<close>

definition next_fault :: "disk_fault option store_action" where
  "next_fault = (\<lambda>s. case faults s of [] \<Rightarrow> (Inr None, s) | f # fs \<Rightarrow> (Inr f, s\<lparr>faults := fs\<rparr>))"

text \<open>\<open>atomic_bytes\<close>: the copy of the old file, a temporary file, \<open>os.replace\<close>, \<open>fsync\<close> of the
  directory. \<open>put\<close> stores the new state of the file.\<close>

definition atomic_bytes ::
  "(session_store \<Rightarrow> saved) \<Rightarrow> (saved \<Rightarrow> session_store \<Rightarrow> session_store) \<Rightarrow> bytes \<Rightarrow> unit store_action" where
  "atomic_bytes view put data =
     seq next_fault (\<lambda>fault.
     seq (reads view) (\<lambda>file.
       let kept = (case content file of None \<Rightarrow> file | Some old \<Rightarrow> file\<lparr>prev_copy := Some old\<rparr>);
           replaced = kept\<lparr>content := Some data\<rparr> in
       case fault of
         None \<Rightarrow> updates (put replaced)
       | Some Early \<Rightarrow> throw OSError
       | Some (Torn _) \<Rightarrow> seq (updates (put kept)) (\<lambda>_. throw OSError)
       | Some Late \<Rightarrow> seq (updates (put replaced)) (\<lambda>_. throw OSError)))"

definition save_sessions :: "bytes \<Rightarrow> unit store_action" where
  "save_sessions = atomic_bytes session_file (\<lambda>f s. s\<lparr>session_file := f\<rparr>)"

definition save_turns :: "bytes \<Rightarrow> unit store_action" where
  "save_turns = atomic_bytes turn_file (\<lambda>f s. s\<lparr>turn_file := f\<rparr>)"

text \<open>\<open>atomic_bytes(bak, data, keep_prev=False)\<close> for a backup that does not exist yet.\<close>

definition save_v1_copy ::
  "(session_store \<Rightarrow> saved) \<Rightarrow> (saved \<Rightarrow> session_store \<Rightarrow> session_store) \<Rightarrow> bytes \<Rightarrow> unit store_action" where
  "save_v1_copy view put data =
     seq next_fault (\<lambda>fault.
     seq (reads view) (\<lambda>file.
       case fault of
         None \<Rightarrow> updates (put (file\<lparr>v1_copy := Some data\<rparr>))
       | Some Late \<Rightarrow> seq (updates (put (file\<lparr>v1_copy := Some data\<rparr>))) (\<lambda>_. throw OSError)
       | Some _ \<Rightarrow> throw OSError))"

definition store_image :: "session_store \<Rightarrow> json" where
  "store_image s =
     JObj [(lit ''format_version'', JInt VERSION), (lit ''owner_epoch'', owner_epoch s),
           (lit ''active_session_id'', active_session_id s), (lit ''conversations'', JArr (map JObj (sessions s)))]"

definition flush :: "unit store_action" where
  "flush =
     seq check (\<lambda>_.
     seq (reads failed) (\<lambda>f.
       case f of
         Some reason \<Rightarrow> throw (StoreError reason)
       | None \<Rightarrow>
           seq (reads store_image) (\<lambda>v.
           seq (lift (encode_line [44] [58] v)) save_sessions)))"

definition turn_line :: "dict \<Rightarrow> exn + bytes" where
  "turn_line r = encode_line [44, 32] [58, 32] (JObj r)"

definition write_turns :: "unit store_action" where
  "write_turns =
     seq check (\<lambda>_.
     seq (reads turns) (\<lambda>rows.
     seq (lift (mapr turn_line rows)) (\<lambda>lines. save_turns (concat lines))))"

section \<open>Looking up\<close>

definition session_is :: "json \<Rightarrow> dict \<Rightarrow> bool" where
  "session_is identifier row \<longleftrightarrow>
     py_eq (dget row ''session_id'') identifier \<or> py_eq (dget row ''conversation_id'') identifier"

definition get :: "json \<Rightarrow> nat option store_action" where
  "get identifier =
     seq check (\<lambda>_.
       if \<not> is_str identifier then pure None
       else reads (\<lambda>s. position (session_is identifier) (sessions s)))"

definition the_row :: "nat \<Rightarrow> dict store_action" where
  "the_row i = reads (\<lambda>s. sessions s ! i)"

text \<open>\<open>row[k] = v\<close> and \<open>row.update(...)\<close> on the session at an index.\<close>

definition edit :: "nat \<Rightarrow> (dict \<Rightarrow> dict) \<Rightarrow> unit store_action" where
  "edit i f = updates (\<lambda>s. s\<lparr>sessions := (sessions s)[i := f (sessions s ! i)]\<rparr>)"

definition set_field :: "nat \<Rightarrow> string \<Rightarrow> json \<Rightarrow> unit store_action" where
  "set_field i k v = edit i (\<lambda>row. dset row k v)"

definition find_by_token :: "pystr \<Rightarrow> nat option store_action" where
  "find_by_token token =
     seq check (\<lambda>_.
     seq (lift (key_hash token)) (\<lambda>digest.
       reads (\<lambda>s. position (\<lambda>row. dget row ''resume_token_hash'' = JStr digest) (sessions s))))"

definition start_index_key :: "pystr \<Rightarrow> pystr \<Rightarrow> pystr" where
  "start_index_key principal_id hash = principal_id @ [124] @ hash"

definition start_index :: "dict \<Rightarrow> dict" where
  "start_index row = items (dget_or row ''start_index'' (JObj []))"

definition get_start :: "pystr \<Rightarrow> pystr \<Rightarrow> json option store_action" where
  "get_start principal_id hash =
     (let k = start_index_key principal_id hash in
      seq check (\<lambda>_.
        reads (\<lambda>s. case position (\<lambda>row. k \<in> set (keys (start_index row))) (sessions s) of
                      None \<Rightarrow> None
                    | Some i \<Rightarrow> map_of (start_index (sessions s ! i)) k)))"

section \<open>Receipts\<close>

text \<open>The last element of a list that satisfies a test, searching backwards; the test may raise.\<close>

fun scan_back :: "(json \<Rightarrow> exn + bool) \<Rightarrow> json list \<Rightarrow> exn + nat option" where
  "scan_back f [] = Inr None"
| "scan_back f (x # xs) = andthen (f x) (\<lambda>b. if b then Inr (Some (length xs)) else scan_back f xs)"

definition find_last :: "(json \<Rightarrow> exn + bool) \<Rightarrow> json list \<Rightarrow> exn + nat option" where
  "find_last f xs = scan_back f (rev xs)"

definition receipts_of :: "dict \<Rightarrow> exn + json list" where
  "receipts_of row = iterate (dget_or row ''receipts'' (JArr []))"

definition receipt_matches :: "string \<Rightarrow> pystr \<Rightarrow> json \<Rightarrow> exn + bool" where
  "receipt_matches op hash r =
     andthen (attr r ''op'') (\<lambda>name.
       if \<not> py_eq name (jstr op) then Inr False
       else andthen (attr r ''key_hash'') (\<lambda>k. Inr (py_eq k (JStr hash))))"

definition of_command :: "json \<Rightarrow> json \<Rightarrow> exn + bool" where
  "of_command command_id r = andthen (attr r ''command_id'') (\<lambda>c. Inr (py_eq c command_id))"

definition find_receipt :: "(json \<Rightarrow> exn + bool) \<Rightarrow> nat \<Rightarrow> nat option store_action" where
  "find_receipt test i = seq (the_row i) (\<lambda>row. lift (andthen (receipts_of row) (find_last test)))"

definition receipt_at :: "nat \<Rightarrow> nat \<Rightarrow> json store_action" where
  "receipt_at i n = seq (the_row i) (\<lambda>row. reads (\<lambda>_. elems (dget row ''receipts'') ! n))"

definition edit_receipt :: "nat \<Rightarrow> nat \<Rightarrow> (string \<times> json) list \<Rightarrow> unit store_action" where
  "edit_receipt i n kvs =
     edit i (\<lambda>row.
       let rs = elems (dget row ''receipts'') in
       dset row ''receipts'' (JArr (rs[n := JObj (foldl (\<lambda>d (k, v). dset d k v) (items (rs ! n)) kvs)])))"

definition get_receipt :: "json \<Rightarrow> string \<Rightarrow> pystr \<Rightarrow> json option store_action" where
  "get_receipt session_id op hash =
     seq (get session_id) (\<lambda>found.
       case found of
         None \<Rightarrow> pure None
       | Some i \<Rightarrow>
           seq (find_receipt (receipt_matches op hash) i) (\<lambda>r.
             case r of None \<Rightarrow> pure None | Some n \<Rightarrow> seq (receipt_at i n) (\<lambda>v. pure (Some v))))"

definition finished_receipt :: "json \<Rightarrow> exn + bool" where
  "finished_receipt r = andthen (attr r ''phase'') (\<lambda>p. Inr (among p [''completed'', ''rejected'']))"

text \<open>\<open>_prune_receipts\<close>: every unfinished receipt, then the last \<open>limit\<close> finished ones.\<close>

definition prune_receipts :: "nat \<Rightarrow> nat \<Rightarrow> unit store_action" where
  "prune_receipts i limit =
     seq (the_row i) (\<lambda>row.
     seq (lift (receipts_of row)) (\<lambda>rs.
     seq (lift (mapr finished_receipt rs)) (\<lambda>flags.
       let other = map fst (filter (\<lambda>(r, b). \<not> b) (zip rs flags));
           completed = map fst (filter snd (zip rs flags)) in
       set_field i ''receipts'' (JArr (other @ last_n limit completed)))))"

definition push_receipt :: "nat \<Rightarrow> json \<Rightarrow> unit store_action" where
  "push_receipt i r =
     seq (the_row i) (\<lambda>row.
       case dget_or row ''receipts'' (JArr []) of
         JArr rs \<Rightarrow> set_field i ''receipts'' (JArr (rs @ [r]))
       | _ \<Rightarrow> throw AttributeError)"

definition existing :: "json \<Rightarrow> exn \<Rightarrow> nat store_action" where
  "existing session_id e =
     seq (get session_id) (\<lambda>found. case found of None \<Rightarrow> throw e | Some i \<Rightarrow> pure i)"

definition touch :: "env \<Rightarrow> nat \<Rightarrow> unit store_action" where
  "touch w i = seq (now w) (\<lambda>t. set_field i ''updated_at'' t)"

definition new_receipt ::
  "json \<Rightarrow> string \<Rightarrow> pystr \<Rightarrow> pystr \<Rightarrow> json \<Rightarrow> pystr \<Rightarrow> json \<Rightarrow> json \<Rightarrow> json" where
  "new_receipt command_id op hash principal_id normalized_request digest target_run_id stamp =
     JObj [(lit ''command_id'', command_id), (lit ''op'', jstr op), (lit ''key_hash'', JStr hash),
           (lit ''principal_id'', JStr principal_id), (lit ''normalized_request'', normalized_request),
           (lit ''digest'', JStr digest), (lit ''phase'', jstr ''intent''), (lit ''outcome'', JNull),
           (lit ''target_run_id'', target_run_id), (lit ''resolved_variant'', JNull),
           (lit ''original_envelope'', JNull), (lit ''frozen_deferred'', JBool False), (lit ''at'', stamp)]"

definition make_room :: "nat \<Rightarrow> unit store_action" where
  "make_room i =
     seq (the_row i) (\<lambda>row.
     seq (lift (receipts_of row)) (\<lambda>rs.
     seq (lift (mapr finished_receipt rs)) (\<lambda>flags.
       if MAX_RECEIPTS \<le> length (filter id flags) then prune_receipts i (MAX_RECEIPTS - 1) else pure ())))"

definition begin_command ::
  "env \<Rightarrow> json \<Rightarrow> pystr \<Rightarrow> string \<Rightarrow> pystr \<Rightarrow> json \<Rightarrow> json \<Rightarrow> pystr \<Rightarrow> json \<Rightarrow> json \<Rightarrow> json store_action" where
  "begin_command w session_id principal_id op hash command_id normalized_request digest target_run_id pending =
     seq check (\<lambda>_.
     seq (existing session_id (StoreError ''not_found_or_denied'')) (\<lambda>i.
     seq (the_row i) (\<lambda>row.
     seq (demand (py_eq (dget row ''owner_principal_id'') (JStr principal_id)) (StoreError ''owner_fenced'')) (\<lambda>_.
     seq (find_receipt (receipt_matches op hash) i) (\<lambda>old.
       case old of
         Some n \<Rightarrow> receipt_at i n
       | None \<Rightarrow>
           seq (make_room i) (\<lambda>_.
           seq (now w) (\<lambda>stamp.
             let receipt = new_receipt command_id op hash principal_id normalized_request digest target_run_id stamp in
             seq (push_receipt i receipt) (\<lambda>_.
             seq (if pending \<noteq> JNull then set_field i ''pending_intent'' pending else pure ()) (\<lambda>_.
             seq (touch w i) (\<lambda>_.
             seq flush (\<lambda>_. pure receipt)))))))))))"

definition command_receipt :: "nat \<Rightarrow> json \<Rightarrow> nat store_action" where
  "command_receipt i command_id =
     seq (find_receipt (of_command command_id) i) (\<lambda>r.
       case r of None \<Rightarrow> throw (StoreError ''receipt_missing'') | Some n \<Rightarrow> pure n)"

definition enter_state :: "nat \<Rightarrow> string option \<Rightarrow> unit store_action" where
  "enter_state i st =
     (case st of
        None \<Rightarrow> pure ()
      | Some name \<Rightarrow>
          seq (set_field i ''state'' (jstr name)) (\<lambda>_.
            if name = ''closed'' then
              seq (set_field i ''pending_intent'' JNull) (\<lambda>_. set_field i ''active_run_id'' JNull)
            else pure ()))"

definition complete_command ::
  "env \<Rightarrow> json \<Rightarrow> json \<Rightarrow> json \<Rightarrow> string \<Rightarrow> json \<Rightarrow> string option \<Rightarrow> unit store_action" where
  "complete_command w session_id command_id envelope outcome target_run_id st =
     seq check (\<lambda>_.
     seq (existing session_id (StoreError ''not_found_or_denied'')) (\<lambda>i.
     seq (command_receipt i command_id) (\<lambda>n.
     seq (edit_receipt i n
       ([(''phase'', jstr ''completed''), (''outcome'', jstr outcome), (''original_envelope'', envelope),
         (''frozen_deferred'', JBool False)] @
        (if target_run_id \<noteq> JNull then [(''target_run_id'', target_run_id)] else []))) (\<lambda>_.
     seq (enter_state i st) (\<lambda>_.
     seq (touch w i) (\<lambda>_.
     seq (prune_receipts i MAX_RECEIPTS) (\<lambda>_. flush)))))))"

text \<open>\<open>if isinstance(intent, dict) and ...: intent["phase"] = "deferred"\<close>\<close>

definition defer_intent :: "nat \<Rightarrow> (dict \<Rightarrow> bool) \<Rightarrow> unit store_action" where
  "defer_intent i test =
     seq (the_row i) (\<lambda>row.
       let intent = dget row ''pending_intent'' in
       if is_dict intent \<and> test (items intent)
       then set_field i ''pending_intent'' (JObj (dset (items intent) ''phase'' (jstr ''deferred'')))
       else pure ())"

definition freeze_command ::
  "env \<Rightarrow> json \<Rightarrow> json \<Rightarrow> json \<Rightarrow> string \<Rightarrow> string option \<Rightarrow> unit store_action" where
  "freeze_command w session_id command_id envelope outcome st =
     seq check (\<lambda>_.
     seq (existing session_id (StoreError ''not_found_or_denied'')) (\<lambda>i.
     seq (command_receipt i command_id) (\<lambda>n.
     seq (edit_receipt i n [(''phase'', jstr ''deferred'')]) (\<lambda>_.
     seq (defer_intent i (\<lambda>d. py_eq (dget d ''command_id'') command_id)) (\<lambda>_.
     seq (edit_receipt i n
       [(''outcome'', jstr outcome), (''original_envelope'', envelope), (''frozen_deferred'', JBool True)]) (\<lambda>_.
     seq (enter_state i st) (\<lambda>_.
     seq (touch w i) (\<lambda>_. flush))))))))"

end
