(* ===== verification/Session_Commit.thy ===== *)
theory Session_Commit
  imports Session_Store
begin

text \<open>
  \<open>v24/session/store.py\<close>, second part: the turns, the operations that create a session, commit a
  run to it or detach it, and the history the model reads. \<open>envelope_factory\<close> is the argument of
  that name: it sees the row after the counters were advanced.
\<close>

section \<open>Turns\<close>

definition turn_session :: "dict \<Rightarrow> json" where
  "turn_session row = dget_or row ''session_id'' (dget row ''conversation_id'')"

text \<open>\<open>_bound_turns\<close> walks backwards and keeps 200 turns of each session.\<close>

fun bound_back :: "(json \<Rightarrow> nat) \<Rightarrow> dict list \<Rightarrow> dict list" where
  "bound_back counts [] = []"
| "bound_back counts (row # rows) =
     (let cid = turn_session row; n = counts cid + 1; rest = bound_back (counts(cid := n)) rows in
      if n \<le> MAX_TURNS then row # rest else rest)"

definition bound_turns :: "dict list \<Rightarrow> dict list" where
  "bound_turns rows = rev (bound_back (\<lambda>_. 0) (rev rows))"

definition turn_seq :: "dict \<Rightarrow> int" where
  "turn_seq row = the_int (dget row ''seq'')"

definition next_turn_seq :: "int store_action" where
  "next_turn_seq = reads (\<lambda>s. (if turns s = [] then 0 else Max (set (map turn_seq (turns s)))) + 1)"

definition new_turn :: "json \<Rightarrow> json \<Rightarrow> int \<Rightarrow> json \<Rightarrow> json \<Rightarrow> dict" where
  "new_turn conversation_id run_id number user_text created =
     [(lit ''session_id'', conversation_id), (lit ''conversation_id'', conversation_id), (lit ''run_id'', run_id),
      (lit ''seq'', JInt number), (lit ''user_text'', user_text), (lit ''created_at'', created)]"

definition append_turn_memory :: "env \<Rightarrow> json \<Rightarrow> json \<Rightarrow> int \<Rightarrow> json \<Rightarrow> unit store_action" where
  "append_turn_memory w conversation_id run_id number user_text =
     seq (now w) (\<lambda>t.
       updates (\<lambda>s. s\<lparr>turns := bound_turns (turns s @ [new_turn conversation_id run_id number user_text t])\<rparr>))"

section \<open>Counters and bindings\<close>

text \<open>\<open>row[k] = int(row.get(k, 0)) + 1\<close>\<close>

definition increment :: "env \<Rightarrow> nat \<Rightarrow> string \<Rightarrow> unit store_action" where
  "increment w i k =
     seq (the_row i) (\<lambda>row.
     seq (lift (as_int (read_int w) (dget_or row k (JInt 0)))) (\<lambda>n. set_field i k (JInt (n + 1))))"

text \<open>\<open>[b for b in row.get("bindings", []) if b.get("run_id") != run_id] + [binding]\<close>, bounded\<close>

definition other_binding :: "json \<Rightarrow> json \<Rightarrow> exn + bool" where
  "other_binding run_id b = andthen (attr b ''run_id'') (\<lambda>r. Inr (\<not> py_eq r run_id))"

definition add_binding :: "nat \<Rightarrow> json \<Rightarrow> json \<Rightarrow> unit store_action" where
  "add_binding i run_id binding =
     seq (the_row i) (\<lambda>row.
     seq (lift (iterate (dget_or row ''bindings'' (JArr [])))) (\<lambda>bs.
     seq (lift (mapr (other_binding run_id) bs)) (\<lambda>flags.
       let others = map fst (filter snd (zip bs flags)) in
       set_field i ''bindings'' (JArr (last_n MAX_BINDINGS (others @ [binding]))))))"

section \<open>Steering\<close>

definition steer_receipt :: "nat \<Rightarrow> json \<Rightarrow> nat store_action" where
  "steer_receipt i command_id =
     seq (find_receipt (of_command command_id) i) (\<lambda>r.
       case r of
         None \<Rightarrow> throw (StoreError ''receipt_missing'')
       | Some n \<Rightarrow>
           seq (receipt_at i n) (\<lambda>v.
             if py_eq (dget (items v) ''op'') (jstr ''steer'') then pure n else throw (StoreError ''receipt_missing'')))"

text \<open>The receipt's fields are assigned in order; the factory may raise between them.\<close>

definition commit_receipt :: "nat \<Rightarrow> nat \<Rightarrow> json \<Rightarrow> (string \<times> json) list \<Rightarrow> (dict \<Rightarrow> exn + json) \<Rightarrow> unit store_action" where
  "commit_receipt i n run_id variant factory =
     seq (edit_receipt i n
       ([(''target_run_id'', run_id)] @ variant @ [(''phase'', jstr ''completed''), (''outcome'', jstr ''committed'')])) (\<lambda>_.
     seq (the_row i) (\<lambda>row.
     seq (lift (factory row)) (\<lambda>envelope.
       edit_receipt i n [(''original_envelope'', envelope), (''frozen_deferred'', JBool False)])))"

definition complete_steer_active ::
  "env \<Rightarrow> json \<Rightarrow> json \<Rightarrow> json \<Rightarrow> json \<Rightarrow> (dict \<Rightarrow> exn + json) \<Rightarrow> unit store_action" where
  "complete_steer_active w session_id command_id run_id message envelope_factory =
     seq check (\<lambda>_.
     seq (existing session_id (StoreError ''not_found_or_denied'')) (\<lambda>i.
     seq (steer_receipt i command_id) (\<lambda>n.
     seq (increment w i ''user_turn_no'') (\<lambda>_.
     seq (increment w i ''session_revision'') (\<lambda>_.
     seq (touch w i) (\<lambda>_.
     seq next_turn_seq (\<lambda>number.
     seq (append_turn_memory w session_id run_id number message) (\<lambda>_.
     seq (commit_receipt i n run_id [(''resolved_variant'', jstr ''steer_active'')] envelope_factory) (\<lambda>_.
     seq write_turns (\<lambda>_. flush))))))))))"

definition bind_run :: "env \<Rightarrow> nat \<Rightarrow> json \<Rightarrow> json \<Rightarrow> json \<Rightarrow> json \<Rightarrow> unit store_action" where
  "bind_run w i session_id run_id binding message =
     seq (add_binding i run_id binding) (\<lambda>_.
     seq (set_field i ''active_binding'' binding) (\<lambda>_.
     seq (set_field i ''active_run_id'' run_id) (\<lambda>_.
     seq (increment w i ''run_no'') (\<lambda>_.
     seq (increment w i ''user_turn_no'') (\<lambda>_.
     seq (set_field i ''state'' (jstr ''active'')) (\<lambda>_.
     seq (increment w i ''session_revision'') (\<lambda>_.
     seq (touch w i) (\<lambda>_.
     seq next_turn_seq (\<lambda>number. append_turn_memory w session_id run_id number message)))))))))"

definition complete_steer_run ::
  "env \<Rightarrow> json \<Rightarrow> json \<Rightarrow> json \<Rightarrow> json \<Rightarrow> json \<Rightarrow> (dict \<Rightarrow> exn + json) \<Rightarrow> unit store_action" where
  "complete_steer_run w session_id command_id run_id binding message envelope_factory =
     seq check (\<lambda>_.
     seq (existing session_id (StoreError ''not_found_or_denied'')) (\<lambda>i.
     seq (the_row i) (\<lambda>row.
       let intent = dget row ''pending_intent'' in
       if \<not> is_dict intent \<or> \<not> py_eq (dget (items intent) ''command_id'') command_id
       then throw (StoreError ''owner_fenced'')
       else
         seq (bind_run w i session_id run_id binding message) (\<lambda>_.
         seq (steer_receipt i command_id) (\<lambda>n.
         seq (commit_receipt i n run_id [(''resolved_variant'', jstr ''steer_new_run'')] envelope_factory) (\<lambda>_.
         seq (set_field i ''pending_intent'' JNull) (\<lambda>_.
         seq (prune_receipts i MAX_RECEIPTS) (\<lambda>_.
         seq write_turns (\<lambda>_. flush)))))))))"

section \<open>Creating a session\<close>

definition update_all :: "dict \<Rightarrow> dict \<Rightarrow> dict" where
  "update_all d e = foldl (\<lambda>r (k, v). dput k v r) d e"

text \<open>\<open>(name or sid)[:120]\<close> of a text or \<open>None\<close>.\<close>

definition session_name :: "json \<Rightarrow> pystr \<Rightarrow> exn + json" where
  "session_name name sid =
     (if \<not> truthy name then Inr (JStr (take 120 sid))
      else if is_str name then Inr (JStr (take 120 (the_str name))) else Inl TypeError)"

definition session_row :: "pystr \<Rightarrow> json \<Rightarrow> pystr \<Rightarrow> json \<Rightarrow> json \<Rightarrow> pystr \<Rightarrow> dict" where
  "session_row sid name token created updated owner_id =
     [(lit ''session_id'', JStr sid), (lit ''conversation_id'', JStr sid), (lit ''name'', name),
      (lit ''state'', jstr ''starting''), (lit ''resume_token_hash'', JStr (sha256_hex (utf8 token))),
      (lit ''created_at'', created), (lit ''updated_at'', updated), (lit ''bindings'', JArr []),
      (lit ''active_binding'', JNull), (lit ''active_run_id'', JNull), (lit ''run_no'', JInt 0),
      (lit ''user_turn_no'', JInt 0), (lit ''counter_origin'', jstr ''native_v2''),
      (lit ''session_revision'', JInt 1), (lit ''owner_principal_id'', JStr owner_id),
      (lit ''start_index'', JObj []), (lit ''receipts'', JArr []), (lit ''pending_intent'', JNull),
      (lit ''model'', jstr ''deepseek-flash'')]"

definition new_session :: "env \<Rightarrow> json \<Rightarrow> json \<Rightarrow> pystr \<Rightarrow> dict \<Rightarrow> (dict \<times> pystr) store_action" where
  "new_session w session_id name owner_id metadata =
     seq (if truthy session_id then lift (valid_uuid (exotic_hex w) session_id) else draw (uuids w)) (\<lambda>n.
     let sid = uuid_text n in
     seq (draw (tokens w)) (\<lambda>token.
     seq (lift (session_name name sid)) (\<lambda>shown.
     seq (now w) (\<lambda>created.
     seq (now w) (\<lambda>updated.
       pure (update_all (session_row sid shown token created updated owner_id) metadata, token))))))"

definition insert_session :: "dict \<Rightarrow> unit store_action" where
  "insert_session row =
     seq (updates (\<lambda>s. s\<lparr>sessions := sessions s @ [row], active_session_id := dget row ''session_id''\<rparr>)) (\<lambda>_. flush)"

definition not_failed :: "unit store_action" where
  "not_failed =
     seq (reads failed) (\<lambda>f. case f of None \<Rightarrow> pure () | Some reason \<Rightarrow> throw (StoreError reason))"

definition given :: "string \<Rightarrow> json \<Rightarrow> dict" where
  "given k v = (if v = JNull then [] else [(lit k, v)])"

definition new_conversation ::
  "env \<Rightarrow> json \<Rightarrow> json \<Rightarrow> json \<Rightarrow> json \<Rightarrow> pystr \<Rightarrow> dict \<Rightarrow> (dict \<times> pystr) store_action" where
  "new_conversation w mode limits_digest session_id name owner_id metadata =
     seq check (\<lambda>_.
     seq not_failed (\<lambda>_.
     seq (new_session w session_id name owner_id metadata) (\<lambda>(row, token).
       let row' = update_all row (given ''mode'' mode @ given ''limits_digest'' limits_digest) in
       seq (insert_session row') (\<lambda>_. pure (row', token)))))"

definition epoch_number :: "session_store \<Rightarrow> int" where
  "epoch_number s = (case owner_epoch s of JInt i \<Rightarrow> i | JBool b \<Rightarrow> if b then 1 else 0 | _ \<Rightarrow> 0)"

definition start_receipt :: "json \<Rightarrow> pystr \<Rightarrow> pystr \<Rightarrow> json \<Rightarrow> json \<Rightarrow> int \<Rightarrow> json \<Rightarrow> json" where
  "start_receipt command_id hash digest normalized_request run_key epoch stamp =
     JObj [(lit ''command_id'', command_id), (lit ''op'', jstr ''start''), (lit ''key_hash'', JStr hash),
           (lit ''digest'', JStr digest), (lit ''normalized_request'', normalized_request),
           (lit ''resolved_variant'', jstr ''start''), (lit ''target_run_id'', JNull), (lit ''run_request_key'', run_key),
           (lit ''phase'', jstr ''intent''), (lit ''outcome'', JNull), (lit ''original_envelope'', JNull),
           (lit ''frozen_deferred'', JBool False), (lit ''owner_epoch'', JInt epoch), (lit ''at'', stamp)]"

definition start_intent :: "json \<Rightarrow> json \<Rightarrow> json \<Rightarrow> pystr \<Rightarrow> int \<Rightarrow> json \<Rightarrow> json" where
  "start_intent sid command_id run_key digest epoch stamp =
     JObj [(lit ''session_id'', sid), (lit ''command_id'', command_id), (lit ''run_key'', run_key),
           (lit ''digest'', JStr digest), (lit ''owner_epoch'', JInt epoch), (lit ''phase'', jstr ''intent''),
           (lit ''started_at'', stamp)]"

definition start_entry :: "json \<Rightarrow> json \<Rightarrow> json \<Rightarrow> pystr \<Rightarrow> json" where
  "start_entry sid run_key command_id digest =
     JObj [(lit ''session_id'', sid), (lit ''run_key'', run_key), (lit ''command_id'', command_id),
           (lit ''digest'', JStr digest), (lit ''phase'', jstr ''intent'')]"

definition started_row :: "dict \<Rightarrow> pystr \<Rightarrow> pystr \<Rightarrow> json \<Rightarrow> json \<Rightarrow> json \<Rightarrow> pystr \<Rightarrow> int \<Rightarrow> json \<Rightarrow> json \<Rightarrow> dict" where
  "started_row row principal_id hash command_id run_key normalized_request digest epoch t1 t2 =
     (let sid = dget row ''session_id'';
          r1 = dset row ''pending_intent'' (start_intent sid command_id run_key digest epoch t1);
          r2 = dset r1 ''start_index'' (JObj (dput (start_index_key principal_id hash)
                 (start_entry sid run_key command_id digest) (start_index r1))) in
      dset r2 ''receipts'' (JArr (elems (dget r2 ''receipts'') @
        [start_receipt command_id hash digest normalized_request run_key epoch t2])))"

definition begin_start ::
  "env \<Rightarrow> json \<Rightarrow> pystr \<Rightarrow> pystr \<Rightarrow> json \<Rightarrow> json \<Rightarrow> json \<Rightarrow> pystr \<Rightarrow> json \<Rightarrow> dict \<Rightarrow> (dict \<times> pystr) store_action" where
  "begin_start w session_id principal_id hash command_id run_key normalized_request digest name metadata =
     seq check (\<lambda>_.
     seq not_failed (\<lambda>_.
     seq (get session_id) (\<lambda>found.
     seq (demand (found = None) (StoreError ''duplicate_session'')) (\<lambda>_.
     seq (new_session w session_id name principal_id metadata) (\<lambda>(row, token).
     seq (updates (\<lambda>s. s\<lparr>owner_epoch := JInt (epoch_number s + 1)\<rparr>)) (\<lambda>_.
     seq (reads epoch_number) (\<lambda>epoch.
     seq (now w) (\<lambda>t1.
     seq (now w) (\<lambda>t2.
       let row' = started_row row principal_id hash command_id run_key normalized_request digest epoch t1 t2 in
       seq (insert_session row') (\<lambda>_. pure (row', token)))))))))))"

section \<open>Finishing a start\<close>

text \<open>\<open>for value in row["start_index"].values(): if value.get("command_id") == c: value.update(...)\<close>\<close>

definition mark_entry :: "nat \<Rightarrow> json \<Rightarrow> (string \<times> json) list \<Rightarrow> pystr \<Rightarrow> unit store_action" where
  "mark_entry i command_id kvs k =
     seq (the_row i) (\<lambda>row.
       let v = (case map_of (start_index row) k of None \<Rightarrow> JNull | Some v \<Rightarrow> v) in
       seq (lift (attr v ''command_id'')) (\<lambda>c.
         if py_eq c command_id
         then set_field i ''start_index''
                (JObj (dput k (JObj (foldl (\<lambda>d (j, x). dset d j x) (items v) kvs)) (start_index row)))
         else pure ()))"

definition mark_start_index :: "nat \<Rightarrow> json \<Rightarrow> (string \<times> json) list \<Rightarrow> unit store_action" where
  "mark_start_index i command_id kvs =
     seq (the_row i) (\<lambda>row. run_each (mark_entry i command_id kvs) (keys (start_index row)))"

text \<open>\<open>envelope.get("error", {}).get("code") if isinstance(envelope, dict) else "deferred"\<close>\<close>

definition deferred_code :: "json \<Rightarrow> exn + json" where
  "deferred_code envelope =
     (if is_dict envelope
      then andthen (attr_or envelope ''error'' (JObj [])) (\<lambda>e. attr e ''code'') else Inr (jstr ''deferred''))"

definition freeze_deferred :: "env \<Rightarrow> json \<Rightarrow> json \<Rightarrow> json \<Rightarrow> unit store_action" where
  "freeze_deferred w session_id command_id envelope =
     seq check (\<lambda>_.
     seq (existing session_id (StoreError ''not_found_or_denied'')) (\<lambda>i.
     seq (command_receipt i command_id) (\<lambda>n.
     seq (receipt_at i n) (\<lambda>receipt.
       if \<not> py_eq (dget (items receipt) ''op'') (jstr ''start'') then throw (StoreError ''receipt_missing'')
       else
         seq (edit_receipt i n
           [(''original_envelope'', envelope), (''frozen_deferred'', JBool True), (''phase'', jstr ''deferred'')]) (\<lambda>_.
         seq (defer_intent i (\<lambda>d. py_eq (dget d ''command_id'') command_id)) (\<lambda>_.
         seq (lift (deferred_code envelope)) (\<lambda>code.
         seq (edit_receipt i n [(''outcome'', code)]) (\<lambda>_.
         seq (defer_intent i (\<lambda>_. True)) (\<lambda>_.
         seq (mark_start_index i command_id [(''phase'', jstr ''deferred'')]) (\<lambda>_.
         seq (touch w i) (\<lambda>_. flush)))))))))))"

definition complete_start ::
  "env \<Rightarrow> json \<Rightarrow> json \<Rightarrow> json \<Rightarrow> json \<Rightarrow> json \<Rightarrow> (dict \<Rightarrow> exn + json) \<Rightarrow> unit store_action" where
  "complete_start w session_id epoch run_id binding message envelope_factory =
     seq check (\<lambda>_.
     seq (existing session_id (StoreError ''not_found_or_denied'')) (\<lambda>i.
     seq (the_row i) (\<lambda>row.
       let intent = dget row ''pending_intent'' in
       if \<not> is_dict intent \<or> \<not> py_eq (dget (items intent) ''owner_epoch'') epoch
       then throw (StoreError ''owner_fenced'')
       else if \<not> truthy run_id then throw (StoreError ''invalid_run'')
       else
         let command_id = dget (items intent) ''command_id'' in
         seq (bind_run w i session_id run_id binding message) (\<lambda>_.
         seq (command_receipt i command_id) (\<lambda>n.
         seq (commit_receipt i n run_id [] envelope_factory) (\<lambda>_.
         seq (mark_start_index i command_id [(''phase'', jstr ''completed''), (''run_id'', run_id)]) (\<lambda>_.
         seq (set_field i ''pending_intent'' JNull) (\<lambda>_.
         seq (prune_receipts i MAX_RECEIPTS) (\<lambda>_.
         seq write_turns (\<lambda>_. flush))))))))))"

section \<open>Binding, detaching, removing\<close>

definition binding_of ::
  "json \<Rightarrow> json \<Rightarrow> json \<Rightarrow> pystr \<Rightarrow> json \<Rightarrow> json \<Rightarrow> json \<Rightarrow> json \<Rightarrow> json \<Rightarrow> json" where
  "binding_of scope_id run_id realm path toolset catalog_digest stamp mode limits_digest =
     JObj ([(lit ''scope_id'', scope_id), (lit ''run_id'', run_id), (lit ''realm'', realm),
            (lit ''workspace_root'', JStr path), (lit ''toolset'', toolset),
            (lit ''catalog_digest'', catalog_digest), (lit ''at'', stamp)] @
           given ''mode'' mode @ given ''limits_digest'' limits_digest)"

text \<open>\<open>row["session_id"]\<close>\<close>

definition session_id_of :: "nat \<Rightarrow> json store_action" where
  "session_id_of i = seq (the_row i) (\<lambda>row. lift (subscript (JObj row) ''session_id''))"

definition bind ::
  "env \<Rightarrow> json \<Rightarrow> json \<Rightarrow> json \<Rightarrow> json \<Rightarrow> pystr \<Rightarrow> json \<Rightarrow> json \<Rightarrow> json \<Rightarrow> json \<Rightarrow> json store_action" where
  "bind w conversation_id scope_id run_id realm directory_path toolset catalog_digest mode limits_digest =
     seq check (\<lambda>_.
     seq (existing conversation_id (RuntimeError ''not_found_or_denied'')) (\<lambda>i.
     seq (lift (resolve_root w directory_path)) (\<lambda>path.
     seq (now w) (\<lambda>stamp.
       let binding = binding_of scope_id run_id realm path toolset catalog_digest stamp mode limits_digest in
       seq (the_row i) (\<lambda>row.
       seq (lift (iterate (dget_or row ''bindings'' (JArr [])))) (\<lambda>bs.
       seq (lift (mapr (\<lambda>b. attr b ''run_id'') bs)) (\<lambda>known.
       seq (demand (list_all hashable known) TypeError) (\<lambda>_.
       seq (add_binding i run_id binding) (\<lambda>_.
       seq (set_field i ''active_binding'' binding) (\<lambda>_.
       seq (set_field i ''active_run_id'' run_id) (\<lambda>_.
       seq (if list_ex (\<lambda>r. py_eq r run_id) known then pure () else increment w i ''run_no'') (\<lambda>_.
       seq (set_field i ''state'' (jstr ''active'')) (\<lambda>_.
       seq (increment w i ''session_revision'') (\<lambda>_.
       seq (touch w i) (\<lambda>_.
       seq (session_id_of i) (\<lambda>sid.
       seq (updates (\<lambda>s. s\<lparr>active_session_id := sid\<rparr>)) (\<lambda>_.
       seq flush (\<lambda>_. pure binding))))))))))))))))))"

definition detach :: "env \<Rightarrow> json \<Rightarrow> unit store_action" where
  "detach w conversation_id =
     seq check (\<lambda>_.
     seq (get conversation_id) (\<lambda>found.
       case found of
         None \<Rightarrow> pure ()
       | Some i \<Rightarrow>
           seq (set_field i ''active_binding'' JNull) (\<lambda>_.
           seq (set_field i ''active_run_id'' JNull) (\<lambda>_.
           seq (increment w i ''session_revision'') (\<lambda>_.
           seq (touch w i) (\<lambda>_.
           seq (session_id_of i) (\<lambda>sid.
           seq (updates (\<lambda>s. if py_eq (active_session_id s) sid then s\<lparr>active_session_id := JNull\<rparr> else s)) (\<lambda>_.
             flush))))))))"

definition remove :: "json \<Rightarrow> unit store_action" where
  "remove conversation_id =
     seq check (\<lambda>_.
     seq (get conversation_id) (\<lambda>found.
     seq (case found of None \<Rightarrow> pure conversation_id | Some i \<Rightarrow> session_id_of i) (\<lambda>sid.
     seq (updates (\<lambda>s. s\<lparr>sessions := filter (\<lambda>r. \<not> py_eq (dget r ''session_id'') sid) (sessions s),
            active_session_id := (if py_eq (active_session_id s) sid then JNull else active_session_id s),
            turns := filter (\<lambda>r. \<not> py_eq (dget r ''session_id'') sid) (turns s)\<rparr>)) (\<lambda>_.
     seq write_turns (\<lambda>_. flush)))))"

text \<open>The turn file grows by one line; a torn write leaves the beginning of the line.\<close>

definition append_line :: "bytes \<Rightarrow> unit store_action" where
  "append_line line =
     seq next_fault (\<lambda>fault.
       let grow = (\<lambda>b s. s\<lparr>turn_file := (turn_file s)\<lparr>content :=
             Some ((case content (turn_file s) of None \<Rightarrow> [] | Some old \<Rightarrow> old) @ b)\<rparr>\<rparr>) in
       case fault of
         None \<Rightarrow> updates (grow line)
       | Some Early \<Rightarrow> throw OSError
       | Some (Torn n) \<Rightarrow> seq (updates (grow (take n line))) (\<lambda>_. throw OSError)
       | Some Late \<Rightarrow> seq (updates (grow line)) (\<lambda>_. throw OSError))"

definition append_turn :: "env \<Rightarrow> json \<Rightarrow> json \<Rightarrow> int \<Rightarrow> json \<Rightarrow> unit store_action" where
  "append_turn w conversation_id run_id number user_text =
     seq check (\<lambda>_.
     seq (reads (\<lambda>s. length (turns s))) (\<lambda>previous.
     seq (append_turn_memory w conversation_id run_id number user_text) (\<lambda>_.
     seq (get conversation_id) (\<lambda>found.
     seq (case found of
            None \<Rightarrow> pure ()
          | Some i \<Rightarrow>
              seq (increment w i ''user_turn_no'') (\<lambda>_.
              seq (increment w i ''session_revision'') (\<lambda>_.
              seq (touch w i) (\<lambda>_. flush)))) (\<lambda>_.
     seq (reads turns) (\<lambda>rows.
       if length rows \<noteq> previous then write_turns
       else seq (lift (turn_line (last rows))) append_line))))))"

end
