(* ===== verification/Session_Load.thy ===== *)
theory Session_Load
  imports Session_Commit
begin

text \<open>
  \<open>v24/session/store.py\<close>, third part: opening a store. A file that does not parse, or whose rows
  break a rule, leaves the store empty and \<open>failed\<close>, and a failed store is never flushed. A file
  of format 1 is migrated after its bytes were copied. Last come the history of a conversation and
  the block of text made of it.
\<close>

section \<open>Rows of the session file\<close>

definition uuid_check :: "env \<Rightarrow> json \<Rightarrow> exn + unit" where
  "uuid_check w v = andthen (valid_uuid (exotic_hex w) v) (\<lambda>_. Inr ())"

definition check_binding :: "env \<Rightarrow> json \<Rightarrow> exn + unit" where
  "check_binding w b =
     steps [andthen (subscript b ''scope_id'') (uuid_check w), andthen (subscript b ''run_id'') (uuid_check w)]"

definition set_default :: "string \<Rightarrow> json \<Rightarrow> dict \<Rightarrow> dict" where
  "set_default k v d = (if has d k then d else dset d k v)"

definition check_counter :: "dict \<Rightarrow> string \<Rightarrow> exn + unit" where
  "check_counter row k =
     (let v = dget_or row k (JInt 0) in require (is_int v \<and> 0 \<le> the_int v) ValueError)"

definition check_row :: "env \<Rightarrow> json list \<Rightarrow> dict \<Rightarrow> exn + unit" where
  "check_row w seen row =
     (let sid = turn_session row; hash = dget_or row ''resume_token_hash'' (JStr []);
          st = dget_or row ''state'' (jstr ''starting''); bs = dget row ''bindings'';
          intent = dget row ''pending_intent'' in
      steps
        [uuid_check w sid,
         require (py_eq (dget_or row ''conversation_id'' sid) sid) ValueError,
         require (\<not> list_ex (py_eq sid) seen) ValueError,
         require (is_str hash \<and> is_digest (the_str hash)) ValueError,
         require (hashable st) TypeError,
         require (among st STATES) ValueError,
         require (is_list bs) ValueError,
         each (check_binding w) (elems bs),
         check_counter row ''run_no'', check_counter row ''user_turn_no'', check_counter row ''session_revision'',
         require (is_dict (dget_or row ''start_index'' (JObj []))) ValueError,
         require (is_list (dget_or row ''receipts'' (JArr []))) ValueError,
         require (intent = JNull \<or> is_dict intent) ValueError])"

definition settle_row :: "json \<Rightarrow> dict \<Rightarrow> dict" where
  "settle_row stamp row =
     (let sid = turn_session row;
          r0 = dset row ''bindings'' (JArr (last_n MAX_BINDINGS (elems (dget row ''bindings''))));
          r1 = foldl (\<lambda>r k. dset r k (dget_or r k (JInt 0))) r0 [''run_no'', ''user_turn_no'', ''session_revision''];
          r2 = foldl (\<lambda>r (k, v). set_default k v r) r1
                 [(''start_index'', JObj []), (''receipts'', JArr []), (''pending_intent'', JNull),
                  (''counter_origin'', jstr ''native_v2''), (''owner_principal_id'', jstr ''local''),
                  (''active_run_id'', JNull), (''name'', sid), (''model'', jstr ''deepseek-flash''),
                  (''created_at'', stamp)] in
      set_default ''updated_at'' (dget r2 ''created_at'') r2)"

fun validate_each :: "env \<Rightarrow> json list \<Rightarrow> nat \<Rightarrow> json list \<Rightarrow> exn + dict list" where
  "validate_each w seen n [] = Inr []"
| "validate_each w seen n (v # vs) =
     (if \<not> is_dict v then Inl ValueError
      else
        andthen (check_row w seen (items v)) (\<lambda>_.
        andthen (validate_each w (turn_session (items v) # seen) (n + 1) vs) (\<lambda>rows.
          Inr (settle_row (JStr (clock w n)) (items v) # rows))))"

text \<open>\<open>_validate_rows\<close>; \<open>n\<close> numbers the first time stamp.\<close>

definition validate_rows :: "env \<Rightarrow> nat \<Rightarrow> json \<Rightarrow> exn + dict list" where
  "validate_rows w n rows = (if \<not> is_list rows then Inl ValueError else validate_each w [] n (elems rows))"

definition validated :: "env \<Rightarrow> json \<Rightarrow> dict list store_action" where
  "validated w rows =
     (\<lambda>s. (validate_rows w (draws s) rows, s\<lparr>draws := draws s + length (elems rows)\<rparr>))"

section \<open>Turns\<close>

definition turn_row :: "env \<Rightarrow> bytes \<Rightarrow> exn + dict" where
  "turn_row w line =
     andthen (loads_bytes (floats w) line) (\<lambda>v.
       let row = items v; identifier = turn_session row in
       if \<not> is_dict v then Inl ValueError
       else
         andthen (subscript v ''user_text'') (\<lambda>text_value.
         if \<not> is_str text_value then Inl ValueError
         else
           andthen (subscript v ''seq'') (\<lambda>number.
           if \<not> is_int number then Inl ValueError
           else
             andthen (uuid_check w identifier) (\<lambda>_.
             andthen (subscript v ''run_id'') (\<lambda>run_id.
             andthen (uuid_check w run_id) (\<lambda>_.
               Inr (dset (dset row ''session_id'' identifier) ''conversation_id'' identifier)))))))"

definition bad_turn :: "exn \<Rightarrow> bool" where
  "bad_turn e \<longleftrightarrow> value_failure e \<or> e \<in> {KeyError, TypeError}"

fun read_turns :: "env \<Rightarrow> bytes list \<Rightarrow> exn + (dict list \<times> nat)" where
  "read_turns w [] = Inr ([], 0)"
| "read_turns w (line # rest) =
     (case turn_row w line of
        Inl e \<Rightarrow>
          if bad_turn e then andthen (read_turns w rest) (\<lambda>(rows, bad). Inr (rows, bad + 1)) else Inl e
      | Inr row \<Rightarrow> andthen (read_turns w rest) (\<lambda>(rows, bad). Inr (row # rows, bad)))"

definition load_turns :: "env \<Rightarrow> unit store_action" where
  "load_turns w =
     seq (updates (\<lambda>s. s\<lparr>turns := []\<rparr>)) (\<lambda>_.
     seq (reads (\<lambda>s. content (turn_file s))) (\<lambda>raw.
       case raw of
         None \<Rightarrow> pure ()
       | Some b \<Rightarrow>
           seq (lift (read_turns w (byte_lines b))) (\<lambda>(rows, bad).
           seq (updates (\<lambda>s. s\<lparr>turns := bound_turns rows, warnings := warnings s @ replicate bad ''turn_corrupt''\<rparr>)) (\<lambda>_.
             if (b \<noteq> [] \<and> last b \<noteq> 10) \<or> 0 < bad \<or> length (bound_turns rows) \<noteq> length rows
             then write_turns else pure ()))))"

section \<open>Migrating format 1\<close>

definition ensure_v1_copy ::
  "(session_store \<Rightarrow> saved) \<Rightarrow> (saved \<Rightarrow> session_store \<Rightarrow> session_store) \<Rightarrow> bytes \<Rightarrow> unit store_action" where
  "ensure_v1_copy view put data =
     seq (reads (\<lambda>s. v1_copy (view s))) (\<lambda>c. case c of None \<Rightarrow> save_v1_copy view put data | Some _ \<Rightarrow> pure ())"

text \<open>\<open>(row.get("active_binding") or {}).get("run_id")\<close>\<close>

definition bound_run :: "dict \<Rightarrow> exn + json" where
  "bound_run row =
     (let b = dget row ''active_binding'' in if \<not> truthy b then Inr JNull else attr b ''run_id'')"

definition migrate_row :: "env \<Rightarrow> dict list \<Rightarrow> json \<Rightarrow> exn + json" where
  "migrate_row w turn_rows v =
     (let row = items v; sid = dget row ''conversation_id'' in
      if \<not> is_dict v then Inl ValueError
      else
        andthen (uuid_check w sid) (\<lambda>_.
        andthen (len_or_empty (dget row ''bindings'')) (\<lambda>runs.
        andthen (bound_run row) (\<lambda>run_id.
          let r0 = dset (dset row ''session_id'' sid) ''conversation_id'' sid;
              r1 = set_default ''state'' (if truthy (dget row ''bindings'') then jstr ''active'' else jstr ''starting'')
                     (set_default ''name'' sid r0);
              r2 = foldl (\<lambda>r (k, x). dset r k x) r1
                     [(''run_no'', JInt runs),
                      (''user_turn_no'', JInt (int (length (filter (\<lambda>t. py_eq (dget t ''session_id'') sid) turn_rows)))),
                      (''session_revision'', JInt 0), (''counter_origin'', jstr ''legacy_approx''),
                      (''owner_principal_id'', jstr ''local''), (''start_index'', JObj []), (''receipts'', JArr []),
                      (''pending_intent'', JNull)] in
          Inr (JObj (set_default ''model'' (jstr ''deepseek-flash'') (set_default ''active_run_id'' run_id r2)))))))"

definition migrate_v1 :: "env \<Rightarrow> dict \<Rightarrow> bytes \<Rightarrow> unit store_action" where
  "migrate_v1 w data raw =
     (let rows = dget data ''conversations'' in
      seq (demand (is_list rows) ValueError) (\<lambda>_.
      seq (ensure_v1_copy session_file (\<lambda>f s. s\<lparr>session_file := f\<rparr>) raw) (\<lambda>_.
      seq (reads (\<lambda>s. content (turn_file s))) (\<lambda>b.
      seq (case b of None \<Rightarrow> pure () | Some old \<Rightarrow> ensure_v1_copy turn_file (\<lambda>f s. s\<lparr>turn_file := f\<rparr>) old) (\<lambda>_.
      seq (reads turns) (\<lambda>turn_rows.
      seq (lift (mapr (migrate_row w turn_rows) (elems rows))) (\<lambda>migrated.
      seq (validated w (JArr migrated)) (\<lambda>good.
      seq (updates (\<lambda>s. s\<lparr>sessions := good, active_session_id := dget data ''active_conversation_id'',
             owner_epoch := JInt 0\<rparr>)) (\<lambda>_. flush)))))))))"

section \<open>Opening\<close>

definition migration_failure :: "exn \<Rightarrow> bool" where
  "migration_failure e \<longleftrightarrow>
     value_failure e \<or> e \<in> {KeyError, TypeError, OSError} \<or> (case e of StoreError _ \<Rightarrow> True | _ \<Rightarrow> False)"

definition adopt :: "env \<Rightarrow> dict \<Rightarrow> unit store_action" where
  "adopt w data =
     (\<lambda>s. case validated w (dget_or data ''sessions'' (dget data ''conversations'')) s of
            (Inl e, t) \<Rightarrow> if bad_turn e then fail_load ''session_store_corrupt'' t else (Inl e, t)
          | (Inr rows, t) \<Rightarrow>
              let epoch = dget_or data ''owner_epoch'' (JInt 0);
                  good = (case epoch of JInt i \<Rightarrow> 0 \<le> i | JBool _ \<Rightarrow> True | _ \<Rightarrow> False) in
              (Inr (), t\<lparr>sessions := rows,
                 active_session_id := dget_or data ''active_session_id'' (dget data ''active_conversation_id''),
                 owner_epoch := (if good then epoch else JInt 0)\<rparr>))"

definition load_sessions :: "env \<Rightarrow> unit store_action" where
  "load_sessions w =
     seq (reads (\<lambda>s. content (session_file s))) (\<lambda>raw.
       case raw of
         None \<Rightarrow> pure ()
       | Some b \<Rightarrow>
           (case loads_bytes (floats w) b of
              Inl e \<Rightarrow> if bad_turn e \<or> e = OSError then fail_load ''session_store_corrupt'' else throw e
            | Inr v \<Rightarrow>
                if \<not> is_dict v then fail_load ''session_store_corrupt''
                else
                  let version = dget (items v) ''format_version'' in
                  if py_eq version (JInt 1) then
                    attempt (migrate_v1 w (items v) b) migration_failure (\<lambda>_.
                      seq (fail_load ''session_migration_failed'') (\<lambda>_. throw (StoreError ''session_migration_failed'')))
                  else if \<not> py_eq version (JInt VERSION) then fail_load ''session_store_incompatible''
                  else adopt w (items v)))"

definition load_store :: "env \<Rightarrow> unit store_action" where
  "load_store w = seq check (\<lambda>_. seq (load_turns w) (\<lambda>_. load_sessions w))"

text \<open>The constructor, on the files it finds.\<close>

definition fresh_store :: "nat \<Rightarrow> saved \<Rightarrow> saved \<Rightarrow> disk_fault option list \<Rightarrow> nat \<Rightarrow> session_store" where
  "fresh_store thread sf tf fs n =
     \<lparr>sessions = [], turns = [], warnings = [], active_session_id = JNull, owner_epoch = JInt 0, failed = None,
      owner = thread, running = thread, session_file = sf, turn_file = tf, faults = fs, draws = n\<rparr>"

definition open_store :: "env \<Rightarrow> nat \<Rightarrow> saved \<Rightarrow> saved \<Rightarrow> disk_fault option list \<Rightarrow> nat \<Rightarrow> (exn + unit) \<times> session_store" where
  "open_store w thread sf tf fs n = load_store w (fresh_store thread sf tf fs n)"

section \<open>History\<close>

fun group_turns :: "dict list \<Rightarrow> (json \<times> json list) list \<Rightarrow> (json \<times> json list) list" where
  "group_turns [] gs = gs"
| "group_turns (row # rows) gs =
     (let r = dget row ''run_id''; u = dget row ''user_text'' in
      group_turns rows
        (if list_ex (\<lambda>(k, _). py_eq k r) gs
         then map (\<lambda>(k, us). if py_eq k r then (k, us @ [u]) else (k, us)) gs
         else gs @ [(r, [u])]))"

definition message :: "string \<Rightarrow> pystr \<Rightarrow> json" where
  "message role content_text = JObj [(lit ''role'', jstr role), (lit ''content'', JStr content_text)]"

text \<open>\<open>run = read_run(run_id) if read_run else {}; (run.get("result") or {}).get("final_text")\<close>\<close>

definition final_text :: "env \<Rightarrow> json \<Rightarrow> exn + json" where
  "final_text w run_id =
     andthen (case read_run w of None \<Rightarrow> Inr (JObj []) | Some f \<Rightarrow> f run_id) (\<lambda>run.
     andthen (attr run ''result'') (\<lambda>res.
       if \<not> truthy res then Inr JNull else attr res ''final_text''))"

definition run_messages :: "env \<Rightarrow> json \<times> json list \<Rightarrow> exn + json list" where
  "run_messages w g =
     andthen (final_text w (fst g)) (\<lambda>final.
       Inr (message ''user'' (join [10] (map the_str (snd g))) #
            (if is_str final then [message ''assistant'' (the_str final)] else [])))"

definition turns_of :: "json \<Rightarrow> session_store \<Rightarrow> dict list" where
  "turns_of conversation_id s = filter (\<lambda>r. py_eq (turn_session r) conversation_id) (turns s)"

definition history :: "env \<Rightarrow> json \<Rightarrow> nat \<Rightarrow> json list store_action" where
  "history w conversation_id k =
     seq check (\<lambda>_.
     seq (reads (turns_of conversation_id)) (\<lambda>rows.
     seq (lift (mapr (run_messages w) (last_n k (group_turns rows [])))) (\<lambda>parts. pure (concat parts))))"

definition TRUNCATED :: pystr where
  "TRUNCATED = 91 # 0x2026 # lit ''truncated]''"

definition history_line :: "json \<Rightarrow> pystr" where
  "history_line m =
     (let role = the_str (dget (items m) ''role''); content_text = the_str (dget (items m) ''content'');
          cap = (if role = lit ''user'' then 600 else 800) in
      role @ lit '': '' @
        (if cap < length content_text then take (cap - length TRUNCATED) content_text @ TRUNCATED else content_text))"

fun take_lines :: "nat \<Rightarrow> pystr list \<Rightarrow> pystr list" where
  "take_lines used [] = []"
| "take_lines used (l # ls) =
     (if 3950 < used + length l + 1 then [] else l # take_lines (used + length l + 1) ls)"

definition BLOCK_OPEN :: pystr where "BLOCK_OPEN = lit ''<conversation_so_far>'' @ [10]"
definition BLOCK_CLOSE :: pystr where "BLOCK_CLOSE = lit ''</conversation_so_far>''"

definition history_block :: "env \<Rightarrow> json \<Rightarrow> pystr store_action" where
  "history_block w conversation_id =
     seq (history w conversation_id 6) (\<lambda>messages.
     seq (reads (turns_of conversation_id)) (\<lambda>rows.
       let kept = rev (take_lines (length (BLOCK_OPEN @ BLOCK_CLOSE)) (map history_line (rev messages)));
           runs = remdups (map (\<lambda>r. dget r ''run_id'') rows);
           lines = (if length kept < length messages \<or> 6 < length runs
                    then lit ''[older turns omitted]'' # kept else kept) in
       pure (BLOCK_OPEN @ join [10] lines @ [10] @ BLOCK_CLOSE)))"

end
