(* ===== verification/Session_Calls.thy ===== *)
theory Session_Calls
  imports Session_Load
begin

text \<open>
  The calls of the session store as a state machine, and its invariant: every row is one that a
  later load accepts as it stands, identifiers are distinct, turns are bounded. The invariant
  survives calls that raise, because the rows are mutated field by field and each assignment keeps
  it.
\<close>

section \<open>Calls\<close>

datatype store_call =
    Begin_Command json pystr string pystr json json pystr json json
  | Complete_Command json json json string json "string option"
  | Freeze_Command json json json string "string option"
  | Steer_Active json json json json "dict \<Rightarrow> exn + json"
  | Steer_Run json json json json json "dict \<Rightarrow> exn + json"
  | New_Conversation json json json json pystr dict
  | Begin_Start json pystr pystr json json json pystr json dict
  | Freeze_Deferred json json json
  | Complete_Start json json json json json "dict \<Rightarrow> exn + json"
  | Bind json json json json pystr json json json json
  | Detach json
  | Remove json
  | Append_Turn json json int json
  | Flush

definition discard :: "'a store_action \<Rightarrow> unit store_action" where
  "discard m = seq m (\<lambda>_. pure ())"

fun run_call :: "env \<Rightarrow> store_call \<Rightarrow> unit store_action" where
  "run_call w (Begin_Command sid p op h c n d t i) = discard (begin_command w sid p op h c n d t i)"
| "run_call w (Complete_Command sid c e outcome t st) = complete_command w sid c e outcome t st"
| "run_call w (Freeze_Command sid c e outcome st) = freeze_command w sid c e outcome st"
| "run_call w (Steer_Active sid c r m f) = complete_steer_active w sid c r m f"
| "run_call w (Steer_Run sid c r b m f) = complete_steer_run w sid c r b m f"
| "run_call w (New_Conversation mode l sid name p meta) = discard (new_conversation w mode l sid name p meta)"
| "run_call w (Begin_Start sid p h c k n d name meta) = discard (begin_start w sid p h c k n d name meta)"
| "run_call w (Freeze_Deferred sid c e) = freeze_deferred w sid c e"
| "run_call w (Complete_Start sid e r b m f) = complete_start w sid e r b m f"
| "run_call w (Bind c sc r realm d t cat mode l) = discard (bind w c sc r realm d t cat mode l)"
| "run_call w (Detach c) = detach w c"
| "run_call w (Remove c) = remove c"
| "run_call w (Append_Turn c r n u) = append_turn w c r n u"
| "run_call w Flush = flush"

section \<open>The invariant of a row\<close>

definition SETTLED :: "string list" where
  "SETTLED = [''run_no'', ''user_turn_no'', ''session_revision'', ''start_index'', ''receipts'', ''pending_intent'',
     ''counter_origin'', ''owner_principal_id'', ''active_run_id'', ''name'', ''model'', ''created_at'', ''updated_at'']"

definition COUNTERS :: "string list" where
  "COUNTERS = [''run_no'', ''user_turn_no'', ''session_revision'']"

definition row_ok :: "env \<Rightarrow> dict \<Rightarrow> bool" where
  "row_ok w row \<longleftrightarrow>
     (let sid = turn_session row; hash = dget row ''resume_token_hash''; bs = dget row ''bindings'';
          intent = dget row ''pending_intent'' in
      uuid_check w sid = Inr () \<and> dget_or row ''conversation_id'' sid = sid \<and>
      is_str hash \<and> is_digest (the_str hash) \<and>
      among (dget_or row ''state'' (jstr ''starting'')) STATES \<and>
      is_list bs \<and> length (elems bs) \<le> MAX_BINDINGS \<and> (\<forall>b \<in> set (elems bs). check_binding w b = Inr ()) \<and>
      (\<forall>k \<in> set COUNTERS. is_int (dget row k) \<and> 0 \<le> the_int (dget row k)) \<and>
      is_dict (dget row ''start_index'') \<and> is_list (dget row ''receipts'') \<and>
      (intent = JNull \<or> is_dict intent) \<and> (\<forall>k \<in> set SETTLED. has row k))"

text \<open>The fields a caller may set freely.\<close>

definition RESERVED :: "string list" where
  "RESERVED = [''session_id'', ''conversation_id'', ''resume_token_hash'', ''state'', ''bindings'', ''run_no'',
     ''user_turn_no'', ''session_revision'', ''start_index'', ''receipts'', ''pending_intent'']"

lemma turn_session_dset [simp]:
  "k \<noteq> ''session_id'' \<Longrightarrow> k \<noteq> ''conversation_id'' \<Longrightarrow> turn_session (dset row k v) = turn_session row"
  by (simp add: turn_session_def dget_def dget_dset)

lemma row_ok_put:
  assumes "row_ok w row" "k \<notin> set (map lit RESERVED)"
  shows "row_ok w (dput k v row)" "turn_session (dput k v row) = turn_session row"
proof -
  have same: "dget_or (dput k v row) j z = dget_or row j z" if "j \<in> set RESERVED" for j z
    using that assms(2) by (auto simp: dget_or_def)
  note field = same[of "''session_id''"] same[of "''conversation_id''"] same[of "''resume_token_hash''"]
    same[of "''state''"] same[of "''bindings''"] same[of "''run_no''"] same[of "''user_turn_no''"]
    same[of "''session_revision''"] same[of "''start_index''"] same[of "''receipts''"] same[of "''pending_intent''"]
  have "\<forall>j \<in> set SETTLED. has (dput k v row) j"
    using assms(1) by (simp add: row_ok_def has_def keys_dput Let_def)
  with assms(1) show "row_ok w (dput k v row)"
    unfolding row_ok_def turn_session_def dget_def COUNTERS_def Let_def
    by (simp add: field[unfolded RESERVED_def, simplified])
  show "turn_session (dput k v row) = turn_session row"
    unfolding turn_session_def dget_def by (simp add: field[unfolded RESERVED_def, simplified])
qed

lemma row_ok_free: "row_ok w row \<Longrightarrow> k \<notin> set RESERVED \<Longrightarrow> row_ok w (dset row k v)"
  unfolding dset_def by (rule row_ok_put(1)) auto

lemma row_ok_state: "row_ok w row \<Longrightarrow> st \<in> set STATES \<Longrightarrow> row_ok w (dset row ''state'' (jstr st))"
  by (simp add: row_ok_def COUNTERS_def dget_def dget_dset has_dset turn_session_def among_def Let_def)

lemma row_ok_counter:
  assumes "row_ok w row" "k \<in> set COUNTERS" "0 \<le> n"
  shows "row_ok w (dset row k (JInt n))"
proof -
  consider "k = ''run_no''" | "k = ''user_turn_no''" | "k = ''session_revision''"
    using assms(2) by (auto simp: COUNTERS_def)
  then show ?thesis
    by cases (use assms(1,3) in \<open>simp_all add: row_ok_def COUNTERS_def dget_def dget_dset has_dset turn_session_def Let_def\<close>)
qed

lemma row_ok_list: "row_ok w row \<Longrightarrow> row_ok w (dset row ''receipts'' (JArr rs))"
  by (simp add: row_ok_def COUNTERS_def dget_def dget_dset has_dset turn_session_def Let_def)

lemma row_ok_index: "row_ok w row \<Longrightarrow> row_ok w (dset row ''start_index'' (JObj d))"
  by (simp add: row_ok_def COUNTERS_def dget_def dget_dset has_dset turn_session_def Let_def)

lemma row_ok_intent: "row_ok w row \<Longrightarrow> v = JNull \<or> is_dict v \<Longrightarrow> row_ok w (dset row ''pending_intent'' v)"
  by (simp add: row_ok_def COUNTERS_def dget_def dget_dset has_dset turn_session_def Let_def)

lemma row_ok_bindings:
  "row_ok w row \<Longrightarrow> length bs \<le> MAX_BINDINGS \<Longrightarrow> \<forall>b \<in> set bs. check_binding w b = Inr () \<Longrightarrow>
     row_ok w (dset row ''bindings'' (JArr bs))"
  by (simp add: row_ok_def COUNTERS_def dget_def dget_dset has_dset turn_session_def Let_def)

section \<open>The invariant of the store\<close>

definition turns_bounded :: "dict list \<Rightarrow> bool" where
  "turns_bounded rows \<longleftrightarrow> (\<forall>c. length (filter (\<lambda>r. turn_session r = c) rows) \<le> MAX_TURNS)"

definition epoch_ok :: "json \<Rightarrow> bool" where
  "epoch_ok v \<longleftrightarrow> (case v of JInt i \<Rightarrow> 0 \<le> i | JBool _ \<Rightarrow> True | _ \<Rightarrow> False)"

definition store_ok :: "env \<Rightarrow> session_store \<Rightarrow> bool" where
  "store_ok w s \<longleftrightarrow>
     epoch_ok (owner_epoch s) \<and>
     (\<forall>row \<in> set (sessions s). row_ok w row) \<and> distinct (map turn_session (sessions s)) \<and> turns_bounded (turns s)"

text \<open>An assignment to a row keeps it when the new row keeps the row invariant and the identifier.\<close>

definition safe_edit :: "env \<Rightarrow> (dict \<Rightarrow> dict) \<Rightarrow> bool" where
  "safe_edit w f \<longleftrightarrow> (\<forall>row. row_ok w row \<longrightarrow> row_ok w (f row) \<and> turn_session (f row) = turn_session row)"

lemma store_ok_edit:
  assumes "store_ok w s" "i < length (sessions s) \<Longrightarrow> row_ok w r \<and> turn_session r = turn_session (sessions s ! i)"
  shows "store_ok w (s\<lparr>sessions := (sessions s)[i := r]\<rparr>)"
proof (cases "i < length (sessions s)")
  case True
  then have "map turn_session ((sessions s)[i := r]) = map turn_session (sessions s)"
    using assms(2) by (simp add: map_update list_update_same_conv)
  then show ?thesis
    using assms True set_update_subset_insert[of "sessions s" i r] by (auto simp: store_ok_def)
qed (use assms in \<open>simp add: store_ok_def not_less list_update_beyond\<close>)

lemma keeps_edit: "safe_edit w f \<Longrightarrow> keeps (store_ok w) (edit i f)"
  unfolding edit_def
  by (rule keeps_updates, rule store_ok_edit) (auto simp: safe_edit_def store_ok_def)

named_theorems store_keeps \<open>rules that show that an operation keeps a property of the store\<close>

lemma store_ok_more [simp]:
  "store_ok w (s\<lparr>draws := n\<rparr>) = store_ok w s" "store_ok w (s\<lparr>faults := fs\<rparr>) = store_ok w s"
  "store_ok w (s\<lparr>session_file := f\<rparr>) = store_ok w s" "store_ok w (s\<lparr>turn_file := f\<rparr>) = store_ok w s"
  "store_ok w (s\<lparr>active_session_id := v\<rparr>) = store_ok w s"
  "store_ok w (s\<lparr>failed := x, warnings := ws\<rparr>) = store_ok w s"
  by (simp_all add: store_ok_def)

lemma row_ok_counter_value:
  assumes "row_ok w row" "k \<in> set COUNTERS"
  shows "\<exists>n. 0 \<le> n \<and> dget_or row k (JInt 0) = JInt n"
proof -
  have "is_int (dget row k)" "0 \<le> the_int (dget row k)" "has row k"
    using assms by (auto simp: row_ok_def COUNTERS_def SETTLED_def Let_def)
  then show ?thesis using dget_dget_or[of row k "JInt 0"] by (cases "dget row k") auto
qed

lemma keeps_increment:
  assumes "k \<in> set COUNTERS"
  shows "keeps (store_ok w) (increment w i k)"
proof (rule keepsI)
  fix s r t assume s: "store_ok w s" and run: "increment w i k s = (r, t)"
  show "store_ok w t"
  proof (cases "i < length (sessions s)")
    case True
    then have row: "row_ok w (sessions s ! i)" using s by (auto simp: store_ok_def)
    then obtain n where n: "0 \<le> n" "dget_or (sessions s ! i) k (JInt 0) = JInt n"
      using row_ok_counter_value assms by blast
    then have t: "t = s\<lparr>sessions := (sessions s)[i := dset (sessions s ! i) k (JInt (n + 1))]\<rparr>"
      using run by (simp add: increment_def the_row_def as_int_def set_field_def edit_def seq_def)
    have "k \<noteq> ''session_id''" "k \<noteq> ''conversation_id''" using assms by (auto simp: COUNTERS_def)
    then show ?thesis using row_ok_counter[OF row assms] n s by (auto simp: t intro!: store_ok_edit)
  next
    case False
    then show ?thesis using run s
      by (auto simp: increment_def the_row_def set_field_def edit_def seq_def not_less list_update_beyond split: sum.splits)
  qed
qed

lemma zip_filter_subset: "set (map fst (filter snd (zip xs bs))) \<subseteq> set xs"
  by (auto dest: set_zip_leftD)

lemma keeps_add_binding:
  assumes "check_binding w b = Inr ()"
  shows "keeps (store_ok w) (add_binding i r b)"
proof (rule keepsI)
  fix s x t assume s: "store_ok w s" and run: "add_binding i r b s = (x, t)"
  have "t = s \<or> (\<exists>bs flags. iterate (dget_or (sessions s ! i) ''bindings'' (JArr [])) = Inr bs \<and>
      t = s\<lparr>sessions := (sessions s)[i := dset (sessions s ! i) ''bindings''
        (JArr (last_n MAX_BINDINGS (map fst (filter snd (zip bs flags)) @ [b])))]\<rparr>)"
    using run by (auto simp: add_binding_def the_row_def set_field_def edit_def Let_def split: sum.splits)
  then show "store_ok w t"
  proof (elim disjE exE conjE)
    fix bs flags
    assume bs: "iterate (dget_or (sessions s ! i) ''bindings'' (JArr [])) = Inr bs"
      and t: "t = s\<lparr>sessions := (sessions s)[i := dset (sessions s ! i) ''bindings''
        (JArr (last_n MAX_BINDINGS (map fst (filter snd (zip bs flags)) @ [b])))]\<rparr>"
    show ?thesis unfolding t
    proof (rule store_ok_edit[OF s], rule conjI)
      assume "i < length (sessions s)"
      then have row: "row_ok w (sessions s ! i)" using s by (auto simp: store_ok_def)
      then have list: "is_list (dget (sessions s ! i) ''bindings'')"
          "\<forall>c \<in> set (elems (dget (sessions s ! i) ''bindings'')). check_binding w c = Inr ()"
        by (auto simp: row_ok_def Let_def)
      then have "has (sessions s ! i) ''bindings''" by (metis dget_def dget_or_absent is_list.simps(2))
      then have "bs = elems (dget (sessions s ! i) ''bindings'')"
        using bs list(1) dget_dget_or[of "sessions s ! i" "''bindings''" "JArr []"]
        by (cases "dget (sessions s ! i) ''bindings''") (auto simp: iterate_def)
      then have "\<forall>c \<in> set (map fst (filter snd (zip bs flags))). check_binding w c = Inr ()"
        using list(2) zip_filter_subset[of bs flags] by blast
      then have "\<forall>c \<in> set (map fst (filter snd (zip bs flags)) @ [b]). check_binding w c = Inr ()"
        using assms by simp
      then show "row_ok w (dset (sessions s ! i) ''bindings''
          (JArr (last_n MAX_BINDINGS (map fst (filter snd (zip bs flags)) @ [b]))))"
        by (intro row_ok_bindings[OF row])
          (use set_last_n in \<open>fastforce simp: length_last_n\<close>)+
    qed simp
  qed (use s in simp)
qed

text \<open>\<open>bound_turns\<close> keeps at most 200 turns of a session.\<close>

lemma bound_back_length:
  "counts c \<le> MAX_TURNS \<Longrightarrow> length (filter (\<lambda>r. turn_session r = c) (bound_back counts rows)) + counts c \<le> MAX_TURNS"
proof (induction counts rows rule: bound_back.induct)
  case (2 counts row rows)
  show ?case
  proof (cases "turn_session row = c")
    case True
    show ?thesis
    proof (cases "counts c + 1 \<le> MAX_TURNS")
      case le: True
      then show ?thesis using 2(1)[OF refl refl] True by (simp add: Let_def fun_upd_def)
    next
      case False
      have "filter (\<lambda>r. turn_session r = c) (bound_back k rows) = []" if "MAX_TURNS \<le> k c" for k
        using that
      proof (induction k rows rule: bound_back.induct)
        case (2 k row rows)
        then show ?case using 2(1)[OF refl refl] by (auto simp: Let_def fun_upd_def)
      qed simp
      then show ?thesis using False True 2(2) by (simp add: Let_def)
    qed
  next
    case False
    then show ?thesis using 2(1)[OF refl refl] 2(2) by (auto simp: Let_def fun_upd_def)
  qed
qed simp

lemma bound_turns_bounded [simp]: "turns_bounded (bound_turns rows)"
  using bound_back_length[of "\<lambda>_. 0"] by (auto simp: turns_bounded_def bound_turns_def rev_filter[symmetric])

lemma turns_bounded_filter: "turns_bounded rows \<Longrightarrow> turns_bounded (filter p rows)"
proof -
  assume b: "turns_bounded rows"
  have "length (filter q (filter p rows)) \<le> length (filter q rows)" for q
    by (induction rows) auto
  with b show ?thesis unfolding turns_bounded_def by (meson le_trans)
qed

section \<open>From primitive steps to operations\<close>

text \<open>
  A property of the store that the primitive steps keep is kept by every operation. The two
  instances are the invariant and the state of the file of a failed store.
\<close>

definition new_id :: "dict \<Rightarrow> session_store \<Rightarrow> bool" where
  "new_id row s \<longleftrightarrow> turn_session row \<notin> turn_session ` set (sessions s)"

locale store_property =
  fixes P :: "session_store \<Rightarrow> bool" and w :: env
  assumes P_frame: "P (s\<lparr>draws := n\<rparr>) = P s" "P (s\<lparr>faults := fs\<rparr>) = P s" "P (s\<lparr>turn_file := f\<rparr>) = P s"
      "P (s\<lparr>active_session_id := v\<rparr>) = P s"
    and P_epoch: "P s \<Longrightarrow> P (s\<lparr>owner_epoch := JInt (epoch_number s + 1)\<rparr>)"
    and P_flush: "keeps P flush"
    and P_edit: "safe_edit w g \<Longrightarrow> keeps P (edit i g)"
    and P_increment: "k \<in> set COUNTERS \<Longrightarrow> keeps P (increment w i k)"
    and P_add_binding: "check_binding w b = Inr () \<Longrightarrow> keeps P (add_binding i r b)"
    and P_turns: "P s \<Longrightarrow> P (s\<lparr>turns := bound_turns ts\<rparr>)"
    and P_insert: "row_ok w row \<Longrightarrow> new_id row s \<Longrightarrow> P s \<Longrightarrow> P (s\<lparr>sessions := sessions s @ [row]\<rparr>)"
    and P_remove: "P s \<Longrightarrow> P (s\<lparr>sessions := filter p (sessions s), turns := filter q (turns s)\<rparr>)"
begin

lemma keeps_draw [store_keeps]: "keeps P (draw f)"
  by (auto simp: keeps_def draw_def P_frame)

lemma keeps_now [store_keeps]: "keeps P (now v)"
  by (simp add: now_def keeps_draw)

lemma keeps_check [store_keeps]: "keeps P check"
  unfolding check_def by (intro keeps_intros)

lemma keeps_next_fault [store_keeps]: "keeps P next_fault"
  by (auto simp: keeps_def next_fault_def P_frame split: list.splits)

lemma keeps_save_turns [store_keeps]: "keeps P (save_turns b)"
  unfolding save_turns_def atomic_bytes_def Let_def
  by (intro keeps_intros keeps_next_fault)
    (auto intro!: keeps_intros keeps_updates simp: P_frame split: disk_fault.splits option.splits)

lemmas keeps_flush [store_keeps] = P_flush

lemma keeps_write_turns [store_keeps]: "keeps P write_turns"
  unfolding write_turns_def by (intro keeps_intros store_keeps)

lemma keeps_get [store_keeps]: "keeps P (get v)"
  unfolding get_def by (intro keeps_intros store_keeps)

lemma keeps_the_row [store_keeps]: "keeps P (the_row i)"
  unfolding the_row_def by (intro keeps_intros)

lemma keeps_existing [store_keeps]: "keeps P (existing v e)"
  unfolding existing_def by (intro keeps_intros store_keeps)

lemma keeps_find_receipt [store_keeps]: "keeps P (find_receipt t i)"
  unfolding find_receipt_def by (intro keeps_intros store_keeps)

lemma keeps_receipt_at [store_keeps]: "keeps P (receipt_at i n)"
  unfolding receipt_at_def by (intro keeps_intros store_keeps)

lemma keeps_command_receipt [store_keeps]: "keeps P (command_receipt i c)"
  unfolding command_receipt_def by (intro keeps_intros store_keeps)

lemma keeps_steer_receipt [store_keeps]: "keeps P (steer_receipt i c)"
  unfolding steer_receipt_def by (intro keeps_intros store_keeps)

lemma keeps_next_turn_seq [store_keeps]: "keeps P next_turn_seq"
  unfolding next_turn_seq_def by (intro keeps_intros)

lemma keeps_session_id_of [store_keeps]: "keeps P (session_id_of i)"
  unfolding session_id_of_def by (intro keeps_intros store_keeps)

lemma keeps_not_failed [store_keeps]: "keeps P not_failed"
  unfolding not_failed_def by (intro keeps_intros)

lemma keeps_set_free: "k \<notin> set RESERVED \<Longrightarrow> keeps P (set_field i k v)"
  unfolding set_field_def
  by (rule P_edit) (auto simp: safe_edit_def row_ok_free RESERVED_def intro!: turn_session_dset)

lemma keeps_set_state [store_keeps]: "st \<in> set STATES \<Longrightarrow> keeps P (set_field i ''state'' (jstr st))"
  unfolding set_field_def by (rule P_edit) (auto simp: safe_edit_def row_ok_state)

lemma keeps_set_intent [store_keeps]: "v = JNull \<or> is_dict v \<Longrightarrow> keeps P (set_field i ''pending_intent'' v)"
  unfolding set_field_def by (rule P_edit) (auto simp: safe_edit_def row_ok_intent)

lemma keeps_set_receipts [store_keeps]: "keeps P (set_field i ''receipts'' (JArr rs))"
  unfolding set_field_def by (rule P_edit) (auto simp: safe_edit_def row_ok_list)

lemma keeps_set_index [store_keeps]: "keeps P (set_field i ''start_index'' (JObj d))"
  unfolding set_field_def by (rule P_edit) (auto simp: safe_edit_def row_ok_index)

lemma keeps_edit_receipt [store_keeps]: "keeps P (edit_receipt i n kvs)"
  unfolding edit_receipt_def by (rule P_edit) (auto simp: safe_edit_def row_ok_list Let_def)

lemma keeps_set_named [store_keeps]:
  "keeps P (set_field i ''active_binding'' v)" "keeps P (set_field i ''active_run_id'' v)"
  "keeps P (set_field i ''updated_at'' v)"
  by (rule keeps_set_free, simp add: RESERVED_def)+

lemma keeps_touch [store_keeps]: "keeps P (touch v i)"
  unfolding touch_def by (intro keeps_intros store_keeps)

lemma keeps_prune [store_keeps]: "keeps P (prune_receipts i n)"
  unfolding prune_receipts_def Let_def by (intro keeps_intros store_keeps)

lemma keeps_push [store_keeps]: "keeps P (push_receipt i r)"
  unfolding push_receipt_def
  by (intro keeps_intros store_keeps) (auto intro!: keeps_intros store_keeps split: json.splits)

lemma keeps_make_room [store_keeps]: "keeps P (make_room i)"
  unfolding make_room_def by (intro keeps_intros store_keeps)

lemma keeps_defer_intent [store_keeps]: "keeps P (defer_intent i t)"
  unfolding defer_intent_def Let_def by (intro keeps_intros store_keeps) auto

lemma keeps_enter_state [store_keeps]: "(\<And>x. st = Some x \<Longrightarrow> x \<in> set STATES) \<Longrightarrow> keeps P (enter_state i st)"
  unfolding enter_state_def by (intro keeps_intros store_keeps) auto

lemma keeps_increments [store_keeps]:
  "keeps P (increment w i ''run_no'')" "keeps P (increment w i ''user_turn_no'')"
  "keeps P (increment w i ''session_revision'')"
  by (rule P_increment, simp add: COUNTERS_def)+

lemma keeps_append_turn_memory [store_keeps]: "keeps P (append_turn_memory v c r n u)"
  unfolding append_turn_memory_def by (intro keeps_intros store_keeps keeps_updates) (rule P_turns)

lemma keeps_commit_receipt [store_keeps]: "keeps P (commit_receipt i n r v f)"
  unfolding commit_receipt_def by (intro keeps_intros store_keeps)

lemma keeps_bind_run [store_keeps]: "check_binding w b = Inr () \<Longrightarrow> keeps P (bind_run w i c r b m)"
  unfolding bind_run_def by (intro keeps_intros store_keeps P_add_binding) (auto simp: STATES_def)

lemma keeps_mark_start_index [store_keeps]: "keeps P (mark_start_index i c kvs)"
  unfolding mark_start_index_def mark_entry_def Let_def by (intro keeps_intros store_keeps)

lemma keeps_append_line [store_keeps]: "keeps P (append_line b)"
  unfolding append_line_def Let_def
  by (intro keeps_intros store_keeps)
    (auto intro!: keeps_intros keeps_updates simp: P_frame split: disk_fault.splits option.splits)

end

end
