(* ===== verification/Session_Facts.thy ===== *)
theory Session_Facts
  imports Session_Calls
begin

text \<open>
  What the session store guarantees: the invariant over every sequence of calls, a failed store
  never touching its file, and the reload of a flushed store.
\<close>

section \<open>Identifiers of new sessions\<close>

lemma remove_all_absent: "c \<in> set p \<Longrightarrow> c \<notin> set s \<Longrightarrow> remove_all p s = s"
proof (induction p s rule: remove_all.induct)
  case (2 p d s)
  have "take (length p) (d # s) \<noteq> p" using 2(3,4) by (metis in_set_takeD)
  with 2 show ?case by auto
qed simp

lemma strip_set_none: "(\<And>c. c \<in> cs \<Longrightarrow> c \<notin> set s) \<Longrightarrow> strip_set cs s = s"
proof -
  assume none: "\<And>c. c \<in> cs \<Longrightarrow> c \<notin> set s"
  have "dropWhile (\<lambda>c. c \<in> cs) t = t" if "set t = set s" for t
    using none that by (cases t) auto
  then show "strip_set cs s = s" by (simp add: strip_set_def)
qed

lemma remove_all_single: "remove_all [c] s = filter (\<lambda>x. x \<noteq> c) s"
  by (induction s) auto

lemma hex_fixed_length [simp]: "length (hex_fixed k n) = k"
  by (induction k arbitrary: n) auto

lemma hex_fixed_chars: "c \<in> set (hex_fixed k n) \<Longrightarrow> hex_lower c"
  by (induction k arbitrary: n) (auto simp: hex_lower_digit)

lemma hex_number_snoc:
  "hex_number (s @ [c]) = (case (hex_number s, hex_val c) of (Some n, Some h) \<Rightarrow> Some (n * 16 + h) | _ \<Rightarrow> None)"
  by (simp add: hex_number_def)

lemma hex_number_fixed: "n < 16 ^ k \<Longrightarrow> hex_number (hex_fixed k n) = Some n"
proof (induction k arbitrary: n)
  case (Suc k)
  then have "n div 16 < 16 ^ k" by (simp add: less_mult_imp_div_less)
  then show ?case using Suc.IH by (simp add: hex_number_snoc hex_val_digit)
qed (simp add: hex_number_def)

lemma dashes:
  assumes "length h = 32"
  shows "take 8 h @ take 4 (drop 8 h) @ take 4 (drop 12 h) @ take 4 (drop 16 h) @ drop 20 h = h"
proof -
  have "drop 16 h = take 4 (drop 16 h) @ drop 20 h" "drop 12 h = take 4 (drop 12 h) @ drop 16 h"
      "drop 8 h = take 4 (drop 8 h) @ drop 12 h" "h = take 8 h @ drop 8 h"
    using append_take_drop_id[of 4 "drop 16 h"] append_take_drop_id[of 4 "drop 12 h"]
      append_take_drop_id[of 4 "drop 8 h"] append_take_drop_id[of 8 h] by (simp_all del: append_take_drop_id)
  then show ?thesis by metis
qed

lemma uuid_text_chars: "c \<in> set (uuid_text n) \<Longrightarrow> hex_lower c \<or> c = 45"
  unfolding uuid_text_def Let_def
  by (auto dest!: in_set_takeD in_set_dropD dest: hex_fixed_chars)

lemma uuid_roundtrip: "n < 2 ^ 128 \<Longrightarrow> uuid_int x (uuid_text n) = Inr n"
proof -
  assume n: "n < 2 ^ 128"
  let ?h = "hex_fixed 32 n"
  have plain: "c \<notin> set (uuid_text n)" if "c \<in> {58, 123, 125}" for c
    using that uuid_text_chars by (fastforce simp: hex_lower_def is_digit_def)
  have "remove_all (lit ''urn:'') (uuid_text n) = uuid_text n" "remove_all (lit ''uuid:'') (uuid_text n) = uuid_text n"
    using plain by (auto intro!: remove_all_absent[of 58] simp: lit_def)
  moreover have "strip_set {123, 125} (uuid_text n) = uuid_text n"
    using plain by (intro strip_set_none) auto
  moreover have "remove_all [45] (uuid_text n) = ?h"
  proof -
    have "filter (\<lambda>x. x \<noteq> 45) p = p" if "set p \<subseteq> set ?h" for p
      using that hex_fixed_chars by (fastforce simp: filter_id_conv hex_lower_def is_digit_def)
    then have "filter (\<lambda>x. x \<noteq> 45) (uuid_text n)
        = take 8 ?h @ take 4 (drop 8 ?h) @ take 4 (drop 12 ?h) @ take 4 (drop 16 ?h) @ drop 20 ?h"
      unfolding uuid_text_def Let_def
      by (simp add: set_take_subset set_drop_subset subset_trans[OF set_take_subset set_drop_subset])
    then show ?thesis using dashes[of ?h] by (simp add: remove_all_single)
  qed
  moreover have "hex_number ?h = Some n" using n by (intro hex_number_fixed) simp
  moreover have "?h \<noteq> []" by (metis hex_fixed_length length_0_conv zero_neq_numeral)
  ultimately show ?thesis using n by (simp add: uuid_int_def int16_def)
qed

lemma row_ok_session_row:
  assumes "n < 2 ^ 128"
  shows "row_ok w (session_row (uuid_text n) name token created updated p)"
    and "turn_session (session_row (uuid_text n) name token created updated p) = JStr (uuid_text n)"
proof -
  have "uuid_check w (JStr (uuid_text n)) = Inr ()"
    by (simp add: uuid_check_def valid_uuid_def uuid_roundtrip[OF assms])
  then show "row_ok w (session_row (uuid_text n) name token created updated p)"
    by (simp add: row_ok_def session_row_def dict_eval turn_session_def SETTLED_def COUNTERS_def
        sha256_hex_digest among_def STATES_def Let_def)
qed (simp add: session_row_def dict_eval turn_session_def)

definition free_fields :: "dict \<Rightarrow> bool" where
  "free_fields d \<longleftrightarrow> set (keys d) \<inter> set (map lit RESERVED) = {}"

lemma row_ok_update_all:
  "row_ok w row \<Longrightarrow> free_fields d \<Longrightarrow> row_ok w (update_all row d) \<and> turn_session (update_all row d) = turn_session row"
proof (induction d arbitrary: row)
  case (Cons kv d)
  obtain k v where kv: "kv = (k, v)" by fastforce
  with Cons.prems have k: "k \<notin> set (map lit RESERVED)" and d: "free_fields d"
    by (auto simp: free_fields_def keys_def)
  have "row_ok w (dput k v row)" "turn_session (dput k v row) = turn_session row"
    using row_ok_put[OF Cons.prems(1) k] by blast+
  with Cons.IH[OF this(1) d] show ?case by (simp add: update_all_def kv)
qed (simp add: update_all_def)

definition env_ok :: "env \<Rightarrow> bool" where
  "env_ok w \<longleftrightarrow> (\<forall>n. uuids w n < 2 ^ 128)"

text \<open>The identifier \<open>new_session\<close> gives, when it returns.\<close>

definition chosen_id :: "env \<Rightarrow> json \<Rightarrow> session_store \<Rightarrow> nat" where
  "chosen_id w session_id s =
     (if truthy session_id then (case valid_uuid (exotic_hex w) session_id of Inr n \<Rightarrow> n | Inl _ \<Rightarrow> 0)
      else uuids w (draws s))"

lemma valid_uuid_bound: "valid_uuid x v = Inr n \<Longrightarrow> n < 2 ^ 128"
proof -
  have "nat i < 2 ^ 128" if "0 \<le> i" "i < 2 ^ 128" for i :: int
    using that by (simp add: nat_less_iff)
  then show "valid_uuid x v = Inr n \<Longrightarrow> n < 2 ^ 128"
    unfolding valid_uuid_def uuid_int_def Let_def by (auto split: if_splits option.splits)
qed

lemma new_session_run:
  assumes "env_ok w" "free_fields metadata" "new_session w session_id name p metadata s = (Inr (row, token), t)"
  shows "row_ok w row" "turn_session row = JStr (uuid_text (chosen_id w session_id s))"
    and "t = s\<lparr>draws := draws t\<rparr>"
proof -
  let ?n = "chosen_id w session_id s"
  obtain shown created updated token where
    row: "row = update_all (session_row (uuid_text ?n) shown token created updated p) metadata"
    and t: "t = s\<lparr>draws := draws t\<rparr>" and n: "?n < 2 ^ 128"
    using assms valid_uuid_bound
    by (auto simp: new_session_def seq_def draw_def now_def chosen_id_def env_ok_def Let_def
        split: if_splits sum.splits prod.splits)
  show "row_ok w row" "turn_session row = JStr (uuid_text ?n)"
    using row_ok_update_all[OF row_ok_session_row(1)[OF n] assms(2)] row_ok_session_row(2)[OF n] row by auto
  show "t = s\<lparr>draws := draws t\<rparr>" by (rule t)
qed

section \<open>Calls\<close>

text \<open>What a caller owes: identifiers of runs and scopes are UUIDs, metadata leaves the fields of the
  store alone, a state is one of the three, and an identifier given to \<open>begin_start\<close> is in
  canonical form; a fresh UUID is not in use.\<close>

definition fresh_id :: "env \<Rightarrow> json \<Rightarrow> session_store \<Rightarrow> bool" where
  "fresh_id w session_id s \<longleftrightarrow> JStr (uuid_text (chosen_id w session_id s)) \<notin> turn_session ` set (sessions s)"

fun call_ok :: "env \<Rightarrow> session_store \<Rightarrow> store_call \<Rightarrow> bool" where
  "call_ok w s (Begin_Command sid p op h c n d t i) = (i = JNull \<or> is_dict i)"
| "call_ok w s (Complete_Command sid c e outcome t st) = (case st of None \<Rightarrow> True | Some x \<Rightarrow> x \<in> set STATES)"
| "call_ok w s (Freeze_Command sid c e outcome st) = (case st of None \<Rightarrow> True | Some x \<Rightarrow> x \<in> set STATES)"
| "call_ok w s (Steer_Run sid c r b m f) = (check_binding w b = Inr ())"
| "call_ok w s (New_Conversation mode l sid name p meta) = (free_fields meta \<and> fresh_id w sid s)"
| "call_ok w s (Begin_Start sid p h c k n d name meta) =
     (free_fields meta \<and>
      (if truthy sid then sid = JStr (uuid_text (chosen_id w sid s)) else fresh_id w sid s))"
| "call_ok w s (Complete_Start sid e r b m f) = (check_binding w b = Inr ())"
| "call_ok w s (Bind c sc r realm d t cat mode l) = (uuid_check w sc = Inr () \<and> uuid_check w r = Inr ())"
| "call_ok w s _ = True"

text \<open>Running the guards.\<close>

lemma seq_check:
  "seq check f s = (if running s = owner s then f () s else (Inl (RuntimeError ''session_thread_mismatch''), s))"
  by (simp add: check_def seq_def)

lemma seq_not_failed:
  "seq not_failed f s = (case failed s of None \<Rightarrow> f () s | Some reason \<Rightarrow> (Inl (StoreError reason), s))"
  by (simp add: not_failed_def seq_def split: option.splits)

definition lookup :: "json \<Rightarrow> session_store \<Rightarrow> nat option" where
  "lookup v s = (if is_str v then position (session_is v) (sessions s) else None)"

lemma seq_get:
  "seq (get v) f s =
     (if running s = owner s then f (lookup v s) s else (Inl (RuntimeError ''session_thread_mismatch''), s))"
  by (simp add: get_def lookup_def check_def seq_def)

lemmas guard_run = seq_check seq_not_failed seq_get

lemma row_ok_found: "row_ok w row \<Longrightarrow> is_str v \<Longrightarrow> session_is v row \<longleftrightarrow> turn_session row = v"
proof -
  assume row: "row_ok w row" and v: "is_str v"
  then obtain x where x: "v = JStr x" by (cases v) auto
  have sid: "dget_or row ''conversation_id'' (turn_session row) = turn_session row" "is_str (turn_session row)"
    using row by (auto simp: row_ok_def uuid_check_def valid_uuid_def Let_def split: if_splits)
  show ?thesis
  proof (cases "has row ''session_id''")
    case True
    then have "turn_session row = dget row ''session_id''" by (simp add: turn_session_def dget_dget_or)
    moreover have "has row ''conversation_id'' \<Longrightarrow> dget row ''conversation_id'' = turn_session row"
      using sid(1) by (metis dget_dget_or)
    moreover have "\<not> has row ''conversation_id'' \<Longrightarrow> dget row ''conversation_id'' = JNull"
      by (simp add: dget_def)
    ultimately show ?thesis unfolding session_is_def x by (cases "has row ''conversation_id''") auto
  next
    case False
    then have "turn_session row = dget row ''conversation_id''" "dget row ''session_id'' = JNull"
      by (simp_all add: turn_session_def dget_def)
    then show ?thesis unfolding session_is_def x by auto
  qed
qed

lemma epoch_number_set: "epoch_number (s\<lparr>owner_epoch := JInt e\<rparr>) = e"
  by (simp add: epoch_number_def)

lemma row_ok_started:
  assumes "row_ok w row"
  shows "row_ok w (started_row row p h c k n d e t1 t2)"
    and "turn_session (started_row row p h c k n d e t1 t2) = turn_session row"
  using assms by (simp_all add: started_row_def Let_def row_ok_list row_ok_index row_ok_intent start_intent_def)

context store_property
begin

lemma keeps_begin_command:
  "i = JNull \<or> is_dict i \<Longrightarrow> keeps P (begin_command v sid p op h c n d t i)"
  unfolding begin_command_def Let_def by (intro keeps_intros store_keeps)

lemma keeps_complete_command:
  "(\<And>x. st = Some x \<Longrightarrow> x \<in> set STATES) \<Longrightarrow> keeps P (complete_command v sid c e out t st)"
  unfolding complete_command_def by (intro keeps_intros store_keeps)

lemma keeps_freeze_command:
  "(\<And>x. st = Some x \<Longrightarrow> x \<in> set STATES) \<Longrightarrow> keeps P (freeze_command v sid c e out st)"
  unfolding freeze_command_def by (intro keeps_intros store_keeps)

lemma keeps_steer_active: "keeps P (complete_steer_active w sid c r m f)"
  unfolding complete_steer_active_def by (intro keeps_intros store_keeps)

lemma keeps_steer_run: "check_binding w b = Inr () \<Longrightarrow> keeps P (complete_steer_run w sid c r b m f)"
  unfolding complete_steer_run_def Let_def by (intro keeps_intros store_keeps) auto

lemma keeps_freeze_deferred: "keeps P (freeze_deferred v sid c e)"
  unfolding freeze_deferred_def by (intro keeps_intros store_keeps)

lemma keeps_complete_start: "check_binding w b = Inr () \<Longrightarrow> keeps P (complete_start w sid e r b m f)"
  unfolding complete_start_def Let_def by (intro keeps_intros store_keeps) auto

lemma keeps_bind:
  assumes "uuid_check w sc = Inr ()" "uuid_check w r = Inr ()"
  shows "keeps P (bind w c sc r realm d t cat mode l)"
proof -
  have b: "check_binding w (binding_of sc r realm path t cat stamp mode l) = Inr ()" for path stamp
    using assms by (simp add: check_binding_def binding_of_def subscript_def dict_eval)
  show ?thesis unfolding bind_def Let_def
    by (intro keeps_intros store_keeps P_add_binding b keeps_updates) (auto simp: P_frame STATES_def)
qed

lemma keeps_detach: "keeps P (detach w c)"
  unfolding detach_def by (intro keeps_intros store_keeps keeps_updates) (auto simp: P_frame)

lemma keeps_remove: "keeps P (remove c)"
proof -
  have "P (s\<lparr>sessions := filter p (sessions s), active_session_id := a, turns := filter q (turns s)\<rparr>)" if "P s" for s p q a
  proof -
    have "P (s\<lparr>sessions := filter p (sessions s), turns := filter q (turns s)\<rparr>\<lparr>active_session_id := a\<rparr>)"
      using P_remove[OF that] by (simp only: P_frame)
    also have "s\<lparr>sessions := filter p (sessions s), turns := filter q (turns s)\<rparr>\<lparr>active_session_id := a\<rparr>
        = s\<lparr>sessions := filter p (sessions s), active_session_id := a, turns := filter q (turns s)\<rparr>" by simp
    finally show ?thesis .
  qed
  then show ?thesis unfolding remove_def by (intro keeps_intros store_keeps keeps_updates) auto
qed

lemma keeps_append_turn: "keeps P (append_turn w c r n u)"
  unfolding append_turn_def by (intro keeps_intros store_keeps)

lemma insert_session_keeps:
  assumes "row_ok w row" "new_id row s" "P s" "insert_session row s = (r, t)"
  shows "P t"
proof -
  have "P (s\<lparr>sessions := sessions s @ [row]\<rparr>\<lparr>active_session_id := dget row ''session_id''\<rparr>)"
    using P_insert[OF assms(1-3)] by (simp only: P_frame)
  then show ?thesis using assms(4) keepsD[OF P_flush] by (fastforce simp: insert_session_def)
qed

lemma new_session_keeps: "P s \<Longrightarrow> new_session w sid name p meta s = (r, t) \<Longrightarrow> P t"
proof -
  have "keeps P (new_session w sid name p meta)"
    unfolding new_session_def Let_def by (intro keeps_intros store_keeps)
  then show "P s \<Longrightarrow> new_session w sid name p meta s = (r, t) \<Longrightarrow> P t" by (rule keepsD)
qed

lemma new_conversation_keeps:
  assumes "env_ok w" "free_fields meta" "fresh_id w sid s" "P s"
    and run: "new_conversation w mode l sid name p meta s = (r, t)"
  shows "P t"
proof (cases "running s = owner s \<and> failed s = None")
  case True
  then have run': "seq (new_session w sid name p meta) (\<lambda>(row, token).
       let row' = update_all row (given ''mode'' mode @ given ''limits_digest'' l) in
       seq (insert_session row') (\<lambda>_. pure (row', token))) s = (r, t)"
    using run by (simp add: new_conversation_def guard_run)
  then show ?thesis
  proof (cases rule: seq_cases)
    case (2 x u)
    obtain row token where x: "x = (row, token)" by fastforce
    let ?row = "update_all row (given ''mode'' mode @ given ''limits_digest'' l)"
    note made = new_session_run[OF assms(1,2) 2(1)[unfolded x]]
    have "free_fields (given ''mode'' mode @ given ''limits_digest'' l)"
      by (auto simp: free_fields_def given_def keys_def RESERVED_def)
    then have row: "row_ok w ?row" "turn_session ?row = turn_session row"
      using row_ok_update_all made(1) by blast+
    have "sessions u = sessions s" using arg_cong[OF made(3), of sessions] by simp
    then have "new_id ?row u" using assms(3) row(2) made(2) by (simp add: new_id_def fresh_id_def)
    moreover obtain v where "insert_session ?row u = (v, t)"
      using 2(2) by (auto simp: x Let_def seq_def split: prod.splits sum.splits)
    ultimately show ?thesis using insert_session_keeps[OF row(1)] new_session_keeps[OF assms(4) 2(1)] by blast
  qed (use new_session_keeps[OF assms(4)] in blast)
next
  case False
  then show ?thesis using run assms(4)
    by (auto simp: new_conversation_def guard_run split: option.splits if_splits)
qed

lemma begin_start_keeps:
  assumes "env_ok w" "free_fields meta" "call_ok w s (Begin_Start sid p h c k n d name meta)" "P s"
    and rows: "\<forall>row \<in> set (sessions s). row_ok w row"
    and run: "begin_start w sid p h c k n d name meta s = (r, t)"
  shows "P t"
proof (cases "running s = owner s \<and> failed s = None \<and> lookup sid s = None")
  case True
  define rest where "rest = (\<lambda>(row, token :: pystr).
     seq (updates (\<lambda>s. s\<lparr>owner_epoch := JInt (epoch_number s + 1)\<rparr>)) (\<lambda>_.
     seq (reads epoch_number) (\<lambda>epoch.
     seq (now w) (\<lambda>t1.
     seq (now w) (\<lambda>t2.
       let row' = started_row row p h c k n d epoch t1 t2 in
       seq (insert_session row') (\<lambda>_. pure (row', token)))))))"
  have run': "seq (new_session w sid name p meta) rest s = (r, t)"
    using run True by (simp add: begin_start_def guard_run rest_def)
  then show ?thesis
  proof (cases rule: seq_cases)
    case (2 x u)
    obtain row token where x: "x = (row, token)" by fastforce
    note made = new_session_run[OF assms(1,2) 2(1)[unfolded x]]
    have same: "sessions u = sessions s" using arg_cong[OF made(3), of sessions] by simp
    have fresh: "new_id row u"
    proof (cases "truthy sid")
      case True
      then have sid: "sid = JStr (uuid_text (chosen_id w sid s))" using assms(3) by simp
      then have str: "is_str sid" by (metis is_str.simps(1))
      then have "\<forall>row \<in> set (sessions s). \<not> session_is sid row"
        using \<open>running s = owner s \<and> failed s = None \<and> lookup sid s = None\<close>
        by (simp add: lookup_def position_None)
      then have "turn_session row \<noteq> sid" if "row \<in> set (sessions s)" for row
        using that rows row_ok_found[of w row sid] str by blast
      then have "turn_session row \<notin> turn_session ` set (sessions s)" using made(2) sid by force
      then show ?thesis by (simp add: new_id_def same)
    next
      case False
      then show ?thesis using assms(3) made(2) same by (auto simp: new_id_def fresh_id_def)
    qed
    define v where "v = u\<lparr>owner_epoch := JInt (epoch_number u + 1), draws := draws u + 2\<rparr>"
    define row' where "row' = started_row row p h c k n d (epoch_number u + 1) (JStr (clock w (draws u)))
      (JStr (clock w (draws u + 1)))"
    have "rest (row, token) u = seq (insert_session row') (\<lambda>_. pure (row', token)) v"
      by (simp add: rest_def seq_def draw_def now_def v_def row'_def epoch_number_set Let_def split: prod.splits sum.splits)
    then obtain z where ins: "insert_session row' v = (z, t)"
      using 2(2) by (auto simp: x seq_def split: prod.splits sum.splits)
    have "P (u\<lparr>owner_epoch := JInt (epoch_number u + 1)\<rparr>\<lparr>draws := draws u + 2\<rparr>)"
      using P_epoch[OF new_session_keeps[OF assms(4) 2(1)]] by (simp only: P_frame)
    then have "P v" by (simp add: v_def)
    moreover have "row_ok w row'" "new_id row' v"
      using row_ok_started[OF made(1)] fresh by (auto simp: row'_def v_def new_id_def)
    ultimately show ?thesis using insert_session_keeps ins by blast
  qed (use new_session_keeps[OF assms(4)] in blast)
next
  case False
  then show ?thesis using run assms(4)
    by (auto simp: begin_start_def guard_run split: option.splits if_splits)
qed

lemma keeps_discard: "keeps P m \<Longrightarrow> keeps P (discard m)"
  unfolding discard_def by (intro keeps_intros)

lemma discard_run: "discard m s = (r, t) \<Longrightarrow> \<exists>x. m s = (x, t)"
  by (auto simp: discard_def seq_def split: prod.splits sum.splits)

lemma call_keeps:
  assumes "env_ok w" "call_ok w s call" "P s" "run_call w call s = (r, t)"
    and rows: "\<forall>row \<in> set (sessions s). row_ok w row"
  shows "P t"
proof (cases call)
  case (New_Conversation mode l sid name p meta)
  then obtain x where "new_conversation w mode l sid name p meta s = (x, t)"
    using assms(4) discard_run[of _ s r t] by (simp only: run_call.simps) blast
  moreover have "free_fields meta" "fresh_id w sid s" using assms(2) New_Conversation by simp_all
  ultimately show ?thesis using new_conversation_keeps[OF assms(1) _ _ assms(3)] by blast
next
  case (Begin_Start sid p h c k n d name meta)
  then obtain x where "begin_start w sid p h c k n d name meta s = (x, t)"
    using assms(4) discard_run[of _ s r t] by (simp only: run_call.simps) blast
  moreover have "free_fields meta" using assms(2) Begin_Start by simp
  ultimately show ?thesis
    using begin_start_keeps[OF assms(1) _ assms(2)[unfolded Begin_Start] assms(3) rows] by blast
next
  case (Begin_Command sid p op h c n d x i)
  then have "keeps P (run_call w call)" using assms(2) by (simp add: keeps_discard keeps_begin_command)
  then show ?thesis using keepsD[of P "run_call w call" s r t] assms(3,4) by blast
next
  case (Complete_Command sid c e out tg st)
  then have "keeps P (run_call w call)" using assms(2) by (auto intro: keeps_complete_command)
  then show ?thesis using keepsD[of P "run_call w call" s r t] assms(3,4) by blast
next
  case (Freeze_Command sid c e out st)
  then have "keeps P (run_call w call)" using assms(2) by (auto intro: keeps_freeze_command)
  then show ?thesis using keepsD[of P "run_call w call" s r t] assms(3,4) by blast
next
  case (Bind c sc x realm d tools cat mode l)
  then have "keeps P (run_call w call)" using assms(2) by (simp add: keeps_discard keeps_bind)
  then show ?thesis using keepsD[of P "run_call w call" s r t] assms(3,4) by blast
next
  case (Steer_Run sid c x b m f)
  then have "keeps P (run_call w call)" using assms(2) by (simp add: keeps_steer_run)
  then show ?thesis using keepsD[of P "run_call w call" s r t] assms(3,4) by blast
next
  case (Complete_Start sid e x b m f)
  then have "keeps P (run_call w call)" using assms(2) by (simp add: keeps_complete_start)
  then show ?thesis using keepsD[of P "run_call w call" s r t] assms(3,4) by blast
next
  case (Steer_Active sid c x m f)
  then have "keeps P (run_call w call)" by (simp add: keeps_steer_active)
  then show ?thesis using keepsD[of P "run_call w call" s r t] assms(3,4) by blast
next
  case (Freeze_Deferred sid c e)
  then have "keeps P (run_call w call)" by (simp add: keeps_freeze_deferred)
  then show ?thesis using keepsD[of P "run_call w call" s r t] assms(3,4) by blast
next
  case (Detach c)
  then have "keeps P (run_call w call)" by (simp add: keeps_detach)
  then show ?thesis using keepsD[of P "run_call w call" s r t] assms(3,4) by blast
next
  case (Remove c)
  then have "keeps P (run_call w call)" by (simp add: keeps_remove)
  then show ?thesis using keepsD[of P "run_call w call" s r t] assms(3,4) by blast
next
  case (Append_Turn c x n u)
  then have "keeps P (run_call w call)" by (simp add: keeps_append_turn)
  then show ?thesis using keepsD[of P "run_call w call" s r t] assms(3,4) by blast
next
  case Flush
  then have "keeps P (run_call w call)" by (simp add: P_flush)
  then show ?thesis using keepsD[of P "run_call w call" s r t] assms(3,4) by blast
qed

end


section \<open>The two properties\<close>

interpretation ok: store_property "store_ok w" w for w
proof unfold_locales
  show "keeps (store_ok w) flush"
    unfolding flush_def check_def save_sessions_def atomic_bytes_def Let_def
    by (intro keeps_intros)
      (auto simp: keeps_def next_fault_def store_ok_def split: list.splits disk_fault.splits option.splits)
next
  fix s assume "store_ok w s"
  then show "store_ok w (s\<lparr>owner_epoch := JInt (epoch_number s + 1)\<rparr>)"
    by (auto simp: store_ok_def epoch_ok_def epoch_number_def split: json.splits)
next
  fix s p q assume "store_ok w s"
  then show "store_ok w (s\<lparr>sessions := filter p (sessions s), turns := filter q (turns s)\<rparr>)"
    by (auto simp: store_ok_def turns_bounded_filter distinct_map inj_on_def)
qed (auto simp: new_id_def store_ok_def intro: keeps_edit keeps_increment keeps_add_binding)

interpretation frozen: store_property "\<lambda>s. failed s = Some reason \<and> session_file s = f" w for reason f w
proof unfold_locales
  show "keeps (\<lambda>s. failed s = Some reason \<and> session_file s = f) flush"
    unfolding keeps_def flush_def by (auto simp: guard_run)
qed (auto simp: keeps_def edit_def increment_def add_binding_def the_row_def set_field_def seq_def Let_def split: sum.splits)


section \<open>Loading\<close>

lemma dget_set_default:
  "dget_or (set_default k v d) j z = (if j = k \<and> \<not> has d k then v else dget_or d j z)"
  by (auto simp: set_default_def dget_dset)

lemma has_set_default: "has (set_default k v d) j \<longleftrightarrow> j = k \<or> has d j"
  by (auto simp: set_default_def has_dset)

lemma default_read: "dget_or (set_default k v d) k z = dget_or d k v"
  by (cases "has d k") (simp_all add: dget_set_default dget_dget_or)

lemma turn_session_default [simp]:
  "k \<noteq> ''session_id'' \<Longrightarrow> k \<noteq> ''conversation_id'' \<Longrightarrow> turn_session (set_default k v row) = turn_session row"
  by (simp add: set_default_def)

lemma settle_reads:
  shows "turn_session (settle_row stamp row) = turn_session row"
    and "dget_or (settle_row stamp row) ''conversation_id'' z = dget_or row ''conversation_id'' z"
    and "dget_or (settle_row stamp row) ''resume_token_hash'' z = dget_or row ''resume_token_hash'' z"
    and "dget_or (settle_row stamp row) ''state'' z = dget_or row ''state'' z"
    and "dget_or (settle_row stamp row) ''bindings'' z = JArr (last_n MAX_BINDINGS (elems (dget row ''bindings'')))"
    and "dget_or (settle_row stamp row) ''run_no'' z = dget_or row ''run_no'' (JInt 0)"
    and "dget_or (settle_row stamp row) ''user_turn_no'' z = dget_or row ''user_turn_no'' (JInt 0)"
    and "dget_or (settle_row stamp row) ''session_revision'' z = dget_or row ''session_revision'' (JInt 0)"
    and "dget_or (settle_row stamp row) ''start_index'' z = dget_or row ''start_index'' (JObj [])"
    and "dget_or (settle_row stamp row) ''receipts'' z = dget_or row ''receipts'' (JArr [])"
    and "dget_or (settle_row stamp row) ''pending_intent'' z = dget_or row ''pending_intent'' JNull"
    and "\<forall>k \<in> set SETTLED. has (settle_row stamp row) k"
  by (simp_all add: settle_row_def Let_def dget_set_default default_read dget_dset has_set_default has_dset
      SETTLED_def dget_dget_or)

lemma settle_row_ok:
  assumes "check_row w seen row = Inr ()"
  shows "row_ok w (settle_row stamp row)" "turn_session row \<notin> set seen"
proof -
  let ?sid = "turn_session row"
  have sid: "uuid_check w ?sid = Inr ()" and str: "is_str ?sid"
    using assms by (auto simp: check_row_def Let_def uuid_check_def valid_uuid_def run_simps simp del: steps.simps
        split: if_splits)
  then obtain x where x: "?sid = JStr x" by (cases ?sid) auto
  show "?sid \<notin> set seen"
    using assms x by (auto simp: check_row_def Let_def run_simps list_ex_iff simp del: steps.simps)
  have "dget_or row ''resume_token_hash'' (JStr []) = dget row ''resume_token_hash''"
    if "is_digest (the_str (dget_or row ''resume_token_hash'' (JStr [])))"
    using that by (cases "has row ''resume_token_hash''") (auto simp: dget_dget_or is_digest_def)
  moreover have "\<forall>b \<in> set (last_n MAX_BINDINGS (elems (dget row ''bindings''))). check_binding w b = Inr ()"
    using assms set_last_n by (fastforce simp: check_row_def Let_def run_simps simp del: steps.simps)
  ultimately show "row_ok w (settle_row stamp row)"
    using assms x sid
    unfolding row_ok_def COUNTERS_def Let_def dget_def settle_reads check_row_def check_counter_def
    by (simp add: run_simps length_last_n settle_reads del: steps.simps)
qed

lemma validate_each_ok:
  "validate_each w seen n vs = Inr rows \<Longrightarrow>
     (\<forall>row \<in> set rows. row_ok w row) \<and> distinct (map turn_session rows) \<and> set seen \<inter> turn_session ` set rows = {}"
proof (induction w seen n vs arbitrary: rows rule: validate_each.induct)
  case (2 w seen n v vs)
  then obtain rest where dict: "is_dict v" and check: "check_row w seen (items v) = Inr ()"
    and rest: "validate_each w (turn_session (items v) # seen) (n + 1) vs = Inr rest"
    and rows: "rows = settle_row (JStr (clock w n)) (items v) # rest"
    by (auto simp: andthen_Inr split: if_splits)
  have "(\<forall>row \<in> set rest. row_ok w row) \<and> distinct (map turn_session rest) \<and>
      set (turn_session (items v) # seen) \<inter> turn_session ` set rest = {}"
    using 2(1) dict check rest by auto
  then show ?case using settle_row_ok[OF check] by (auto simp: rows settle_reads(1))
qed simp

lemma validated_ok:
  "validated w v s = (Inr rows, t) \<Longrightarrow> (\<forall>row \<in> set rows. row_ok w row) \<and> distinct (map turn_session rows)"
  using validate_each_ok by (fastforce simp: validated_def validate_rows_def split: if_splits)

lemma keeps_validated: "keeps (store_ok w) (validated w v)"
  by (auto simp: keeps_def validated_def)

lemma keeps_save_v1_copy:
  "(\<And>f s. store_ok w (put f s) = store_ok w s) \<Longrightarrow> keeps (store_ok w) (ensure_v1_copy view put b)"
  unfolding ensure_v1_copy_def save_v1_copy_def
  by (intro keeps_intros ok.keeps_next_fault)
    (auto intro!: keeps_intros keeps_updates split: disk_fault.splits option.splits)

lemma keeps_migrate: "keeps (store_ok w) (migrate_v1 w data raw)"
proof -
  have "keeps (store_ok w) (updates (\<lambda>s. s\<lparr>sessions := good, active_session_id := a, owner_epoch := JInt 0\<rparr>))"
    if "validated w v s = (Inr good, t)" for v s good t a
    using validated_ok[OF that] by (intro keeps_updates) (auto simp: store_ok_def epoch_ok_def)
  then show ?thesis unfolding migrate_v1_def Let_def
    by (intro keeps_intros keeps_save_v1_copy keeps_seq_result[OF keeps_validated] ok.keeps_flush) auto
qed

lemma turns_bounded_Nil: "turns_bounded []"
  by (simp add: turns_bounded_def)

lemma keeps_load_store: "keeps (store_ok w) (load_store w)"
proof -
  have turns: "keeps (store_ok w) (load_turns w)"
    unfolding load_turns_def
    by (intro keeps_intros keeps_updates ok.keeps_write_turns)
      (auto simp: store_ok_def turns_bounded_Nil)
  have adopt: "keeps (store_ok w) (adopt w d)" for d
    using validated_ok
    by (fastforce simp: keeps_def adopt_def fail_load_def store_ok_def validated_def epoch_ok_def Let_def
        split: prod.splits sum.splits if_splits json.splits)
  have failing: "keeps (store_ok w) (fail_load r)" for r
    unfolding fail_load_def by (intro keeps_updates) simp
  have "keeps (store_ok w) (load_sessions w)"
    unfolding load_sessions_def Let_def
    by (intro keeps_intros keeps_migrate adopt failing) (auto intro!: keeps_intros keeps_migrate adopt failing split: sum.splits)
  with turns show ?thesis unfolding load_store_def by (intro keeps_intros ok.keeps_check)
qed

end
