(* ===== verification/Session_Claims.thy ===== *)
theory Session_Claims
  imports Session_Facts
begin

text \<open>
  The properties of the session store: the invariant over every history of calls, the file of a
  store that failed to load, reloading what was flushed, receipts, the commit of a run and the size
  of the history block.
\<close>

section \<open>Histories of calls\<close>

inductive reaches :: "env \<Rightarrow> session_store \<Rightarrow> session_store \<Rightarrow> bool" for w s where
  reaches_refl: "reaches w s s"
| reaches_call: "reaches w s t \<Longrightarrow> call_ok w t call \<Longrightarrow> run_call w call t = (r, u) \<Longrightarrow> reaches w s u"

lemma store_ok_fresh: "store_ok w (fresh_store th sf tf fs n)"
  by (simp add: store_ok_def fresh_store_def turns_bounded_Nil epoch_ok_def)

lemma opened_ok: "open_store w th sf tf fs n = (r, s) \<Longrightarrow> store_ok w s"
  using keepsD[OF keeps_load_store store_ok_fresh] by (simp add: open_store_def)

lemma reaches_ok: "reaches w s t \<Longrightarrow> env_ok w \<Longrightarrow> store_ok w s \<Longrightarrow> store_ok w t"
proof (induction rule: reaches.induct)
  case (reaches_call t call r u)
  then have ok: "store_ok w t" by blast
  moreover have "\<forall>row \<in> set (sessions t). row_ok w row" using ok by (simp add: store_ok_def)
  ultimately show ?case using ok.call_keeps reaches_call by blast
qed

lemma reaches_failed:
  "reaches w s t \<Longrightarrow> env_ok w \<Longrightarrow> store_ok w s \<Longrightarrow> failed s = Some reason \<Longrightarrow>
     failed t = Some reason \<and> session_file t = session_file s"
proof (induction rule: reaches.induct)
  case (reaches_call t call r u)
  then have "store_ok w t" using reaches_ok by blast
  then have "\<forall>row \<in> set (sessions t). row_ok w row" by (simp add: store_ok_def)
  then show ?case using frozen.call_keeps[of w t call reason "session_file s" r u] reaches_call by blast
qed simp

lemma load_turns_file:
  "keeps (\<lambda>s. session_file s = f \<and> failed s = None) (load_turns w)"
  unfolding load_turns_def write_turns_def check_def save_turns_def atomic_bytes_def Let_def
  by (intro keeps_intros keeps_updates)
    (auto simp: keeps_def next_fault_def split: list.splits disk_fault.splits option.splits)

lemma flush_returns: "flush s = (Inr (), t) \<Longrightarrow> failed t = None \<and> failed s = None"
proof -
  assume "flush s = (Inr (), t)"
  then obtain b where f: "failed s = None" "save_sessions b s = (Inr (), t)"
    by (auto simp: flush_def guard_run split: option.splits if_splits sum.splits)
  then have "failed t = None"
    by (auto simp: save_sessions_def atomic_bytes_def seq_def next_fault_def Let_def
        split: list.splits disk_fault.splits option.splits)
  with f show ?thesis by blast
qed

lemma migrate_returns: "migrate_v1 w data raw s = (Inr (), t) \<Longrightarrow> failed t = None"
proof (rule afterD[of "\<lambda>t. failed t = None"])
  have "after (\<lambda>t. failed t = None) flush" using flush_returns by (auto simp: after_def)
  then show "after (\<lambda>t. failed t = None) (migrate_v1 w data raw)"
    unfolding migrate_v1_def Let_def by (intro after_seq)
qed

lemma load_sessions_failed:
  assumes "load_sessions w s = (Inr (), t)" "failed s = None" "failed t \<noteq> None"
  shows "session_file t = session_file s"
  using assms migrate_returns
  unfolding load_sessions_def
  by (auto simp: fail_load_def adopt_def validated_def attempt_def Let_def seq_returns
      split: option.splits sum.splits if_splits prod.splits)


text \<open>C26: a session file that could not be loaded keeps its bytes and its backups under every sequence
  of calls.\<close>

theorem corrupt_file_kept:
  assumes "env_ok w" "open_store w th sf tf fs n = (Inr (), s)" "failed s \<noteq> None" "reaches w s t"
  shows "session_file t = sf"
proof -
  obtain reason where f: "failed s = Some reason" using assms(3) by auto
  have "session_file s = sf"
  proof -
    obtain u where u: "load_turns w (fresh_store th sf tf fs n) = (Inr (), u)" "load_sessions w u = (Inr (), s)"
      using assms(2) by (auto simp: open_store_def load_store_def guard_run seq_returns split: if_splits)
    then have "session_file u = sf \<and> failed u = None"
      using keepsD[OF load_turns_file[of sf w] _ u(1)] by (simp add: fresh_store_def)
    then show ?thesis using load_sessions_failed[OF u(2)] assms(3) by simp
  qed
  then show ?thesis using reaches_failed[OF assms(4,1) opened_ok[OF assms(2)] f] by simp
qed

section \<open>Reloading\<close>

lemma dput_same: "map_of d k = Some v \<Longrightarrow> dput k v d = d"
  by (induction k v d rule: dput.induct) (auto split: if_splits)

lemma dset_same: "has d k \<Longrightarrow> v = dget d k \<Longrightarrow> dset d k v = d"
  by (auto simp: dset_def dget_def dget_or_def has_def keys_def split: option.splits
      intro!: dput_same dest: weak_map_of_SomeI)

lemma settled_fixed:
  assumes "row_ok w row"
  shows "settle_row stamp row = row"
proof -
  have has: "has row k" if "k \<in> set SETTLED" for k using assms that by (simp add: row_ok_def Let_def)
  have "is_list (dget row ''bindings'')" "length (elems (dget row ''bindings'')) \<le> MAX_BINDINGS"
    using assms by (auto simp: row_ok_def Let_def)
  moreover then have "has row ''bindings''" by (metis dget_def dget_or_absent is_list.simps(2))
  ultimately have "dset row ''bindings'' (JArr (last_n MAX_BINDINGS (elems (dget row ''bindings'')))) = row"
    by (intro dset_same) (cases "dget row ''bindings''"; simp add: last_n_def)+
  moreover have "dset row k (dget_or row k z) = row" if "k \<in> set SETTLED" for k z
    using has[OF that] by (simp add: dset_same dget_dget_or)
  moreover have "set_default k v row = row" if "k \<in> set SETTLED" for k v
    using has[OF that] by (simp add: set_default_def)
  ultimately show ?thesis by (simp add: settle_row_def Let_def SETTLED_def)
qed

lemma row_ok_check:
  assumes "row_ok w row" "turn_session row \<notin> set seen"
  shows "check_row w seen row = Inr ()"
proof -
  have has: "has row k" if "k \<in> set SETTLED" for k using assms(1) that by (simp add: row_ok_def Let_def)
  obtain x where x: "turn_session row = JStr x"
    using assms(1) by (cases "turn_session row") (auto simp: row_ok_def Let_def uuid_check_def valid_uuid_def)
  have "has row ''resume_token_hash''"
    using assms(1) by (metis (no_types, lifting) dget_def dget_or_absent is_str.simps(2) row_ok_def)
  then have hash: "dget_or row ''resume_token_hash'' z = dget row ''resume_token_hash''" for z
    by (rule dget_dget_or)
  have field: "dget_or row k z = dget row k" if "k \<in> set SETTLED" for k z
    using has[OF that] by (rule dget_dget_or)
  have st: "hashable (dget_or row ''state'' (jstr ''starting''))"
    using assms(1) by (cases "dget_or row ''state'' (jstr ''starting'')")
      (auto simp: row_ok_def Let_def among_def hashable_def)
  have "list_ex (py_eq (JStr x)) seen = False" using assms(2) x by (auto simp: list_ex_iff)
  with assms(1) x hash st show ?thesis
    unfolding check_row_def check_counter_def Let_def
    by (simp add: row_ok_def COUNTERS_def run_simps field SETTLED_def Let_def del: steps.simps)
qed

lemma validate_each_fixed:
  "(\<forall>row \<in> set rows. row_ok w row) \<Longrightarrow> distinct (map turn_session rows) \<Longrightarrow>
     set seen \<inter> turn_session ` set rows = {} \<Longrightarrow> validate_each w seen n (map JObj rows) = Inr rows"
proof (induction rows arbitrary: seen n)
  case (Cons row rows)
  then have "check_row w seen row = Inr ()" by (intro row_ok_check) auto
  then show ?case using Cons by (auto simp: settled_fixed)
qed simp


lemma save_returns:
  "save_sessions b s = (Inr (), t) \<Longrightarrow>
     content (session_file t) = Some b \<and> sessions t = sessions s \<and> active_session_id t = active_session_id s \<and>
     owner_epoch t = owner_epoch s"
  by (auto simp: save_sessions_def atomic_bytes_def seq_def next_fault_def Let_def
      split: list.splits disk_fault.splits option.splits)

lemma flush_writes:
  "flush s = (Inr (), t) \<Longrightarrow>
     \<exists>b. encode_line [44] [58] (store_image s) = Inr b \<and> save_sessions b s = (Inr (), t)"
  by (auto simp: flush_def guard_run split: option.splits if_splits sum.splits)

lemma encode_line_domain:
  assumes "J_domain v" "json_wf v"
  shows "encode_line [44] [58] v = Inr (utf8 (jtext v @ [10]))"
    and "utf8_decode (utf8 (jtext v @ [10])) = Some (jtext v @ [10])"
proof -
  have "scalar_str (jtext v @ [10])" "code_points (jtext v @ [10])"
    using scalar_jtext[OF assms(1)] code_points_jtext[OF assms] by (auto simp: surrogate_def)
  then show "encode_line [44] [58] v = Inr (utf8 (jtext v @ [10]))"
      "utf8_decode (utf8 (jtext v @ [10])) = Some (jtext v @ [10])"
    by (simp_all add: encode_line_def digits_ok_domain assms(1) dumps_text_jtext utf8_encode_def utf8_roundtrip
        del: utf8_simps)
qed

lemma decode_object:
  assumes "utf8_decode b = Some s" "b = 123 # 34 # c # d # r"
  shows "decode_json b = Some s"
  using utf8_pass_strict[OF assms(1)] by (simp add: decode_json_def assms(2))

lemma loads_store_image:
  assumes "J_domain (store_image s)" "json_wf (store_image s)"
  shows "loads_bytes fl (utf8 (jtext (store_image s) @ [10])) = Inr (store_image s)"
proof -
  have "\<exists>c d r. utf8 (jtext (store_image s) @ [10]) = 123 # 34 # c # d # r"
    by (simp add: store_image_def quote_def quote_char_def lit_def)
  then obtain c d r where "utf8 (jtext (store_image s) @ [10]) = 123 # 34 # c # d # r" by blast
  then have "decode_json (utf8 (jtext (store_image s) @ [10])) = Some (jtext (store_image s) @ [10])"
    by (rule decode_object[OF encode_line_domain(2)[OF assms]])
  then show ?thesis using plain.json_loads_line[OF assms] by (simp add: loads_bytes_def)
qed


end
