(* ===== verification/Session_Frame.thy ===== *)
theory Session_Frame
  imports Session_Claims
begin

text \<open>
  Which fields of which session an operation changes. \<open>touches K i m\<close> says that \<open>m\<close> changes at most
  the fields \<open>K\<close> of session \<open>i\<close>, whether it raises or not; with it, the value of a field after a long
  operation is the value its own assignment gave it.
\<close>

definition same_but :: "string set \<Rightarrow> nat \<Rightarrow> session_store \<Rightarrow> session_store \<Rightarrow> bool" where
  "same_but K i s t \<longleftrightarrow>
     length (sessions t) = length (sessions s) \<and> (\<forall>j < length (sessions s). j \<noteq> i \<longrightarrow> sessions t ! j = sessions s ! j) \<and>
     (\<forall>k z. i < length (sessions s) \<and> k \<notin> K \<longrightarrow> dget_or (sessions t ! i) k z = dget_or (sessions s ! i) k z) \<and>
     running t = running s \<and> owner t = owner s \<and> failed t = failed s"

definition touches :: "string set \<Rightarrow> nat \<Rightarrow> 'a store_action \<Rightarrow> bool" where
  "touches K i m \<longleftrightarrow> (\<forall>s r t. m s = (r, t) \<longrightarrow> same_but K i s t)"

named_theorems touches_intros \<open>which fields an operation changes\<close>

lemma same_but_refl [simp]: "same_but K i s s"
  by (simp add: same_but_def)

lemma same_but_trans: "same_but K i s t \<Longrightarrow> same_but L i t u \<Longrightarrow> same_but (K \<union> L) i s u"
  by (auto simp: same_but_def)

lemma same_but_mono: "same_but K i s t \<Longrightarrow> K \<subseteq> L \<Longrightarrow> same_but L i s t"
  by (auto simp: same_but_def)

lemma touchesI: "(\<And>s r t. m s = (r, t) \<Longrightarrow> same_but K i s t) \<Longrightarrow> touches K i m"
  by (auto simp: touches_def)

lemma touchesD: "touches K i m \<Longrightarrow> m s = (r, t) \<Longrightarrow> same_but K i s t"
  by (auto simp: touches_def)

lemma touches_still [touches_intros]:
  "touches K i (pure x)" "touches K i (throw e)" "touches K i (reads f)" "touches K i (lift r)"
  "touches K i (demand b e)"
  by (auto simp: touches_def)

lemma touches_seq [touches_intros]: "touches K i m \<Longrightarrow> (\<And>x. touches K i (f x)) \<Longrightarrow> touches K i (seq m f)"
proof (rule touchesI)
  fix s r t assume m: "touches K i m" "\<And>x. touches K i (f x)" and run: "seq m f s = (r, t)"
  from run show "same_but K i s t"
  proof (cases rule: seq_cases)
    case (2 x u)
    then show ?thesis using touchesD[OF m(1) 2(1)] touchesD[OF m(2) 2(2)] same_but_trans[of K i s u K t] by simp
  qed (use touchesD[OF m(1)] in blast)
qed

lemma touches_if [touches_intros]:
  "touches K i m \<Longrightarrow> touches K i n \<Longrightarrow> touches K i (if b then m else n)"
  by simp

lemma touches_option [touches_intros]:
  "touches K i m \<Longrightarrow> (\<And>y. touches K i (f y)) \<Longrightarrow> touches K i (case x of None \<Rightarrow> m | Some y \<Rightarrow> f y)"
  by (cases x) auto

lemma touches_run_each [touches_intros]: "(\<And>x. touches K i (f x)) \<Longrightarrow> touches K i (run_each f xs)"
  by (induction xs) (auto intro: touches_intros)

lemma touches_updates:
  "(\<And>s. sessions (f s) = sessions s \<and> running (f s) = running s \<and> owner (f s) = owner s \<and> failed (f s) = failed s) \<Longrightarrow>
     touches K i (updates f)"
  by (auto simp: touches_def same_but_def)

lemma touches_draw [touches_intros]: "touches K i (draw f)" "touches K i (now w)"
  by (auto simp: touches_def same_but_def draw_def now_def)

lemma touches_next_fault [touches_intros]: "touches K i next_fault"
  by (auto simp: touches_def same_but_def next_fault_def split: list.splits)

lemma touches_check [touches_intros]: "touches K i check"
  unfolding check_def by (intro touches_intros)

lemma touches_save [touches_intros]: "touches K i (save_sessions b)" "touches K i (save_turns b)"
  unfolding save_sessions_def save_turns_def atomic_bytes_def Let_def
  by (intro touches_intros; auto intro!: touches_intros touches_updates split: disk_fault.splits option.splits)+

lemma touches_flush [touches_intros]: "touches K i flush" "touches K i write_turns"
  unfolding flush_def write_turns_def by (intro touches_intros)+

lemma touches_lookups [touches_intros]:
  "touches K i (the_row j)" "touches K i (find_receipt f j)" "touches K i (receipt_at j n)"
  "touches K i (command_receipt j c)" "touches K i (steer_receipt j c)" "touches K i next_turn_seq"
  unfolding the_row_def find_receipt_def receipt_at_def command_receipt_def steer_receipt_def next_turn_seq_def
  by (intro touches_intros)+

lemma touches_set [touches_intros]: "k \<in> K \<Longrightarrow> touches K i (set_field i k v)"
  by (auto simp: touches_def same_but_def set_field_def edit_def dget_dset)

lemma touches_receipts [touches_intros]:
  assumes "''receipts'' \<in> K"
  shows "touches K i (edit_receipt i n kvs)" "touches K i (prune_receipts i m)" "touches K i (push_receipt i r)"
    "touches K i (make_room i)" "touches K i (commit_receipt i n run_id variant f)"
proof -
  show e: "touches K i (edit_receipt i n kvs)" for n kvs
    using assms by (auto simp: touches_def same_but_def edit_receipt_def edit_def dget_dset Let_def)
  show p: "touches K i (prune_receipts i m)" for m
    unfolding prune_receipts_def Let_def using assms by (intro touches_intros)
  show "touches K i (push_receipt i r)"
    unfolding push_receipt_def using assms
    by (intro touches_intros) (auto intro!: touches_intros split: json.splits)
  show "touches K i (make_room i)"
    unfolding make_room_def by (intro touches_intros p)
  show "touches K i (commit_receipt i n run_id variant f)"
    unfolding commit_receipt_def by (intro touches_intros e)
qed

lemma touches_touch [touches_intros]: "''updated_at'' \<in> K \<Longrightarrow> touches K i (touch w i)"
  unfolding touch_def by (intro touches_intros)

lemma touches_increment [touches_intros]: "k \<in> K \<Longrightarrow> touches K i (increment w i k)"
  unfolding increment_def by (intro touches_intros)

lemma touches_add_binding [touches_intros]: "''bindings'' \<in> K \<Longrightarrow> touches K i (add_binding i r b)"
  unfolding add_binding_def Let_def by (intro touches_intros)

lemma touches_append_turn_memory [touches_intros]: "touches K i (append_turn_memory w c r n u)"
  unfolding append_turn_memory_def by (intro touches_intros touches_updates) simp

lemma touches_mark_start_index [touches_intros]: "''start_index'' \<in> K \<Longrightarrow> touches K i (mark_start_index i c kvs)"
  unfolding mark_start_index_def mark_entry_def Let_def by (intro touches_intros)

section \<open>Finding the session again\<close>

lemma position_cong:
  "length xs = length ys \<Longrightarrow> (\<And>j. j < length xs \<Longrightarrow> f (xs ! j) = g (ys ! j)) \<Longrightarrow> position f xs = position g ys"
proof (induction xs ys rule: list_induct2)
  case (Cons x xs y ys)
  have "f x = g y" using Cons.prems[of 0] by simp
  moreover have "position f xs = position g ys" using Cons.prems[of "Suc j" for j] by (intro Cons.IH) auto
  ultimately show ?case by simp
qed simp

lemma lookup_same:
  assumes "same_but K i s t" "''session_id'' \<notin> K" "''conversation_id'' \<notin> K"
  shows "lookup v t = lookup v s"
proof -
  have "session_is v (sessions t ! j) = session_is v (sessions s ! j)" if "j < length (sessions s)" for j
    using assms that by (cases "j = i") (auto simp: same_but_def session_is_def dget_def)
  then have "position (session_is v) (sessions t) = position (session_is v) (sessions s)"
    using assms(1) by (intro position_cong) (auto simp: same_but_def)
  then show ?thesis by (simp add: lookup_def)
qed

lemma lookup_bound: "lookup v s = Some i \<Longrightarrow> i < length (sessions s)"
  by (auto simp: lookup_def position_Some split: if_splits)

lemma seq_existing:
  "seq (existing v e) f s =
     (if running s \<noteq> owner s then (Inl (RuntimeError ''session_thread_mismatch''), s)
      else case lookup v s of None \<Rightarrow> (Inl e, s) | Some i \<Rightarrow> f i s)"
  by (simp add: existing_def seq_assoc seq_get split: option.splits)

section \<open>Receipts\<close>

lemma seq_the_row [simp]: "seq (the_row i) f s = f (sessions s ! i) s"
  by (simp add: the_row_def)

lemma set_field_run: "set_field i k v s = (Inr (), s\<lparr>sessions := (sessions s)[i := dset (sessions s ! i) k v]\<rparr>)"
  by (simp add: set_field_def edit_def)

lemma push_receipt_run:
  assumes "push_receipt i r s = (Inr (), t)" "i < length (sessions s)"
  shows "\<exists>rs. dget (sessions t ! i) ''receipts'' = JArr (rs @ [r])"
  using assms by (auto simp: push_receipt_def set_field_run dget_def dget_dset split: json.splits)

lemma find_last_snoc: "test r = Inr True \<Longrightarrow> find_last test (rs @ [r]) = Inr (Some (length rs))"
  by (simp add: find_last_def)

definition COMMAND_FIELDS :: "string set" where
  "COMMAND_FIELDS = {''receipts'', ''pending_intent'', ''updated_at''}"

lemma begin_command_old:
  assumes "running s = owner s" "lookup sid s = Some i"
    and "py_eq (dget (sessions s ! i) ''owner_principal_id'') (JStr p)"
    and "receipts_of (sessions s ! i) = Inr rs" "find_last (receipt_matches op h) rs = Inr (Some n)"
  shows "begin_command w sid p op h c m d tg pe s = (Inr (elems (dget (sessions s ! i) ''receipts'') ! n), s)"
  using assms by (simp add: begin_command_def guard_run seq_existing find_receipt_def seq_assoc receipt_at_def)

definition new_command ::
  "env \<Rightarrow> nat \<Rightarrow> pystr \<Rightarrow> string \<Rightarrow> pystr \<Rightarrow> json \<Rightarrow> json \<Rightarrow> pystr \<Rightarrow> json \<Rightarrow> json \<Rightarrow> json store_action" where
  "new_command w i p op h c m d tg pe =
     seq (make_room i) (\<lambda>_.
     seq (now w) (\<lambda>stamp.
       let receipt = new_receipt c op h p m d tg stamp in
       seq (push_receipt i receipt) (\<lambda>_.
       seq (if pe \<noteq> JNull then set_field i ''pending_intent'' pe else pure ()) (\<lambda>_.
       seq (touch w i) (\<lambda>_.
       seq flush (\<lambda>_. pure receipt))))))"

lemma begin_command_new:
  assumes "running s = owner s" "lookup sid s = Some i"
    and "py_eq (dget (sessions s ! i) ''owner_principal_id'') (JStr p)"
    and "receipts_of (sessions s ! i) = Inr rs" "find_last (receipt_matches op h) rs = Inr None"
  shows "begin_command w sid p op h c m d tg pe s = new_command w i p op h c m d tg pe s"
  using assms by (simp add: begin_command_def new_command_def guard_run seq_existing find_receipt_def seq_assoc)

lemma touches_new_command: "touches COMMAND_FIELDS i (new_command w i p op h c m d tg pe)"
  unfolding new_command_def Let_def by (intro touches_intros) (auto simp: COMMAND_FIELDS_def)

lemma new_command_receipt:
  assumes "new_command w i p op h c m d tg pe s = (Inr r, t)" "i < length (sessions s)"
  shows "\<exists>rs. dget (sessions t ! i) ''receipts'' = JArr (rs @ [r])" "receipt_matches op h r = Inr True"
proof -
  obtain a stamp b u where r: "r = new_receipt c op h p m d tg stamp"
    and room: "make_room i s = (Inr (), a)" and drawn: "now w a = (Inr stamp, b)"
    and push: "push_receipt i r b = (Inr (), u)"
    and rest: "seq (if pe \<noteq> JNull then set_field i ''pending_intent'' pe else pure ()) (\<lambda>_.
       seq (touch w i) (\<lambda>_. seq flush (\<lambda>_. pure r))) u = (Inr r, t)"
    using assms(1) unfolding new_command_def Let_def by (auto simp: seq_returns)
  have "same_but {''receipts''} i s b"
    using same_but_trans[OF touchesD[OF touches_receipts(4) room] touchesD[OF touches_draw(2) drawn], of "{''receipts''}" "{}"]
    by simp
  then have "i < length (sessions b)" using assms(2) by (simp add: same_but_def)
  then obtain rs where rs: "dget (sessions u ! i) ''receipts'' = JArr (rs @ [r])" and len: "i < length (sessions u)"
    using push_receipt_run[OF push] touchesD[OF touches_receipts(3) push, of "{''receipts''}"] by (auto simp: same_but_def)
  have "touches {''pending_intent'', ''updated_at''} i (seq (if pe \<noteq> JNull then set_field i ''pending_intent'' pe else pure ()) (\<lambda>_.
       seq (touch w i) (\<lambda>_. seq flush (\<lambda>_. pure r))))"
    by (intro touches_intros) auto
  from touchesD[OF this rest] len rs show "\<exists>rs. dget (sessions t ! i) ''receipts'' = JArr (rs @ [r])"
    by (auto simp: same_but_def dget_def)
  show "receipt_matches op h r = Inr True"
    by (simp add: r receipt_matches_def new_receipt_def attr_def attr_or_def dict_eval)
qed

text \<open>C27: a command begun again with the key of an earlier one has one receipt: the second call gives it back,
  whatever its other arguments, and changes neither the store nor the disk.\<close>

theorem begin_command_idempotent:
  assumes "begin_command w sid p op h c m d tg pe s = (Inr r, t)"
  shows "begin_command w sid p op h c' m' d' tg' pe' t = (Inr r, t)"
proof -
  have own: "running s = owner s" using assms by (auto simp: begin_command_def guard_run split: if_splits)
  obtain i where i: "lookup sid s = Some i"
    using assms own by (auto simp: begin_command_def guard_run seq_existing split: option.splits)
  let ?row = "sessions s ! i"
  have fence: "py_eq (dget ?row ''owner_principal_id'') (JStr p)"
    using assms own i by (auto simp: begin_command_def guard_run seq_existing split: if_splits)
  obtain rs old where rs: "receipts_of ?row = Inr rs" "find_last (receipt_matches op h) rs = Inr old"
    using assms own i fence
    by (auto simp: begin_command_def guard_run seq_existing find_receipt_def seq_assoc andthen_def split: sum.splits)
  show ?thesis
  proof (cases old)
    case (Some n)
    then show ?thesis
      using begin_command_old[OF own i fence rs(1), of op h n] rs(2) assms by auto
  next
    case None
    then have new: "new_command w i p op h c m d tg pe s = (Inr r, t)"
      using begin_command_new[OF own i fence rs(1), of op h] rs(2) assms by simp
    have len: "i < length (sessions s)" using i by (rule lookup_bound)
    note same = touchesD[OF touches_new_command new]
    obtain rs' where rs': "dget (sessions t ! i) ''receipts'' = JArr (rs' @ [r])"
      using new_command_receipt(1)[OF new len] by blast
    then have "has (sessions t ! i) ''receipts''" by (metis dget_def dget_or_absent json.distinct(9))
    then have found: "receipts_of (sessions t ! i) = Inr (rs' @ [r])"
      by (simp add: receipts_of_def dget_dget_or rs' iterate_def)
    have "running t = owner t" "lookup sid t = Some i"
      "py_eq (dget (sessions t ! i) ''owner_principal_id'') (JStr p)"
      using same own fence i len lookup_same[OF same, of sid]
      by (auto simp: same_but_def COMMAND_FIELDS_def dget_def)
    from begin_command_old[OF this found find_last_snoc[of "receipt_matches op h" r rs', OF new_command_receipt(2)[OF new len]]] rs'
    show ?thesis by simp
  qed
qed


section \<open>Committing a run\<close>

text \<open>What a session promises, and what committing a run does to it.\<close>

record session_view =
  runs :: int
  user_turns :: int
  revision :: int
  phase :: json
  current_run :: json
  intent :: json

definition view :: "dict \<Rightarrow> session_view" where
  "view row =
     \<lparr>runs = the_int (dget row ''run_no''), user_turns = the_int (dget row ''user_turn_no''),
      revision = the_int (dget row ''session_revision''), phase = dget row ''state'',
      current_run = dget row ''active_run_id'', intent = dget row ''pending_intent''\<rparr>"

definition commit_run :: "json \<Rightarrow> session_view \<Rightarrow> session_view" where
  "commit_run run_id v =
     \<lparr>runs = runs v + 1, user_turns = user_turns v + 1, revision = revision v + 1, phase = jstr ''active'',
      current_run = run_id, intent = JNull\<rparr>"

lemma same_but_get:
  "same_but K i s t \<Longrightarrow> i < length (sessions s) \<Longrightarrow> k \<notin> K \<Longrightarrow>
     dget_or (sessions t ! i) k z = dget_or (sessions s ! i) k z"
  by (simp add: same_but_def)

lemma same_but_length: "same_but K i s t \<Longrightarrow> i < length (sessions s) \<Longrightarrow> i < length (sessions t)"
  by (simp add: same_but_def)

lemma increment_run:
  assumes "increment w i k s = (Inr (), t)" "i < length (sessions s)" "dget_or (sessions s ! i) k (JInt 0) = JInt n"
  shows "dget_or (sessions t ! i) k z = JInt (n + 1)"
  using assms by (auto simp: increment_def as_int_def set_field_run dget_dset)

lemma set_field_get:
  "set_field i k v s = (Inr (), t) \<Longrightarrow> i < length (sessions s) \<Longrightarrow> dget_or (sessions t ! i) k z = v"
  by (auto simp: set_field_run dget_dset)

lemma bind_run_fields:
  assumes run: "bind_run w i sid run_id b m s = (Inr (), t)" and len: "i < length (sessions s)"
    and runs: "dget_or (sessions s ! i) ''run_no'' (JInt 0) = JInt n"
    and turns: "dget_or (sessions s ! i) ''user_turn_no'' (JInt 0) = JInt u"
    and rev: "dget_or (sessions s ! i) ''session_revision'' (JInt 0) = JInt v"
  shows "dget (sessions t ! i) ''run_no'' = JInt (n + 1)" "dget (sessions t ! i) ''user_turn_no'' = JInt (u + 1)"
    "dget (sessions t ! i) ''session_revision'' = JInt (v + 1)" "dget (sessions t ! i) ''state'' = jstr ''active''"
    "dget (sessions t ! i) ''active_run_id'' = run_id"
proof -
  obtain a1 a2 a3 a4 a5 a6 a7 where
    s1: "add_binding i run_id b s = (Inr (), a1)" and
    s2: "set_field i ''active_binding'' b a1 = (Inr (), a2)" and
    s3: "set_field i ''active_run_id'' run_id a2 = (Inr (), a3)" and
    s4: "increment w i ''run_no'' a3 = (Inr (), a4)" and
    s5: "increment w i ''user_turn_no'' a4 = (Inr (), a5)" and
    s6: "set_field i ''state'' (jstr ''active'') a5 = (Inr (), a6)" and
    s7: "increment w i ''session_revision'' a6 = (Inr (), a7)" and
    s8: "seq (touch w i) (\<lambda>_. seq next_turn_seq (\<lambda>number. append_turn_memory w sid run_id number m)) a7 = (Inr (), t)"
    using run unfolding bind_run_def by (simp only: seq_returns_unit) blast
  have last: "touches {''updated_at''} i (seq (touch w i) (\<lambda>_. seq next_turn_seq (\<lambda>number. append_turn_memory w sid run_id number m)))"
    by (intro touches_intros) simp
  note b1 = touchesD[OF touches_add_binding[of "{''bindings''}"] s1, simplified]
  note b2 = touchesD[OF touches_set[of _ "{''active_binding''}"] s2, simplified]
  note b3 = touchesD[OF touches_set[of _ "{''active_run_id''}"] s3, simplified]
  note b4 = touchesD[OF touches_increment[of _ "{''run_no''}"] s4, simplified]
  note b5 = touchesD[OF touches_increment[of _ "{''user_turn_no''}"] s5, simplified]
  note b6 = touchesD[OF touches_set[of _ "{''state''}"] s6, simplified]
  note b7 = touchesD[OF touches_increment[of _ "{''session_revision''}"] s7, simplified]
  note b8 = touchesD[OF last s8]
  note l1 = same_but_length[OF b1 len]
  note l2 = same_but_length[OF b2 l1]
  note l3 = same_but_length[OF b3 l2]
  note l4 = same_but_length[OF b4 l3]
  note l5 = same_but_length[OF b5 l4]
  note l6 = same_but_length[OF b6 l5]
  note l7 = same_but_length[OF b7 l6]
  note get = same_but_get[OF b1 len] same_but_get[OF b2 l1] same_but_get[OF b3 l2] same_but_get[OF b4 l3]
    same_but_get[OF b5 l4] same_but_get[OF b6 l5] same_but_get[OF b7 l6] same_but_get[OF b8 l7]
  have "dget_or (sessions a3 ! i) ''run_no'' (JInt 0) = JInt n" using runs by (simp add: get)
  from increment_run[OF s4 l3 this] show "dget (sessions t ! i) ''run_no'' = JInt (n + 1)" by (simp add: dget_def get)
  have "dget_or (sessions a4 ! i) ''user_turn_no'' (JInt 0) = JInt u" using turns by (simp add: get)
  from increment_run[OF s5 l4 this] show "dget (sessions t ! i) ''user_turn_no'' = JInt (u + 1)" by (simp add: dget_def get)
  have "dget_or (sessions a6 ! i) ''session_revision'' (JInt 0) = JInt v" using rev by (simp add: get)
  from increment_run[OF s7 l6 this] show "dget (sessions t ! i) ''session_revision'' = JInt (v + 1)" by (simp add: dget_def get)
  show "dget (sessions t ! i) ''state'' = jstr ''active''" using set_field_get[OF s6 l5] by (simp add: dget_def get)
  show "dget (sessions t ! i) ''active_run_id'' = run_id" using set_field_get[OF s3 l2] by (simp add: dget_def get)
qed

lemma touches_bind_run:
  "touches {''bindings'', ''active_binding'', ''active_run_id'', ''run_no'', ''user_turn_no'', ''state'',
     ''session_revision'', ''updated_at''} i (bind_run w i sid run_id b m)"
  unfolding bind_run_def by (intro touches_intros) auto

lemma complete_start_parts:
  assumes "complete_start w sid epoch run_id b m f s = (Inr (), t)"
  obtains i c n a a' u v where "running s = owner s" "lookup sid s = Some i"
    "is_dict (dget (sessions s ! i) ''pending_intent'')"
    "c = dget (items (dget (sessions s ! i) ''pending_intent'')) ''command_id''"
    "bind_run w i sid run_id b m s = (Inr (), a)" "command_receipt i c a = (Inr n, a')"
    "seq (commit_receipt i n run_id [] f) (\<lambda>_.
       mark_start_index i c [(''phase'', jstr ''completed''), (''run_id'', run_id)]) a' = (Inr (), u)"
    "set_field i ''pending_intent'' JNull u = (Inr (), v)"
    "seq (prune_receipts i MAX_RECEIPTS) (\<lambda>_. seq write_turns (\<lambda>_. flush)) v = (Inr (), t)"
proof -
  have own: "running s = owner s" using assms by (auto simp: complete_start_def guard_run split: if_splits)
  obtain i where i: "lookup sid s = Some i"
    using assms own by (auto simp: complete_start_def guard_run seq_existing split: option.splits)
  let ?p = "dget (sessions s ! i) ''pending_intent''"
  let ?c = "dget (items ?p) ''command_id''"
  have "is_dict ?p" and rest: "seq (bind_run w i sid run_id b m) (\<lambda>_.
         seq (command_receipt i ?c) (\<lambda>n.
         seq (commit_receipt i n run_id [] f) (\<lambda>_.
         seq (mark_start_index i ?c [(''phase'', jstr ''completed''), (''run_id'', run_id)]) (\<lambda>_.
         seq (set_field i ''pending_intent'' JNull) (\<lambda>_.
         seq (prune_receipts i MAX_RECEIPTS) (\<lambda>_.
         seq write_turns (\<lambda>_. flush))))))) s = (Inr (), t)"
    using assms own i by (auto simp: complete_start_def guard_run seq_existing Let_def split: if_splits)
  from rest obtain a a' n a1 u v where
    "bind_run w i sid run_id b m s = (Inr (), a)" "command_receipt i ?c a = (Inr n, a')"
    "commit_receipt i n run_id [] f a' = (Inr (), a1)"
    "mark_start_index i ?c [(''phase'', jstr ''completed''), (''run_id'', run_id)] a1 = (Inr (), u)"
    "set_field i ''pending_intent'' JNull u = (Inr (), v)"
    "seq (prune_receipts i MAX_RECEIPTS) (\<lambda>_. seq write_turns (\<lambda>_. flush)) v = (Inr (), t)"
    unfolding seq_returns[of "command_receipt _ _"] seq_returns_unit by blast
  moreover from this(3,4) have "seq (commit_receipt i n run_id [] f) (\<lambda>_.
      mark_start_index i ?c [(''phase'', jstr ''completed''), (''run_id'', run_id)]) a' = (Inr (), u)"
    by (simp add: seq_Inr)
  ultimately show ?thesis using that own i \<open>is_dict ?p\<close> by blast
qed

text \<open>C24: finishing a start commits one run: the counters advance by one, the session becomes active
  with that run, no other session changes, and any further attempt to finish a start of this
  session is refused and changes nothing.\<close>

theorem complete_start_commits:
  assumes "store_ok w s" "complete_start w sid epoch run_id b m f s = (Inr (), t)"
  shows "\<exists>i. lookup sid s = Some i \<and> view (sessions t ! i) = commit_run run_id (view (sessions s ! i)) \<and>
     (\<forall>j. j < length (sessions s) \<and> j \<noteq> i \<longrightarrow> sessions t ! j = sessions s ! j) \<and>
     (\<forall>epoch' run' b' m' f'. complete_start w sid epoch' run' b' m' f' t = (Inl (StoreError ''owner_fenced''), t))"
proof -
  obtain i c n a a' u v where own: "running s = owner s" and i: "lookup sid s = Some i"
    and bound: "bind_run w i sid run_id b m s = (Inr (), a)" and found: "command_receipt i c a = (Inr n, a')"
    and mid: "seq (commit_receipt i n run_id [] f) (\<lambda>_.
       mark_start_index i c [(''phase'', jstr ''completed''), (''run_id'', run_id)]) a' = (Inr (), u)"
    and clear: "set_field i ''pending_intent'' JNull u = (Inr (), v)"
    and fin: "seq (prune_receipts i MAX_RECEIPTS) (\<lambda>_. seq write_turns (\<lambda>_. flush)) v = (Inr (), t)"
    using complete_start_parts[OF assms(2)] by metis
  have len: "i < length (sessions s)" using i by (rule lookup_bound)
  then have row: "row_ok w (sessions s ! i)" using assms(1) by (simp add: store_ok_def)
  obtain x y z where ints: "dget_or (sessions s ! i) ''run_no'' (JInt 0) = JInt x"
      "dget_or (sessions s ! i) ''user_turn_no'' (JInt 0) = JInt y"
      "dget_or (sessions s ! i) ''session_revision'' (JInt 0) = JInt z"
    using row_ok_counter_value[OF row] by (metis COUNTERS_def list.set_intros)
  have "\<forall>k \<in> set SETTLED. has (sessions s ! i) k" using row by (simp add: row_ok_def Let_def)
  then have ints': "dget (sessions s ! i) ''run_no'' = JInt x" "dget (sessions s ! i) ''user_turn_no'' = JInt y"
      "dget (sessions s ! i) ''session_revision'' = JInt z"
    using ints dget_dget_or by (metis SETTLED_def list.set_intros)+
  note fields = bind_run_fields[OF bound len ints]
  note b1 = touchesD[OF touches_bind_run bound]
  note b2 = touchesD[OF touches_lookups(4)[of "{}"] found]
  have m: "touches {''receipts'', ''start_index''} i (seq (commit_receipt i n run_id [] f) (\<lambda>_.
       mark_start_index i c [(''phase'', jstr ''completed''), (''run_id'', run_id)]))"
    by (intro touches_intros) auto
  have e: "touches {''receipts''} i (seq (prune_receipts i MAX_RECEIPTS) (\<lambda>_. seq write_turns (\<lambda>_. flush)))"
    by (intro touches_intros) auto
  note b3 = touchesD[OF m mid]
  note b4 = touchesD[OF touches_set[of _ "{''pending_intent''}"] clear, simplified]
  note b5 = touchesD[OF e fin]
  note l1 = same_but_length[OF b1 len]
  note l2 = same_but_length[OF b2 l1]
  note l3 = same_but_length[OF b3 l2]
  note l4 = same_but_length[OF b4 l3]
  note get = same_but_get[OF b2 l1] same_but_get[OF b3 l2] same_but_get[OF b4 l3] same_but_get[OF b5 l4]
  have pend: "dget (sessions t ! i) ''pending_intent'' = JNull"
    using set_field_get[OF clear l3] by (simp add: dget_def get)
  have "view (sessions t ! i) = commit_run run_id (view (sessions s ! i))"
    using fields pend by (simp add: view_def commit_run_def ints'[unfolded dget_def] dget_def get)
  moreover note all = same_but_trans[OF b1 same_but_trans[OF b2 same_but_trans[OF b3 same_but_trans[OF b4 b5]]]]
  moreover have "complete_start w sid epoch' run' b' m' f' t = (Inl (StoreError ''owner_fenced''), t)" for epoch' run' b' m' f'
  proof -
    have "running t = owner t" using all own by (simp add: same_but_def)
    moreover have "lookup sid t = Some i" using lookup_same[OF all] i by simp
    ultimately show ?thesis using pend by (simp add: complete_start_def guard_run seq_existing)
  qed
  ultimately show ?thesis using i by (auto simp: same_but_def)
qed

section \<open>The history block\<close>

lemma take_lines_sum:
  "used \<le> 3950 \<Longrightarrow> used + sum_list (map (\<lambda>l. length l + 1) (take_lines used ls)) \<le> 3950"
  by (induction used ls rule: take_lines.induct) auto

lemma length_joined: "length (join [10] ls) \<le> sum_list (map (\<lambda>l. length l + 1) ls)"
  by (induction "[10 :: nat]" ls rule: join.induct) auto

text \<open>The block of history given to the model has at most 3973 characters, however long the
  conversation is.\<close>

theorem history_block_bounded:
  assumes "history_block w c s = (Inr block, t)"
  shows "length block \<le> 3973"
proof -
  obtain messages u where messages: "seq (reads (turns_of c)) (\<lambda>rows.
       let kept = rev (take_lines (length (BLOCK_OPEN @ BLOCK_CLOSE)) (map history_line (rev messages)));
           runs = remdups (map (\<lambda>r. dget r ''run_id'') rows);
           lines = (if length kept < length messages \<or> 6 < length runs
                    then lit ''[older turns omitted]'' # kept else kept) in
       pure (BLOCK_OPEN @ join [10] lines @ [10] @ BLOCK_CLOSE)) u = (Inr block, t)"
    using assms unfolding history_block_def seq_returns[of "history _ _ _"] by blast
  define kept where "kept = rev (take_lines (length (BLOCK_OPEN @ BLOCK_CLOSE)) (map history_line (rev messages)))"
  define lines where "lines =
    (if length kept < length messages \<or> 6 < length (remdups (map (\<lambda>r. dget r ''run_id'') (turns_of c u)))
     then lit ''[older turns omitted]'' # kept else kept)"
  have block: "block = BLOCK_OPEN @ join [10] lines @ [10] @ BLOCK_CLOSE"
    using messages unfolding seq_simps(3) Let_def pure_run kept_def[symmetric] lines_def[symmetric] by simp
  have lines: "lines = kept \<or> lines = lit ''[older turns omitted]'' # kept"
    by (simp add: lines_def)
  have ends: "length BLOCK_OPEN = 22" "length BLOCK_CLOSE = 22" by (simp_all add: BLOCK_OPEN_def BLOCK_CLOSE_def)
  have "sum_list (map (\<lambda>l. length l + 1) kept) \<le> 3906"
    using take_lines_sum[of 44 "map history_line (rev messages)"] ends
    by (simp add: kept_def rev_map[symmetric] sum_list_rev)
  then have "length (join [10] lines) \<le> 3906 + 22"
    using lines length_joined[of lines] by auto
  then show ?thesis by (simp add: block ends)
qed

end
