(* ===== verification/Session_Samples.thy ===== *)
theory Session_Samples
  imports Session_Frame
begin

text \<open>One store with one started session, on which every property of the session store is exercised.\<close>

definition demo_env :: env where
  "demo_env =
     \<lparr>clock = (\<lambda>n. lit ''2026-01-01T00:00:00'' @ dec n), uuids = (\<lambda>n. n mod 2 ^ 128), tokens = (\<lambda>n. lit ''token'' @ dec n),
      exotic_hex = (\<lambda>_. None), read_int = (\<lambda>_. Inl ValueError), floats = (\<lambda>t. NonFinite t),
      resolve_root = (\<lambda>p. Inr p), read_run = None\<rparr>"

definition ID1 :: pystr where "ID1 = uuid_text 1"
definition ID2 :: pystr where "ID2 = uuid_text 2"

definition demo_row :: dict where
  "demo_row =
     started_row
       [(lit ''session_id'', JStr ID1), (lit ''conversation_id'', JStr ID1), (lit ''name'', jstr ''demo''),
        (lit ''state'', jstr ''starting''), (lit ''resume_token_hash'', JStr (replicate 64 97)),
        (lit ''created_at'', jstr ''t0''), (lit ''updated_at'', jstr ''t0''), (lit ''bindings'', JArr []),
        (lit ''active_binding'', JNull), (lit ''active_run_id'', JNull), (lit ''run_no'', JInt 0),
        (lit ''user_turn_no'', JInt 0), (lit ''counter_origin'', jstr ''native_v2''),
        (lit ''session_revision'', JInt 1), (lit ''owner_principal_id'', jstr ''local''),
        (lit ''start_index'', JObj []), (lit ''receipts'', JArr []), (lit ''pending_intent'', JNull),
        (lit ''model'', jstr ''m'')]
       (lit ''local'') (lit ''k1'') (jstr ''c1'') (jstr ''r1'') (JObj []) (lit ''d1'') 1 (jstr ''t0'') (jstr ''t0'')"

definition no_file :: saved where
  "no_file = \<lparr>content = None, prev_copy = None, v1_copy = None\<rparr>"

definition demo_store :: session_store where
  "demo_store = (fresh_store 7 no_file no_file [] 0)\<lparr>sessions := [demo_row], owner_epoch := JInt 1\<rparr>"

definition demo_binding :: json where
  "demo_binding = JObj [(lit ''scope_id'', JStr ID2), (lit ''run_id'', JStr ID2)]"

definition demo_finish :: "(exn + unit) \<times> session_store" where
  "demo_finish = complete_start demo_env (JStr ID1) (JInt 1) (JStr ID2) demo_binding (jstr ''hello'') (\<lambda>_. Inr JNull) demo_store"

lemma demo_env_ok: "env_ok demo_env"
  by (simp add: env_ok_def demo_env_def)

lemma demo_uuids [simp]: "uuid_check w (JStr ID1) = Inr ()" "uuid_check w (JStr ID2) = Inr ()"
  by (simp_all add: uuid_check_def valid_uuid_def ID1_def ID2_def uuid_roundtrip)

lemma uuid_text_plain [simp]: "uuid_text n \<noteq> []" "scalar_str (uuid_text n)" "code_points (uuid_text n)"
proof -
  show "uuid_text n \<noteq> []" by (simp add: uuid_text_def Let_def)
  have "c < 128" if "c \<in> set (uuid_text n)" for c
    using uuid_text_chars[OF that] by (auto simp: hex_lower_def is_digit_def)
  then show "scalar_str (uuid_text n)" "code_points (uuid_text n)"
    by (force simp: scalar_str_def code_points_def surrogate_def)+
qed

lemma demo_ids [simp]: "ID1 \<noteq> []" "ID2 \<noteq> []" "scalar_str ID1" "scalar_str ID2" "code_points ID1" "code_points ID2"
  by (simp_all add: ID1_def ID2_def)

lemmas demo_row_eq = demo_row_def[unfolded started_row_def Let_def, simplified,
  unfolded dset_def dget_def start_index_def start_receipt_def start_intent_def start_entry_def start_index_key_def, simplified]

lemma demo_row_ok: "row_ok demo_env demo_row"
  by (simp add: demo_row_eq row_ok_def dict_eval turn_session_def SETTLED_def COUNTERS_def STATES_def among_def
      is_digest_def hex_lower_def is_digit_def list_all_iff Let_def)

lemma demo_store_ok: "store_ok demo_env demo_store"
  by (simp add: store_ok_def demo_store_def fresh_store_def epoch_ok_def turns_bounded_Nil demo_row_ok)

lemma seq_now: "seq (now w) f s = f (JStr (clock w (draws s))) (s\<lparr>draws := draws s + 1\<rparr>)"
  by (simp add: now_def draw_def seq_def)

lemma seq_set_field: "seq (set_field i k v) f s = f () (s\<lparr>sessions := (sessions s)[i := dset (sessions s ! i) k v]\<rparr>)"
  by (simp add: seq_def set_field_run)

lemma seq_edit: "seq (edit i g) f s = f () (s\<lparr>sessions := (sessions s)[i := g (sessions s ! i)]\<rparr>)"
  by (simp add: edit_def)

text \<open>Running an operation on a concrete store.\<close>

lemmas run_store = guard_run seq_existing lookup_def seq_set_field seq_edit seq_now seq_assoc increment_def
  touch_def next_turn_seq_def append_turn_memory_def command_receipt_def find_receipt_def receipt_at_def
  edit_receipt_def receipts_of_def iterate_def find_last_def of_command_def attr_def attr_or_def
  dict_eval dset_def Let_def session_is_def as_int_def

lemma scalar_dec [simp]: "scalar_str (dec n)" "code_points (dec n)"
  using dec_digits by (auto simp: scalar_str_def code_points_def surrogate_def is_digit_def; fastforce)+

lemma scalar_dumps: "J_domain v \<Longrightarrow> scalar_str a \<Longrightarrow> scalar_str b \<Longrightarrow> scalar_str (dumps_text a b v)"
proof (induction v rule: J_domain.induct)
  case (1 d)
  have "scalar_str (quote k) \<and> scalar_str (dumps_text a b v)" if "(k, v) \<in> set d" for k v
    using 1 that by (force simp: list_all_iff)
  then show ?case using 1 by (auto simp: surrogate_def intro!: scalar_join)
next
  case (2 xs)
  then show ?case by (auto simp: list_all_iff surrogate_def intro!: scalar_join)
qed auto

lemma encode_line_returns:
  "J_domain v \<Longrightarrow> scalar_str a \<Longrightarrow> scalar_str b \<Longrightarrow> \<exists>x. encode_line a b v = Inr x"
  using scalar_dumps[of v a b] by (simp add: encode_line_def digits_ok_domain utf8_encode_def surrogate_def)

lemma save_runs:
  assumes "faults s = []"
  shows "fst (save_sessions b s) = Inr ()" and "fst (save_turns b s) = Inr ()"
    and "sessions (snd (save_turns b s)) = sessions s \<and> store_image (snd (save_turns b s)) = store_image s \<and>
      failed (snd (save_turns b s)) = failed s \<and> running (snd (save_turns b s)) = running s \<and>
      owner (snd (save_turns b s)) = owner s \<and> faults (snd (save_turns b s)) = []"
  using assms
  by (auto simp: save_sessions_def save_turns_def atomic_bytes_def seq_def next_fault_def store_image_def Let_def split: option.splits)

lemma flush_runs:
  assumes "running s = owner s" "failed s = None" "faults s = []" "J_domain (store_image s)"
  shows "fst (flush s) = Inr ()"
proof -
  obtain b where "encode_line [44] [58] (store_image s) = Inr b"
    using encode_line_returns[OF assms(4), of "[44]" "[58]"] by (auto simp: surrogate_def)
  then show ?thesis using assms save_runs(1) by (simp add: flush_def guard_run)
qed

lemma write_and_flush_runs:
  assumes "running s = owner s" "failed s = None" "faults s = []" "J_domain (store_image s)"
    and "\<forall>r \<in> set (turns s). J_domain (JObj r)"
  shows "fst (seq write_turns (\<lambda>_. flush) s) = Inr ()"
proof -
  have "\<exists>x. turn_line r = Inr x" if "r \<in> set (turns s)" for r
    using encode_line_returns[of "JObj r" "[44, 32]" "[58, 32]"] assms(5) that by (auto simp: turn_line_def surrogate_def)
  then obtain xs where "mapr turn_line (turns s) = Inr xs"
    by (cases "mapr turn_line (turns s)") (use mapr_Inl in fastforce)+
  then have "seq write_turns (\<lambda>_. flush) s = seq (save_turns (concat xs)) (\<lambda>_. flush) s"
    using assms(1) by (simp add: write_turns_def guard_run seq_assoc)
  also have "\<dots> = flush (snd (save_turns (concat xs) s))"
    using save_runs(2)[OF assms(3), of "concat xs"] by (cases "save_turns (concat xs) s") (simp add: seq_Inr)
  finally show ?thesis using flush_runs save_runs(3)[OF assms(3), of "concat xs"] assms by simp
qed

lemma demo_hash: "scalar_str (replicate 64 97)" "code_points (replicate 64 97)"
  by (simp_all add: scalar_str_def code_points_def surrogate_def)

lemma demo_finish_returns: "fst demo_finish = Inr ()"
  unfolding demo_finish_def
  by (simp add: complete_start_def demo_store_def fresh_store_def demo_row_eq demo_binding_def run_store
       bind_run_def add_binding_def commit_receipt_def mark_start_index_def mark_entry_def start_index_def keys_def
       prune_receipts_def finished_receipt_def among_def last_n_def MAX_BINDINGS_def)
     (rule write_and_flush_runs; simp add: store_image_def demo_env_def VERSION_def safe_int_def SAFE_INTEGER_MAX_def
       bound_turns_def new_turn_def turn_session_def dict_eval Let_def MAX_TURNS_def
       MAX_RECEIPTS_def surrogate_def demo_hash)

section \<open>Witnesses\<close>

definition demo_open :: "saved \<Rightarrow> (exn + unit) \<times> session_store" where
  "demo_open f = open_store demo_env 7 f no_file [] 0"

definition demo_call :: store_call where
  "demo_call = New_Conversation JNull JNull JNull JNull (lit ''local'') []"

definition bad_file :: saved where
  "bad_file = no_file\<lparr>content := Some []\<rparr>"

lemma demo_open_empty: "demo_open no_file = (Inr (), fresh_store 7 no_file no_file [] 0)"
  by (simp add: demo_open_def open_store_def load_store_def load_turns_def load_sessions_def fresh_store_def
      no_file_def guard_run seq_assoc)

lemma bad_read: "loads_bytes f [] = Inl JSONDecodeError"
  by (simp add: loads_bytes_def decode_json_def json_loads_def skip_ws_def eval_nat_numeral scan_value.simps)

lemma demo_open_bad:
  "fst (demo_open bad_file) = Inr ()" "failed (snd (demo_open bad_file)) = Some ''session_store_corrupt''"
  by (simp_all add: demo_open_def open_store_def load_store_def load_turns_def load_sessions_def fresh_store_def
      no_file_def bad_file_def guard_run seq_assoc bad_read bad_turn_def fail_load_def)

lemma demo_open_result: "open_store demo_env 7 bad_file no_file [] 0 = (Inr (), snd (demo_open bad_file))"
  using demo_open_bad(1) by (simp add: demo_open_def prod_eq_iff)

lemma demo_call_ok: "sessions s = [] \<Longrightarrow> call_ok demo_env s demo_call"
  by (simp add: demo_call_def free_fields_def keys_def fresh_id_def)


theorem corrupt_file_kept_witness:
  "session_file (snd (run_call demo_env Flush (snd (demo_open bad_file)))) = bad_file"
proof (rule corrupt_file_kept[OF demo_env_ok demo_open_result])
  show "failed (snd (demo_open bad_file)) \<noteq> None" by (simp add: demo_open_bad)
  show "reaches demo_env (snd (demo_open bad_file)) (snd (run_call demo_env Flush (snd (demo_open bad_file))))"
    by (rule reaches_call[OF reaches_refl, of _ _ Flush]) (simp_all add: prod_eq_iff)
qed

lemma demo_image_domain: "J_domain (store_image demo_store)" "json_wf (store_image demo_store)"
  by (simp_all add: store_image_def demo_store_def fresh_store_def demo_row_eq VERSION_def safe_int_def
      SAFE_INTEGER_MAX_def surrogate_def demo_hash dict_eval)

lemma demo_flush: "flush demo_store = (Inr (), snd (flush demo_store))"
  using flush_runs[of demo_store] demo_image_domain by (simp add: demo_store_def fresh_store_def prod_eq_iff)


definition demo_begin :: "(exn + json) \<times> session_store" where
  "demo_begin = begin_command demo_env (JStr ID1) (lit ''local'') ''steer'' (lit ''k2'') (jstr ''c2'') (JObj []) (lit ''d2'')
     JNull JNull demo_store"

lemma demo_begin_returns: "\<exists>r. fst demo_begin = Inr r"
proof -
  have "\<exists>r. fst (seq flush (\<lambda>_. pure r') s) = Inr r" if "fst (flush s) = Inr ()" for s r'
    using that by (cases "flush s") (simp add: seq_Inr)
  note final = this
  show ?thesis unfolding demo_begin_def
    by (simp add: begin_command_def demo_store_def fresh_store_def demo_row_eq run_store receipt_matches_def
        make_room_def finished_receipt_def among_def push_receipt_def MAX_RECEIPTS_def)
      (rule final, rule flush_runs; simp add: store_image_def demo_env_def VERSION_def safe_int_def
        SAFE_INTEGER_MAX_def new_receipt_def surrogate_def demo_hash)
qed

theorem begin_command_idempotent_witness:
  "\<exists>r t. begin_command demo_env (JStr ID1) (lit ''local'') ''steer'' (lit ''k2'') (jstr ''c3'') JNull (lit ''d3'')
     JNull JNull t = (Inr r, t)"
proof -
  obtain r where "fst demo_begin = Inr r" using demo_begin_returns by blast
  then have "demo_begin = (Inr r, snd demo_begin)" by (simp add: prod_eq_iff)
  from begin_command_idempotent[OF this[unfolded demo_begin_def]] show ?thesis by blast
qed

theorem complete_start_commits_witness:
  "complete_start demo_env (JStr ID1) (JInt 1) (JStr ID2) demo_binding JNull (\<lambda>_. Inr JNull) (snd demo_finish)
     = (Inl (StoreError ''owner_fenced''), snd demo_finish)"
proof -
  have "demo_finish = (Inr (), snd demo_finish)" using demo_finish_returns by (simp add: prod_eq_iff)
  from complete_start_commits[OF demo_store_ok this[unfolded demo_finish_def]] show ?thesis
    by (auto simp: demo_finish_def)
qed

end
