(* ===== verification/Process.thy ===== *)
theory Process
  imports Stateful
begin

text \<open>
  Actions that may not return: \<open>None\<close> is a loop that never ends, \<open>Some\<close> is the outcome and the
  state of an action. Every loop \<open>while True\<close> is \<open>while_true\<close>, a partial function; everything else is
  built from the combinators below. \<open>triple ends P m Q E\<close>: from a state of \<open>P\<close>, a return of \<open>m\<close>
  leaves a state of \<open>Q\<close> and an exception one of \<open>E\<close>, and when \<open>ends\<close> is set \<open>m\<close> does return.
  \<open>keeping ends P m\<close> is the case of one invariant; its rules follow the shape of the code and form
  the collection \<open>keeping_intros\<close>.
\<close>

type_synonym ('s, 'a) process = "'s \<Rightarrow> ((exn + 'a) \<times> 's) option"

definition acting :: "('s, 'a) action \<Rightarrow> ('s, 'a) process" where
  "acting m = (\<lambda>s. Some (m s))"

definition give :: "'a \<Rightarrow> ('s, 'a) process" where
  "give x = (\<lambda>s. Some (Inr x, s))"

definition abort :: "exn \<Rightarrow> ('s, 'a) process" where
  "abort e = (\<lambda>s. Some (Inl e, s))"

definition chain :: "('s, 'a) process \<Rightarrow> ('a \<Rightarrow> ('s, 'b) process) \<Rightarrow> ('s, 'b) process" where
  "chain m f = (\<lambda>s. case m s of None \<Rightarrow> None | Some (Inl e, t) \<Rightarrow> Some (Inl e, t) | Some (Inr x, t) \<Rightarrow> f x t)"

definition peek :: "('s \<Rightarrow> 'a) \<Rightarrow> ('s, 'a) process" where
  "peek f = (\<lambda>s. Some (Inr (f s), s))"

definition change :: "('s \<Rightarrow> 's) \<Rightarrow> ('s, unit) process" where
  "change f = (\<lambda>s. Some (Inr (), f s))"

definition outcome_of :: "exn + 'a \<Rightarrow> ('s, 'a) process" where
  "outcome_of r = (\<lambda>s. Some (r, s))"

text \<open>\<open>if not b: raise e\<close>\<close>

definition insist :: "bool \<Rightarrow> exn \<Rightarrow> ('s, unit) process" where
  "insist b e = (if b then give () else abort e)"

text \<open>\<open>try: m except E as e: handler(e)\<close>, and \<open>try: m finally: f\<close>.\<close>

definition rescue :: "('s, 'a) process \<Rightarrow> (exn \<Rightarrow> bool) \<Rightarrow> (exn \<Rightarrow> ('s, 'a) process) \<Rightarrow> ('s, 'a) process" where
  "rescue m caught handler =
     (\<lambda>s. case m s of
            None \<Rightarrow> None
          | Some (Inl e, t) \<Rightarrow> if caught e then handler e t else Some (Inl e, t)
          | Some (Inr x, t) \<Rightarrow> Some (Inr x, t))"

definition finally_do :: "('s, 'a) process \<Rightarrow> ('s \<Rightarrow> 's) \<Rightarrow> ('s, 'a) process" where
  "finally_do m f = (\<lambda>s. case m s of None \<Rightarrow> None | Some (r, t) \<Rightarrow> Some (r, f t))"

text \<open>\<open>for x in xs\<close> with what the body carries from turn to turn; \<open>Inl\<close> leaves the loop early.\<close>

fun loop_over :: "('b \<Rightarrow> 'a \<Rightarrow> ('s, 'c + 'b) process) \<Rightarrow> 'b \<Rightarrow> 'a list \<Rightarrow> ('s, 'c + 'b) process" where
  "loop_over f b [] = give (Inr b)"
| "loop_over f b (x # xs) =
     chain (f b x) (\<lambda>r. case r of Inl c \<Rightarrow> give (Inl c) | Inr b' \<Rightarrow> loop_over f b' xs)"

fun fold_over :: "('b \<Rightarrow> 'a \<Rightarrow> ('s, 'b) process) \<Rightarrow> 'b \<Rightarrow> 'a list \<Rightarrow> ('s, 'b) process" where
  "fold_over f b [] = give b"
| "fold_over f b (x # xs) = chain (f b x) (\<lambda>b'. fold_over f b' xs)"

text \<open>\<open>while True\<close>: a turn gives the result of the loop or what the next turn starts from.\<close>

partial_function (option) while_true :: "('b \<Rightarrow> ('s, 'c + 'b) process) \<Rightarrow> 'b \<Rightarrow> ('s, 'c) process" where
  "while_true f b s =
     (case f b s of
        None \<Rightarrow> None
      | Some (Inl e, t) \<Rightarrow> Some (Inl e, t)
      | Some (Inr (Inl c), t) \<Rightarrow> Some (Inr c, t)
      | Some (Inr (Inr b'), t) \<Rightarrow> while_true f b' t)"

declare while_true.simps [code]

lemma process_run [simp]:
  "acting m s = Some (m s)" "give x s = Some (Inr x, s)" "abort e s = Some (Inl e, s)"
  "peek g s = Some (Inr (g s), s)" "change h s = Some (Inr (), h s)" "outcome_of r s = Some (r, s)"
  "insist b e s = Some (if b then Inr () else Inl e, s)"
  by (simp_all add: acting_def give_def abort_def peek_def change_def outcome_of_def insist_def)

lemma chain_simps [simp]:
  "chain (give x) f = f x" "chain (abort e) f = abort e" "chain (peek g) f s = f (g s) s"
  "chain (change h) k s = k () (h s)"
  "chain (outcome_of r) f s = (case r of Inl e \<Rightarrow> Some (Inl e, s) | Inr x \<Rightarrow> f x s)"
  "chain (insist b e) k s = (if b then k () s else Some (Inl e, s))"
  "chain (acting m) f s = (case m s of (Inl e, t) \<Rightarrow> Some (Inl e, t) | (Inr x, t) \<Rightarrow> f x t)"
  by (auto simp: chain_def give_def abort_def peek_def change_def outcome_of_def insist_def acting_def
      split: sum.splits)

lemma chain_run:
  "chain m f s = (case m s of None \<Rightarrow> None | Some (Inl e, t) \<Rightarrow> Some (Inl e, t) | Some (Inr x, t) \<Rightarrow> f x t)"
  by (simp add: chain_def)

lemma chain_Some: "m s = Some (Inr x, t) \<Longrightarrow> chain m f s = f x t"
  by (simp add: chain_def)

lemma chain_Inl: "m s = Some (Inl e, t) \<Longrightarrow> chain m f s = Some (Inl e, t)"
  by (simp add: chain_def)

lemma chain_cases:
  assumes "chain m f s = Some (r, t)"
  obtains e where "m s = Some (Inl e, t)" "r = Inl e" | x u where "m s = Some (Inr x, u)" "f x u = Some (r, t)"
  using assms by (auto simp: chain_def split: option.splits prod.splits sum.splits)

lemma chain_returns:
  "chain m f s = Some (Inr y, t) \<longleftrightarrow> (\<exists>x u. m s = Some (Inr x, u) \<and> f x u = Some (Inr y, t))"
  by (auto simp: chain_def split: option.splits prod.splits sum.splits)

lemma chain_assoc: "chain (chain m f) g = chain m (\<lambda>x. chain (f x) g)"
  by (rule ext) (auto simp: chain_def split: option.splits prod.splits sum.splits)

section \<open>What a process leaves\<close>

definition triple ::
  "bool \<Rightarrow> ('s \<Rightarrow> bool) \<Rightarrow> ('s, 'a) process \<Rightarrow> ('a \<Rightarrow> 's \<Rightarrow> bool) \<Rightarrow> ('s \<Rightarrow> bool) \<Rightarrow> bool" where
  "triple ends P m Q E \<longleftrightarrow>
     (\<forall>s. P s \<longrightarrow>
       (case m s of None \<Rightarrow> \<not> ends | Some (Inl _, t) \<Rightarrow> E t | Some (Inr x, t) \<Rightarrow> Q x t))"

definition keeping :: "bool \<Rightarrow> ('s \<Rightarrow> bool) \<Rightarrow> ('s, 'a) process \<Rightarrow> bool" where
  "keeping ends P m \<longleftrightarrow> (\<forall>s. P s \<longrightarrow> (case m s of None \<Rightarrow> \<not> ends | Some (r, t) \<Rightarrow> P t))"

named_theorems keeping_intros \<open>rules for what a process keeps\<close>

lemma keepingI: "(\<And>s. P s \<Longrightarrow> case m s of None \<Rightarrow> \<not> ends | Some (r, t) \<Rightarrow> P t) \<Longrightarrow> keeping ends P m"
  by (simp add: keeping_def)

lemma keepingD: "keeping ends P m \<Longrightarrow> P s \<Longrightarrow> m s = Some (r, t) \<Longrightarrow> P t"
  by (fastforce simp: keeping_def)

lemma keeping_returns: "keeping True P m \<Longrightarrow> P s \<Longrightarrow> \<exists>r t. m s = Some (r, t) \<and> P t"
  by (cases "m s") (fastforce simp: keeping_def)+

lemma keeping_None: "keeping ends P m \<Longrightarrow> P s \<Longrightarrow> m s = None \<Longrightarrow> \<not> ends"
  by (fastforce simp: keeping_def)

lemma keeping_triple: "keeping ends P m \<longleftrightarrow> triple ends P m (\<lambda>_. P) P"
  by (auto simp: keeping_def triple_def split: option.splits prod.splits sum.splits)

lemma tripleD: "triple ends P m Q E \<Longrightarrow> P s \<Longrightarrow> m s = Some (Inr x, t) \<Longrightarrow> Q x t"
  by (fastforce simp: triple_def)

lemma triple_failsD: "triple ends P m Q E \<Longrightarrow> P s \<Longrightarrow> m s = Some (Inl x, t) \<Longrightarrow> E t"
  by (fastforce simp: triple_def)

lemma triple_chain:
  assumes "triple ends P m Q E" "\<And>x. triple ends (Q x) (f x) R E"
  shows "triple ends P (chain m f) R E"
  unfolding triple_def
proof (intro allI impI)
  fix s assume "P s"
  then have m: "case m s of None \<Rightarrow> \<not> ends | Some (Inl _, t) \<Rightarrow> E t | Some (Inr x, t) \<Rightarrow> Q x t"
    using assms(1) by (auto simp: triple_def)
  show "case chain m f s of None \<Rightarrow> \<not> ends | Some (Inl _, t) \<Rightarrow> E t | Some (Inr x, t) \<Rightarrow> R x t"
  proof (cases "m s")
    case (Some y)
    obtain r t where y: "y = (r, t)" by (cases y)
    show ?thesis
    proof (cases r)
      case (Inr x)
      then show ?thesis using Some y m assms(2)[of x] by (simp add: chain_def triple_def)
    qed (use Some y m in \<open>simp add: chain_def\<close>)
  qed (use m in \<open>simp add: chain_def\<close>)
qed

lemma keeping_chain_triple:
  "triple ends P m Q P \<Longrightarrow> (\<And>x. triple ends (Q x) (f x) (\<lambda>_. P) P) \<Longrightarrow> keeping ends P (chain m f)"
  by (simp add: keeping_triple triple_chain)

lemma triple_weaken:
  "triple ends P m Q E \<Longrightarrow> (\<And>s. P' s \<Longrightarrow> P s) \<Longrightarrow> (\<And>x s. Q x s \<Longrightarrow> Q' x s) \<Longrightarrow> (\<And>s. E s \<Longrightarrow> E' s) \<Longrightarrow>
     triple ends P' m Q' E'"
  by (fastforce simp: triple_def split: option.splits prod.splits sum.splits)

lemma triple_keeping: "keeping ends P m \<Longrightarrow> triple ends P m (\<lambda>_. P) P"
  by (simp add: keeping_triple)

lemma triple_rescue:
  assumes "triple ends P m Q E'" "\<And>x. triple ends E' (handler x) Q E" "\<And>s. E' s \<Longrightarrow> E s"
  shows "triple ends P (rescue m caught handler) Q E"
  unfolding triple_def
proof (intro allI impI)
  fix s assume "P s"
  then have m: "case m s of None \<Rightarrow> \<not> ends | Some (Inl _, t) \<Rightarrow> E' t | Some (Inr x, t) \<Rightarrow> Q x t"
    using assms(1) by (auto simp: triple_def)
  show "case rescue m caught handler s of None \<Rightarrow> \<not> ends | Some (Inl _, t) \<Rightarrow> E t | Some (Inr x, t) \<Rightarrow> Q x t"
  proof (cases "m s")
    case (Some y)
    obtain r t where y: "y = (r, t)" by (cases y)
    show ?thesis
    proof (cases r)
      case (Inl x)
      then show ?thesis using Some y m assms(2)[of x] assms(3)[of t] by (simp add: rescue_def triple_def)
    qed (use Some y m in \<open>simp add: rescue_def\<close>)
  qed (use m in \<open>simp add: rescue_def\<close>)
qed

lemma keeping_simple [keeping_intros]:
  "keeping ends P (give x)" "keeping ends P (abort e)" "keeping ends P (peek g)"
  "keeping ends P (outcome_of r)" "keeping ends P (insist b e)"
  by (simp_all add: keeping_def)

lemma keeping_change: "(\<And>s. P s \<Longrightarrow> P (h s)) \<Longrightarrow> keeping ends P (change h)"
  by (simp add: keeping_def)

lemma keeping_acting: "keeps P m \<Longrightarrow> keeping ends P (acting m)"
  by (auto simp: keeping_def dest: keepsD)

lemma keeping_chain [keeping_intros]:
  "keeping ends P m \<Longrightarrow> (\<And>x. keeping ends P (f x)) \<Longrightarrow> keeping ends P (chain m f)"
  by (simp add: keeping_triple triple_chain)

text \<open>The continuation only sees values the first process can return.\<close>

lemma keeping_chain_result:
  assumes "keeping ends P m" "\<And>s x t. P s \<Longrightarrow> m s = Some (Inr x, t) \<Longrightarrow> keeping ends P (f x)"
  shows "keeping ends P (chain m f)"
proof (rule keepingI)
  fix s assume s: "P s"
  show "case chain m f s of None \<Rightarrow> \<not> ends | Some (r, t) \<Rightarrow> P t"
  proof (cases "m s")
    case None
    then show ?thesis using keeping_None[OF assms(1) s] by (simp add: chain_def)
  next
    case (Some y)
    obtain r t where y: "y = (r, t)" by (cases y)
    have t: "P t" using keepingD[OF assms(1) s] Some y by simp
    show ?thesis
    proof (cases r)
      case (Inr x)
      then have "keeping ends P (f x)" using assms(2)[OF s] Some y by simp
      then show ?thesis using t Inr Some y by (simp add: chain_def keeping_def)
    qed (use Some y t in \<open>simp add: chain_def\<close>)
  qed
qed

lemma keeping_if [keeping_intros]:
  "(b \<Longrightarrow> keeping ends P m) \<Longrightarrow> (\<not> b \<Longrightarrow> keeping ends P n) \<Longrightarrow> keeping ends P (if b then m else n)"
  by simp

lemma keeping_option [keeping_intros]:
  "(x = None \<Longrightarrow> keeping ends P m) \<Longrightarrow> (\<And>y. x = Some y \<Longrightarrow> keeping ends P (f y)) \<Longrightarrow>
     keeping ends P (case x of None \<Rightarrow> m | Some y \<Rightarrow> f y)"
  by (cases x) auto

lemma keeping_sum [keeping_intros]:
  "(\<And>y. x = Inl y \<Longrightarrow> keeping ends P (f y)) \<Longrightarrow> (\<And>y. x = Inr y \<Longrightarrow> keeping ends P (g y)) \<Longrightarrow>
     keeping ends P (case x of Inl y \<Rightarrow> f y | Inr y \<Rightarrow> g y)"
  by (cases x) auto

lemma keeping_prod [keeping_intros]:
  "(\<And>a b. x = (a, b) \<Longrightarrow> keeping ends P (f a b)) \<Longrightarrow> keeping ends P (case x of (a, b) \<Rightarrow> f a b)"
  by (cases x) auto

lemma keeping_list [keeping_intros]:
  "(x = [] \<Longrightarrow> keeping ends P m) \<Longrightarrow> (\<And>y r. x = y # r \<Longrightarrow> keeping ends P (f y r)) \<Longrightarrow>
     keeping ends P (case x of [] \<Rightarrow> m | y # r \<Rightarrow> f y r)"
  by (cases x) auto

lemma keeping_Let [keeping_intros]: "(\<And>y. y = x \<Longrightarrow> keeping ends P (f y)) \<Longrightarrow> keeping ends P (let y = x in f y)"
  by simp

lemma keeping_rescue [keeping_intros]:
  "keeping ends P m \<Longrightarrow> (\<And>e. keeping ends P (handler e)) \<Longrightarrow> keeping ends P (rescue m caught handler)"
  by (auto simp: keeping_triple intro: triple_rescue)

lemma keeping_loop [keeping_intros]:
  "(\<And>b x. x \<in> set xs \<Longrightarrow> keeping ends P (f b x)) \<Longrightarrow> keeping ends P (loop_over f b xs)"
proof (induction xs arbitrary: b)
  case (Cons x xs)
  then show ?case by (fastforce intro!: keeping_intros)
qed (simp add: keeping_simple)

lemma keeping_fold [keeping_intros]:
  "(\<And>b x. x \<in> set xs \<Longrightarrow> keeping ends P (f b x)) \<Longrightarrow> keeping ends P (fold_over f b xs)"
proof (induction xs arbitrary: b)
  case (Cons x xs)
  then show ?case by (fastforce intro!: keeping_intros)
qed (simp add: keeping_simple)

text \<open>A loop ends when what its turns hand on gets smaller; without a measure nothing is said about
  its end.\<close>

lemma keeping_while_measure:
  assumes keep: "\<And>b. I b \<Longrightarrow> keeping ends P (f b)"
    and smaller: "\<And>b s b' t. I b \<Longrightarrow> P s \<Longrightarrow> f b s = Some (Inr (Inr b'), t) \<Longrightarrow> I b' \<and> \<mu> b' < (\<mu> b :: nat)"
    and "I b"
  shows "keeping ends P (while_true f b)"
  using \<open>I b\<close>
proof (induction "\<mu> b" arbitrary: b rule: less_induct)
  case less
  show ?case
  proof (rule keepingI)
    fix s assume s: "P s"
    note turn = keep[OF less.prems]
    show "case while_true f b s of None \<Rightarrow> \<not> ends | Some (r, t) \<Rightarrow> P t"
    proof (cases "f b s")
      case None
      then show ?thesis using keeping_None[OF turn s] by (subst while_true.simps) simp
    next
      case (Some y)
      obtain r t where y: "y = (r, t)" by (cases y)
      have t: "P t" using keepingD[OF turn s] Some y by simp
      consider e where "r = Inl e" | c where "r = Inr (Inl c)" | b' where "r = Inr (Inr b')"
        by (metis sum.exhaust)
      then show ?thesis
      proof cases
        case (3 b')
        then have "keeping ends P (while_true f b')" using less.hyps smaller[OF less.prems s] Some y by blast
        then show ?thesis using 3 Some y t by (subst while_true.simps) (simp add: keeping_def)
      qed (use Some y t in \<open>subst while_true.simps, simp\<close>)+
    qed
  qed
qed

lemma while_true_keeps:
  fixes f :: "'b \<Rightarrow> ('s, 'c + 'b) process" and P :: "'s \<Rightarrow> bool"
  assumes "while_true f b s = Some y"
  shows "P s \<longrightarrow> (\<forall>b. keeping False P (f b)) \<longrightarrow> P (snd y)"
  using assms
proof (rule while_true.raw_induct[where P = "\<lambda>f b s y. P s \<longrightarrow> (\<forall>b. keeping False P (f b)) \<longrightarrow> P (snd y)", rotated])
  fix g and f :: "'b \<Rightarrow> ('s, 'c + 'b) process" and b s y
  assume ih: "\<And>f b s y. g f b s = Some y \<Longrightarrow> P s \<longrightarrow> (\<forall>b. keeping False P (f b)) \<longrightarrow> P (snd y)"
    and run: "(case f b s of None \<Rightarrow> None | Some (Inl e, t) \<Rightarrow> Some (Inl e, t)
               | Some (Inr (Inl c), t) \<Rightarrow> Some (Inr c, t) | Some (Inr (Inr b'), t) \<Rightarrow> g f b' t) = Some y"
  show "P s \<longrightarrow> (\<forall>b. keeping False P (f b)) \<longrightarrow> P (snd y)"
  proof (intro impI)
    assume "P s" and turns: "\<forall>b. keeping False P (f b)"
    then have turn: "\<And>r t. f b s = Some (r, t) \<Longrightarrow> P t" using keepingD[OF spec[OF turns]] by blast
    from run obtain r t where m: "f b s = Some (r, t)" by (auto split: option.splits)
    consider e where "r = Inl e" | c where "r = Inr (Inl c)" | b' where "r = Inr (Inr b')" by (metis sum.exhaust)
    then show "P (snd y)"
    proof cases
      case (3 b')
      then have "g f b' t = Some y" using run m by simp
      then show ?thesis using ih turn[OF m] turns by blast
    qed (use run m turn[OF m] in auto)
  qed
qed

lemma keeping_while_true: "(\<And>b. keeping False P (f b)) \<Longrightarrow> keeping False P (while_true f b)"
  by (rule keepingI) (use while_true_keeps[of f b _ _ P] in \<open>force split: option.split\<close>)

lemma keeping_finally:
  "keeping ends P m \<Longrightarrow> (\<And>s. P s \<Longrightarrow> P (f s)) \<Longrightarrow> keeping ends P (finally_do m f)"
  by (auto simp: keeping_def finally_do_def split: option.splits)

end
