(* ===== verification/Iso_Time.thy ===== *)
theory Iso_Time
  imports Session_Text
begin

text \<open>
  \<open>datetime.fromisoformat\<close>: the parser of the standard library, over the UTF-8 bytes of the text,
  with its three date forms, its tolerance of missing separators and its range checks; UTC
  instants in microseconds since the first day of year 1, and the range they lie in.
\<close>

definition byte_at :: "bytes \<Rightarrow> nat \<Rightarrow> nat" where
  "byte_at b i = (if i < length b then b ! i else 0)"

definition digit_byte :: "nat \<Rightarrow> bool" where
  "digit_byte c \<longleftrightarrow> 48 \<le> c \<and> c \<le> 57"

text \<open>\<open>k\<close> digits from \<open>i\<close> on.\<close>

fun digits_at :: "bytes \<Rightarrow> nat \<Rightarrow> nat \<Rightarrow> nat \<Rightarrow> nat option" where
  "digits_at b i 0 acc = Some acc"
| "digits_at b i (Suc k) acc =
     (if digit_byte (byte_at b i) then digits_at b (Suc i) k (acc * 10 + (byte_at b i - 48)) else None)"

section \<open>The calendar\<close>

definition leap :: "int \<Rightarrow> bool" where
  "leap y \<longleftrightarrow> y mod 4 = 0 \<and> (y mod 100 \<noteq> 0 \<or> y mod 400 = 0)"

definition month_days :: "int \<Rightarrow> int \<Rightarrow> int" where
  "month_days y m =
     (if m = 2 then (if leap y then 29 else 28) else if m \<in> {4, 6, 9, 11} then 30 else 31)"

definition before_year :: "int \<Rightarrow> int" where
  "before_year y = (let p = y - 1 in p * 365 + p div 4 - p div 100 + p div 400)"

definition ordinal_of :: "int \<Rightarrow> int \<Rightarrow> int \<Rightarrow> int" where
  "ordinal_of y m d = before_year y + sum_list (map (month_days y) [1..m - 1]) + d"

definition MAX_ORDINAL :: int where "MAX_ORDINAL = 3652059"

text \<open>The first Monday of the ISO year.\<close>

definition week1_monday :: "int \<Rightarrow> int" where
  "week1_monday y =
     (let first = ordinal_of y 1 1; w = (first + 6) mod 7 in
      first - w + (if w > 3 then 7 else 0))"

definition week_ok :: "int \<Rightarrow> int \<Rightarrow> bool" where
  "week_ok y w \<longleftrightarrow>
     1 \<le> w \<and> w \<le> 52 \<or>
     w = 53 \<and> (let f = (ordinal_of y 1 1 + 6) mod 7 in f = 3 \<or> f = 2 \<and> leap y)"

section \<open>The text\<close>

fun digit_run :: "bytes \<Rightarrow> nat \<Rightarrow> nat \<Rightarrow> nat" where
  "digit_run b i 0 = i"
| "digit_run b i (Suc k) = (if digit_byte (byte_at b i) then digit_run b (Suc i) k else i)"

text \<open>Where the date ends.\<close>

definition separator_at :: "bytes \<Rightarrow> nat option" where
  "separator_at b =
     (let n = length b in
      if n = 7 then Some 7
      else if byte_at b 4 = 45 then
        (if byte_at b 5 = 87 then
           (if n < 8 then None
            else if 8 < n \<and> byte_at b 8 = 45 then
              (if n = 9 then None else if 10 < n \<and> digit_byte (byte_at b 10) then Some 8 else Some 10)
            else Some 8)
         else Some 10)
      else if byte_at b 4 = 87 then
        (let i = digit_run b 7 (n - 7) in if i < 9 then Some i else if i mod 2 = 0 then Some 7 else Some 8)
      else Some 8)"

text \<open>The ordinal of the date in the first \<open>n\<close> bytes.\<close>

definition week_date :: "bytes \<Rightarrow> nat \<Rightarrow> nat \<Rightarrow> bool \<Rightarrow> int \<Rightarrow> int option" where
  "week_date b n p dashes y =
     (case digits_at b p 2 0 of
        None \<Rightarrow> None
      | Some w \<Rightarrow>
          (let day =
             (if \<not> p + 2 < n then Some 1
              else if dashes \<and> byte_at b (p + 2) \<noteq> 45 then None
              else map_option int (digits_at b (p + 2 + (if dashes then 1 else 0)) 1 0)) in
           case day of
             None \<Rightarrow> None
           | Some d \<Rightarrow>
               if 1 \<le> y \<and> week_ok y (int w) \<and> 1 \<le> d \<and> d \<le> 7
               then Some (week1_monday y + (int w - 1) * 7 + d - 1) else None))"

definition plain_date :: "bytes \<Rightarrow> nat \<Rightarrow> bool \<Rightarrow> int \<Rightarrow> int option" where
  "plain_date b p dashes y =
     (case digits_at b p 2 0 of
        None \<Rightarrow> None
      | Some m \<Rightarrow>
          if dashes \<and> byte_at b (p + 2) \<noteq> 45 then None
          else
            (case digits_at b (p + 2 + (if dashes then 1 else 0)) 2 0 of
               None \<Rightarrow> None
             | Some d \<Rightarrow>
                 if 1 \<le> y \<and> 1 \<le> m \<and> m \<le> 12 \<and> 1 \<le> d \<and> int d \<le> month_days y (int m)
                 then Some (ordinal_of y (int m) (int d)) else None))"

definition date_at :: "bytes \<Rightarrow> nat \<Rightarrow> int option" where
  "date_at b n =
     (case digits_at b 0 4 0 of
        None \<Rightarrow> None
      | Some y \<Rightarrow>
          (let dashes = byte_at b 4 = 45; p = (if dashes then 5 else 4);
               day = (if byte_at b p = 87 then week_date b n (p + 1) dashes (int y) else plain_date b p dashes (int y)) in
           case day of
             None \<Rightarrow> None
           | Some i \<Rightarrow> if 1 \<le> i \<and> i \<le> MAX_ORDINAL then Some i else None))"

text \<open>The fraction from \<open>p\<close> on, and whether bytes are left.\<close>

definition fraction :: "bytes \<Rightarrow> nat \<Rightarrow> nat \<Rightarrow> (nat \<times> bool) option" where
  "fraction b p e =
     (let k = min 6 (e - p) in
      case digits_at b p k 0 of
        None \<Rightarrow> None
      | Some f \<Rightarrow> Some (f * 10 ^ (6 - k), byte_at b (digit_run b (p + k) (length b)) \<noteq> 0))"

text \<open>\<open>hh[:mm[:ss[.ff]]]\<close>: seconds are the last of at most three pairs; \<open>left\<close> counts the pairs
  that may still come.\<close>

fun clock_at :: "bytes \<Rightarrow> nat \<Rightarrow> nat \<Rightarrow> nat \<Rightarrow> bool \<Rightarrow> nat list \<Rightarrow> (nat list \<times> nat \<times> bool) option" where
  "clock_at b p e 0 sep vs = map_option (\<lambda>(f, rest). (vs, f, rest)) (fraction b p e)"
| "clock_at b p e (Suc left) sep vs =
     (case digits_at b p 2 0 of
        None \<Rightarrow> None
      | Some v \<Rightarrow>
          (let c = byte_at b (p + 2); sep' = (if vs = [] then c = 58 else sep); ws = vs @ [v] in
           if e \<le> p + 3 then Some (ws, 0, c \<noteq> 0)
           else if sep' \<and> c = 58 then clock_at b (p + 3) e left sep' ws
           else if c = 46 \<or> c = 44 then map_option (\<lambda>(f, rest). (ws, f, rest)) (fraction b (p + 3) e)
           else if \<not> sep' then clock_at b (p + 2) e left sep' ws
           else None))"

definition nth_or_zero :: "nat list \<Rightarrow> nat \<Rightarrow> nat" where
  "nth_or_zero vs i = (if i < length vs then vs ! i else 0)"

fun zone_start :: "bytes \<Rightarrow> nat \<Rightarrow> nat \<Rightarrow> nat" where
  "zone_start b i 0 = i"
| "zone_start b i (Suc k) = (if byte_at b i \<in> {43, 45, 90} then i else zone_start b (Suc i) k)"

text \<open>Microseconds of the day and the offset from UTC, if one is given.\<close>

definition time_of :: "nat list \<Rightarrow> nat \<Rightarrow> int option" where
  "time_of vs f =
     (let h = nth_or_zero vs 0; m = nth_or_zero vs 1; s = nth_or_zero vs 2 in
      if h \<le> 23 \<and> m \<le> 59 \<and> s \<le> 59 then Some (int ((h * 3600 + m * 60 + s) * 1000000 + f)) else None)"

definition offset_of :: "int \<Rightarrow> nat list \<Rightarrow> nat \<Rightarrow> int option" where
  "offset_of sign vs f =
     (let s = nth_or_zero vs 0 * 3600 + nth_or_zero vs 1 * 60 + nth_or_zero vs 2 in
      if s = 0 then Some 0
      else if s * 1000000 + f < 86400000000 then Some (sign * int (s * 1000000 + f)) else None)"

definition time_at :: "bytes \<Rightarrow> nat \<Rightarrow> (int \<times> int option) option" where
  "time_at b p =
     (let n = length b; z = zone_start b p (n - p) in
      case clock_at b p z 3 True [] of
        None \<Rightarrow> None
      | Some (vs, f, rest) \<Rightarrow>
          (case time_of vs f of
             None \<Rightarrow> None
           | Some t \<Rightarrow>
               if n \<le> z then (if rest then None else Some (t, None))
               else if byte_at b z = 90 then (if byte_at b (z + 1) \<noteq> 0 then None else Some (t, Some 0))
               else
                 (case clock_at b (z + 1) n 3 True [] of
                    Some (ws, g, False) \<Rightarrow>
                      map_option (\<lambda>o'. (t, Some o')) (offset_of (if byte_at b z = 45 then - 1 else 1) ws g)
                  | _ \<Rightarrow> None)))"

text \<open>How many bytes the character at the separator takes.\<close>

definition char_width :: "nat \<Rightarrow> nat" where
  "char_width c = (if c < 0x80 then 1 else if c < 0xE0 then 2 else if c < 0xF0 then 3 else 4)"

definition DAY :: int where "DAY = 86400000000"

text \<open>\<open>datetime.fromisoformat(s)\<close>: local microseconds and the offset of an aware time. A surrogate
  at the separator is read as \<open>T\<close>.\<close>

definition plain_separator :: "pystr \<Rightarrow> pystr" where
  "plain_separator s =
     map (\<lambda>(i, c). if surrogate c \<and> i \<in> {7, 8, 10} then 84 else c) (enumerate 0 s)"

definition fromisoformat :: "pystr \<Rightarrow> (int \<times> int option) option" where
  "fromisoformat s =
     (case utf8_encode (plain_separator s) of
        None \<Rightarrow> None
      | Some b \<Rightarrow>
          if length b < 7 then None
          else
            (case separator_at b of
               None \<Rightarrow> None
             | Some n \<Rightarrow>
                 (case date_at b n of
                    None \<Rightarrow> None
                  | Some day \<Rightarrow>
                      if \<not> n + 1 < length b then Some ((day - 1) * DAY, None)
                      else
                        (case time_at b (n + char_width (byte_at b n)) of
                           None \<Rightarrow> None
                         | Some (t, zone) \<Rightarrow> Some ((day - 1) * DAY + t, zone)))))"

section \<open>Instants\<close>

definition MAX_INSTANT :: int where "MAX_INSTANT = MAX_ORDINAL * DAY"

text \<open>\<open>astimezone(timezone.utc)\<close>: a time outside the calendar raises \<open>OverflowError\<close>.\<close>

definition utc :: "int \<Rightarrow> int \<Rightarrow> exn + int" where
  "utc local zone =
     (let t = local - zone in if 0 \<le> t \<and> t < MAX_INSTANT then Inr t else Inl OverflowError)"

lemma utc_range: "utc local zone = Inr t \<Longrightarrow> 0 \<le> t \<and> t < MAX_INSTANT"
  by (auto simp: utc_def Let_def split: if_splits)

end
