(* ===== verification/Host_Db.thy ===== *)
theory Host_Db
  imports Plugins Process Iso_Time
begin

text \<open>
  \<open>db.py\<close> and the state of the host worker. A method of a database connection, of the provider and
  of a tool handler is a parameter: an action of the world outside the process, which may change it,
  answer anything or raise. \<open>dispatches\<close> is a history that no code reads: it notes each call of the
  provider or of a handler with the effect, the claim and the length of the journal at that moment.
\<close>

section \<open>The world outside\<close>

text \<open>One statement: a public reader with its arguments, \<open>v24.advance\<close>, \<open>v24.command_recover\<close>.\<close>

datatype rpc =
    Read string "json list"
  | Advance json json
  | Recover json pystr int

text \<open>A psycopg2 connection: \<open>cursor\<close>, \<open>execute\<close> and \<open>fetchone()[0]\<close> of a statement, \<open>commit\<close>,
  \<open>rollback\<close> and whether \<open>get_transaction_status\<close> is idle.\<close>

record 'w connection =
  run_statement :: "rpc \<Rightarrow> ('w, json) action"
  commit_work :: "('w, unit) action"
  roll_back :: "('w, unit) action"
  is_idle :: "('w, bool) action"

text \<open>With them the clock, in microseconds of UTC, and the float arithmetic of
  \<open>int(delta.total_seconds() * 1000)\<close>.\<close>

record 'w connections =
  control :: "'w connection"
  service :: "'w connection"
  utc_clock :: "('w, int) action"
  whole_ms :: "int \<Rightarrow> int"

text \<open>\<open>HostDB._call\<close>: a statement that raises is rolled back, and so is a connection that is not idle
  afterwards; what \<open>rollback\<close> raises is dropped, what the last status raises is not.\<close>

definition after_call :: "'w connection \<Rightarrow> (exn + 'a) \<Rightarrow> ('w, 'a) action" where
  "after_call c r =
     (\<lambda>w. case is_idle c w of
        (Inl x, w') \<Rightarrow> (Inl x, w')
      | (Inr b, w') \<Rightarrow> (r, if b then w' else snd (roll_back c w')))"

definition call_on :: "'w connection \<Rightarrow> rpc \<Rightarrow> ('w, json) action" where
  "call_on c q =
     (\<lambda>w. case seq (run_statement c q) (\<lambda>v. seq (commit_work c) (\<lambda>_. pure v)) w of
        (Inr v, w') \<Rightarrow> after_call c (Inr v) w'
      | (Inl x, w') \<Rightarrow> after_call c (Inl x) (snd (roll_back c w')))"

text \<open>Reads and recoveries use the control connection, claims and settlements the service login.\<close>

definition execute :: "'w connections \<Rightarrow> rpc \<Rightarrow> ('w, json) action" where
  "execute cs q = (case q of Advance _ _ \<Rightarrow> call_on (service cs) q | _ \<Rightarrow> call_on (control cs) q)"

definition both_idle :: "'w connections \<Rightarrow> ('w, bool) action" where
  "both_idle cs =
     seq (is_idle (control cs)) (\<lambda>b. if b then is_idle (service cs) else pure False)"

record prepared_call =
  pc_body :: json
  pc_tool_map :: json
  pc_messages :: "json list"
  pc_reserve_tokens :: int
  pc_max_tokens :: int
  pc_estimate :: int

definition to_journal :: "prepared_call \<Rightarrow> json" where
  "to_journal p =
     JObj [(lit ''body'', pc_body p), (lit ''tool_map'', pc_tool_map p),
           (lit ''reserve_tokens'', JInt (pc_reserve_tokens p)), (lit ''max_tokens'', JInt (pc_max_tokens p)),
           (lit ''estimate'', JInt (pc_estimate p))]"

text \<open>A provider adapter, as the worker uses it: \<open>int(timeout_s * 1000)\<close>, \<open>lease_ms(timeout_s)\<close>
  and its four methods.\<close>

record 'w provider =
  wait_ms :: int
  wanted_lease :: int
  preflight :: "('w, json option) action"
  build_call :: "json \<Rightarrow> json list \<Rightarrow> json list \<Rightarrow> ('w, prepared_call) action"
  send_call :: "prepared_call \<Rightarrow> ('w, int \<times> bytes \<times> int) action"
  interpret_reply :: "prepared_call \<Rightarrow> int \<Rightarrow> bytes \<Rightarrow> int \<Rightarrow> ('w, json) action"

text \<open>What a handler returns: a tuple of two, or another value.\<close>

datatype handler_answer = Two json json | One json

record 'w host_env =
  connections :: "'w connections"
  adapter :: "'w provider option"
  tool_handler :: "(json \<Rightarrow> ('w, handler_answer) action) option"
  resource_handler :: "(json \<Rightarrow> ('w, handler_answer) action) option"
  default_lease_ms :: int
  crash_after :: "string option"
  recover_key_prefix :: pystr
  random_hex :: "('w, pystr) action"
  disk_write :: "bytes \<Rightarrow> 'w \<Rightarrow> write_answer \<times> 'w"
  str_of :: "json \<Rightarrow> pystr"
  exotic_uuid :: "pystr \<Rightarrow> int option"

section \<open>The state of the worker\<close>

record 'w host_state =
  hjournal :: journal
  outside :: 'w
  rpc_log :: "string list"
  dispatches :: "(nat \<times> pystr \<times> json) list"
  recover_seq :: nat
  next_scope_after :: "pystr option"
  fair_cursors :: "pystr \<times> string \<Rightarrow> (int \<times> nat) option"
  host_streak :: "pystr \<Rightarrow> nat option"
  resume_cursor :: "pystr \<Rightarrow> (int \<times> pystr) option"
  scope_journal_ids :: "pystr \<Rightarrow> pystr list"
  attempted :: "pystr list"
  fair_active :: bool

type_synonym ('w, 'a) worker = "('w host_state, 'a) process"

definition host_worker :: "'w host_env \<Rightarrow> journal \<Rightarrow> 'w \<Rightarrow> exn + 'w host_state" where
  "host_worker e j w =
     (if crash_after e \<notin> {None, Some ''prepared'', Some ''started'', Some ''finished''} then Inl ValueError
      else Inr \<lparr>hjournal = j, outside = w, rpc_log = [], dispatches = [], recover_seq = 0, next_scope_after = None,
                fair_cursors = (\<lambda>_. None), host_streak = (\<lambda>_. None), resume_cursor = (\<lambda>_. None),
                scope_journal_ids = (\<lambda>_. []), attempted = [], fair_active = False\<rparr>)"

text \<open>A call of the world outside.\<close>

definition outer :: "('w, 'a) action \<Rightarrow> ('w, 'a) worker" where
  "outer m = acting (zoom outside (\<lambda>w s. s\<lparr>outside := w\<rparr>) m)"

definition note_rpc :: "string \<Rightarrow> ('w, unit) worker" where
  "note_rpc name = change (\<lambda>s. s\<lparr>rpc_log := rpc_log s @ [name]\<rparr>)"

definition note_dispatch :: "pystr \<Rightarrow> json \<Rightarrow> ('w, unit) worker" where
  "note_dispatch i token =
     change (\<lambda>s. s\<lparr>dispatches := dispatches s @ [(length (jrecords (hjournal s)), i, token)]\<rparr>)"

section \<open>The client of the database\<close>

text \<open>\<open>_READS\<close> and \<open>_READ_ARGS\<close>: the public readers and the names of their arguments.\<close>

definition READ_ARGS :: "(string \<times> string list) list" where
  "READ_ARGS =
     [(''host_scopes'', [''p_scope'', ''p_after'', ''p_limit'']),
      (''host_runs'', [''p_scope'', ''p_after_created_at'', ''p_after_run_id'', ''p_limit'']),
      (''host_effects'', [''p_scope'', ''p_after_created_at'', ''p_after_effect_id'', ''p_limit'']),
      (''host_run_effects'', [''p_run'', ''p_after_created_at'', ''p_after_effect_id'', ''p_limit'']),
      (''host_effect'', [''p_effect'']),
      (''host_scope_installs'', [''p_scope'', ''p_after'', ''p_limit'']),
      (''host_install_fibers'', [''p_install'', ''p_after'', ''p_limit'']),
      (''host_run_pins'', [''p_run'', ''p_after'', ''p_limit'']),
      (''host_request'', [''p_request_key''])]"

definition db_read :: "'w host_env \<Rightarrow> string \<Rightarrow> (string \<times> json) list \<Rightarrow> ('w, json) worker" where
  "db_read e name kwargs =
     (case map_of READ_ARGS name of
        None \<Rightarrow> abort (HostContractError ''not a public host read'')
      | Some args \<Rightarrow>
          chain (outer (execute (connections e)
                   (Read name (map (\<lambda>a. case map_of kwargs a of None \<Rightarrow> JNull | Some v \<Rightarrow> v) args)))) (\<lambda>v.
          chain (note_rpc name) (\<lambda>_.
          chain (insist (is_dict v) (HostContractError ''did not return an envelope'')) (\<lambda>_.
          give v))))"

definition db_host_scopes :: "'w host_env \<Rightarrow> json \<Rightarrow> json \<Rightarrow> ('w, json) worker" where
  "db_host_scopes e scope previous =
     db_read e ''host_scopes'' [(''p_scope'', scope), (''p_after'', previous), (''p_limit'', JInt 64)]"

definition db_host_effects :: "'w host_env \<Rightarrow> json \<Rightarrow> json \<Rightarrow> json \<Rightarrow> ('w, json) worker" where
  "db_host_effects e scope created effect =
     db_read e ''host_effects''
       [(''p_scope'', scope), (''p_after_created_at'', created), (''p_after_effect_id'', effect),
        (''p_limit'', JInt 64)]"

definition db_host_runs :: "'w host_env \<Rightarrow> json \<Rightarrow> json \<Rightarrow> json \<Rightarrow> json \<Rightarrow> ('w, json) worker" where
  "db_host_runs e scope created run_id n =
     db_read e ''host_runs''
       [(''p_scope'', scope), (''p_after_created_at'', created), (''p_after_run_id'', run_id), (''p_limit'', n)]"

definition db_host_run_effects :: "'w host_env \<Rightarrow> json \<Rightarrow> json \<Rightarrow> json \<Rightarrow> json \<Rightarrow> ('w, json) worker" where
  "db_host_run_effects e run_id created effect n =
     db_read e ''host_run_effects''
       [(''p_run'', run_id), (''p_after_created_at'', created), (''p_after_effect_id'', effect), (''p_limit'', n)]"

definition db_host_scope_installs :: "'w host_env \<Rightarrow> json \<Rightarrow> json \<Rightarrow> json \<Rightarrow> ('w, json) worker" where
  "db_host_scope_installs e scope previous n =
     db_read e ''host_scope_installs'' [(''p_scope'', scope), (''p_after'', previous), (''p_limit'', n)]"

definition db_host_install_fibers :: "'w host_env \<Rightarrow> json \<Rightarrow> json \<Rightarrow> json \<Rightarrow> ('w, json) worker" where
  "db_host_install_fibers e install previous n =
     db_read e ''host_install_fibers'' [(''p_install'', install), (''p_after'', previous), (''p_limit'', n)]"

definition db_host_request :: "'w host_env \<Rightarrow> json \<Rightarrow> ('w, json) worker" where
  "db_host_request e key = db_read e ''host_request'' [(''p_request_key'', key)]"

definition db_host_effect :: "'w host_env \<Rightarrow> json \<Rightarrow> ('w, json) worker" where
  "db_host_effect e effect = db_read e ''host_effect'' [(''p_effect'', effect)]"

definition db_host_run_pins :: "'w host_env \<Rightarrow> json \<Rightarrow> json \<Rightarrow> ('w, json) worker" where
  "db_host_run_pins e run_id previous =
     db_read e ''host_run_pins'' [(''p_run'', run_id), (''p_after'', previous), (''p_limit'', JInt 64)]"

definition db_claim :: "'w host_env \<Rightarrow> json \<Rightarrow> int \<Rightarrow> ('w, json) worker" where
  "db_claim e effect_id lease =
     chain (outer (execute (connections e) (Advance effect_id
       (JObj [(lit ''v'', JInt 1), (lit ''class'', jstr ''claim''), (lit ''claim'', JNull),
              (lit ''body'', JObj [(lit ''lease_ms'', JInt lease)])])))) (\<lambda>v.
     chain (note_rpc ''advance'') (\<lambda>_. give v))"

definition db_settle :: "'w host_env \<Rightarrow> json \<Rightarrow> json \<Rightarrow> json \<Rightarrow> json \<Rightarrow> json \<Rightarrow> ('w, json) worker" where
  "db_settle e effect_id cls token kd res =
     chain (insist (cls \<in> {jstr ''success'', jstr ''failure'', jstr ''unknown''})
              (HostContractError ''invalid outcome class'')) (\<lambda>_.
     chain (outer (execute (connections e) (Advance effect_id
       (JObj [(lit ''v'', JInt 1), (lit ''class'', cls), (lit ''claim'', token),
              (lit ''body'', JObj [(lit ''kind'', kd), (lit ''result'', res)])])))) (\<lambda>v.
     chain (note_rpc ''advance'') (\<lambda>_. give v)))"

definition db_recover :: "'w host_env \<Rightarrow> json \<Rightarrow> pystr \<Rightarrow> ('w, json) worker" where
  "db_recover e scope key =
     chain (outer (execute (connections e) (Recover scope key 16))) (\<lambda>v.
     chain (note_rpc ''command_recover'') (\<lambda>_. give v))"

definition assert_all_idle :: "'w host_env \<Rightarrow> ('w, unit) worker" where
  "assert_all_idle e =
     chain (outer (both_idle (connections e))) (\<lambda>b.
     insist b (HostContractError ''connection is not IDLE before external I/O''))"

text \<open>A naive time is UTC; text that is no time, and what is not text, has no lease left.\<close>

definition remaining_lease_ms :: "'w host_env \<Rightarrow> json \<Rightarrow> ('w, int) worker" where
  "remaining_lease_ms e lease_until =
     (case (if is_str lease_until then fromisoformat (the_str lease_until) else None) of
        None \<Rightarrow> give 0
      | Some (t, zone) \<Rightarrow>
          chain (outer (utc_clock (connections e))) (\<lambda>now.
          give (whole_ms (connections e) (t - (case zone of None \<Rightarrow> 0 | Some z \<Rightarrow> z) - now))))"

end
