(* ===== verification/Worker.thy ===== *)
theory Worker
  imports Host_Db
begin

text \<open>
  \<open>worker.py\<close>, the execution of one claimed effect: the history replayed from the journal, the
  journal records around a dispatch, the dispatch itself and its settlement. Every function is a
  process over the worker's state; a record is durable before the next statement runs.
\<close>

section \<open>Values\<close>

abbreviation field :: "json \<Rightarrow> string \<Rightarrow> ('w, json) worker" where
  "field v k \<equiv> outcome_of (attr v k)"

abbreviation entry :: "json \<Rightarrow> string \<Rightarrow> ('w, json) worker" where
  "entry v k \<equiv> outcome_of (subscript v k)"

definition HOST_KINDS :: "json list" where
  "HOST_KINDS = [jstr ''host_prepare'', jstr ''host_release'', jstr ''inspect_resource'']"

definition EXTERNAL_KINDS :: "json list" where
  "EXTERNAL_KINDS = HOST_KINDS @ [jstr ''model_call'', jstr ''tool_call'']"

definition is_one_of :: "json \<Rightarrow> json list \<Rightarrow> bool" where
  "is_one_of v vs \<longleftrightarrow> list_ex (py_eq v) vs"

definition or_dict :: "json \<Rightarrow> json" where
  "or_dict v = (if truthy v then v else JObj [])"

text \<open>\<open>base64.b64encode\<close>\<close>

definition base64_char :: "nat \<Rightarrow> nat" where
  "base64_char i =
     (if i < 26 then 65 + i else if i < 52 then 71 + i else if i < 62 then i - 4 else if i = 62 then 43 else 47)"

fun encode_raw :: "bytes \<Rightarrow> pystr" where
  "encode_raw (a # b # c # r) =
     map base64_char [a div 4, a mod 4 * 16 + b div 16, b mod 16 * 4 + c div 64, c mod 64] @ encode_raw r"
| "encode_raw [a, b] = map base64_char [a div 4, a mod 4 * 16 + b div 16, b mod 16 * 4] @ [61]"
| "encode_raw [a] = map base64_char [a div 4, a mod 4 * 16] @ [61, 61]"
| "encode_raw [] = []"

definition claim_token :: "json \<Rightarrow> exn + json" where
  "claim_token effect =
     andthen (subscript effect ''attempt_no'') (\<lambda>a.
     andthen (subscript effect ''fence'') (\<lambda>f.
     andthen (subscript effect ''claim_owner'') (\<lambda>o'.
       Inr (JObj [(lit ''attempt'', a), (lit ''fence'', f), (lit ''owner'', o')]))))"

section \<open>The journal\<close>

definition jhas :: "string \<Rightarrow> json \<Rightarrow> ('w, bool) worker" where
  "jhas event eid = peek (\<lambda>s. is_str eid \<and> has_event (hjournal s) event (the_str eid))"

definition jlast :: "string \<Rightarrow> json \<Rightarrow> ('w, json option) worker" where
  "jlast event eid = peek (\<lambda>s. if is_str eid then last_event (hjournal s) event (the_str eid) else None)"

text \<open>\<open>HostJournal.append\<close> with arguments of any type: what is not a string is refused as an effect or
  a digest; a run that is not a string and a claim that is not a dict fail the last check.\<close>

definition append_ill_typed :: "journal \<Rightarrow> string \<Rightarrow> json \<Rightarrow> json \<Rightarrow> dict \<Rightarrow> exn" where
  "append_ill_typed j event eid digest payload =
     (case steps
        [require (jopen j) (JournalError ''journal is closed''),
         require (lit event \<in> set EVENT_TYPES) (JournalCorrupt ''unknown event_type''),
         require (the_str eid \<noteq> []) (JournalError ''effect_id is required''),
         require (is_digest (the_str digest)) (JournalError ''request_digest must be 64 lowercase hex characters''),
         scan_secrets (JObj payload)] of
        Inl x \<Rightarrow> x
      | Inr _ \<Rightarrow> JournalCorrupt ''invalid run_id or claim'')"

definition some_text :: "json \<Rightarrow> pystr option" where
  "some_text v = (if is_str v then Some (the_str v) else None)"

definition some_dict :: "json \<Rightarrow> dict option" where
  "some_dict v = (if is_dict v then Some (items v) else None)"

definition journal_append :: "'w host_env \<Rightarrow> string \<Rightarrow> json \<Rightarrow> json \<Rightarrow> dict \<Rightarrow> json \<Rightarrow> json \<Rightarrow> ('w, json) worker" where
  "journal_append e event eid digest payload run_id claim =
     (\<lambda>s. let j = hjournal s in
        if run_id \<noteq> JNull \<and> \<not> is_str run_id \<or> claim \<noteq> JNull \<and> \<not> is_dict claim
        then Some (Inl (append_ill_typed j event eid digest payload), s)
        else
          (case prepare_append j (lit event) (the_str eid) (the_str digest) payload (some_text run_id) (some_dict claim) of
             Inl x \<Rightarrow> Some (Inl x, s)
           | Inr (_, line) \<Rightarrow>
               (case disk_write e line (outside s) of
                  (answer, w) \<Rightarrow>
                    (case append_record j answer (lit event) (the_str eid) (the_str digest) payload
                            (some_text run_id) (some_dict claim) of
                       (r, j') \<Rightarrow> Some (r, s\<lparr>hjournal := j', outside := w\<rparr>)))))"

definition base_payload :: "json \<Rightarrow> json \<Rightarrow> json \<Rightarrow> dict \<Rightarrow> dict" where
  "base_payload kd request token extra =
     [(lit ''kind'', kd), (lit ''request'', request), (lit ''claim'', token)] @ extra"

definition record_settlement :: "'w host_env \<Rightarrow> json \<Rightarrow> json \<Rightarrow> json \<Rightarrow> json \<Rightarrow> dict \<Rightarrow> ('w, unit) worker" where
  "record_settlement e eid digest run_id token payload =
     chain (jhas ''settlement_committed'' eid) (\<lambda>b.
       if b then give ()
       else chain (journal_append e ''settlement_committed'' eid digest payload run_id token) (\<lambda>_. give ()))"

section \<open>Replay of a run\<close>

record replay =
  seed :: "json option"
  timeline :: "(json option \<times> json) list"
  tool_lists :: "(json \<times> (int \<times> json) list) list"

text \<open>The entries of \<open>tools\<close>, a dict by parent effect.\<close>

fun add_tool :: "json \<Rightarrow> (int \<times> json) list \<Rightarrow> (json \<times> (int \<times> json) list) list \<Rightarrow> (json \<times> (int \<times> json) list) list" where
  "add_tool parent new [] = [(parent, new)]"
| "add_tool parent new ((p, xs) # r) =
     (if p = parent then (p, xs @ new) # r else (p, xs) # add_tool parent new r)"

definition tools_of :: "(json \<times> (int \<times> json) list) list \<Rightarrow> json \<Rightarrow> (int \<times> json) list" where
  "tools_of ts parent = (case map_of ts parent of None \<Rightarrow> [] | Some xs \<Rightarrow> xs)"

definition replay_prepared :: "dict \<Rightarrow> replay \<Rightarrow> replay" where
  "replay_prepared payload r =
     (let s = (if seed r = None \<and> is_list (dget payload ''seed_messages'')
               then Some (dget payload ''seed_messages'') else seed r);
          appended = dget payload ''appended_messages'' in
      r\<lparr>seed := s,
        timeline := timeline r @ (if is_list appended then map (\<lambda>m. (None, m)) (elems appended) else [])\<rparr>)"

definition ordinal_number :: "json \<Rightarrow> int option" where
  "ordinal_number v = (case v of JInt i \<Rightarrow> Some i | JBool b \<Rightarrow> Some (if b then 1 else 0) | _ \<Rightarrow> None)"

definition replay_finished :: "json \<Rightarrow> dict \<Rightarrow> replay \<Rightarrow> replay" where
  "replay_finished eid payload r =
     (if py_eq (dget payload ''kind'') (jstr ''model_call'') \<and> is_dict (dget payload ''assistant_message'')
      then r\<lparr>timeline := timeline r @ [(Some eid, dget payload ''assistant_message'')],
             tool_lists := add_tool eid [] (tool_lists r)\<rparr>
      else if py_eq (dget payload ''kind'') (jstr ''tool_call'') \<and> is_dict (dget payload ''tool_message'')
      then (let parent = dget payload ''parent_effect_id'' in
            case ordinal_number (dget payload ''ordinal'') of
              Some i \<Rightarrow>
                if is_str parent
                then r\<lparr>tool_lists := add_tool parent [(i, dget payload ''tool_message'')] (tool_lists r)\<rparr> else r
            | None \<Rightarrow> r)
      else r)"

definition replay_record :: "replay \<Rightarrow> json \<Rightarrow> replay" where
  "replay_record r record =
     (let payload = items (dget (items record) ''payload'') in
      if event_is ''effect_prepared'' record then replay_prepared payload r
      else if event_is ''dispatch_finished'' record then replay_finished (effect_of record) payload r
      else r)"

text \<open>An assistant message is followed by its tool messages in ordinal order; the sort is stable.\<close>

definition placed :: "(json \<times> (int \<times> json) list) list \<Rightarrow> json option \<times> json \<Rightarrow> json list" where
  "placed ts item =
     (case item of
        (None, message) \<Rightarrow> [message]
      | (Some eid, message) \<Rightarrow> message # map snd (sort_key fst (tools_of ts eid)))"

definition run_records :: "journal \<Rightarrow> json \<Rightarrow> json list" where
  "run_records j run_id = filter (\<lambda>r. py_eq (dget (items r) ''run_id'') run_id) (jrecords j)"

definition replay_history :: "journal \<Rightarrow> json \<Rightarrow> json list" where
  "replay_history j run_id =
     (let r = foldl replay_record \<lparr>seed = None, timeline = [], tool_lists = []\<rparr> (run_records j run_id) in
      (case seed r of None \<Rightarrow> [] | Some m \<Rightarrow> elems m) @ concat (map (placed (tool_lists r)) (timeline r)))"

section \<open>Parents and pins\<close>

text \<open>\<open>_parent_tool_call\<close>: the call of the assistant message, or of the provider's own list.\<close>

definition nth_call :: "json \<Rightarrow> int \<Rightarrow> json option" where
  "nth_call calls i =
     (if is_list calls \<and> 0 \<le> i \<and> i < int (length (elems calls)) then Some (elems calls ! nat i) else None)"

definition explicit_call :: "json \<Rightarrow> json option" where
  "explicit_call item =
     (if is_dict item \<and> is_str (dget (items item) ''provider_id'')
      then Some (JObj [(lit ''id'', dget (items item) ''provider_id''),
                       (lit ''name'', dget (items item) ''provider_name''),
                       (lit ''arguments'', dget (items item) ''arguments'')])
      else None)"

definition parent_tool_call :: "json \<Rightarrow> ('w, json option) worker" where
  "parent_tool_call effect =
     chain (field effect ''parent_effect_id'') (\<lambda>parent_id.
     chain (field effect ''ordinal'') (\<lambda>n.
       if \<not> is_str parent_id \<or> \<not> is_int n then give None
       else
         chain (jlast ''dispatch_finished'' parent_id) (\<lambda>finish.
           case finish of
             None \<Rightarrow> give None
           | Some record \<Rightarrow>
               let payload = items (dget (items record) ''payload'');
                   assistant = dget payload ''assistant_message'';
                   calls = (if is_dict assistant then dget (items assistant) ''tool_calls'' else JNull) in
               (case nth_call calls (the_int n) of
                  Some c \<Rightarrow> give (Some c)
                | None \<Rightarrow>
                    give (case nth_call (dget payload ''tool_calls'') (the_int n) of
                            None \<Rightarrow> None | Some item \<Rightarrow> explicit_call item)))))"

text \<open>\<open>_fair_envelope\<close>, \<open>_fair_page\<close>, \<open>_uuid_text\<close>\<close>

definition fair_envelope :: "json \<Rightarrow> exn + unit" where
  "fair_envelope response =
     (let err = dget (items response) ''error'' in
      if \<not> is_dict response \<or> dget (items response) ''v'' \<noteq> JInt 1 then Inl (HostContractError ''malformed envelope'')
      else if \<not> has (items response) ''error'' then Inr ()
      else if \<not> is_error response \<or> \<not> is_str (dget (items err) ''code'')
      then Inl (HostContractError ''malformed error'')
      else Inl (HostDBError (the_str (dget (items err) ''code''))))"

definition fair_page :: "json \<Rightarrow> exn + json list" where
  "fair_page response =
     andthen (fair_envelope response) (\<lambda>_.
       let d = items response in
       if \<not> keys_are d [''v'', ''items'', ''limit'', ''has_more'', ''next_cursor'']
          \<or> \<not> is_list (dget d ''items'') \<or> 64 < length (elems (dget d ''items''))
          \<or> \<not> is_bool (dget d ''has_more'') \<or> dget d ''limit'' \<noteq> JInt 64
          \<or> dget d ''has_more'' = JBool False \<and> dget d ''next_cursor'' \<noteq> JNull
       then Inl (HostContractError ''malformed page'') else Inr (elems (dget d ''items'')))"

definition uuid_number :: "'w host_env \<Rightarrow> json \<Rightarrow> exn + nat" where
  "uuid_number e v = valid_uuid (exotic_uuid e) v"

text \<open>The pins of a run. Outside the fair loop a page is believed; inside it must be well formed and
  its identifiers must increase, or the read fails.\<close>

fun check_pins :: "'w host_env \<Rightarrow> nat option \<Rightarrow> json list \<Rightarrow> exn + nat option" where
  "check_pins e previous [] = Inr previous"
| "check_pins e previous (pin # rest) =
     (case andthen (subscript pin ''pin_id'') (uuid_number e) of
        Inl _ \<Rightarrow> Inl (HostContractError ''host_run_pins malformed identity'')
      | Inr key \<Rightarrow>
          if (case previous of None \<Rightarrow> False | Some p \<Rightarrow> key \<le> p)
          then Inl (HostContractError ''host_run_pins unordered page'') else check_pins e (Some key) rest)"

definition pin_cursor_ok :: "json \<Rightarrow> nat option \<Rightarrow> bool" where
  "pin_cursor_ok cursor previous \<longleftrightarrow>
     (case previous of None \<Rightarrow> False | Some p \<Rightarrow> py_eq cursor (JObj [(lit ''pin_id'', JStr (uuid_text p))]))"

text \<open>What the fair loop checks of the cursor of a page with \<open>has_more\<close>.\<close>

definition check_pin_page :: "'w host_env \<Rightarrow> json \<Rightarrow> json \<Rightarrow> exn + unit" where
  "check_pin_page e cursor response =
     andthen (fair_page response) (\<lambda>page.
     andthen (if cursor = JNull then Inr None
              else andthen (subscript cursor ''pin_id'') (\<lambda>c. andthen (uuid_int (exotic_uuid e) (the_str c)) (\<lambda>n. Inr (Some n)))) (\<lambda>previous.
     andthen (check_pins e previous page) (\<lambda>lastkey.
       let d = items response in
       if truthy (dget d ''has_more'') \<and> (page = [] \<or> \<not> pin_cursor_ok (dget d ''next_cursor'') lastkey)
       then Inl (HostContractError ''host_run_pins cursor mismatch'') else Inr ())))"

definition check_next_pin :: "'w host_env \<Rightarrow> json \<Rightarrow> json \<Rightarrow> exn + unit" where
  "check_next_pin e cursor nxt =
     (if \<not> is_dict nxt \<or> \<not> keys_are (items nxt) [''pin_id''] then Inl (HostContractError ''host_run_pins cursor'')
      else
        (case andthen (uuid_number e (dget (items nxt) ''pin_id'')) (\<lambda>n.
                if cursor = JNull then Inr (n, None)
                else andthen (uuid_number e (dget (items cursor) ''pin_id'')) (\<lambda>p. Inr (n, Some p))) of
           Inl _ \<Rightarrow> Inl (HostContractError ''host_run_pins cursor'')
         | Inr (n, Some p) \<Rightarrow>
             if n \<le> p then Inl (HostContractError ''host_run_pins cursor did not advance'') else Inr ()
         | Inr (n, None) \<Rightarrow> Inr ()))"

definition unreleased :: "json \<Rightarrow> exn + bool" where
  "unreleased pin = andthen (attr pin ''released_at'') (\<lambda>v. Inr (v = JNull))"

fun keep_where :: "(json \<Rightarrow> exn + bool) \<Rightarrow> json list \<Rightarrow> exn + json list" where
  "keep_where f [] = Inr []"
| "keep_where f (x # xs) = andthen (f x) (\<lambda>b. andthen (keep_where f xs) (\<lambda>r. Inr (if b then x # r else r)))"

definition pins_turn :: "'w host_env \<Rightarrow> json \<Rightarrow> json \<times> json list \<Rightarrow> ('w, json list option + (json \<times> json list)) worker" where
  "pins_turn e run_id = (\<lambda>(cursor, pins).
     chain (if cursor = JNull then give JNull else entry cursor ''pin_id'') (\<lambda>previous.
     chain (db_host_run_pins e run_id previous) (\<lambda>response.
     chain (peek fair_active) (\<lambda>fair.
     chain (if fair then outcome_of (check_pin_page e cursor response) else give ()) (\<lambda>_.
       if is_error response then give (Inl None)
       else
         chain (outcome_of (iterate (dget_or (items response) ''items'' (JArr [])))) (\<lambda>page.
         chain (outcome_of (keep_where unreleased page)) (\<lambda>live.
           if \<not> truthy (dget (items response) ''has_more'') then give (Inl (Some (pins @ live)))
           else
             chain (entry response ''next_cursor'') (\<lambda>nxt.
             chain (if fair then outcome_of (check_next_pin e cursor nxt) else give ()) (\<lambda>_.
               if \<not> is_dict nxt then give (Inl None) else give (Inr (nxt, pins @ live)))))))))))"

definition run_pins :: "'w host_env \<Rightarrow> json \<Rightarrow> ('w, json list option) worker" where
  "run_pins e run_id = while_true (pins_turn e run_id) (JNull, [])"

section \<open>Settlement\<close>

text \<open>\<open>_fair_settle_response\<close>\<close>

definition fair_settle_response :: "(json \<Rightarrow> pystr) \<Rightarrow> json \<Rightarrow> json \<Rightarrow> exn + bool" where
  "fair_settle_response shown response effect_id =
     (let d = items response in
      if is_error response \<and> is_one_of (dget (items (dget d ''error'')) ''code'') [jstr ''receipt_conflict'', jstr ''stale_claim'']
      then andthen (fair_envelope (JObj [(lit ''v'', dget d ''v'')])) (\<lambda>_. Inr False)
      else
        andthen (fair_envelope response) (\<lambda>_.
          if \<not> is_one_of (dget d ''disposition'') [jstr ''committed'', jstr ''replay'']
             \<or> py_str shown (dget d ''effect_id'') \<noteq> py_str shown effect_id
             \<or> \<not> is_list (dget d ''emitted'') \<or> \<not> is_int (dget d ''revision'')
          then Inl (HostContractError ''malformed settlement response'') else Inr True))"

definition settle :: "'w host_env \<Rightarrow> json \<Rightarrow> json \<Rightarrow> json \<Rightarrow> json \<Rightarrow> json \<Rightarrow> json \<Rightarrow> json \<Rightarrow> json \<Rightarrow> ('w, bool) worker" where
  "settle e effect_id run_id token digest kd cls res outcome =
     chain (peek fair_active) (\<lambda>fair.
     chain (jhas ''dispatch_finished'' effect_id) (\<lambda>finished.
     chain (if fair \<and> \<not> finished
            then chain (journal_append e ''dispatch_finished'' effect_id digest
                   [(lit ''kind'', kd), (lit ''outcome'', outcome), (lit ''no_io'', JBool True)] run_id token) (\<lambda>_. give ())
            else give ()) (\<lambda>_.
     chain (db_settle e effect_id cls token kd res) (\<lambda>response.
     chain (assert_all_idle e) (\<lambda>_.
     chain (if fair then outcome_of (fair_settle_response (str_of e) response effect_id) else give True) (\<lambda>accepted.
       if \<not> accepted \<or> is_error response then give False
       else
         chain (journal_append e ''settlement_committed'' effect_id digest
                  [(lit ''outcome'', outcome), (lit ''response'', response)] run_id token) (\<lambda>_.
         give True)))))))"

text \<open>What an execution reports.\<close>

record execution =
  ex_claimed :: bool
  ex_executed :: bool
  ex_dispatched :: bool
  ex_settled :: bool
  ex_reply :: json

definition outcome_record :: "json \<Rightarrow> json \<Rightarrow> json \<Rightarrow> json \<Rightarrow> json" where
  "outcome_record cls token kd res =
     JObj [(lit ''v'', JInt 1), (lit ''class'', cls), (lit ''claim'', token),
           (lit ''body'', JObj [(lit ''kind'', kd), (lit ''result'', res)])]"

definition zero_usage :: json where
  "zero_usage = JObj [(lit ''tokens'', JInt 0), (lit ''wall_ms'', JInt 0)]"

text \<open>An outcome without any dispatch: \<open>_no_http_failure\<close> and \<open>_no_http_unknown\<close>.\<close>

definition local_outcome ::
  "'w host_env \<Rightarrow> string \<Rightarrow> json \<Rightarrow> json \<Rightarrow> json \<Rightarrow> json \<Rightarrow> json \<Rightarrow> json \<Rightarrow> json \<Rightarrow> json \<Rightarrow> bool \<Rightarrow> ('w, execution) worker" where
  "local_outcome e cls effect_id run_id token digest kd why request res journaled =
     chain (if journaled then give ()
            else chain (journal_append e ''effect_prepared'' effect_id digest
                   (base_payload kd request token [(lit ''local_failure'', why)]) run_id token) (\<lambda>_. give ())) (\<lambda>_.
     chain (settle e effect_id run_id token digest kd (jstr cls) res (outcome_record (jstr cls) token kd res)) (\<lambda>settled.
     give \<lparr>ex_claimed = False, ex_executed = True, ex_dispatched = False, ex_settled = settled, ex_reply = JNull\<rparr>))"

definition no_http_failure ::
  "'w host_env \<Rightarrow> json \<Rightarrow> json \<Rightarrow> json \<Rightarrow> json \<Rightarrow> json \<Rightarrow> json \<Rightarrow> json \<Rightarrow> bool \<Rightarrow> ('w, execution) worker" where
  "no_http_failure e effect_id run_id token digest kd why request journaled =
     local_outcome e ''failure'' effect_id run_id token digest kd why (or_dict request)
       (JObj [(lit ''text'', JNull), (lit ''usage'', zero_usage)]) journaled"

definition coded_error_result :: "json \<Rightarrow> json" where
  "coded_error_result code =
     JObj [(lit ''status'', jstr ''error''), (lit ''output'', JObj [(lit ''code'', code)]),
           (lit ''usage'', JObj [(lit ''wall_ms'', JInt 0)])]"

definition unobserved_result :: json where
  "unobserved_result = JObj [(lit ''v'', JInt 1), (lit ''observed'', jstr ''unknown'')]"

definition no_http_unknown ::
  "'w host_env \<Rightarrow> json \<Rightarrow> json \<Rightarrow> json \<Rightarrow> json \<Rightarrow> json \<Rightarrow> json \<Rightarrow> json \<Rightarrow> bool \<Rightarrow> ('w, execution) worker" where
  "no_http_unknown e effect_id run_id token digest kd why request journaled =
     local_outcome e ''unknown'' effect_id run_id token digest kd why (or_dict request)
       (if py_eq kd (jstr ''tool_call'') then coded_error_result why else unobserved_result) journaled"

section \<open>Dispatch\<close>

definition crash_at :: "'w host_env \<Rightarrow> string \<Rightarrow> ('w, unit) worker" where
  "crash_at e point = insist (crash_after e \<noteq> Some point) HostCrash"

text \<open>The two records around a dispatch.\<close>

definition prepare_effect :: "'w host_env \<Rightarrow> json \<Rightarrow> json \<Rightarrow> json \<Rightarrow> json \<Rightarrow> json \<Rightarrow> json \<Rightarrow> dict \<Rightarrow> ('w, unit) worker" where
  "prepare_effect e effect_id run_id token digest kd request extra =
     chain (jhas ''effect_prepared'' effect_id) (\<lambda>b.
       if b then give ()
       else chain (journal_append e ''effect_prepared'' effect_id digest
                     (base_payload kd request token extra) run_id token) (\<lambda>_. give ()))"

definition start_dispatch :: "'w host_env \<Rightarrow> json \<Rightarrow> json \<Rightarrow> json \<Rightarrow> json \<Rightarrow> json \<Rightarrow> json \<Rightarrow> dict \<Rightarrow> ('w, unit) worker" where
  "start_dispatch e effect_id run_id token digest kd request extra =
     chain (journal_append e ''dispatch_started'' effect_id digest
              (base_payload kd request token extra) run_id token) (\<lambda>_.
     chain (assert_all_idle e) (\<lambda>_.
     crash_at e ''started''))"

text \<open>The dispatch itself: a call of the provider or of a handler, noted in the history.\<close>

definition dispatch :: "json \<Rightarrow> json \<Rightarrow> ('w, 'a) action \<Rightarrow> ('w, 'a) worker" where
  "dispatch effect_id token m = chain (note_dispatch (the_str effect_id) token) (\<lambda>_. outer m)"

definition finish_dispatch ::
  "'w host_env \<Rightarrow> json \<Rightarrow> json \<Rightarrow> json \<Rightarrow> json \<Rightarrow> json \<Rightarrow> json \<Rightarrow> json \<Rightarrow> json \<Rightarrow> dict \<Rightarrow> json \<Rightarrow> ('w, execution) worker" where
  "finish_dispatch e effect_id run_id token digest kd request cls res extra reply =
     (let outcome = outcome_record cls token kd res in
      chain (journal_append e ''dispatch_finished'' effect_id digest
               (base_payload kd request token ((lit ''outcome'', outcome) # extra)) run_id token) (\<lambda>_.
      chain (crash_at e ''finished'') (\<lambda>_.
      chain (settle e effect_id run_id token digest kd cls res outcome) (\<lambda>settled.
      give \<lparr>ex_claimed = False, ex_executed = True, ex_dispatched = True, ex_settled = settled, ex_reply = reply\<rparr>))))"

section \<open>Model calls\<close>

text \<open>\<open>mapped\<close> when the provider refused, is uncertain or the connection broke.\<close>

definition mapped_failure :: "string \<Rightarrow> json \<Rightarrow> json \<Rightarrow> json" where
  "mapped_failure cls res why =
     JObj [(lit ''class'', jstr cls), (lit ''result'', res), (lit ''reply'', JNull),
           (lit ''assistant_message'', JNull), (lit ''tool_calls'', JNull), (lit ''reason'', why)]"

definition provider_failure :: "exn \<Rightarrow> json option" where
  "provider_failure x =
     (case x of
        ProviderRejected c \<Rightarrow>
          Some (mapped_failure ''failure'' (JObj [(lit ''text'', JNull), (lit ''usage'', zero_usage)]) (JStr c))
      | ProviderUncertain c \<Rightarrow> Some (mapped_failure ''unknown'' (JObj [(lit ''text'', JNull)]) (JStr c))
      | OSError \<Rightarrow> Some (mapped_failure ''unknown'' (JObj [(lit ''text'', JNull)]) (jstr ''transport''))
      | _ \<Rightarrow> None)"

definition send_and_interpret :: "'w provider \<Rightarrow> json \<Rightarrow> json \<Rightarrow> prepared_call \<Rightarrow> ('w, json \<times> json \<times> bytes \<times> int) worker" where
  "send_and_interpret a effect_id token call =
     rescue
       (chain (dispatch effect_id token (send_call a call)) (\<lambda>(status, raw, wall_ms).
        chain (outer (interpret_reply a call status raw wall_ms)) (\<lambda>mapped.
        give (mapped, JInt status, raw, wall_ms))))
       (\<lambda>x. provider_failure x \<noteq> None)
       (\<lambda>x. case provider_failure x of
              Some mapped \<Rightarrow> give (mapped, JNull, [], 0)
            | None \<Rightarrow> abort x)"

definition appended_messages :: "json \<Rightarrow> exn + json list" where
  "appended_messages request =
     (let d = items request; cause = dget d ''cause'' in
      if py_eq cause (jstr ''steer'') \<and> is_str (dget d ''instruction'')
      then Inr [JObj [(lit ''role'', jstr ''user''), (lit ''content'', dget d ''instruction'')]]
      else if py_eq cause (jstr ''respond'') \<and> is_dict (dget d ''response'')
      then andthen (dumps_sorted (dget d ''response'')) (\<lambda>t.
             Inr [JObj [(lit ''role'', jstr ''user''), (lit ''content'', JStr t)]])
      else Inr [])"

definition call_provider ::
  "'w host_env \<Rightarrow> 'w provider \<Rightarrow> json \<Rightarrow> json \<Rightarrow> json \<Rightarrow> json \<Rightarrow> json \<Rightarrow> prepared_call \<Rightarrow> ('w, execution) worker" where
  "call_provider e a effect_id run_id token digest request call =
     chain (start_dispatch e effect_id run_id token digest (jstr ''model_call'') request
              [(lit ''prepared'', to_journal call)]) (\<lambda>_.
     chain (send_and_interpret a effect_id token call) (\<lambda>(mapped, status, raw, wall_ms).
     chain (entry mapped ''class'') (\<lambda>cls.
     chain (entry mapped ''result'') (\<lambda>res.
       let d = items mapped in
       finish_dispatch e effect_id run_id token digest (jstr ''model_call'') request cls res
         [(lit ''http_status'', status), (lit ''raw_response_base64'', JStr (encode_raw raw)),
          (lit ''wall_ms'', JInt wall_ms), (lit ''mapping'', mapped),
          (lit ''assistant_message'', dget d ''assistant_message''), (lit ''tool_calls'', dget d ''tool_calls''),
          (lit ''reason'', dget d ''reason'')]
         (dget d ''reply'')))))"

definition model_prepared ::
  "'w host_env \<Rightarrow> 'w provider \<Rightarrow> json \<Rightarrow> json \<Rightarrow> json \<Rightarrow> json \<Rightarrow> json \<Rightarrow> json \<Rightarrow> prepared_call \<Rightarrow> ('w, execution) worker" where
  "model_prepared e a effect_id run_id effect token digest request call =
     chain (field request ''cause'') (\<lambda>cause.
     chain (outcome_of (appended_messages request)) (\<lambda>appended.
     chain (prepare_effect e effect_id run_id token digest (jstr ''model_call'') request
              [(lit ''seed_messages'',
                if is_one_of cause [jstr ''start'', jstr ''spawn''] then JArr (pc_messages call) else JNull),
               (lit ''appended_messages'', JArr appended)]) (\<lambda>_.
     chain (crash_at e ''prepared'') (\<lambda>_.
     chain (entry effect ''lease_until'') (\<lambda>lease.
     chain (remaining_lease_ms e lease) (\<lambda>remaining.
       if remaining < wait_ms a + 5000
       then no_http_failure e effect_id run_id token digest (jstr ''model_call'') (jstr ''lease_insufficient'') request True
       else call_provider e a effect_id run_id token digest request call))))))"

text \<open>\<open>adapter.build\<close>, whose own failure is a reason to give up without a dispatch.\<close>

definition adapter_reason :: "exn \<Rightarrow> pystr option" where
  "adapter_reason x = (case x of AdapterFailure why \<Rightarrow> Some why | _ \<Rightarrow> None)"

definition try_build :: "'w provider \<Rightarrow> json \<Rightarrow> json list \<Rightarrow> json list \<Rightarrow> ('w, pystr + prepared_call) worker" where
  "try_build a effect messages pins =
     rescue (chain (outer (build_call a effect messages pins)) (\<lambda>c. give (Inr c)))
       (\<lambda>x. adapter_reason x \<noteq> None)
       (\<lambda>x. case adapter_reason x of Some why \<Rightarrow> give (Inl why) | None \<Rightarrow> abort x)"

definition execute_model :: "'w host_env \<Rightarrow> json \<Rightarrow> json \<Rightarrow> json \<Rightarrow> json \<Rightarrow> ('w, execution) worker" where
  "execute_model e effect_id effect token digest =
     chain (field effect ''run_id'') (\<lambda>run_id.
     chain (field effect ''request'') (\<lambda>r.
     chain (jhas ''effect_prepared'' effect_id) (\<lambda>already.
       let request = or_dict r;
           give_up = (\<lambda>why. no_http_failure e effect_id run_id token digest (jstr ''model_call'') why request already) in
       case adapter e of
         None \<Rightarrow> give_up (jstr ''adapter_absent'')
       | Some a \<Rightarrow>
           chain (outer (preflight a)) (\<lambda>refused.
             case refused of
               Some detail \<Rightarrow> chain (outcome_of (attr_or detail ''class'' (jstr ''preflight''))) give_up
             | None \<Rightarrow>
                 chain (peek (\<lambda>s. replay_history (hjournal s) run_id)) (\<lambda>messages.
                 chain (run_pins e run_id) (\<lambda>found.
                   case found of
                     None \<Rightarrow> give_up (jstr ''pins_unavailable'')
                   | Some pins \<Rightarrow>
                       chain
                         (try_build a effect messages pins) (\<lambda>built.
                         case built of
                           Inl why \<Rightarrow> give_up (JStr why)
                         | Inr call \<Rightarrow> model_prepared e a effect_id run_id effect token digest request call)))))))"

section \<open>Tools and resources\<close>

text \<open>\<open>_call_tool_handler\<close>: class, result and, in a dict, the text for the model.\<close>

definition handler_value :: "handler_answer \<Rightarrow> exn + (json \<times> json \<times> json)" where
  "handler_value v =
     (case v of
        Two cls res \<Rightarrow> Inr (cls, res, JNull)
      | One w \<Rightarrow>
          if is_dict w \<and> has (items w) ''class'' \<and> has (items w) ''result''
          then if has (items w) ''model_text'' \<and> \<not> is_str (dget (items w) ''model_text'') then Inl TypeError
               else Inr (dget (items w) ''class'', dget (items w) ''result'', dget (items w) ''model_text'')
          else Inl TypeError)"

text \<open>A handler that raises settles the effect as unknown; in the fair loop it stops the worker.\<close>

definition handle_effect ::
  "(json \<Rightarrow> ('w, handler_answer) action) option \<Rightarrow> json \<Rightarrow> json \<Rightarrow> json \<Rightarrow> (string \<Rightarrow> json) \<Rightarrow> string \<Rightarrow> string \<Rightarrow>
     ('w, json \<times> json \<times> json \<times> json) worker" where
  "handle_effect handler effect_id token effect unknown absent failing =
     (case handler of
        None \<Rightarrow> give (jstr ''unknown'', unknown absent, JNull, jstr absent)
      | Some h \<Rightarrow>
          chain (peek fair_active) (\<lambda>fair.
          rescue
            (chain (dispatch effect_id token (h effect)) (\<lambda>v.
             chain (outcome_of (handler_value v)) (\<lambda>(cls, res, text).
             give (cls, res, text, JNull))))
            (\<lambda>_. \<not> fair)
            (\<lambda>_. give (jstr ''unknown'', unknown failing, JNull, jstr failing))))"

definition execute_tool :: "'w host_env \<Rightarrow> json \<Rightarrow> json \<Rightarrow> json \<Rightarrow> json \<Rightarrow> ('w, execution) worker" where
  "execute_tool e effect_id effect token digest =
     chain (field effect ''run_id'') (\<lambda>run_id.
     chain (field effect ''request'') (\<lambda>r.
     chain (parent_tool_call effect) (\<lambda>parent.
       let request = or_dict r; kd = jstr ''tool_call'' in
       case parent of
         None \<Rightarrow>
           chain (jhas ''effect_prepared'' effect_id) (\<lambda>already.
           no_http_unknown e effect_id run_id token digest kd (jstr ''tool_call_id_missing'') request already)
       | Some p \<Rightarrow>
           chain (prepare_effect e effect_id run_id token digest kd request []) (\<lambda>_.
           chain (entry p ''id'') (\<lambda>call_id.
           chain (start_dispatch e effect_id run_id token digest kd request
                    [(lit ''provider_tool_call_id'', call_id)]) (\<lambda>_.
           chain (handle_effect (tool_handler e) effect_id token effect (\<lambda>c. coded_error_result (jstr c))
                    ''tool_handler_absent'' ''tool_executor_error'') (\<lambda>(cls, res, text, why).
           chain (if text \<noteq> JNull then give text
                  else outcome_of (andthen (attr_or res ''output'' (JObj [])) (\<lambda>out.
                                   andthen (dumps_sorted out) (\<lambda>t. Inr (JStr t))))) (\<lambda>content.
           finish_dispatch e effect_id run_id token digest kd request cls res
             [(lit ''tool_result'', res),
              (lit ''tool_message'', JObj [(lit ''role'', jstr ''tool''), (lit ''tool_call_id'', call_id), (lit ''content'', content)]),
              (lit ''parent_effect_id'', dget (items effect) ''parent_effect_id''),
              (lit ''ordinal'', dget (items effect) ''ordinal''), (lit ''reason'', why)]
             JNull))))))))"

definition execute_resource :: "'w host_env \<Rightarrow> json \<Rightarrow> json \<Rightarrow> json \<Rightarrow> json \<Rightarrow> ('w, execution) worker" where
  "execute_resource e effect_id effect token digest =
     chain (field effect ''run_id'') (\<lambda>run_id.
     chain (field effect ''request'') (\<lambda>r.
     chain (field effect ''kind'') (\<lambda>kd.
       let request = or_dict r in
       chain (prepare_effect e effect_id run_id token digest kd request []) (\<lambda>_.
       chain (start_dispatch e effect_id run_id token digest kd request []) (\<lambda>_.
       chain (handle_effect (resource_handler e) effect_id token effect (\<lambda>_. unobserved_result)
                ''resource_handler_absent'' ''resource_executor_error'') (\<lambda>(cls, res, _, why).
       finish_dispatch e effect_id run_id token digest kd request cls res
         [(lit ''resource_result'', res), (lit ''reason'', why)] JNull))))))"

definition execute_effect :: "'w host_env \<Rightarrow> json \<Rightarrow> json \<Rightarrow> json \<Rightarrow> json \<Rightarrow> json \<Rightarrow> ('w, execution) worker" where
  "execute_effect e kd effect_id effect token digest =
     (if py_eq kd (jstr ''model_call'') then execute_model e effect_id effect token digest
      else if py_eq kd (jstr ''tool_call'') then execute_tool e effect_id effect token digest
      else execute_resource e effect_id effect token digest)"

definition lease_for :: "'w host_env \<Rightarrow> json \<Rightarrow> exn + int" where
  "lease_for e item =
     andthen (attr item ''kind'') (\<lambda>kd.
       case adapter e of
         Some a \<Rightarrow> Inr (if py_eq kd (jstr ''model_call'') then wanted_lease a else default_lease_ms e)
       | None \<Rightarrow> Inr (default_lease_ms e))"

definition digest_of_request :: "json \<Rightarrow> exn + json" where
  "digest_of_request effect =
     andthen (attr effect ''request'') (\<lambda>r. andthen (request_digest (or_dict r)) (\<lambda>d. Inr (JStr d)))"

text \<open>\<open>lease_ok\<close> compares the claim in the database with a token.\<close>

definition lease_ok :: "'w host_env \<Rightarrow> json \<Rightarrow> json \<Rightarrow> int \<Rightarrow> ('w, bool) worker" where
  "lease_ok e effect_id token wanted_ms =
     chain (db_host_effect e effect_id) (\<lambda>response.
       if is_error response then give False
       else
         chain (entry response ''effect'') (\<lambda>effect.
         chain (field effect ''status'') (\<lambda>status.
           if \<not> py_eq status (jstr ''claimed'') then give False
           else
             chain (outcome_of (claim_token effect)) (\<lambda>current.
               if \<not> py_eq current token then give False
               else
                 chain (entry effect ''lease_until'') (\<lambda>lease.
                 chain (remaining_lease_ms e lease) (\<lambda>remaining.
                 give (wanted_ms + 5000 \<le> remaining)))))))"

end
