(* ===== verification/Worker_Rounds.thy ===== *)
theory Worker_Rounds
  imports Worker
begin

text \<open>
  \<open>worker.py\<close>, the loop over one scope: reconciling outcomes that a crash left unsettled, resuming
  prepared effects, waiting for live orphans, recovering expired claims, and claiming the first
  ready effect.
\<close>

record round_stats =
  rounds :: nat
  claimed :: nat
  executed :: nat
  settled :: nat
  reconciled :: nat
  recovered :: nat
  skipped :: nat
  idle :: bool
  last_reply :: json
  scope_visits :: nat
  new_opportunities :: nat
  claim_conflicts :: nat
  prepared_attempts :: nat
  orphan_blocked :: nat
  recovery_commands :: nat
  recovery_applied :: nat
  recovery_has_more :: bool
  manual_debt_ids :: "pystr list"
  pending_work :: bool
  stop_reason :: "string option"

definition empty_stats :: round_stats where
  "empty_stats =
     \<lparr>rounds = 0, claimed = 0, executed = 0, settled = 0, reconciled = 0, recovered = 0, skipped = 0,
      idle = True, last_reply = JNull, scope_visits = 0, new_opportunities = 0, claim_conflicts = 0,
      prepared_attempts = 0, orphan_blocked = 0, recovery_commands = 0, recovery_applied = 0,
      recovery_has_more = False, manual_debt_ids = [], pending_work = False, stop_reason = None\<rparr>"

definition merge :: "round_stats \<Rightarrow> round_stats \<Rightarrow> round_stats" where
  "merge a b =
     a\<lparr>claimed := claimed a + claimed b, executed := executed a + executed b, settled := settled a + settled b,
       reconciled := reconciled a + reconciled b, recovered := recovered a + recovered b,
       skipped := skipped a + skipped b,
       last_reply := (if last_reply b \<noteq> JNull then last_reply b else last_reply a)\<rparr>"

definition progress :: "round_stats \<Rightarrow> nat" where
  "progress a = claimed a + executed a + settled a + reconciled a + recovered a"

definition host_db_error :: "json \<Rightarrow> exn" where
  "host_db_error response = HostDBError (the_str (dget (items (dget (items response) ''error'')) ''code''))"

section \<open>Claiming\<close>

text \<open>The effect in the database, re-read after the claim, must carry the same token.\<close>

definition claim_and_execute :: "'w host_env \<Rightarrow> json \<Rightarrow> ('w, execution option) worker" where
  "claim_and_execute e item =
     chain (entry item ''effect_id'') (\<lambda>effect_id.
     chain (entry item ''kind'') (\<lambda>kd.
     chain (outcome_of (lease_for e item)) (\<lambda>lease.
     chain (db_claim e effect_id lease) (\<lambda>response.
       if is_error response then give None
       else
         chain (field response ''disposition'') (\<lambda>disposition.
         chain (field response ''claim'') (\<lambda>token.
           if \<not> py_eq disposition (jstr ''committed'') \<or> \<not> truthy token then give None
           else
             chain (assert_all_idle e) (\<lambda>_.
             chain (db_host_effect e effect_id) (\<lambda>committed.
               if is_error committed then give None
               else
                 chain (entry committed ''effect'') (\<lambda>effect.
                 chain (field effect ''status'') (\<lambda>status.
                   if \<not> py_eq status (jstr ''claimed'') then give None
                   else
                     chain (outcome_of (claim_token effect)) (\<lambda>current.
                       if \<not> py_eq current token then give None
                       else
                         chain (outcome_of (digest_of_request effect)) (\<lambda>digest.
                         chain (execute_effect e kd effect_id effect token digest) (\<lambda>x.
                         give (Some x))))))))))))))"

section \<open>Reconciliation\<close>

text \<open>\<open>_digest_for\<close>\<close>

definition digest_for :: "'w host_env \<Rightarrow> json \<Rightarrow> ('w, json) worker" where
  "digest_for e effect_id =
     chain (db_host_effect e effect_id) (\<lambda>response.
       if is_error response
       then outcome_of (case utf8_encode (py_str (str_of e) effect_id) of
                          None \<Rightarrow> Inl UnicodeError | Some b \<Rightarrow> Inr (JStr (sha256_hex b)))
       else chain (entry response ''effect'') (\<lambda>effect. outcome_of (digest_of_request effect)))"

text \<open>One outcome in the journal without its settlement: resubmitted while the claim is the same,
  recorded as a conflict when the claim changed, and recorded as closed by the database otherwise.\<close>

definition resubmit :: "'w host_env \<Rightarrow> json \<Rightarrow> json \<Rightarrow> json \<Rightarrow> json \<Rightarrow> ('w, bool) worker" where
  "resubmit e effect_id effect finish outcome =
     (let f = items finish; stored = dget f ''claim''; run_id = dget f ''run_id'' in
      chain (outcome_of (claim_token effect)) (\<lambda>token.
        if \<not> py_eq stored token
        then
          chain (digest_for e effect_id) (\<lambda>fallback.
          chain (record_settlement e effect_id (dget_or f ''request_digest'' fallback) run_id token
                   [(lit ''conflict'', JBool True), (lit ''reason'', jstr ''claim_token_changed''),
                    (lit ''outcome'', outcome), (lit ''stored_claim'', stored)]) (\<lambda>_.
          give False))
        else
          chain (entry outcome ''class'') (\<lambda>cls.
          chain (entry outcome ''body'') (\<lambda>body.
          chain (entry body ''kind'') (\<lambda>kd.
          chain (entry body ''result'') (\<lambda>res.
          chain (db_settle e effect_id cls token kd res) (\<lambda>answer.
            if is_error answer then give False
            else
              chain (entry finish ''request_digest'') (\<lambda>digest.
              chain (record_settlement e effect_id digest run_id token
                       [(lit ''outcome'', outcome), (lit ''response'', answer), (lit ''reconciled'', JBool True)]) (\<lambda>_.
              give True)))))))))"

definition close_terminal :: "'w host_env \<Rightarrow> json \<Rightarrow> json \<Rightarrow> json \<Rightarrow> json \<Rightarrow> ('w, unit) worker" where
  "close_terminal e effect_id effect finish outcome =
     chain (field effect ''outcome'') (\<lambda>known.
     chain (entry finish ''request_digest'') (\<lambda>digest.
     record_settlement e effect_id digest (dget (items finish) ''run_id'') (or_dict (dget (items finish) ''claim''))
       [(lit ''conflict'', JBool (\<not> py_eq known outcome)), (lit ''reason'', jstr ''database_terminal''),
        (lit ''outcome'', outcome)]))"

definition reconcile_one :: "'w host_env \<Rightarrow> pystr \<Rightarrow> nat \<Rightarrow> json \<Rightarrow> ('w, nat) worker" where
  "reconcile_one e scope n effect_id =
     chain (db_host_effect e effect_id) (\<lambda>response.
       if is_error response then give n
       else
         chain (entry response ''effect'') (\<lambda>effect.
         chain (field effect ''scope_id'') (\<lambda>scope_id.
           if py_str (str_of e) scope_id \<noteq> scope then give n
           else
             chain (jlast ''dispatch_finished'' effect_id) (\<lambda>found.
               case found of
                 None \<Rightarrow> give n
               | Some finish \<Rightarrow>
                   chain (entry (dget (items finish) ''payload'') ''outcome'') (\<lambda>outcome.
                   chain (field effect ''status'') (\<lambda>status.
                     if py_eq status (jstr ''claimed'')
                     then chain (resubmit e effect_id effect finish outcome) (\<lambda>done_now. give (if done_now then n + 1 else n))
                     else chain (close_terminal e effect_id effect finish outcome) (\<lambda>_. give n)))))))"

definition reconcile :: "'w host_env \<Rightarrow> pystr \<Rightarrow> ('w, nat) worker" where
  "reconcile e scope =
     chain (peek (\<lambda>s. pending_settlements (hjournal s))) (\<lambda>ids. fold_over (reconcile_one e scope) 0 ids)"

section \<open>Resuming\<close>

text \<open>\<open>Inl\<close> leaves the loop of \<open>_resume_prepared\<close>; without it the answer is \<open>_NOTHING\<close>.\<close>

definition needed_lease :: "'w host_env \<Rightarrow> json \<Rightarrow> int" where
  "needed_lease e kd =
     (case adapter e of
        Some a \<Rightarrow> if py_eq kd (jstr ''model_call'') then wait_ms a + 5000 else 0
      | None \<Rightarrow> 0)"

definition close_undispatched :: "'w host_env \<Rightarrow> json \<Rightarrow> ('w, unit) worker" where
  "close_undispatched e effect_id =
     chain (jlast ''effect_prepared'' effect_id) (\<lambda>found.
       case found of
         None \<Rightarrow> give ()
       | Some prepared \<Rightarrow>
           chain (entry prepared ''request_digest'') (\<lambda>digest.
           record_settlement e effect_id digest (dget (items prepared) ''run_id'')
             (or_dict (dget (items prepared) ''claim''))
             [(lit ''conflict'', JBool True), (lit ''reason'', jstr ''database_terminal_no_dispatch'')]))"

definition resume_claimed :: "'w host_env \<Rightarrow> json \<Rightarrow> json \<Rightarrow> ('w, execution option + unit) worker" where
  "resume_claimed e effect_id effect =
     chain (jlast ''effect_prepared'' effect_id) (\<lambda>found.
       case found of
         None \<Rightarrow> give (Inr ())
       | Some prepared \<Rightarrow>
           chain (outcome_of (claim_token effect)) (\<lambda>token.
             if \<not> py_eq (dget (items prepared) ''claim'') token then give (Inr ())
             else
               chain (field effect ''lease_until'') (\<lambda>lease.
               chain (remaining_lease_ms e lease) (\<lambda>remaining.
               chain (field effect ''kind'') (\<lambda>kd.
                 if remaining \<le> needed_lease e kd then give (Inr ())
                 else
                   chain (outcome_of (digest_of_request effect)) (\<lambda>digest.
                   chain (execute_effect e kd effect_id effect token digest) (\<lambda>x.
                   give (Inl (Some (x\<lparr>ex_claimed := False\<rparr>)))))))))) "

definition resume_one :: "'w host_env \<Rightarrow> pystr \<Rightarrow> unit \<Rightarrow> json \<Rightarrow> ('w, execution option + unit) worker" where
  "resume_one e scope _ effect_id =
     chain (db_host_effect e effect_id) (\<lambda>response.
       if is_error response then give (Inr ())
       else
         chain (entry response ''effect'') (\<lambda>effect.
         chain (field effect ''scope_id'') (\<lambda>scope_id.
           if py_str (str_of e) scope_id \<noteq> scope then give (Inr ())
           else
             chain (field effect ''status'') (\<lambda>status.
               if py_eq status (jstr ''ready'')
               then chain (claim_and_execute e effect) (\<lambda>x. give (Inl x))
               else if \<not> py_eq status (jstr ''claimed'')
               then chain (close_undispatched e effect_id) (\<lambda>_. give (Inr ()))
               else resume_claimed e effect_id effect))))"

definition resume_prepared :: "'w host_env \<Rightarrow> pystr \<Rightarrow> ('w, execution option + unit) worker" where
  "resume_prepared e scope =
     chain (peek (\<lambda>s. prepared_without_dispatch (hjournal s))) (\<lambda>ids. loop_over (resume_one e scope) () ids)"

section \<open>Orphans and recovery\<close>

definition orphan_one :: "'w host_env \<Rightarrow> pystr \<Rightarrow> bool \<times> bool \<Rightarrow> json \<Rightarrow> ('w, bool \<times> bool) worker" where
  "orphan_one e scope flags effect_id =
     chain (db_host_effect e effect_id) (\<lambda>response.
       if is_error response then give flags
       else
         chain (entry response ''effect'') (\<lambda>effect.
         chain (field effect ''scope_id'') (\<lambda>scope_id.
           if py_str (str_of e) scope_id \<noteq> scope then give flags
           else
             chain (field effect ''status'') (\<lambda>status.
               if \<not> py_eq status (jstr ''claimed'') then give flags
               else
                 chain (entry effect ''lease_until'') (\<lambda>lease.
                 chain (remaining_lease_ms e lease) (\<lambda>remaining.
                 give (if 0 < remaining then (True, snd flags) else (fst flags, True))))))))"

text \<open>Whether a started dispatch without an end still holds its lease, and whether one lost it.\<close>

definition orphan_state :: "'w host_env \<Rightarrow> pystr \<Rightarrow> ('w, bool \<times> bool) worker" where
  "orphan_state e scope =
     chain (peek (\<lambda>s. unfinished_dispatches (hjournal s))) (\<lambda>ids.
     fold_over (orphan_one e scope) (False, False) ids)"

definition effects_page :: "'w host_env \<Rightarrow> pystr \<Rightarrow> json \<Rightarrow> ('w, json) worker" where
  "effects_page e scope cursor =
     (if cursor = JNull then db_host_effects e (JStr scope) JNull JNull
      else chain (entry cursor ''created_at'') (\<lambda>c. chain (entry cursor ''effect_id'') (\<lambda>i.
           db_host_effects e (JStr scope) c i)))"

definition expired_item :: "'w host_env \<Rightarrow> unit \<Rightarrow> json \<Rightarrow> ('w, unit + unit) worker" where
  "expired_item e _ item =
     chain (field item ''status'') (\<lambda>status.
       if \<not> py_eq status (jstr ''claimed'') then give (Inr ())
       else
         chain (field item ''lease_until'') (\<lambda>lease.
         chain (remaining_lease_ms e lease) (\<lambda>remaining.
         give (if remaining \<le> 0 then Inl () else Inr ()))))"

definition expired_turn :: "'w host_env \<Rightarrow> pystr \<Rightarrow> json \<Rightarrow> ('w, bool + json) worker" where
  "expired_turn e scope cursor =
     chain (effects_page e scope cursor) (\<lambda>response.
       if is_error response then give (Inl False)
       else
         chain (outcome_of (iterate (dget_or (items response) ''items'' (JArr [])))) (\<lambda>page.
         chain (loop_over (expired_item e) () page) (\<lambda>found.
           case found of
             Inl _ \<Rightarrow> give (Inl True)
           | Inr _ \<Rightarrow>
               if \<not> truthy (dget (items response) ''has_more'') then give (Inl False)
               else chain (entry response ''next_cursor'') (\<lambda>next.
                    give (if is_dict next then Inr next else Inl False)))))"

definition expired_claims :: "'w host_env \<Rightarrow> pystr \<Rightarrow> ('w, bool) worker" where
  "expired_claims e scope = while_true (expired_turn e scope) JNull"

text \<open>The key of a recovery command: prefix, scope, a number of this process, random digits.\<close>

definition next_recovery :: "'w host_env \<Rightarrow> pystr \<Rightarrow> ('w, pystr) worker" where
  "next_recovery e middle =
     chain (change (\<lambda>s. s\<lparr>recover_seq := recover_seq s + 1\<rparr>)) (\<lambda>_.
     chain (peek recover_seq) (\<lambda>n.
     chain (outer (random_hex e)) (\<lambda>hex.
     give (recover_key_prefix e @ [58] @ middle @ [58] @ dec n @ [58] @ hex))))"

definition recover :: "'w host_env \<Rightarrow> pystr \<Rightarrow> ('w, nat) worker" where
  "recover e scope =
     chain (next_recovery e scope) (\<lambda>key.
     chain (db_recover e (JStr scope) key) (\<lambda>response.
     give (if is_error response then 0 else 1)))"

section \<open>Discovery\<close>

definition is_ready :: "json \<Rightarrow> exn + bool" where
  "is_ready item =
     andthen (attr item ''status'') (\<lambda>status.
       if \<not> py_eq status (jstr ''ready'') then Inr False
       else andthen (attr item ''kind'') (\<lambda>kd. Inr (is_one_of kd EXTERNAL_KINDS)))"

definition order_class :: "json \<Rightarrow> nat" where
  "order_class item = (if is_one_of (dget (items item) ''kind'') HOST_KINDS then 0 else 1)"

text \<open>Sorted by class and then by effect: two stable sorts.\<close>

definition in_order :: "(json \<Rightarrow> pystr) \<Rightarrow> json list \<Rightarrow> json list" where
  "in_order shown xs =
     sort_key order_class (sort_key (\<lambda>item. py_str shown (dget (items item) ''effect_id'')) xs)"

definition ready_turn :: "'w host_env \<Rightarrow> pystr \<Rightarrow> json \<times> json list \<Rightarrow> ('w, json list + (json \<times> json list)) worker" where
  "ready_turn e scope = (\<lambda>(cursor, found).
     chain (effects_page e scope cursor) (\<lambda>response.
       if is_error response then abort (host_db_error response)
       else
         chain (outcome_of (iterate (dget_or (items response) ''items'' (JArr [])))) (\<lambda>page.
         chain (outcome_of (keep_where is_ready page)) (\<lambda>ready.
           if \<not> truthy (dget (items response) ''has_more'') then give (Inl (found @ ready))
           else
             chain (entry response ''next_cursor'') (\<lambda>next.
               if is_dict next then give (Inr (next, found @ ready))
               else abort (HostDBError (lit ''next_cursor_invalid'')))))))"

definition discover_ready :: "'w host_env \<Rightarrow> pystr \<Rightarrow> ('w, json list) worker" where
  "discover_ready e scope =
     chain (while_true (ready_turn e scope) (JNull, [])) (\<lambda>found. give (in_order (str_of e) found))"

section \<open>Rounds\<close>

text \<open>What the outcome of an effect adds to the counts.\<close>

definition count_execution :: "nat \<Rightarrow> execution option \<Rightarrow> round_stats \<Rightarrow> round_stats" where
  "count_execution fresh outcome stats =
     (case outcome of
        None \<Rightarrow> stats\<lparr>skipped := skipped stats + 1, idle := False\<rparr>
      | Some x \<Rightarrow>
          stats\<lparr>claimed := claimed stats + fresh, executed := (if ex_executed x then 1 else 0),
            settled := settled stats + (if ex_settled x then 1 else 0),
            last_reply := (if ex_reply x \<noteq> JNull then ex_reply x else last_reply stats), idle := False\<rparr>)"

definition discover_and_execute :: "'w host_env \<Rightarrow> pystr \<Rightarrow> round_stats \<Rightarrow> ('w, round_stats) worker" where
  "discover_and_execute e scope stats =
     chain (discover_ready e scope) (\<lambda>ready.
       case ready of
         [] \<Rightarrow> give stats
       | effect # _ \<Rightarrow> chain (claim_and_execute e effect) (\<lambda>outcome. give (count_execution 1 outcome stats)))"

definition run_once :: "'w host_env \<Rightarrow> pystr \<Rightarrow> ('w, round_stats) worker" where
  "run_once e scope =
     chain (assert_all_idle e) (\<lambda>_.
     chain (reconcile e scope) (\<lambda>n.
     chain (if 0 < n then assert_all_idle e else give ()) (\<lambda>_.
     let stats = empty_stats\<lparr>reconciled := n\<rparr> in
     chain (resume_prepared e scope) (\<lambda>resumed.
       case resumed of
         Inl outcome \<Rightarrow>
           give (count_execution (case outcome of None \<Rightarrow> 0 | Some x \<Rightarrow> if ex_claimed x then 1 else 0) outcome stats)
       | Inr _ \<Rightarrow>
           chain (orphan_state e scope) (\<lambda>(live, expired).
             if live then give (stats\<lparr>skipped := skipped stats + 1, idle := False\<rparr>)
             else
               chain (if expired then give True else expired_claims e scope) (\<lambda>stale.
               chain (if stale then recover e scope else give 0) (\<lambda>k.
               discover_and_execute e scope
                 (if k = 0 then stats
                  else stats\<lparr>recovered := k, settled := settled stats + k, idle := False\<rparr>))))))))"

fun run_rounds :: "'w host_env \<Rightarrow> pystr \<Rightarrow> nat \<Rightarrow> round_stats \<Rightarrow> ('w, round_stats) worker" where
  "run_rounds e scope 0 acc = give (acc\<lparr>idle := False\<rparr>)"
| "run_rounds e scope (Suc k) acc =
     chain (run_once e scope) (\<lambda>one.
       let acc = (merge acc one)\<lparr>rounds := rounds acc + 1\<rparr> in
       if progress one = 0 then give (acc\<lparr>idle := True\<rparr>) else run_rounds e scope k acc)"

definition run_until_idle :: "'w host_env \<Rightarrow> pystr \<Rightarrow> int \<Rightarrow> ('w, round_stats) worker" where
  "run_until_idle e scope max_rounds =
     (if max_rounds < 1 then abort ValueError else run_rounds e scope (nat max_rounds) empty_stats)"

end
