(* ===== verification/Worker_Fair.thy ===== *)
theory Worker_Fair
  imports Worker_Rounds
begin

text \<open>
  \<open>worker.py\<close>, the fair loop over several scopes: every answer of the database is checked before it
  is used, identifiers and keys must increase from page to page, and a scope is visited in turn
  until a pass over all of them finds no work, makes no progress, or the budget ends.
\<close>

section \<open>Effects\<close>

definition contract :: "string \<Rightarrow> exn" where
  "contract m = HostContractError m"

definition DB_TERMINAL :: "json list" where
  "DB_TERMINAL = [jstr ''succeeded'', jstr ''failed'', jstr ''unknown'', jstr ''cancelled'']"

definition effect_token :: "json \<Rightarrow> json" where
  "effect_token effect =
     JObj [(lit ''attempt'', dget (items effect) ''attempt_no''), (lit ''fence'', dget (items effect) ''fence''),
           (lit ''owner'', dget (items effect) ''claim_owner'')]"

definition fair_token :: "json \<Rightarrow> exn + json" where
  "fair_token token =
     (let d = items token; attempt = dget d ''attempt''; fence = dget d ''fence''; owner = dget d ''owner'' in
      if \<not> is_dict token \<or> \<not> keys_are d [''attempt'', ''fence'', ''owner'']
         \<or> \<not> is_int attempt \<or> the_int attempt < 1 \<or> \<not> is_int fence \<or> the_int fence < 1
         \<or> the_int attempt < the_int fence \<or> \<not> is_str owner \<or> the_str owner = []
      then Inl (contract ''invalid claim token'') else Inr token)"

text \<open>An aware time, from text.\<close>

definition aware_time :: "json \<Rightarrow> (int \<times> int) option" where
  "aware_time v =
     (if \<not> is_str v then None
      else case fromisoformat (the_str v) of Some (t, Some z) \<Rightarrow> Some (t, z) | _ \<Rightarrow> None)"

definition fair_validate_effect :: "'w host_env \<Rightarrow> json option \<Rightarrow> pystr option \<Rightarrow> json \<Rightarrow> exn + unit" where
  "fair_validate_effect e effect_id scope effect =
     (let d = items effect in
      if \<not> is_dict effect
         \<or> \<not> is_one_of (dget d ''status'') ([jstr ''ready'', jstr ''claimed''] @ DB_TERMINAL)
         \<or> \<not> is_one_of (dget d ''kind'') EXTERNAL_KINDS
         \<or> \<not> is_dict (dget d ''request'')
         \<or> \<not> is_one_of (dget d ''replay_policy'') [jstr ''replay_safe'', jstr ''no_replay'', jstr ''manual'']
      then Inl (contract ''malformed external effect'')
      else
        (case (uuid_number e (dget d ''effect_id''), uuid_number e (dget d ''scope_id'')) of
           (Inr actual, Inr actual_scope) \<Rightarrow>
             steps
               [require (case effect_id of None \<Rightarrow> True | Some i \<Rightarrow> uuid_text actual = py_str (str_of e) i)
                  (contract ''effect identity mismatch''),
                require (case scope of None \<Rightarrow> True | Some s \<Rightarrow> uuid_text actual_scope = s)
                  (contract ''effect scope mismatch''),
                if \<not> py_eq (dget d ''status'') (jstr ''claimed'') then Inr ()
                else andthen (fair_token (effect_token effect)) (\<lambda>_.
                       require (aware_time (dget d ''lease_until'') \<noteq> None) (contract ''invalid claimed lease''))]
         | _ \<Rightarrow> Inl (contract ''malformed effect identity'')))"

definition fair_effect :: "'w host_env \<Rightarrow> json \<Rightarrow> ('w, json) worker" where
  "fair_effect e effect_id =
     chain (db_host_effect e effect_id) (\<lambda>response.
     chain (outcome_of (fair_envelope response)) (\<lambda>_.
     chain (outcome_of (fair_validate_effect e (Some effect_id) None (dget (items response) ''effect''))) (\<lambda>_.
     give (dget (items response) ''effect''))))"

definition scope_text :: "'w host_env \<Rightarrow> json \<Rightarrow> pystr" where
  "scope_text e effect = py_str (str_of e) (dget (items effect) ''scope_id'')"

definition effect_text :: "'w host_env \<Rightarrow> json \<Rightarrow> pystr" where
  "effect_text e effect = py_str (str_of e) (dget (items effect) ''effect_id'')"

definition status_is :: "json \<Rightarrow> json list \<Rightarrow> bool" where
  "status_is effect ss \<longleftrightarrow> is_one_of (dget (items effect) ''status'') ss"

text \<open>\<open>_fair_key\<close>: a time outside the calendar raises \<open>OverflowError\<close>, which is not caught.\<close>

definition fair_key :: "'w host_env \<Rightarrow> json \<Rightarrow> exn + (int \<times> nat)" where
  "fair_key e item =
     (case subscript item ''created_at'' of
        Inl _ \<Rightarrow> Inl (contract ''invalid effect ordering key'')
      | Inr created \<Rightarrow>
          (case aware_time created of
             None \<Rightarrow> Inl (contract ''invalid effect ordering key'')
           | Some (t, z) \<Rightarrow>
               andthen (utc t z) (\<lambda>u.
               case andthen (subscript item ''effect_id'') (\<lambda>i. uuid_int (exotic_uuid e) (py_str (str_of e) i)) of
                 Inl _ \<Rightarrow> Inl (contract ''invalid effect ordering key'')
               | Inr n \<Rightarrow> Inr (u, n))))"

definition key_before :: "int \<times> nat \<Rightarrow> int \<times> nat \<Rightarrow> bool" where
  "key_before a b \<longleftrightarrow> fst a < fst b \<or> fst a = fst b \<and> snd a < snd b"

section \<open>The roster\<close>

fun check_scopes :: "'w host_env \<Rightarrow> nat option \<Rightarrow> json list \<Rightarrow> exn + nat list" where
  "check_scopes e previous [] = Inr []"
| "check_scopes e previous (item # rest) =
     (case andthen (subscript item ''scope_id'') (uuid_number e) of
        Inl _ \<Rightarrow> Inl (contract ''host_scopes malformed item'')
      | Inr n \<Rightarrow>
          if (case previous of None \<Rightarrow> False | Some p \<Rightarrow> n \<le> p) then Inl (contract ''host_scopes did not advance'')
          else andthen (check_scopes e (Some n) rest) (\<lambda>ns. Inr (n # ns)))"

definition scopes_turn :: "'w host_env \<Rightarrow> nat option \<times> nat list \<Rightarrow> ('w, nat list + (nat option \<times> nat list)) worker" where
  "scopes_turn e = (\<lambda>(previous, found).
     chain (db_host_scopes e JNull (case previous of None \<Rightarrow> JNull | Some p \<Rightarrow> JStr (uuid_text p))) (\<lambda>response.
     chain (outcome_of (fair_page response)) (\<lambda>page.
     chain (outcome_of (check_scopes e previous page)) (\<lambda>ns.
       let d = items response; cursor = dget d ''next_cursor'' in
       if \<not> truthy (dget d ''has_more'') then give (Inl (found @ ns))
       else if ns = [] \<or> \<not> is_dict cursor \<or> \<not> py_eq cursor (JObj [(lit ''scope_id'', JStr (uuid_text (last ns)))])
       then abort (contract ''host_scopes invalid cursor'')
       else give (Inr (Some (last ns), found @ ns))))))"

text \<open>A given roster is a set of UUIDs, sorted by value; text is not a roster.\<close>

definition fair_roster :: "'w host_env \<Rightarrow> json option \<Rightarrow> ('w, pystr list) worker" where
  "fair_roster e scope_ids =
     (case scope_ids of
        Some v \<Rightarrow>
          outcome_of
            (if is_str v then Inl ValueError
             else case iterate v of
                    Inl _ \<Rightarrow> Inl ValueError
                  | Inr xs \<Rightarrow> andthen (mapr (uuid_number e) xs) (\<lambda>ns. Inr (map uuid_text (sort (remdups ns)))))
      | None \<Rightarrow> chain (while_true (scopes_turn e) (None, [])) (\<lambda>ns. give (map uuid_text ns)))"

section \<open>What the journal still owes\<close>

definition fair_journal_ids :: "journal \<Rightarrow> pystr list" where
  "fair_journal_ids j =
     filter (\<lambda>i. JStr i \<notin> set (effects_with ''settlement_committed'' (jrecords j)))
       (remdups (map the_str (prepared_without_dispatch j @ pending_settlements j @ unfinished_dispatches j)))"

definition remember_scope :: "pystr \<Rightarrow> pystr \<Rightarrow> ('w, unit) worker" where
  "remember_scope scope effect_id =
     change (\<lambda>s. s\<lparr>scope_journal_ids :=
       (scope_journal_ids s)(scope := List.insert effect_id (scope_journal_ids s scope))\<rparr>)"

definition fair_close_orphan :: "'w host_env \<Rightarrow> json \<Rightarrow> ('w, bool) worker" where
  "fair_close_orphan e effect =
     (let effect_id = JStr (effect_text e effect) in
      chain (jhas ''dispatch_finished'' effect_id) (\<lambda>finished.
      chain (jhas ''settlement_committed'' effect_id) (\<lambda>settled_before.
      chain (jlast ''dispatch_started'' effect_id) (\<lambda>found.
        case found of
          None \<Rightarrow> give False
        | Some begun \<Rightarrow>
            let token = dget (items begun) ''claim'' in
            if \<not> status_is effect DB_TERMINAL \<or> finished \<or> settled_before then give False
            else if token \<noteq> JNull \<and> \<not> is_dict token
            then abort (JournalCorrupt ''invalid original dispatch claim'')
            else if truthy token \<and> (case fair_token token of Inl _ \<Rightarrow> True | Inr _ \<Rightarrow> False)
            then abort (JournalCorrupt ''invalid original dispatch claim'')
            else
              chain (entry begun ''request_digest'') (\<lambda>digest.
              chain (record_settlement e effect_id digest (dget (items begun) ''run_id'') (or_dict token)
                       [(lit ''conflict'', JBool True), (lit ''reason'', jstr ''database_terminal_no_outcome''),
                        (lit ''database_status'', dget (items effect) ''status'')]) (\<lambda>_.
              give True))))))"

definition owned_effect :: "'w host_env \<Rightarrow> pystr list \<Rightarrow> json list \<Rightarrow> pystr \<Rightarrow> ('w, json list) worker" where
  "owned_effect e roster effects i =
     chain (rescue (fair_effect e (JStr i))
              (\<lambda>x. case x of HostDBError _ \<Rightarrow> True | HostContractError _ \<Rightarrow> True | _ \<Rightarrow> False)
              (\<lambda>_. abort (contract ''journal ownership lookup failed''))) (\<lambda>effect.
     chain (insist (scope_text e effect \<in> set roster) (contract ''journal effect outside roster'')) (\<lambda>_.
     chain (remember_scope (scope_text e effect) i) (\<lambda>_.
     give (effects @ [effect]))))"

text \<open>The whole set is validated before the first marker is appended.\<close>

definition fair_ownership :: "'w host_env \<Rightarrow> pystr list \<Rightarrow> ('w, unit) worker" where
  "fair_ownership e roster =
     chain (peek (\<lambda>s. sort (fair_journal_ids (hjournal s)))) (\<lambda>ids.
     chain (fold_over (owned_effect e roster) [] ids) (\<lambda>effects.
     fold_over (\<lambda>_ effect. chain (fair_close_orphan e effect) (\<lambda>_. give ())) () effects))"

definition uuid_value :: "'w host_env \<Rightarrow> pystr \<Rightarrow> nat" where
  "uuid_value e s = (case uuid_int (exotic_uuid e) s of Inl _ \<Rightarrow> 0 | Inr n \<Rightarrow> n)"

definition next_scope :: "'w host_env \<Rightarrow> pystr option \<Rightarrow> pystr list \<Rightarrow> pystr" where
  "next_scope e visited roster =
     (case find (\<lambda>s. case visited of None \<Rightarrow> True | Some v \<Rightarrow> uuid_value e v < uuid_value e s) roster of
        Some s \<Rightarrow> s | None \<Rightarrow> hd roster)"

section \<open>Discovery\<close>

text \<open>\<open>_fair_pick\<close>: the first candidate after the cursor of its class, in key order, or the first.\<close>

definition fair_pick :: "'w host_env \<Rightarrow> pystr \<Rightarrow> string \<Rightarrow> json list \<Rightarrow> ('w, json) worker" where
  "fair_pick e scope klass candidates =
     chain (peek (\<lambda>s. fair_cursors s (scope, klass))) (\<lambda>key.
     chain (outcome_of (mapr (\<lambda>x. andthen (fair_key e x) (\<lambda>k. Inr (k, x))) candidates)) (\<lambda>keyed.
       let ordered = sort_key (fst \<circ> fst) (sort_key (snd \<circ> fst) keyed);
           chosen = (case find (\<lambda>(k, _). case key of None \<Rightarrow> True | Some c \<Rightarrow> key_before c k) ordered of
                       Some c \<Rightarrow> c | None \<Rightarrow> hd ordered) in
       chain (change (\<lambda>s. s\<lparr>fair_cursors := (fair_cursors s)((scope, klass) := Some (fst chosen))\<rparr>)) (\<lambda>_.
       give (snd chosen))))"

fun check_found :: "'w host_env \<Rightarrow> pystr \<Rightarrow> (int \<times> nat) option \<Rightarrow> json list \<Rightarrow> exn + (int \<times> nat) option" where
  "check_found e scope previous [] = Inr previous"
| "check_found e scope previous (effect # rest) =
     andthen (fair_validate_effect e None (Some scope) effect) (\<lambda>_.
     andthen (require (status_is effect [jstr ''ready'', jstr ''claimed'']) (contract ''terminal effect in discovery'')) (\<lambda>_.
     andthen (fair_key e effect) (\<lambda>key.
     andthen (require (case previous of None \<Rightarrow> True | Some p \<Rightarrow> key_before p key) (contract ''host_effects did not advance'')) (\<lambda>_.
     check_found e scope (Some key) rest))))"

definition scan_turn :: "'w host_env \<Rightarrow> pystr \<Rightarrow> json \<times> json list \<Rightarrow> ('w, json list + (json \<times> json list)) worker" where
  "scan_turn e scope = (\<lambda>(cursor, found).
     let d = items cursor in
     chain (db_host_effects e (JStr scope) (dget d ''created_at'') (dget d ''effect_id'')) (\<lambda>response.
     chain (outcome_of (fair_page response)) (\<lambda>page.
     chain (if cursor = JNull then give None else outcome_of (andthen (fair_key e cursor) (\<lambda>k. Inr (Some k)))) (\<lambda>previous.
     chain (outcome_of (check_found e scope previous page)) (\<lambda>final_key.
       let next = dget (items response) ''next_cursor'' in
       if \<not> truthy (dget (items response) ''has_more'') then give (Inl (found @ page))
       else if page = [] \<or> \<not> is_dict next \<or> \<not> keys_are (items next) [''created_at'', ''effect_id'']
       then abort (contract ''host_effects invalid cursor'')
       else
         chain (outcome_of (fair_key e next)) (\<lambda>k.
         chain (insist (Some k = final_key) (contract ''host_effects cursor mismatch'')) (\<lambda>_.
         give (Inr (next, found @ page)))))))))"

definition fair_scan :: "'w host_env \<Rightarrow> pystr \<Rightarrow> ('w, json list) worker" where
  "fair_scan e scope = while_true (scan_turn e scope) (JNull, [])"

section \<open>Reconciliation and orphans\<close>

definition fair_resubmit :: "'w host_env \<Rightarrow> json \<Rightarrow> json \<Rightarrow> json \<Rightarrow> json \<Rightarrow> nat \<times> bool \<Rightarrow> ('w, nat \<times> bool) worker" where
  "fair_resubmit e effect_id finish outcome stored counted =
     chain (outcome_of (fair_token stored)) (\<lambda>_.
     chain (entry outcome ''class'') (\<lambda>cls.
     chain (entry outcome ''body'') (\<lambda>body.
     chain (entry body ''kind'') (\<lambda>kd.
     chain (entry body ''result'') (\<lambda>res.
     chain (db_settle e effect_id cls stored kd res) (\<lambda>response.
     chain (outcome_of (fair_settle_response (str_of e) response effect_id)) (\<lambda>accepted.
       if \<not> accepted then give counted
       else
         chain (entry finish ''request_digest'') (\<lambda>digest.
         chain (record_settlement e effect_id digest (dget (items finish) ''run_id'') stored
                  [(lit ''outcome'', outcome), (lit ''response'', response), (lit ''reconciled'', JBool True)]) (\<lambda>_.
         give (fst counted + 1, True))))))))))"

definition fair_reconcile_one :: "'w host_env \<Rightarrow> pystr \<Rightarrow> nat \<times> bool \<Rightarrow> json \<Rightarrow> ('w, nat \<times> bool) worker" where
  "fair_reconcile_one e scope counted effect_id =
     chain (fair_effect e effect_id) (\<lambda>effect.
       if scope_text e effect \<noteq> scope then give counted
       else
         chain (jlast ''dispatch_finished'' effect_id) (\<lambda>found.
           case found of
             None \<Rightarrow> abort (JournalCorrupt ''missing durable outcome'')
           | Some finish \<Rightarrow>
               let f = items finish; outcome = dget (items (dget f ''payload'')) ''outcome'';
                   stored = or_dict (dget f ''claim'') in
               if \<not> is_dict outcome then abort (JournalCorrupt ''missing durable outcome'')
               else if status_is effect [jstr ''claimed''] \<and> py_eq (effect_token effect) stored
               then fair_resubmit e effect_id finish outcome stored counted
               else
                 chain (entry finish ''request_digest'') (\<lambda>digest.
                 chain (record_settlement e effect_id digest (dget f ''run_id'') stored
                          [(lit ''conflict'', JBool (\<not> py_eq (dget (items effect) ''outcome'') outcome)),
                           (lit ''reason'', jstr (if status_is effect [jstr ''claimed''] then ''claim_token_changed''
                                                  else ''database_terminal'')),
                           (lit ''outcome'', outcome)]) (\<lambda>_.
                 give (fst counted, True)))))"

definition fair_reconcile :: "'w host_env \<Rightarrow> pystr \<Rightarrow> ('w, nat \<times> bool) worker" where
  "fair_reconcile e scope =
     chain (peek (\<lambda>s. pending_settlements (hjournal s))) (\<lambda>ids.
     fold_over (fair_reconcile_one e scope) (0, False) ids)"

text \<open>live, lapsed, progressed\<close>

definition fair_orphan_one :: "'w host_env \<Rightarrow> pystr \<Rightarrow> bool \<times> bool \<times> bool \<Rightarrow> json \<Rightarrow> ('w, bool \<times> bool \<times> bool) worker" where
  "fair_orphan_one e scope flags effect_id =
     chain (jhas ''settlement_committed'' effect_id) (\<lambda>closed.
       if closed then give flags
       else
         chain (fair_effect e effect_id) (\<lambda>effect.
           if scope_text e effect \<noteq> scope then give flags
           else
             chain (fair_close_orphan e effect) (\<lambda>p.
               case flags of (live, lapsed, progressed) \<Rightarrow>
                 if \<not> status_is effect [jstr ''claimed''] then give (live, lapsed, progressed \<or> p)
                 else
                   chain (entry effect ''lease_until'') (\<lambda>lease.
                   chain (remaining_lease_ms e lease) (\<lambda>remaining.
                   give (if 0 < remaining then (True, lapsed, progressed \<or> p)
                         else if \<not> py_eq (dget (items effect) ''replay_policy'') (jstr ''manual'')
                         then (live, True, progressed \<or> p)
                         else (live, lapsed, progressed \<or> p)))))))"

definition fair_orphan :: "'w host_env \<Rightarrow> pystr \<Rightarrow> ('w, bool \<times> bool \<times> bool) worker" where
  "fair_orphan e scope =
     chain (peek (\<lambda>s. unfinished_dispatches (hjournal s))) (\<lambda>ids.
     fold_over (fair_orphan_one e scope) (False, False, False) ids)"

section \<open>Claiming\<close>

definition fair_execute :: "'w host_env \<Rightarrow> json \<Rightarrow> json \<Rightarrow> ('w, execution) worker" where
  "fair_execute e effect token =
     chain (assert_all_idle e) (\<lambda>_.
     chain (entry effect ''request'') (\<lambda>request.
     chain (outcome_of (request_digest request)) (\<lambda>digest.
     chain (entry effect ''kind'') (\<lambda>kd.
     chain (remember_scope (scope_text e effect) (effect_text e effect)) (\<lambda>_.
     execute_effect e kd (JStr (effect_text e effect)) effect token (JStr digest))))))"

text \<open>A refused claim is believed only when the effect changed, ended or lost its lease.\<close>

definition refused_claim :: "'w host_env \<Rightarrow> json \<Rightarrow> json \<Rightarrow> json \<Rightarrow> ('w, execution option) worker" where
  "refused_claim e effect_id item response =
     chain (outcome_of (fair_envelope (JObj [(lit ''v'', dget (items response) ''v'')]))) (\<lambda>_.
     chain (fair_effect e effect_id) (\<lambda>current.
     chain (if status_is current [jstr ''claimed'']
               \<and> is_one_of (dget (items current) ''kind'') [jstr ''model_call'', jstr ''tool_call'']
            then chain (remaining_lease_ms e (dget (items current) ''lease_until'')) (\<lambda>r. give (r \<le> 0))
            else give False) (\<lambda>stale_business.
       let changed_row = list_ex (\<lambda>k. \<not> py_eq (dget (items current) k) (dget (items item) k))
                           [''status'', ''attempt_no'', ''fence'', ''claim_owner''];
           code = dget (items (dget (items response) ''error'')) ''code'' in
       if status_is current DB_TERMINAL \<or> py_eq code (jstr ''stale_claim'') \<and> (stale_business \<or> changed_row)
       then give None else abort (host_db_error response))))"

definition claimed_effect :: "'w host_env \<Rightarrow> json \<Rightarrow> json \<Rightarrow> ('w, execution option) worker" where
  "claimed_effect e effect_id response =
     (let d = items response in
      chain (outcome_of (fair_envelope response)) (\<lambda>_.
      chain (insist (py_str (str_of e) (dget d ''effect_id'') = the_str effect_id) (contract ''claim identity mismatch'')) (\<lambda>_.
        if py_eq (dget d ''disposition'') (jstr ''deferred'')
        then chain (insist (dget d ''claim'' = JNull \<or> dget d ''claim'' = JObj []) (contract ''deferred with token'')) (\<lambda>_.
               give None)
        else
          chain (insist (py_eq (dget d ''disposition'') (jstr ''committed'')) (contract ''unknown claim disposition'')) (\<lambda>_.
          chain (outcome_of (fair_token (dget d ''claim''))) (\<lambda>token.
          chain (fair_effect e effect_id) (\<lambda>effect.
            if \<not> status_is effect [jstr ''claimed''] \<or> \<not> py_eq (effect_token effect) token then give None
            else chain (fair_execute e effect token) (\<lambda>x. give (Some (x\<lparr>ex_claimed := True\<rparr>)))))))))"

definition fair_claim :: "'w host_env \<Rightarrow> json \<Rightarrow> ('w, execution option) worker" where
  "fair_claim e item =
     (let effect_id = JStr (effect_text e item) in
      chain (peek attempted) (\<lambda>tried.
      chain (insist (effect_text e item \<notin> set tried) (contract ''duplicate physical claim in fair invocation'')) (\<lambda>_.
      chain (change (\<lambda>s. s\<lparr>attempted := effect_text e item # attempted s\<rparr>)) (\<lambda>_.
      chain (outcome_of (lease_for e item)) (\<lambda>lease.
      chain (db_claim e effect_id lease) (\<lambda>response.
        if is_error response
           \<and> is_one_of (dget (items (dget (items response) ''error'')) ''code'') [jstr ''invalid_args'', jstr ''stale_claim'']
        then refused_claim e effect_id item response
        else claimed_effect e effect_id response))))))"

section \<open>Prepared effects\<close>

text \<open>Candidates in journal order, starting after the one the scope resumed last.\<close>

definition rotated :: "(int \<times> pystr) option \<Rightarrow> (int \<times> pystr) list \<Rightarrow> (int \<times> pystr) list" where
  "rotated anchor xs =
     (case anchor of
        None \<Rightarrow> xs
      | Some a \<Rightarrow>
          let after_anchor = (\<lambda>x. fst a < fst x \<or> fst a = fst x \<and> snd a < snd x) in
          filter after_anchor xs @ filter (\<lambda>x. \<not> after_anchor x) xs)"

definition prepared_candidates :: "journal \<Rightarrow> (int \<times> pystr) list" where
  "prepared_candidates j =
     sort_key fst (sort_key snd
       (map (\<lambda>i. (the_int (dget (items (hd (records_for j i))) ''seq''), i))
         (filter (\<lambda>i. \<not> has_event j ''dispatch_finished'' i) (map the_str (prepared_without_dispatch j)))))"

definition fair_prepared_one ::
  "'w host_env \<Rightarrow> pystr \<Rightarrow> bool \<Rightarrow> int \<times> pystr \<Rightarrow> ('w, (execution option \<times> bool) + bool) worker" where
  "fair_prepared_one e scope progressed candidate =
     (let effect_id = JStr (snd candidate) in
      chain (fair_effect e effect_id) (\<lambda>effect.
        if scope_text e effect \<noteq> scope then give (Inr progressed)
        else
          chain (change (\<lambda>s. s\<lparr>resume_cursor := (resume_cursor s)(scope := Some candidate)\<rparr>)) (\<lambda>_.
          chain (jlast ''effect_prepared'' effect_id) (\<lambda>found.
            case found of
              None \<Rightarrow> abort TypeError
            | Some prepared \<Rightarrow>
                chain (entry prepared ''request_digest'') (\<lambda>prepared_digest.
                  if status_is effect DB_TERMINAL
                  then
                    chain (record_settlement e effect_id prepared_digest (dget (items prepared) ''run_id'')
                             (or_dict (dget (items prepared) ''claim''))
                             [(lit ''conflict'', JBool True), (lit ''reason'', jstr ''database_terminal_no_dispatch'')]) (\<lambda>_.
                    give (Inr True))
                  else
                    chain (outcome_of (request_digest (dget (items effect) ''request''))) (\<lambda>digest.
                    chain (insist (prepared_digest = JStr digest) (JournalCorrupt ''prepared request digest mismatch'')) (\<lambda>_.
                      if status_is effect [jstr ''ready'']
                      then
                        chain (peek attempted) (\<lambda>tried.
                          if snd candidate \<in> set tried then give (Inr progressed)
                          else chain (fair_claim e effect) (\<lambda>x. give (Inl (x, progressed))))
                      else if \<not> py_eq (dget (items prepared) ''claim'') (effect_token effect) then give (Inr progressed)
                      else
                        chain (entry effect ''lease_until'') (\<lambda>lease.
                        chain (remaining_lease_ms e lease) (\<lambda>remaining.
                          if remaining \<le> needed_lease e (dget (items effect) ''kind'') then give (Inr progressed)
                          else
                            chain (fair_execute e effect (effect_token effect)) (\<lambda>x.
                            give (Inl (Some (x\<lparr>ex_claimed := False\<rparr>), progressed))))))))))))"

text \<open>\<open>Inl\<close>: resumed, with the outcome and whether markers were appended on the way.\<close>

definition fair_prepared :: "'w host_env \<Rightarrow> pystr \<Rightarrow> ('w, (execution option \<times> bool) + bool) worker" where
  "fair_prepared e scope =
     chain (peek (\<lambda>s. rotated (resume_cursor s scope) (prepared_candidates (hjournal s)))) (\<lambda>candidates.
     loop_over (fair_prepared_one e scope) False candidates)"

section \<open>Recovery\<close>

fun check_applied :: "'w host_env \<Rightarrow> nat list \<Rightarrow> json list \<Rightarrow> exn + unit" where
  "check_applied e seen [] = Inr ()"
| "check_applied e seen (item # rest) =
     (if \<not> is_dict item \<or> \<not> is_one_of (dget (items item) ''kind'') EXTERNAL_KINDS
         \<or> \<not> is_one_of (dget (items item) ''action'') [jstr ''reset_ready'', jstr ''settle_unknown'']
      then Inl (contract ''malformed applied recovery row'')
      else
        (case uuid_number e (dget (items item) ''effect_id'') of
           Inl _ \<Rightarrow> Inl (contract ''malformed recovery effect identity'')
         | Inr n \<Rightarrow>
             if n \<in> set seen then Inl (contract ''duplicate recovery effect identity'')
             else check_applied e (n # seen) rest))"

definition check_recovery :: "'w host_env \<Rightarrow> pystr \<Rightarrow> json \<Rightarrow> exn + dict" where
  "check_recovery e scope response =
     andthen (fair_envelope response) (\<lambda>_.
       let recovery = dget (items response) ''recovery''; d = items recovery in
       if \<not> is_one_of (dget (items response) ''disposition'') [jstr ''committed'', jstr ''replay'']
          \<or> \<not> is_dict recovery
          \<or> py_str (str_of e) (dget d ''scope_id'') \<noteq> scope
          \<or> \<not> is_list (dget d ''applied'') \<or> \<not> is_list (dget d ''skipped'')
          \<or> 16 < length (elems (dget d ''applied''))
          \<or> \<not> is_int (dget d ''manual_debt'') \<or> the_int (dget d ''manual_debt'') < 0
          \<or> \<not> is_bool (dget d ''has_more'')
       then Inl (contract ''malformed recovery response'')
       else andthen (check_applied e [] (elems (dget d ''applied''))) (\<lambda>_. Inr d))"

definition fair_recover :: "'w host_env \<Rightarrow> pystr \<Rightarrow> ('w, dict) worker" where
  "fair_recover e scope =
     chain (next_recovery e (lit ''fair:'' @ scope)) (\<lambda>key.
     chain (db_recover e (JStr scope) key) (\<lambda>response.
     outcome_of (check_recovery e scope response)))"

section \<open>One visit\<close>

definition fair_count :: "execution option \<Rightarrow> round_stats \<Rightarrow> round_stats" where
  "fair_count outcome stats =
     (case outcome of
        None \<Rightarrow> stats\<lparr>claim_conflicts := claim_conflicts stats + 1, skipped := skipped stats + 1\<rparr>
      | Some x \<Rightarrow>
          stats\<lparr>claimed := claimed stats + (if ex_claimed x then 1 else 0),
            executed := executed stats + (if ex_executed x then 1 else 0),
            settled := settled stats + (if ex_settled x then 1 else 0),
            last_reply := (if ex_reply x \<noteq> JNull then ex_reply x else last_reply stats)\<rparr>)"

definition moved :: "execution option \<Rightarrow> bool" where
  "moved outcome \<longleftrightarrow> (case outcome of None \<Rightarrow> False | Some x \<Rightarrow> ex_dispatched x \<or> ex_settled x)"

definition blocked :: "round_stats \<Rightarrow> round_stats" where
  "blocked stats = stats\<lparr>orphan_blocked := 1, pending_work := True\<rparr>"

text \<open>Whether a claimed effect that is not settled by hand has lost its lease.\<close>

definition lease_lost :: "'w host_env \<Rightarrow> unit \<Rightarrow> json \<Rightarrow> ('w, unit + unit) worker" where
  "lease_lost e _ x =
     (if \<not> status_is x [jstr ''claimed''] \<or> py_eq (dget (items x) ''replay_policy'') (jstr ''manual'') then give (Inr ())
      else chain (remaining_lease_ms e (dget (items x) ''lease_until'')) (\<lambda>r.
             give (if r \<le> 0 then Inl () else Inr ())))"

definition manual_debt :: "'w host_env \<Rightarrow> pystr list \<Rightarrow> json \<Rightarrow> ('w, pystr list) worker" where
  "manual_debt e debt x =
     (if \<not> status_is x [jstr ''claimed''] \<or> \<not> py_eq (dget (items x) ''replay_policy'') (jstr ''manual'') then give debt
      else chain (remaining_lease_ms e (dget (items x) ''lease_until'')) (\<lambda>r.
             give (if r \<le> 0 then List.insert (effect_text e x) debt else debt)))"

definition recovered_stats :: "dict \<Rightarrow> round_stats \<Rightarrow> round_stats" where
  "recovered_stats recovery stats =
     stats\<lparr>recovery_commands := 1, recovered := 1,
       recovery_applied := length (elems (dget recovery ''applied'')),
       recovery_has_more := truthy (dget recovery ''has_more'')\<rparr>"

definition is_host :: "json \<Rightarrow> bool" where
  "is_host x \<longleftrightarrow> is_one_of (dget (items x) ''kind'') HOST_KINDS"

text \<open>Host resources come first, but after three of them a waiting model or tool call gets a turn.\<close>

definition chosen_class :: "nat \<Rightarrow> json list \<Rightarrow> string \<times> json list" where
  "chosen_class streak ready =
     (let host = filter is_host ready; business = filter (\<lambda>x. \<not> is_host x) ready in
      if business \<noteq> [] \<and> (host = [] \<or> streak = 3) then (''business'', business) else (''host'', host))"

definition fair_opportunity :: "'w host_env \<Rightarrow> pystr \<Rightarrow> json list \<Rightarrow> round_stats \<times> bool \<Rightarrow> ('w, round_stats \<times> bool) worker" where
  "fair_opportunity e scope discovered = (\<lambda>(stats, progressed).
     chain (peek (\<lambda>s. (attempted s, case host_streak s scope of None \<Rightarrow> 0 | Some n \<Rightarrow> n))) (\<lambda>(tried, streak).
       let ready = filter (\<lambda>x. status_is x [jstr ''ready''] \<and> effect_text e x \<notin> set tried) discovered in
       case chosen_class streak ready of
         (klass, candidates) \<Rightarrow>
           if candidates = [] then give (stats, progressed)
           else
             chain (fair_pick e scope klass candidates) (\<lambda>effect.
             chain (change (\<lambda>s. s\<lparr>host_streak := (host_streak s)(scope :=
                      Some (if klass = ''business'' then 0 else min 3 (streak + 1)))\<rparr>)) (\<lambda>_.
             chain (fair_claim e effect) (\<lambda>outcome.
             give (fair_count outcome (stats\<lparr>new_opportunities := 1\<rparr>), progressed \<or> moved outcome))))))"

definition fair_finish :: "'w host_env \<Rightarrow> pystr \<Rightarrow> round_stats \<times> bool \<Rightarrow> ('w, round_stats \<times> bool) worker" where
  "fair_finish e scope = (\<lambda>(stats, progressed).
     chain (fair_scan e scope) (\<lambda>discovered.
     chain (fold_over (manual_debt e) [] discovered) (\<lambda>debt.
     chain (fair_opportunity e scope discovered (stats\<lparr>manual_debt_ids := debt\<rparr>, progressed)) (\<lambda>(stats, progressed).
     chain (peek (\<lambda>s. list_ex (\<lambda>i. i \<in> set (scope_journal_ids s scope)) (fair_journal_ids (hjournal s)))) (\<lambda>owed.
     give (stats\<lparr>pending_work := discovered \<noteq> [] \<or> recovery_has_more stats \<or> owed\<rparr>, progressed))))))"

definition fair_sweep :: "'w host_env \<Rightarrow> pystr \<Rightarrow> bool \<Rightarrow> round_stats \<times> bool \<Rightarrow> ('w, round_stats \<times> bool) worker" where
  "fair_sweep e scope lapsed = (\<lambda>(stats, progressed).
     chain (fair_orphan e scope) (\<lambda>(live, lapsed2, closed).
       let progressed = (progressed \<or> closed) in
       if live then give (blocked stats, progressed)
       else
         chain (fair_scan e scope) (\<lambda>before.
         chain (if lapsed2 then give True
                else chain (loop_over (lease_lost e) () before) (\<lambda>r. give (case r of Inl _ \<Rightarrow> True | Inr _ \<Rightarrow> False))) (\<lambda>lost.
         chain (if lapsed \<or> lost
                then chain (fair_recover e scope) (\<lambda>recovery.
                       give (recovered_stats recovery stats, progressed \<or> elems (dget recovery ''applied'') \<noteq> []))
                else give (stats, progressed)) (\<lambda>(stats, progressed).
         chain (fair_orphan e scope) (\<lambda>(live, _, closed).
           if live then give (blocked stats, progressed \<or> closed)
           else fair_finish e scope (stats, progressed \<or> closed)))))))"

definition fair_visit :: "'w host_env \<Rightarrow> pystr \<Rightarrow> ('w, round_stats \<times> bool) worker" where
  "fair_visit e scope =
     chain (assert_all_idle e) (\<lambda>_.
     chain (fair_reconcile e scope) (\<lambda>(n, progressed).
     chain (fair_orphan e scope) (\<lambda>(live, lapsed, closed).
       let stats = empty_stats\<lparr>scope_visits := 1, reconciled := n\<rparr>; progressed = (progressed \<or> closed) in
       if live then give ((blocked stats)\<lparr>skipped := 1\<rparr>, progressed)
       else
         chain (fair_prepared e scope) (\<lambda>resumed.
           case resumed of
             Inl (outcome, marked) \<Rightarrow>
               fair_sweep e scope lapsed
                 (fair_count outcome (stats\<lparr>prepared_attempts := 1\<rparr>), progressed \<or> marked \<or> moved outcome)
           | Inr marked \<Rightarrow> fair_sweep e scope lapsed (stats, progressed \<or> marked)))))"

section \<open>The loop\<close>

record fair_pass =
  turn_index :: nat
  visited :: "pystr list"
  residual :: "pystr \<Rightarrow> bool"
  debts :: "pystr \<Rightarrow> pystr list"
  more_left :: "pystr \<Rightarrow> bool"
  pass_progress :: bool
  totals :: round_stats

text \<open>What a visit adds to the totals; the next scope of the roster follows.\<close>

definition add_visit :: "pystr list \<Rightarrow> pystr \<Rightarrow> round_stats \<times> bool \<Rightarrow> fair_pass \<Rightarrow> fair_pass" where
  "add_visit roster scope = (\<lambda>(one, progressed) p.
     let old = totals p; t = merge old one;
         residual' = (residual p)(scope := pending_work one);
         debts' = (debts p)(scope := manual_debt_ids one);
         more' = (more_left p)(scope := recovery_has_more one) in
     p\<lparr>turn_index := (turn_index p + 1) mod length roster,
       visited := List.insert scope (visited p), residual := residual', debts := debts', more_left := more',
       pass_progress := pass_progress p \<or> progressed,
       totals := t\<lparr>new_opportunities := new_opportunities old + new_opportunities one,
         claim_conflicts := claim_conflicts old + claim_conflicts one,
         prepared_attempts := prepared_attempts old + prepared_attempts one,
         orphan_blocked := orphan_blocked old + orphan_blocked one,
         recovery_commands := recovery_commands old + recovery_commands one,
         recovery_applied := recovery_applied old + recovery_applied one,
         scope_visits := scope_visits old + 1, rounds := scope_visits old + 1,
         manual_debt_ids := remdups (concat (map debts' roster)),
         recovery_has_more := list_ex more' roster\<rparr>\<rparr>)"

fun fair_rounds :: "'w host_env \<Rightarrow> pystr list \<Rightarrow> nat \<Rightarrow> fair_pass \<Rightarrow> ('w, round_stats) worker" where
  "fair_rounds e roster 0 p =
     give ((totals p)\<lparr>idle := False, pending_work := True, stop_reason := Some ''budget_exhausted''\<rparr>)"
| "fair_rounds e roster (Suc k) p =
     (let scope = roster ! turn_index p in
      chain (change (\<lambda>s. s\<lparr>next_scope_after := Some scope\<rparr>)) (\<lambda>_.
      chain (fair_visit e scope) (\<lambda>visit.
      chain (peek (\<lambda>s. fair_journal_ids (hjournal s) \<noteq> [])) (\<lambda>owed.
        let p = add_visit roster scope visit p; open_work = (list_ex (residual p) roster \<or> owed) in
        if length (visited p) \<noteq> length roster then fair_rounds e roster k p
        else if \<not> open_work
        then give ((totals p)\<lparr>pending_work := False, idle := True, stop_reason := Some ''idle''\<rparr>)
        else if \<not> pass_progress p
        then give ((totals p)\<lparr>pending_work := True, idle := False, stop_reason := Some ''blocked_no_progress''\<rparr>)
        else fair_rounds e roster k
               (p\<lparr>visited := [], pass_progress := False, totals := (totals p)\<lparr>pending_work := True\<rparr>\<rparr>)))))"

definition only_of_roster :: "pystr list \<Rightarrow> 'w host_state \<Rightarrow> 'w host_state" where
  "only_of_roster roster s =
     s\<lparr>fair_cursors := (\<lambda>k. if fst k \<in> set roster then fair_cursors s k else None),
       host_streak := (\<lambda>k. if k \<in> set roster then host_streak s k else None),
       resume_cursor := (\<lambda>k. if k \<in> set roster then resume_cursor s k else None), attempted := []\<rparr>"

definition run_scopes :: "'w host_env \<Rightarrow> json option \<Rightarrow> nat \<Rightarrow> ('w, round_stats) worker" where
  "run_scopes e scope_ids max_rounds =
     chain (assert_all_idle e) (\<lambda>_.
     chain (fair_roster e scope_ids) (\<lambda>roster.
     chain (change (\<lambda>s. s\<lparr>scope_journal_ids := (\<lambda>_. [])\<rparr>)) (\<lambda>_.
     chain (fair_ownership e roster) (\<lambda>_.
     chain (change (only_of_roster roster)) (\<lambda>_.
       if roster = [] then give (empty_stats\<lparr>stop_reason := Some ''idle''\<rparr>)
       else
         chain (peek (\<lambda>s. next_scope e (next_scope_after s) roster)) (\<lambda>first.
         fair_rounds e roster max_rounds
           \<lparr>turn_index = (case position (\<lambda>s. s = first) roster of None \<Rightarrow> 0 | Some i \<Rightarrow> i), visited = [],
            residual = (\<lambda>_. False), debts = (\<lambda>_. []), more_left = (\<lambda>_. False), pass_progress = False,
            totals = empty_stats\<rparr>))))))"

definition run_scopes_until_idle :: "'w host_env \<Rightarrow> json option \<Rightarrow> int \<Rightarrow> ('w, round_stats) worker" where
  "run_scopes_until_idle e scope_ids max_rounds =
     (if max_rounds < 1 then abort ValueError
      else
        chain (peek fair_active) (\<lambda>busy.
          if busy then abort (contract ''fair worker is already running'')
          else
            chain (change (\<lambda>s. s\<lparr>fair_active := True\<rparr>)) (\<lambda>_.
            finally_do (run_scopes e scope_ids (nat max_rounds)) (\<lambda>s. s\<lparr>fair_active := False\<rparr>))))"

end
