(* ===== verification/Worker_Facts.thy ===== *)
theory Worker_Facts
  imports Worker_Fair
begin

text \<open>
  What every operation of the worker keeps. The locale \<open>worker_frame\<close> asks of a property of the state
  that it survives the world outside, the bookkeeping and one more journal record; its lemmas say
  that every step below a dispatch keeps it. \<open>worker_rule\<close> adds that executing an effect keeps it and
  extends this to the two loops. Both are interpreted twice: with the flag of the fair loop, where
  the steps also end, and with the order of journal and dispatch.
\<close>

definition longer :: "journal \<Rightarrow> journal \<Rightarrow> bool" where
  "longer j k \<longleftrightarrow> jrecords k = jrecords j \<or> (\<exists>r. jrecords k = jrecords j @ [r])"

lemma append_record_longer: "append_record j a ev eid dg pl run_id cl = (r, k) \<Longrightarrow> longer j k"
  by (auto simp: append_record_def longer_def Let_def split: sum.splits write_answer.splits if_splits)

locale worker_frame =
  fixes ends :: bool and e :: "'w host_env" and P :: "'w host_state \<Rightarrow> bool"
  assumes outside_kept: "P s \<Longrightarrow> P (s\<lparr>outside := w\<rparr>)"
    and rpc_kept: "P s \<Longrightarrow> P (s\<lparr>rpc_log := l\<rparr>)"
    and recover_kept: "P s \<Longrightarrow> P (s\<lparr>recover_seq := n\<rparr>)"
    and rotation_kept: "P s \<Longrightarrow> P (s\<lparr>next_scope_after := v\<rparr>)"
    and cursors_kept: "P s \<Longrightarrow> P (s\<lparr>fair_cursors := c\<rparr>)"
    and streak_kept: "P s \<Longrightarrow> P (s\<lparr>host_streak := h\<rparr>)"
    and resume_kept: "P s \<Longrightarrow> P (s\<lparr>resume_cursor := u\<rparr>)"
    and scope_ids_kept: "P s \<Longrightarrow> P (s\<lparr>scope_journal_ids := i\<rparr>)"
    and attempted_kept: "P s \<Longrightarrow> P (s\<lparr>attempted := a\<rparr>)"
    and append_kept: "P s \<Longrightarrow> longer (hjournal s) j \<Longrightarrow> P (s\<lparr>hjournal := j\<rparr>)"
begin

lemma outer_kept [keeping_intros]: "keeping ends P (outer m)"
  unfolding outer_def by (rule keeping_acting, rule keeps_zoom) (rule outside_kept)

lemma note_rpc_kept [keeping_intros]: "keeping ends P (note_rpc name)"
  unfolding note_rpc_def by (rule keeping_change) (rule rpc_kept)

lemma db_kept [keeping_intros]:
  "keeping ends P (db_read e name kwargs)" "keeping ends P (db_claim e eid lease)"
  "keeping ends P (db_settle e eid cls token kd res)" "keeping ends P (db_recover e scope key)"
  "keeping ends P (assert_all_idle e)" "keeping ends P (remaining_lease_ms e v)"
  unfolding db_read_def db_claim_def db_settle_def db_recover_def assert_all_idle_def remaining_lease_ms_def
  by (intro keeping_intros)+

lemma db_reads_kept [keeping_intros]:
  "keeping ends P (db_host_scopes e a b)" "keeping ends P (db_host_effects e a b c)"
  "keeping ends P (db_host_effect e a)" "keeping ends P (db_host_run_pins e a b)"
  unfolding db_host_scopes_def db_host_effects_def db_host_effect_def db_host_run_pins_def
  by (intro keeping_intros)+

lemma journal_reads_kept [keeping_intros]: "keeping ends P (jhas ev eid)" "keeping ends P (jlast ev eid)"
  unfolding jhas_def jlast_def by (intro keeping_intros)+

lemma journal_append_kept [keeping_intros]: "keeping ends P (journal_append e ev eid dg pl run_id cl)"
proof (rule keepingI)
  fix s assume s: "P s"
  show "case journal_append e ev eid dg pl run_id cl s of None \<Rightarrow> \<not> ends | Some (r, t) \<Rightarrow> P t"
    unfolding journal_append_def Let_def
    using s by (auto split: sum.splits prod.splits intro!: outside_kept append_kept dest: append_record_longer)
qed

lemma record_settlement_kept [keeping_intros]: "keeping ends P (record_settlement e eid dg run_id token pl)"
  unfolding record_settlement_def by (intro keeping_intros)

lemma settle_kept [keeping_intros]: "keeping ends P (settle e eid run_id token dg kd cls res out)"
  unfolding settle_def by (intro keeping_intros)

lemma local_outcome_kept [keeping_intros]:
  "keeping ends P (local_outcome e cls eid run_id token dg kd why req res b)"
  "keeping ends P (no_http_failure e eid run_id token dg kd why req b)"
  "keeping ends P (no_http_unknown e eid run_id token dg kd why req b)"
  unfolding no_http_failure_def no_http_unknown_def local_outcome_def by (intro keeping_intros)+

lemma prepare_kept [keeping_intros]:
  "keeping ends P (crash_at e point)" "keeping ends P (prepare_effect e eid run_id token dg kd req extra)"
  "keeping ends P (start_dispatch e eid run_id token dg kd req extra)"
  "keeping ends P (finish_dispatch e eid run_id token dg kd req cls res extra reply)"
  unfolding crash_at_def prepare_effect_def start_dispatch_def finish_dispatch_def by (intro keeping_intros)+

lemma parent_kept [keeping_intros]: "keeping ends P (parent_tool_call effect)"
  unfolding parent_tool_call_def by (intro keeping_intros)

lemma pins_turn_kept [keeping_intros]: "keeping ends P (pins_turn e run_id b)"
  unfolding pins_turn_def by (intro keeping_intros)

end

section \<open>The paged reads of the fair loop end\<close>

text \<open>Identifiers are numbers below \<open>2^128\<close> and instants lie in the calendar, so what increases from
  page to page cannot increase for ever.\<close>

definition UUIDS :: nat where "UUIDS = 2 ^ 128"

lemma uuid_int_less: "uuid_int x s = Inr n \<Longrightarrow> n < UUIDS"
  by (auto simp: uuid_int_def Let_def UUIDS_def split: if_splits option.splits)

lemma uuid_number_less: "uuid_number e v = Inr n \<Longrightarrow> n < UUIDS"
  by (auto simp: uuid_number_def valid_uuid_def split: if_splits intro: uuid_int_less)

definition left_above :: "nat option \<Rightarrow> nat" where
  "left_above p = (case p of None \<Rightarrow> UUIDS + 1 | Some n \<Rightarrow> UUIDS - n)"

lemma left_above_less: "n < UUIDS \<Longrightarrow> (case p of None \<Rightarrow> True | Some q \<Rightarrow> q < n) \<Longrightarrow> left_above (Some n) < left_above p"
  by (auto simp: left_above_def split: option.splits)

lemma check_scopes_last:
  "check_scopes e previous page = Inr ns \<Longrightarrow> ns \<noteq> [] \<Longrightarrow>
     last ns < UUIDS \<and> (case previous of None \<Rightarrow> True | Some q \<Rightarrow> q < last ns)"
proof (induction e previous page arbitrary: ns rule: check_scopes.induct)
  case (2 e previous item rest)
  from "2.prems" obtain n ms where n: "andthen (subscript item ''scope_id'') (uuid_number e) = Inr n"
    and above: "case previous of None \<Rightarrow> True | Some p \<Rightarrow> p < n"
    and ms: "check_scopes e (Some n) rest = Inr ms" "ns = n # ms"
    by (auto simp: andthen_Inr split: sum.splits if_splits option.splits)
  have "n < UUIDS" using n by (auto simp: andthen_Inr intro: uuid_number_less)
  show ?case
  proof (cases "ms = []")
    case False
    then have "last ms < UUIDS \<and> n < last ms" using "2.IH"[OF n] above ms by (auto split: option.splits)
    then show ?thesis using above ms False by (auto split: option.splits)
  qed (use above ms \<open>n < UUIDS\<close> in \<open>auto split: option.splits\<close>)
qed simp

definition pin_mark :: "'w host_env \<Rightarrow> json \<Rightarrow> nat option" where
  "pin_mark e cursor =
     (if cursor = JNull then None
      else case uuid_number e (dget (items cursor) ''pin_id'') of Inl _ \<Rightarrow> Some UUIDS | Inr n \<Rightarrow> Some n)"

lemma check_next_pin_less:
  assumes "check_next_pin e cursor nxt = Inr ()"
  shows "left_above (pin_mark e nxt) < left_above (pin_mark e cursor)"
proof -
  from assms obtain n where n: "uuid_number e (dget (items nxt) ''pin_id'') = Inr n" and "is_dict nxt"
    and above: "cursor = JNull \<or> (\<exists>p. uuid_number e (dget (items cursor) ''pin_id'') = Inr p \<and> p < n)"
    by (auto simp: check_next_pin_def andthen_def split: if_splits sum.splits option.splits prod.splits)
  moreover have "n < UUIDS" using n by (rule uuid_number_less)
  ultimately show ?thesis by (auto simp: pin_mark_def left_above_def)
qed

definition time_left :: "int \<times> nat \<Rightarrow> nat" where
  "time_left k = nat ((MAX_INSTANT - fst k) * int UUIDS - int (snd k))"

definition key_ok :: "int \<times> nat \<Rightarrow> bool" where
  "key_ok k \<longleftrightarrow> 0 \<le> fst k \<and> fst k < MAX_INSTANT \<and> snd k < UUIDS"

lemma fair_key_ok: "fair_key e item = Inr k \<Longrightarrow> key_ok k"
proof -
  assume "fair_key e item = Inr k"
  then obtain t z u i n where "utc t z = Inr u"
    and "uuid_int (exotic_uuid e) (py_str (str_of e) i) = Inr n" "k = (u, n)"
    by (auto simp: fair_key_def andthen_def split: sum.splits option.splits prod.splits)
  then show ?thesis using utc_range[of t z u] uuid_int_less by (auto simp: key_ok_def)
qed

lemma time_left_less:
  assumes "key_ok a" "key_ok b" "key_before a b"
  shows "time_left b < time_left a"
proof -
  obtain t n where a: "a = (t, n)" by (cases a)
  obtain u m where b: "b = (u, m)" by (cases b)
  define K where "K = int UUIDS"
  have bounds: "t < MAX_INSTANT" "u < MAX_INSTANT" "int n < K" "int m < K" "0 \<le> int n" "0 \<le> int m"
    using assms a b by (auto simp: key_ok_def K_def)
  have "(MAX_INSTANT - u) * K - int m < (MAX_INSTANT - t) * K - int n"
  proof (cases "t < u")
    case True
    then have "(MAX_INSTANT - u) * K \<le> (MAX_INSTANT - t - 1) * K"
      using bounds by (intro mult_right_mono) auto
    then show ?thesis using bounds by (simp add: left_diff_distrib)
  next
    case False
    then have "t = u" "n < m" using assms(3) a b by (auto simp: key_before_def)
    then show ?thesis by simp
  qed
  moreover have "int n < (MAX_INSTANT - t) * K"
    using bounds mult_right_mono[of 1 "MAX_INSTANT - t" K] by linarith
  ultimately show ?thesis using bounds by (simp add: time_left_def a b K_def)
qed

lemma time_left_bound: "key_ok k \<Longrightarrow> time_left k \<le> nat (MAX_INSTANT * int UUIDS)"
proof -
  assume "key_ok k"
  then have "(MAX_INSTANT - fst k) * int UUIDS \<le> MAX_INSTANT * int UUIDS"
    by (intro mult_right_mono) (auto simp: key_ok_def)
  then show ?thesis by (auto simp: time_left_def intro!: nat_mono)
qed

lemma check_found_last:
  "check_found e scope previous page = Inr k \<Longrightarrow> page \<noteq> [] \<Longrightarrow> pred_option key_ok previous \<Longrightarrow>
     \<exists>q. k = Some q \<and> key_ok q \<and> (case previous of None \<Rightarrow> True | Some p \<Rightarrow> key_before p q)"
proof (induction e scope previous page arbitrary: k rule: check_found.induct)
  case (2 e scope previous effect rest)
  from "2.prems"(1) obtain q where q: "fair_key e effect = Inr q"
    and above: "case previous of None \<Rightarrow> True | Some p \<Rightarrow> key_before p q"
    and rest: "check_found e scope (Some q) rest = Inr k"
    and pre: "fair_validate_effect e None (Some scope) effect = Inr ()"
      "require (status_is effect [jstr ''ready'', jstr ''claimed'']) (contract ''terminal effect in discovery'') = Inr ()"
    by (auto simp: andthen_Inr require_def split: if_splits)
  have ok: "key_ok q" using q by (rule fair_key_ok)
  show ?case
  proof (cases "rest = []")
    case False
    have "require (case previous of None \<Rightarrow> True | Some p \<Rightarrow> key_before p q) (contract ''host_effects did not advance'') = Inr ()"
      using above by (simp add: require_def)
    then obtain r where "k = Some r" "key_ok r" "key_before q r"
      using "2.IH"[OF pre q _ rest False] ok by auto
    then show ?thesis using above by (auto simp: key_before_def split: option.splits)
  qed (use rest above ok in \<open>cases q, auto split: option.splits\<close>)
qed simp

definition scan_mark :: "'w host_env \<Rightarrow> json \<Rightarrow> nat" where
  "scan_mark e cursor =
     (if cursor = JNull then nat (MAX_INSTANT * int UUIDS) + 1
      else case fair_key e cursor of Inl _ \<Rightarrow> 0 | Inr k \<Rightarrow> time_left k)"

lemma outcome_returns [simp]: "outcome_of r s = Some (Inr x, t) \<longleftrightarrow> r = Inr x \<and> t = s"
  by (auto simp: outcome_of_def)

lemma scopes_turn_less:
  assumes "scopes_turn e (previous, found) s = Some (Inr (Inr b'), t)"
  shows "left_above (fst b') < left_above previous"
proof -
  from assms obtain page ns where "check_scopes e previous page = Inr ns" "ns \<noteq> []" "fst b' = Some (last ns)"
    by (auto simp: scopes_turn_def chain_returns Let_def simp del: chain_simps split: if_splits)
  then show ?thesis using check_scopes_last[of e previous page ns] left_above_less[of "last ns" previous] by auto
qed

lemma scan_turn_less:
  assumes "scan_turn e scope (cursor, found) s = Some (Inr (Inr b'), t)"
  shows "scan_mark e (fst b') < scan_mark e cursor"
proof -
  from assms obtain u v response page previous k where
    prev: "(if cursor = JNull then give None else outcome_of (andthen (fair_key e cursor) (\<lambda>k. Inr (Some k)))) u
             = Some (Inr previous, v)"
    and found: "check_found e scope previous page = Inr (Some k)" and page: "page \<noteq> []"
    and cur: "fst b' = dget (items response) ''next_cursor''" "is_dict (fst b')" "fair_key e (fst b') = Inr k"
    by (auto simp: scan_turn_def chain_returns Let_def simp del: chain_simps split: if_splits)
  have k: "key_ok k" using cur(3) by (rule fair_key_ok)
  have mark: "scan_mark e (fst b') = time_left k" using cur by (auto simp: scan_mark_def)
  show ?thesis
  proof (cases "cursor = JNull")
    case True
    then show ?thesis using mark time_left_bound[OF k] by (simp add: scan_mark_def)
  next
    case False
    then obtain q where q: "fair_key e cursor = Inr q" "previous = Some q"
      using prev by (auto simp: andthen_Inr)
    then have "key_before q k" using check_found_last[OF found page] fair_key_ok[OF q(1)] by auto
    then show ?thesis using False q mark time_left_less[OF fair_key_ok[OF q(1)] k] by (simp add: scan_mark_def)
  qed
qed

section \<open>Rounds\<close>

context worker_frame
begin

lemma fair_roster_kept [keeping_intros]: "keeping ends P (fair_roster e scope_ids)"
proof -
  have "keeping ends P (scopes_turn e b)" for b
    unfolding scopes_turn_def by (intro keeping_intros)
  then have "keeping ends P (while_true (scopes_turn e) (None, []))"
    by (rule keeping_while_measure[where I = "\<lambda>_. True" and \<mu> = "left_above \<circ> fst"])
      (auto dest: scopes_turn_less)
  then show ?thesis unfolding fair_roster_def by (intro keeping_intros)
qed

lemma fair_scan_kept [keeping_intros]: "keeping ends P (fair_scan e scope)"
proof -
  have "keeping ends P (scan_turn e scope b)" for b
    unfolding scan_turn_def by (intro keeping_intros)
  then show ?thesis
    unfolding fair_scan_def
    by (rule keeping_while_measure[where I = "\<lambda>_. True" and \<mu> = "scan_mark e \<circ> fst"])
      (auto dest: scan_turn_less)
qed

lemma fair_effect_kept [keeping_intros]: "keeping ends P (fair_effect e eid)"
  unfolding fair_effect_def by (intro keeping_intros)

lemma fair_close_orphan_kept [keeping_intros]: "keeping ends P (fair_close_orphan e effect)"
  unfolding fair_close_orphan_def by (intro keeping_intros)

lemma remember_scope_kept [keeping_intros]: "keeping ends P (remember_scope scope i)"
  unfolding remember_scope_def by (rule keeping_change) (rule scope_ids_kept)

lemma fair_ownership_kept [keeping_intros]: "keeping ends P (fair_ownership e roster)"
  unfolding fair_ownership_def owned_effect_def by (intro keeping_intros)

lemma fair_pick_kept [keeping_intros]: "keeping ends P (fair_pick e scope klass candidates)"
  unfolding fair_pick_def by (intro keeping_intros keeping_change cursors_kept)

lemma fair_reconcile_kept [keeping_intros]: "keeping ends P (fair_reconcile e scope)"
  unfolding fair_reconcile_def fair_reconcile_one_def fair_resubmit_def by (intro keeping_intros)

lemma fair_orphan_kept [keeping_intros]: "keeping ends P (fair_orphan e scope)"
  unfolding fair_orphan_def fair_orphan_one_def by (intro keeping_intros)

lemma next_recovery_kept [keeping_intros]: "keeping ends P (next_recovery e middle)"
  unfolding next_recovery_def by (intro keeping_intros keeping_change recover_kept)

lemma fair_recover_kept [keeping_intros]: "keeping ends P (fair_recover e scope)"
  unfolding fair_recover_def by (intro keeping_intros)

end

locale worker_rule = worker_frame +
  assumes execute_kept: "keeping ends P (execute_effect e kd eid effect token dg)"
begin

lemma fair_execute_kept [keeping_intros]: "keeping ends P (fair_execute e effect token)"
  unfolding fair_execute_def by (intro keeping_intros execute_kept)

lemma fair_claim_kept [keeping_intros]: "keeping ends P (fair_claim e item)"
  unfolding fair_claim_def refused_claim_def claimed_effect_def
  by (intro keeping_intros keeping_change attempted_kept)

lemma fair_prepared_kept [keeping_intros]: "keeping ends P (fair_prepared e scope)"
  unfolding fair_prepared_def fair_prepared_one_def by (intro keeping_intros keeping_change resume_kept)

lemma fair_opportunity_kept [keeping_intros]: "keeping ends P (fair_opportunity e scope discovered b)"
  unfolding fair_opportunity_def by (intro keeping_intros keeping_change streak_kept)

lemma fair_finish_kept [keeping_intros]: "keeping ends P (fair_finish e scope b)"
  unfolding fair_finish_def manual_debt_def by (intro keeping_intros)

lemma fair_sweep_kept [keeping_intros]: "keeping ends P (fair_sweep e scope b c)"
  unfolding fair_sweep_def lease_lost_def by (intro keeping_intros)

lemma fair_visit_kept [keeping_intros]: "keeping ends P (fair_visit e scope)"
  unfolding fair_visit_def by (intro keeping_intros)

lemma fair_rounds_kept [keeping_intros]: "keeping ends P (fair_rounds e roster k p)"
proof (induction k arbitrary: p)
  case (Suc k)
  show ?case unfolding fair_rounds.simps by (intro keeping_intros keeping_change rotation_kept Suc)
qed (simp add: keeping_simple)

lemma run_scopes_kept: "keeping ends P (run_scopes e scope_ids n)"
  unfolding run_scopes_def only_of_roster_def
  by (intro keeping_intros keeping_change attempted_kept resume_kept streak_kept cursors_kept scope_ids_kept)

end

text \<open>The loop over one scope believes the cursors of its pages, so nothing is said about its end.\<close>

locale worker_safety = worker_rule False e P for e :: "'w host_env" and P
begin

lemma expired_claims_kept [keeping_intros]: "keeping False P (expired_claims e scope)"
  unfolding expired_claims_def expired_turn_def expired_item_def effects_page_def
  by (rule keeping_while_true) (intro keeping_intros)

lemma discover_ready_kept [keeping_intros]: "keeping False P (discover_ready e scope)"
proof -
  have "keeping False P (while_true (ready_turn e scope) (JNull, []))"
    unfolding ready_turn_def effects_page_def by (rule keeping_while_true) (intro keeping_intros)
  then show ?thesis unfolding discover_ready_def by (intro keeping_intros)
qed

lemma claim_and_execute_kept [keeping_intros]: "keeping False P (claim_and_execute e item)"
  unfolding claim_and_execute_def by (intro keeping_intros execute_kept)

lemma reconcile_kept [keeping_intros]: "keeping False P (reconcile e scope)"
  unfolding reconcile_def reconcile_one_def resubmit_def close_terminal_def digest_for_def
  by (intro keeping_intros)

lemma resume_prepared_kept [keeping_intros]: "keeping False P (resume_prepared e scope)"
  unfolding resume_prepared_def resume_one_def resume_claimed_def close_undispatched_def
  by (intro keeping_intros execute_kept)

lemma orphan_state_kept [keeping_intros]: "keeping False P (orphan_state e scope)"
  unfolding orphan_state_def orphan_one_def by (intro keeping_intros)

lemma recover_step_kept [keeping_intros]: "keeping False P (recover e scope)"
  unfolding recover_def by (intro keeping_intros)

lemma run_once_kept [keeping_intros]: "keeping False P (run_once e scope)"
  unfolding run_once_def discover_and_execute_def by (intro keeping_intros)

lemma run_until_idle_kept: "keeping False P (run_until_idle e scope n)"
proof -
  have "keeping False P (run_rounds e scope k a)" for k a
  proof (induction k arbitrary: a)
    case (Suc k)
    show ?case unfolding run_rounds.simps by (intro keeping_intros Suc)
  qed (simp add: keeping_simple)
  then show ?thesis unfolding run_until_idle_def by (intro keeping_intros)
qed

lemma lease_ok_kept: "keeping False P (lease_ok e eid token n)"
  unfolding lease_ok_def by (intro keeping_intros)

end

end
