(* ===== verification/Worker_Claims.thy ===== *)
theory Worker_Claims
  imports Worker_Facts Journal_Facts "HOL-Library.Sublist"
begin

text \<open>
  Three properties of the host worker: the fair loop returns whatever it is told, a call of the
  provider or of a handler follows its own record in the journal, and the history of a run does not
  depend on the order in which its tools finished.
\<close>

section \<open>The fair loop returns\<close>

interpretation fair_frame: worker_frame True e fair_active for e :: "'w host_env"
  by unfold_locales simp_all

lemma pins_turn_less:
  assumes "pins_turn e run_id (cursor, pins) s = Some (Inr (Inr b'), t)" "fair_active s"
  shows "left_above (pin_mark e (fst b')) < left_above (pin_mark e cursor)"
proof -
  from assms(1) obtain s' previous response u where
    "(if cursor = JNull then give JNull else entry cursor ''pin_id'') s = Some (Inr previous, s')"
    and read: "db_host_run_pins e run_id previous s' = Some (Inr response, u)"
    and rest: "fair_active u \<Longrightarrow> check_next_pin e cursor (fst b') = Inr ()"
    by (auto simp: pins_turn_def chain_returns simp del: chain_simps split: if_splits)
  then have "fair_active s'" using assms(2) by (auto split: if_splits)
  then have "fair_active u" using keepingD[OF fair_frame.db_reads_kept(4) _ read] by blast
  then show ?thesis using rest check_next_pin_less by blast
qed

lemma run_pins_returns: "keeping True fair_active (run_pins e run_id)"
  unfolding run_pins_def
  by (rule keeping_while_measure[where I = "\<lambda>_. True" and \<mu> = "left_above \<circ> pin_mark e \<circ> fst"])
    (auto dest: pins_turn_less intro: fair_frame.pins_turn_kept)

lemma dispatch_returns: "keeping True fair_active (dispatch eid token m)"
  unfolding dispatch_def note_dispatch_def by (intro keeping_intros keeping_change) simp

lemma execute_returns: "keeping True fair_active (execute_effect e kd eid effect token dg)"
  unfolding execute_effect_def execute_model_def execute_tool_def execute_resource_def model_prepared_def
    call_provider_def send_and_interpret_def handle_effect_def try_build_def Let_def
  by (intro keeping_intros run_pins_returns dispatch_returns)

interpretation fair_rule: worker_rule True e fair_active for e :: "'w host_env"
  by unfold_locales (rule execute_returns)

text \<open>What a completed loop reports.\<close>

definition fair_report :: "nat \<Rightarrow> round_stats \<Rightarrow> bool" where
  "fair_report budget stats \<longleftrightarrow>
     rounds stats \<le> budget \<and> rounds stats = scope_visits stats \<and>
     (stop_reason stats = Some ''idle'' \<and> idle stats \<and> \<not> pending_work stats \<or>
      stop_reason stats = Some ''blocked_no_progress'' \<and> \<not> idle stats \<and> pending_work stats \<or>
      stop_reason stats = Some ''budget_exhausted'' \<and> \<not> idle stats \<and> pending_work stats \<and> rounds stats = budget)"

lemma fair_rounds_report:
  assumes "fair_rounds e roster k p s = Some (Inr stats, t)"
    and "rounds (totals p) = n" "scope_visits (totals p) = n"
  shows "fair_report (n + k) stats"
  using assms
proof (induction k arbitrary: p s n)
  case 0
  then show ?case by (auto simp: fair_report_def)
next
  case (Suc k)
  have counts: "rounds (totals (add_visit roster scope v p)) = Suc n"
    "scope_visits (totals (add_visit roster scope v p)) = Suc n" for scope v
    using Suc.prems(2,3) by (auto simp: add_visit_def Let_def split: prod.splits)
  from Suc.prems(1) obtain scope v u owed where
    step: "(if length (visited (add_visit roster scope v p)) \<noteq> length roster then fair_rounds e roster k (add_visit roster scope v p)
        else if \<not> (list_ex (residual (add_visit roster scope v p)) roster \<or> owed)
        then give ((totals (add_visit roster scope v p))\<lparr>pending_work := False, idle := True, stop_reason := Some ''idle''\<rparr>)
        else if \<not> pass_progress (add_visit roster scope v p)
        then give ((totals (add_visit roster scope v p))\<lparr>pending_work := True, idle := False, stop_reason := Some ''blocked_no_progress''\<rparr>)
        else fair_rounds e roster k
               ((add_visit roster scope v p)\<lparr>visited := [], pass_progress := False, totals := (totals (add_visit roster scope v p))\<lparr>pending_work := True\<rparr>\<rparr>)) u
      = Some (Inr stats, t)"
    by (auto simp: chain_returns Let_def simp del: chain_simps)
  define x where "x = add_visit roster scope v p"
  note step = step[folded x_def] and x = counts[of scope v, folded x_def]
  consider "fair_rounds e roster k x u = Some (Inr stats, t)"
    | "fair_rounds e roster k (x\<lparr>visited := [], pass_progress := False, totals := (totals x)\<lparr>pending_work := True\<rparr>\<rparr>) u
         = Some (Inr stats, t)"
    | "stats = (totals x)\<lparr>pending_work := False, idle := True, stop_reason := Some ''idle''\<rparr>"
    | "stats = (totals x)\<lparr>pending_work := True, idle := False, stop_reason := Some ''blocked_no_progress''\<rparr>"
    using step by (simp split: if_splits)
  then show ?case
  proof cases
    case 1
    then show ?thesis using Suc.IH[of x u "Suc n"] x by simp
  next
    case 2
    from Suc.IH[OF this, of "Suc n"] show ?thesis using x by simp
  qed (use x in \<open>simp_all add: fair_report_def\<close>)
qed

lemma run_scopes_report:
  assumes "run_scopes e scope_ids n s = Some (Inr stats, t)"
  shows "fair_report n stats"
proof -
  from assms consider "stats = empty_stats\<lparr>stop_reason := Some ''idle''\<rparr>"
    | "\<exists>roster i u. fair_rounds e roster n
         \<lparr>turn_index = i, visited = [], residual = (\<lambda>_. False), debts = (\<lambda>_. []), more_left = (\<lambda>_. False),
          pass_progress = False, totals = empty_stats\<rparr> u = Some (Inr stats, t)"
    by (auto simp: run_scopes_def chain_returns simp del: chain_simps split: if_splits)
  then show ?thesis
  proof cases
    case 2
    then show ?thesis using fair_rounds_report[where n = 0 and k = n] by (fastforce simp: empty_stats_def)
  qed (simp add: fair_report_def empty_stats_def)
qed

text \<open>C29: \<open>run_scopes_until_idle\<close> always returns, whatever the database, the provider and the handlers
  answer or raise and whatever the journal holds: its paged reads end because identifiers and times
  must increase, its rounds because of the budget. It leaves the flag of the running loop as it found
  it. A completed loop spent at most the budget and says that it is idle with no pending work, that
  it is blocked with work pending, or that the whole budget is spent.\<close>

theorem fair_loop_returns:
  "\<exists>r t. run_scopes_until_idle e scope_ids max_rounds s = Some (r, t) \<and> fair_active t = fair_active s \<and>
     (case r of Inl _ \<Rightarrow> True | Inr stats \<Rightarrow> fair_report (nat max_rounds) stats)"
proof (cases "max_rounds < 1 \<or> fair_active s")
  case True
  then show ?thesis by (auto simp: run_scopes_until_idle_def)
next
  case False
  obtain r t where r: "run_scopes e scope_ids (nat max_rounds) (s\<lparr>fair_active := True\<rparr>) = Some (r, t)"
    using keeping_returns[OF fair_rule.run_scopes_kept[of e scope_ids "nat max_rounds"], of "s\<lparr>fair_active := True\<rparr>"]
    by auto
  then have "case r of Inl _ \<Rightarrow> True | Inr stats \<Rightarrow> fair_report (nat max_rounds) stats"
    by (auto intro: run_scopes_report split: sum.split)
  then show ?thesis using r False by (auto simp: run_scopes_until_idle_def finally_do_def)
qed

section \<open>Journal before dispatch\<close>

definition started_for :: "pystr \<Rightarrow> json \<Rightarrow> json \<Rightarrow> bool" where
  "started_for i token r \<longleftrightarrow>
     event_is ''dispatch_started'' r \<and> effect_of r = JStr i \<and> dget (items r) ''claim'' = token"

text \<open>Every dispatch so far came right after its own record, and no two share one.\<close>

definition write_ahead :: "json list \<Rightarrow> 'w host_state \<Rightarrow> bool" where
  "write_ahead old s \<longleftrightarrow>
     (let rs = jrecords (hjournal s) in
      prefix old rs \<and>
      list_all (\<lambda>(n, i, token). 0 < n \<and> n \<le> length rs \<and> started_for i token (rs ! (n - 1))) (dispatches s) \<and>
      sorted_wrt (<) (map fst (dispatches s)))"

text \<open>The last record announces the dispatch that comes next.\<close>

definition announced :: "json list \<Rightarrow> pystr \<Rightarrow> json \<Rightarrow> 'w host_state \<Rightarrow> bool" where
  "announced old i token s \<longleftrightarrow>
     write_ahead old s \<and> jrecords (hjournal s) \<noteq> [] \<and> started_for i token (last (jrecords (hjournal s))) \<and>
     list_all (\<lambda>d. fst d < length (jrecords (hjournal s))) (dispatches s)"

lemma write_ahead_longer:
  assumes "write_ahead old s" "longer (hjournal s) j"
  shows "write_ahead old (s\<lparr>hjournal := j\<rparr>)"
proof -
  from assms(2) obtain more where j: "jrecords j = jrecords (hjournal s) @ more" by (auto simp: longer_def)
  show ?thesis
    using assms(1) by (fastforce simp: write_ahead_def Let_def j list_all_iff nth_append)
qed

interpretation ahead_frame: worker_frame False e "write_ahead old" for e :: "'w host_env" and old
  by (unfold_locales; (erule (1) write_ahead_longer | simp add: write_ahead_def))

lemma append_started:
  assumes "journal_append e ''dispatch_started'' eid dg pl run_id token s = Some (Inr r, t)" "write_ahead old s"
  shows "announced old (the_str eid) token t"
proof -
  have "token = JNull \<or> is_dict token" and "run_id = JNull \<or> is_str run_id"
    using assms(1) by (auto simp: journal_append_def Let_def split: if_splits)
  moreover from assms(1) obtain a w k where app: "append_record (hjournal s) a (lit ''dispatch_started'') (the_str eid) (the_str dg) pl
      (some_text run_id) (some_dict token) = (Inr r, k)" and t: "t = s\<lparr>hjournal := k, outside := w\<rparr>"
    by (auto simp: journal_append_def Let_def split: if_splits sum.splits prod.splits)
  moreover from app have "r = record_of (jseq (hjournal s) + 1) (lit ''dispatch_started'') (the_str eid) (the_str dg) pl
      (some_text run_id) (some_dict token)"
    by (auto simp: append_record_def Let_def dest!: prepare_append_Inr(1) split: sum.splits write_answer.splits if_splits)
  ultimately have r: "started_for (the_str eid) token r"
    by (cases token) (auto simp: started_for_def record_of_def event_is_def effect_of_def some_dict_def dget_def dget_or_def)
  have k: "jrecords k = jrecords (hjournal s) @ [r]"
    using app by (auto simp: append_record_def Let_def split: sum.splits write_answer.splits if_splits)
  have "write_ahead old t"
    using write_ahead_longer[OF assms(2), of k] k by (simp add: t longer_def write_ahead_def)
  then show ?thesis
    using r k assms(2) by (auto simp: announced_def t write_ahead_def Let_def list_all_iff)
qed

lemma announced_ahead: "announced old i token s \<Longrightarrow> write_ahead old s"
  by (simp add: announced_def)

text \<open>What does not touch the journal leaves the announcement in place.\<close>

lemma announced_frame:
  "announced old i token (s\<lparr>outside := w\<rparr>) = announced old i token s"
  "announced old i token (s\<lparr>rpc_log := l\<rparr>) = announced old i token s"
  by (simp_all add: announced_def write_ahead_def)

lemma announced_outer: "keeping False (announced old i token) (outer m)"
  unfolding outer_def by (rule keeping_acting, rule keeps_zoom) (simp add: announced_frame)

lemma announced_steps:
  "keeping False (announced old i token) (assert_all_idle e)"
  "keeping False (announced old i token) (crash_at e point)"
  unfolding assert_all_idle_def crash_at_def by (intro keeping_intros announced_outer)+

lemma start_announces:
  "triple False (write_ahead old) (start_dispatch e eid run_id token dg kd req extra)
     (\<lambda>_. announced old (the_str eid) token) (write_ahead old)"
  unfolding start_dispatch_def
proof (rule triple_chain)
  show "triple False (write_ahead old) (journal_append e ''dispatch_started'' eid dg (base_payload kd req token extra) run_id token)
    (\<lambda>_. announced old (the_str eid) token) (write_ahead old)"
    unfolding triple_def
    using append_started keepingD[OF ahead_frame.journal_append_kept]
    by (fastforce split: option.splits prod.splits sum.splits)
  have "keeping False (announced old (the_str eid) token) (chain (assert_all_idle e) (\<lambda>_. crash_at e ''started''))"
    by (intro keeping_intros announced_steps)
  then show "triple False (announced old (the_str eid) token) (chain (assert_all_idle e) (\<lambda>_. crash_at e ''started''))
    (\<lambda>_. announced old (the_str eid) token) (write_ahead old)" for x :: json
    by (auto dest: triple_keeping elim!: triple_weaken simp: announced_ahead)
qed

lemma dispatch_noted:
  "announced old i token s \<Longrightarrow>
     write_ahead old (s\<lparr>dispatches := dispatches s @ [(length (jrecords (hjournal s)), i, token)]\<rparr>)"
  by (auto simp: announced_def write_ahead_def Let_def sorted_wrt_append last_conv_nth list_all_iff)

lemma dispatch_ahead:
  "triple False (announced old (the_str eid) token) (dispatch eid token m) (\<lambda>_. write_ahead old) (write_ahead old)"
  unfolding dispatch_def
proof (rule triple_chain)
  show "triple False (announced old (the_str eid) token) (note_dispatch (the_str eid) token)
    (\<lambda>_. write_ahead old) (write_ahead old)"
    by (simp add: triple_def note_dispatch_def dispatch_noted)
  show "triple False (write_ahead old) (outer m) (\<lambda>_. write_ahead old) (write_ahead old)" for x :: unit
    by (rule triple_keeping) (rule ahead_frame.outer_kept)
qed

lemma send_ahead:
  "triple False (announced old (the_str eid) token) (send_and_interpret a eid token call) (\<lambda>_. write_ahead old) (write_ahead old)"
  unfolding send_and_interpret_def
proof (rule triple_rescue)
  have "keeping False (write_ahead old) (chain (outer (interpret_reply a call status raw wall)) (\<lambda>mapped. give (mapped, JInt status, raw, wall)))"
    for status raw wall
    by (intro keeping_intros ahead_frame.outer_kept)
  then show "triple False (announced old (the_str eid) token)
      (chain (dispatch eid token (send_call a call)) (\<lambda>(status, raw, wall).
        chain (outer (interpret_reply a call status raw wall)) (\<lambda>mapped. give (mapped, JInt status, raw, wall))))
      (\<lambda>_. write_ahead old) (write_ahead old)"
    by (intro triple_chain[OF dispatch_ahead]) (auto split: prod.splits intro: triple_keeping)
  show "triple False (write_ahead old) (case provider_failure x of Some mapped \<Rightarrow> give (mapped, JNull, [], 0) | None \<Rightarrow> abort x)
      (\<lambda>_. write_ahead old) (write_ahead old)" for x
    by (rule triple_keeping) (intro keeping_intros)
qed simp

lemma handle_ahead:
  "triple False (announced old (the_str eid) token) (handle_effect h eid token effect u absent failing)
     (\<lambda>_. write_ahead old) (write_ahead old)"
proof (cases h)
  case None
  then show ?thesis by (simp add: handle_effect_def triple_def announced_ahead)
next
  case (Some g)
  have "triple False (announced old (the_str eid) token)
      (rescue (chain (dispatch eid token (g effect)) (\<lambda>v. chain (outcome_of (handler_value v)) (\<lambda>(cls, res, text). give (cls, res, text, JNull))))
         (\<lambda>_. \<not> fair) (\<lambda>_. give (jstr ''unknown'', u failing, JNull, jstr failing)))
      (\<lambda>_. write_ahead old) (write_ahead old)" for fair
    by (rule triple_rescue, rule triple_chain[OF dispatch_ahead])
      (auto intro!: triple_keeping keeping_intros)
  then show ?thesis
    unfolding Some handle_effect_def by (simp add: triple_def)
qed

lemma call_provider_ahead: "keeping False (write_ahead old) (call_provider e a eid run_id token dg req call)"
  unfolding call_provider_def
proof (rule keeping_chain_triple[OF start_announces])
  show "triple False (announced old (the_str eid) token)
     (chain (send_and_interpret a eid token call) (\<lambda>(mapped, status, raw, wall_ms).
     chain (entry mapped ''class'') (\<lambda>cls.
     chain (entry mapped ''result'') (\<lambda>res.
       let d = items mapped in
       finish_dispatch e eid run_id token dg (jstr ''model_call'') req cls res
         [(lit ''http_status'', status), (lit ''raw_response_base64'', JStr (encode_raw raw)),
          (lit ''wall_ms'', JInt wall_ms), (lit ''mapping'', mapped),
          (lit ''assistant_message'', dget d ''assistant_message''), (lit ''tool_calls'', dget d ''tool_calls''),
          (lit ''reason'', dget d ''reason'')]
         (dget d ''reply'')))))
     (\<lambda>_. write_ahead old) (write_ahead old)" for x :: unit
    by (rule triple_chain[OF send_ahead], rule triple_keeping) (intro keeping_intros ahead_frame.prepare_kept)
qed

lemma execute_model_ahead: "keeping False (write_ahead old) (execute_model e eid effect token dg)"
proof -
  have "keeping False (write_ahead old) (run_pins e run_id)" for run_id
    unfolding run_pins_def by (rule keeping_while_true) (rule ahead_frame.pins_turn_kept)
  then show ?thesis
    unfolding execute_model_def try_build_def model_prepared_def Let_def
    by (intro keeping_intros call_provider_ahead ahead_frame.local_outcome_kept ahead_frame.outer_kept
        ahead_frame.db_kept ahead_frame.prepare_kept ahead_frame.journal_reads_kept)
qed

text \<open>After the announcement a handler runs, and the rest of the execution keeps the order.\<close>

lemma handled_ahead:
  assumes "\<And>v. keeping False (write_ahead old) (f v)"
  shows "keeping False (write_ahead old)
    (chain (start_dispatch e eid run_id token dg kd req extra) (\<lambda>_.
     chain (handle_effect h eid token effect u absent failing) f))"
  by (intro keeping_chain_triple[OF start_announces] triple_chain[OF handle_ahead] triple_keeping assms)

lemma execute_tool_ahead: "keeping False (write_ahead old) (execute_tool e eid effect token dg)"
  unfolding execute_tool_def Let_def
  by (intro keeping_intros ahead_frame.local_outcome_kept ahead_frame.parent_kept ahead_frame.prepare_kept(2)
      ahead_frame.journal_reads_kept(1) handled_ahead ahead_frame.prepare_kept(4))

lemma execute_resource_ahead: "keeping False (write_ahead old) (execute_resource e eid effect token dg)"
  unfolding execute_resource_def Let_def
  by (intro keeping_intros ahead_frame.prepare_kept(2) handled_ahead ahead_frame.prepare_kept(4))

lemma execute_ahead: "keeping False (write_ahead old) (execute_effect e kd eid effect token dg)"
  unfolding execute_effect_def
  by (intro keeping_intros execute_model_ahead execute_tool_ahead execute_resource_ahead)

interpretation ahead_rule: worker_safety e "write_ahead old" for e :: "'w host_env" and old
  by unfold_locales (rule execute_ahead)

text \<open>What is done with a worker: rounds of either loop and questions about a lease, while the world
  outside changes at will. An operation that raises leaves its state to the next.\<close>

datatype operation =
    Until_Idle pystr int
  | Scopes "json option" int
  | Lease_Ok json json int

definition operate :: "'w host_env \<Rightarrow> operation \<Rightarrow> ('w, unit) worker" where
  "operate e op =
     (case op of
        Until_Idle scope n \<Rightarrow> chain (run_until_idle e scope n) (\<lambda>_. give ())
      | Scopes ids n \<Rightarrow> chain (run_scopes_until_idle e ids n) (\<lambda>_. give ())
      | Lease_Ok eid token n \<Rightarrow> chain (lease_ok e eid token n) (\<lambda>_. give ()))"

inductive works :: "'w host_env \<Rightarrow> 'w host_state \<Rightarrow> 'w host_state \<Rightarrow> bool" for e where
  works_start: "works e s s"
| works_step: "works e s t \<Longrightarrow> operate e op t = Some (r, u) \<Longrightarrow> works e s u"
| works_world: "works e s t \<Longrightarrow> works e s (t\<lparr>outside := w\<rparr>)"

lemma run_scopes_until_idle_ahead: "keeping False (write_ahead old) (run_scopes_until_idle e ids n)"
proof -
  have flag: "write_ahead old (s\<lparr>fair_active := b\<rparr>) = write_ahead old s" for s :: "'a host_state" and b
    by (simp add: write_ahead_def)
  show ?thesis
    unfolding run_scopes_until_idle_def
    by (intro keeping_intros keeping_change keeping_finally ahead_rule.run_scopes_kept) (simp_all add: flag)
qed

lemma operate_ahead: "keeping False (write_ahead old) (operate e op)"
  unfolding operate_def
  by (cases op) (auto intro!: keeping_intros ahead_rule.run_until_idle_kept ahead_rule.lease_ok_kept
      run_scopes_until_idle_ahead)

lemma works_ahead: "works e s t \<Longrightarrow> write_ahead old s \<Longrightarrow> write_ahead old t"
proof (induction rule: works.induct)
  case (works_step s t op r u)
  then show ?case using keepingD[OF operate_ahead] by blast
qed (simp_all add: ahead_frame.outside_kept)

text \<open>C28: No external I/O without its record. Whatever is done with a worker that was opened on a
  journal, the records it found stay the beginning of the journal, and every call of the provider or
  of a tool or resource handler was made when the last record of the journal was a
  \<open>dispatch_started\<close> of that effect with that claim; different calls have different records.\<close>

theorem dispatch_is_journaled:
  assumes "host_worker e j w = Inr s" "works e s t"
  shows "prefix (jrecords j) (jrecords (hjournal t)) \<and>
    (\<forall>(n, i, token) \<in> set (dispatches t).
       0 < n \<and> n \<le> length (jrecords (hjournal t)) \<and> started_for i token (jrecords (hjournal t) ! (n - 1))) \<and>
    distinct (map fst (dispatches t))"
proof -
  have "write_ahead (jrecords j) s"
    using assms(1) by (auto simp: host_worker_def write_ahead_def split: if_splits)
  then have "write_ahead (jrecords j) t" by (rule works_ahead[OF assms(2)])
  then show ?thesis
    by (auto simp: write_ahead_def Let_def list_all_iff strict_sorted_iff)
qed

section \<open>The history of a run\<close>

definition payload_of :: "json \<Rightarrow> dict" where
  "payload_of r = items (dget (items r) ''payload'')"

text \<open>The end of a model call with its assistant message, and of a tool call with its message.\<close>

definition model_end :: "json \<Rightarrow> bool" where
  "model_end r \<longleftrightarrow> event_is ''dispatch_finished'' r \<and> py_eq (dget (payload_of r) ''kind'') (jstr ''model_call'') \<and>
     is_dict (dget (payload_of r) ''assistant_message'')"

definition tool_end :: "json \<Rightarrow> bool" where
  "tool_end r \<longleftrightarrow> event_is ''dispatch_finished'' r \<and> \<not> model_end r \<and>
     py_eq (dget (payload_of r) ''kind'') (jstr ''tool_call'') \<and> is_dict (dget (payload_of r) ''tool_message'') \<and>
     is_str (dget (payload_of r) ''parent_effect_id'') \<and> ordinal_number (dget (payload_of r) ''ordinal'') \<noteq> None"

definition place_of :: "json \<Rightarrow> json \<times> int" where
  "place_of r = (dget (payload_of r) ''parent_effect_id'', the (ordinal_number (dget (payload_of r) ''ordinal'')))"

definition tool_message :: "json \<Rightarrow> json" where
  "tool_message r = dget (payload_of r) ''tool_message''"

text \<open>The messages of the tools that the effect \<open>p\<close> called, in ordinal order.\<close>

definition tool_messages :: "json list \<Rightarrow> json \<Rightarrow> json list" where
  "tool_messages rs p =
     map tool_message (sort_key (snd \<circ> place_of) (filter (\<lambda>r. tool_end r \<and> fst (place_of r) = p) rs))"

definition appended_by :: "json \<Rightarrow> json list" where
  "appended_by r =
     (if event_is ''effect_prepared'' r \<and> is_list (dget (payload_of r) ''appended_messages'')
      then elems (dget (payload_of r) ''appended_messages'') else [])"

definition told :: "json list \<Rightarrow> json \<Rightarrow> json list" where
  "told rs r =
     (if model_end r then dget (payload_of r) ''assistant_message'' # tool_messages rs (effect_of r) else appended_by r)"

definition seeds :: "json list \<Rightarrow> json list" where
  "seeds rs = filter is_list (map (\<lambda>r. dget (payload_of r) ''seed_messages'') (filter (event_is ''effect_prepared'') rs))"

lemma tools_add: "tools_of (add_tool p new ts) q = tools_of ts q @ (if q = p then new else [])"
  by (induction p new ts rule: add_tool.induct) (auto simp: tools_of_def)

lemma sort_key_map: "sort_key f (map g xs) = map g (sort_key (f \<circ> g) xs)"
proof -
  have "insort_key f (g x) (map g ys) = map g (insort_key (f \<circ> g) x ys)" for x ys
    by (induction ys) auto
  then show ?thesis by (induction xs) (auto simp: sort_key_def)
qed

definition replay_ok :: "json list \<Rightarrow> replay \<Rightarrow> bool" where
  "replay_ok rs r \<longleftrightarrow>
     seed r = (case seeds rs of [] \<Rightarrow> None | m # _ \<Rightarrow> Some m) \<and>
     timeline r = concat (map (\<lambda>x. if model_end x then [(Some (effect_of x), dget (payload_of x) ''assistant_message'')]
                                   else map (\<lambda>m. (None, m)) (appended_by x)) rs) \<and>
     (\<forall>p. tools_of (tool_lists r) p =
        map (\<lambda>x. (snd (place_of x), tool_message x)) (filter (\<lambda>x. tool_end x \<and> fst (place_of x) = p) rs))"

lemma events_differ: "event_is ''effect_prepared'' r \<Longrightarrow> event_is ''dispatch_finished'' r \<Longrightarrow> False"
  by (simp add: event_is_def)

lemma prepared_only: "event_is ''effect_prepared'' r \<Longrightarrow> \<not> model_end r \<and> \<not> tool_end r"
  using events_differ[of r] by (auto simp: model_end_def tool_end_def)

lemma appended_only: "\<not> event_is ''effect_prepared'' r \<Longrightarrow> appended_by r = []"
  by (simp add: appended_by_def)

lemma seeds_snoc:
  "seeds (rs @ [x]) = seeds rs @ (if event_is ''effect_prepared'' x \<and> is_list (dget (payload_of x) ''seed_messages'')
     then [dget (payload_of x) ''seed_messages''] else [])"
  by (simp add: seeds_def)

lemma replay_record_cases:
  "event_is ''effect_prepared'' x \<Longrightarrow> replay_record r x = replay_prepared (payload_of x) r"
  "model_end x \<Longrightarrow> replay_record r x =
     r\<lparr>timeline := timeline r @ [(Some (effect_of x), dget (payload_of x) ''assistant_message'')],
       tool_lists := add_tool (effect_of x) [] (tool_lists r)\<rparr>"
  "tool_end x \<Longrightarrow> replay_record r x =
     r\<lparr>tool_lists := add_tool (fst (place_of x)) [(snd (place_of x), tool_message x)] (tool_lists r)\<rparr>"
  "\<not> event_is ''effect_prepared'' x \<Longrightarrow> \<not> model_end x \<Longrightarrow> \<not> tool_end x \<Longrightarrow> replay_record r x = r"
proof -
  assume "event_is ''effect_prepared'' x"
  then show "replay_record r x = replay_prepared (payload_of x) r"
    by (simp add: replay_record_def payload_of_def Let_def)
next
  assume m: "model_end x"
  then have "\<not> event_is ''effect_prepared'' x" using prepared_only by blast
  then show "replay_record r x =
     r\<lparr>timeline := timeline r @ [(Some (effect_of x), dget (payload_of x) ''assistant_message'')],
       tool_lists := add_tool (effect_of x) [] (tool_lists r)\<rparr>"
    using m by (simp add: replay_record_def replay_finished_def model_end_def payload_of_def Let_def)
next
  assume t: "tool_end x"
  then have "\<not> event_is ''effect_prepared'' x" using prepared_only by blast
  then show "replay_record r x =
     r\<lparr>tool_lists := add_tool (fst (place_of x)) [(snd (place_of x), tool_message x)] (tool_lists r)\<rparr>"
    using t by (auto simp: replay_record_def replay_finished_def model_end_def tool_end_def place_of_def
        tool_message_def payload_of_def Let_def)
next
  assume "\<not> event_is ''effect_prepared'' x" "\<not> model_end x" "\<not> tool_end x"
  then show "replay_record r x = r"
    by (auto simp: replay_record_def replay_finished_def model_end_def tool_end_def payload_of_def Let_def
        split: option.split)
qed

lemma replay_step: "replay_ok rs r \<Longrightarrow> replay_ok (rs @ [x]) (replay_record r x)"
proof -
  assume ok: "replay_ok rs r"
  consider (prepared) "event_is ''effect_prepared'' x" | (model) "model_end x" "\<not> event_is ''effect_prepared'' x"
    | (tool) "tool_end x" "\<not> event_is ''effect_prepared'' x" "\<not> model_end x"
    | (other) "\<not> model_end x" "\<not> tool_end x" "\<not> event_is ''effect_prepared'' x"
    using tool_end_def by blast
  then show ?thesis
  proof cases
    case prepared
    then have x: "\<not> model_end x" "\<not> tool_end x" "appended_by x =
        (if is_list (dget (payload_of x) ''appended_messages'') then elems (dget (payload_of x) ''appended_messages'') else [])"
      using prepared_only[of x] by (simp_all add: appended_by_def)
    show ?thesis
      using ok prepared x
      by (simp add: replay_ok_def replay_record_cases(1) replay_prepared_def Let_def seeds_snoc split: list.split)
  next
    case model
    then have "\<not> tool_end x" by (simp add: tool_end_def)
    then show ?thesis using ok model
      by (simp add: replay_ok_def replay_record_cases(2) seeds_snoc tools_add)
  next
    case tool
    then show ?thesis using ok
      by (simp add: replay_ok_def replay_record_cases(3) seeds_snoc tools_add appended_only)
  next
    case other
    then show ?thesis using ok by (simp add: replay_ok_def replay_record_cases(4) seeds_snoc appended_only)
  qed
qed

lemma replay_all: "replay_ok rs (foldl replay_record \<lparr>seed = None, timeline = [], tool_lists = []\<rparr> rs)"
proof (induction rs rule: rev_induct)
  case Nil
  then show ?case by (simp add: replay_ok_def seeds_def tools_of_def)
qed (simp add: replay_step)

lemma history_told:
  "replay_history j run_id =
     (let rs = run_records j run_id in
      (case seeds rs of [] \<Rightarrow> [] | m # _ \<Rightarrow> elems m) @ concat (map (told rs) rs))"
proof -
  define rs where "rs = run_records j run_id"
  define r where "r = foldl replay_record \<lparr>seed = None, timeline = [], tool_lists = []\<rparr> rs"
  have ok: "replay_ok rs r" unfolding r_def by (rule replay_all)
  have placed_tools: "placed (tool_lists r) (Some p, m) = m # tool_messages rs p" for p m
    using ok by (simp add: replay_ok_def placed_def tool_messages_def sort_key_map comp_def)
  have plain: "placed (tool_lists r) (None, m) = [m]" for m
    by (simp add: placed_def)
  have "concat (map (placed (tool_lists r)) (concat (map (\<lambda>x. if model_end x then [(Some (effect_of x), dget (payload_of x) ''assistant_message'')]
      else map (\<lambda>m. (None, m)) (appended_by x)) xs))) = concat (map (told rs) xs)" for xs
    by (induction xs) (simp_all add: told_def placed_tools plain comp_def)
  then have "concat (map (placed (tool_lists r)) (timeline r)) = concat (map (told rs) rs)"
    using ok by (simp add: replay_ok_def)
  then show ?thesis
    using ok by (auto simp: replay_history_def rs_def[symmetric] r_def[symmetric] Let_def replay_ok_def split: list.splits)
qed

lemma told_tool_end: "tool_end r \<Longrightarrow> told rs r = []"
  using prepared_only[of r] by (auto simp: told_def appended_by_def tool_end_def)

lemma concat_told: "concat (map (told rs) xs) = concat (map (told rs) (filter (\<lambda>r. \<not> tool_end r) xs))"
  by (induction xs) (simp_all add: told_tool_end)

lemma seeds_others: "seeds rs = seeds (filter (\<lambda>r. \<not> tool_end r) rs)"
proof -
  have "filter (event_is ''effect_prepared'') rs =
      filter (event_is ''effect_prepared'') (filter (\<lambda>r. \<not> tool_end r) rs)"
    unfolding filter_filter using prepared_only by (intro filter_cong) blast+
  then show ?thesis by (simp only: seeds_def)
qed

lemma tool_messages_order:
  assumes "mset (filter tool_end rs) = mset (filter tool_end qs)" "distinct (map place_of (filter tool_end rs))"
  shows "tool_messages rs p = tool_messages qs p"
proof -
  define pick where "pick xs = filter (\<lambda>r. tool_end r \<and> fst (place_of r) = p) xs" for xs
  have pick: "pick xs = filter (\<lambda>r. fst (place_of r) = p) (filter tool_end xs)" for xs
    by (simp add: pick_def filter_filter conj_commute)
  have same: "mset (pick rs) = mset (pick qs)" unfolding pick mset_filter[of _ "filter tool_end _"] by (simp only: assms(1))
  have "inj_on place_of (set (filter tool_end rs))" using assms(2) by (simp add: distinct_map)
  then have "inj_on (snd \<circ> place_of) (set (pick rs))"
    by (auto simp: pick inj_on_def prod_eq_iff)
  then have "sort_key (snd \<circ> place_of) (pick qs) = sort_key (snd \<circ> place_of) (pick rs)"
    using same mset_eq_setD[OF same] sort_key_inj_key_eq[of "pick qs" "sort_key (snd \<circ> place_of) (pick rs)" "snd \<circ> place_of"]
    by simp
  then show ?thesis by (simp add: tool_messages_def pick_def)
qed

text \<open>C30: The history of a run does not depend on the order in which its tools finished. When two
  journals agree on a run up to the order of the ends of its tool calls, and no two of these are for
  the same place of the same parent, the replayed messages are the same; and each assistant message
  is directly followed by the messages of the tools it called, in the order of their ordinals.\<close>

theorem history_order_free:
  assumes "filter (\<lambda>r. \<not> tool_end r) (run_records j run_id) = filter (\<lambda>r. \<not> tool_end r) (run_records k run_id)"
    and "mset (filter tool_end (run_records j run_id)) = mset (filter tool_end (run_records k run_id))"
    and "distinct (map place_of (filter tool_end (run_records j run_id)))"
  shows "replay_history j run_id = replay_history k run_id \<and>
    (\<forall>r \<in> set (filter model_end (run_records j run_id)).
       sublist (dget (payload_of r) ''assistant_message'' # tool_messages (run_records j run_id) (effect_of r))
         (replay_history j run_id))"
proof
  let ?a = "run_records j run_id" and ?b = "run_records k run_id"
  have "told ?a = told ?b" using tool_messages_order[OF assms(2,3)] by (simp add: fun_eq_iff told_def)
  then have "concat (map (told ?a) ?a) = concat (map (told ?b) ?b)"
    using assms(1) concat_told[of ?a ?a] concat_told[of ?b ?b] by simp
  moreover have "seeds ?a = seeds ?b" using assms(1) seeds_others[of ?a] seeds_others[of ?b] by simp
  ultimately show "replay_history j run_id = replay_history k run_id" by (simp add: history_told Let_def)
  show "\<forall>r \<in> set (filter model_end ?a). sublist (dget (payload_of r) ''assistant_message'' # tool_messages ?a (effect_of r))
         (replay_history j run_id)"
  proof
    fix r assume r: "r \<in> set (filter model_end ?a)"
    then obtain xs ys where "?a = xs @ r # ys" by (auto simp: in_set_conv_decomp)
    then have "sublist (told ?a r) (concat (map (told ?a) ?a))" by (metis concat.simps(2) concat_append list.simps(9) map_append sublist_appendI)
    moreover have "told ?a r = dget (payload_of r) ''assistant_message'' # tool_messages ?a (effect_of r)"
      using r by (simp add: told_def)
    ultimately show "sublist (dget (payload_of r) ''assistant_message'' # tool_messages ?a (effect_of r)) (replay_history j run_id)"
      by (auto simp: history_told Let_def intro: sublist_order.order.trans)
  qed
qed

end
