(* ===== verification/Worker_Samples.thy ===== *)
theory Worker_Samples
  imports Worker_Claims
begin

text \<open>
  One resource effect in the loop over one scope: it is discovered as ready, claimed, prepared,
  dispatched to the handler, finished and settled, with four journal records. And a run whose two
  tools finished in either order.
\<close>

definition line_of :: "json \<Rightarrow> bytes" where
  "line_of r = utf8 (jtext (canon r)) @ [10]"

definition appended :: "journal \<Rightarrow> json \<Rightarrow> journal" where
  "appended j r = j\<lparr>jfile := jfile j @ line_of r, jrecords := jrecords j @ [r], jseq := jseq j + 1\<rparr>"

text \<open>A record that is in order is appended.\<close>

lemma append_in_order:
  assumes "jopen (hjournal s)" "lit event \<in> set EVENT_TYPES" "the_str eid \<noteq> []" "is_digest (the_str dg)"
    "scan_secrets (JObj pl) = Inr ()" "plain_args (the_str eid) pl (some_text run_id) (some_dict cl)"
    "run_id = JNull \<or> is_str run_id" "cl = JNull \<or> is_dict cl" "safe_int (jseq (hjournal s) + 1)"
    and disk: "\<And>line w. disk_write e line w = (Written (length line), w)"
  shows "journal_append e event eid dg pl run_id cl s =
    (let r = record_of (jseq (hjournal s) + 1) (lit event) (the_str eid) (the_str dg) pl (some_text run_id) (some_dict cl) in
     Some (Inr r, s\<lparr>hjournal := appended (hjournal s) r\<rparr>))"
proof -
  define r where "r = record_of (jseq (hjournal s) + 1) (lit event) (the_str eid) (the_str dg) pl (some_text run_id) (some_dict cl)"
  have plain: "plain_value r" unfolding r_def using assms by (intro record_plain) auto
  then have bytes: "canonical_bytes r = Inr (utf8 (jtext (canon r)))"
    by (simp add: canonical_bytes_plain compact_json_iff plain_value_def)
  have "validate_record r = Inr ()"
    using assms(2,3,4)
    by (simp add: validate_record_def r_def record_of_def dict_eval require_def keys_def
        keys_within_def CORE_KEYS_def RECORD_KEYS_def EVENT_TYPES_def run_simps split: option.split)
  then have prep: "prepare_append (hjournal s) (lit event) (the_str eid) (the_str dg) pl (some_text run_id) (some_dict cl) =
      Inr (r, line_of r)"
    using assms bytes by (simp add: prepare_append_def require_def r_def[symmetric] line_of_def)
  show ?thesis
    using assms(7,8) disk
    by (auto simp: journal_append_def Let_def prep append_record_def appended_def r_def[symmetric])
qed

definition demo_token :: json where
  "demo_token = JObj [(lit ''attempt'', JInt 1), (lit ''fence'', JInt 1), (lit ''owner'', jstr ''h'')]"

definition demo_effect :: "string \<Rightarrow> json" where
  "demo_effect status =
     JObj [(lit ''effect_id'', jstr ''e1''), (lit ''scope_id'', jstr ''s''), (lit ''kind'', jstr ''host_prepare''),
           (lit ''status'', jstr status), (lit ''run_id'', JNull), (lit ''request'', JObj []),
           (lit ''attempt_no'', JInt 1), (lit ''fence'', JInt 1), (lit ''claim_owner'', jstr ''h'')]"

text \<open>A database with one effect: ready, then claimed, then settled; its state counts the commands.\<close>

definition demo_effects :: "nat \<Rightarrow> json" where
  "demo_effects n =
     JObj [(lit ''v'', JInt 1), (lit ''items'', JArr (if n = 0 then [demo_effect ''ready''] else [])),
           (lit ''has_more'', JBool False)]"

definition demo_found :: "nat \<Rightarrow> json" where
  "demo_found n =
     JObj [(lit ''v'', JInt 1), (lit ''effect'', demo_effect (if n = 1 then ''claimed'' else ''succeeded''))]"

definition demo_answer :: json where
  "demo_answer =
     JObj [(lit ''v'', JInt 1), (lit ''disposition'', jstr ''committed''), (lit ''claim'', demo_token)]"

fun demo_rpc :: "rpc \<Rightarrow> (nat, json) action" where
  "demo_rpc (Read name args) n = (Inr (if name = ''host_effects'' then demo_effects n else demo_found n), n)"
| "demo_rpc (Advance i out) n = (Inr demo_answer, n + 1)"
| "demo_rpc (Recover a b c) n = (Inr JNull, n)"

definition demo_connection :: "nat connection" where
  "demo_connection =
     \<lparr>run_statement = demo_rpc, commit_work = pure (), roll_back = pure (), is_idle = pure True\<rparr>"

definition demo_host :: "nat host_env" where
  "demo_host =
     \<lparr>connections = \<lparr>control = demo_connection, service = demo_connection, utc_clock = pure 0, whole_ms = (\<lambda>n. n div 1000)\<rparr>,
      adapter = None, tool_handler = None, resource_handler = Some (\<lambda>_. pure (Two (jstr ''success'') (JObj []))),
      default_lease_ms = 30000, crash_after = None, recover_key_prefix = lit ''k'', random_hex = pure (lit ''0''),
      disk_write = (\<lambda>line n. (Written (length line), n)), str_of = (\<lambda>_. []), exotic_uuid = (\<lambda>_. None)\<rparr>"

definition demo_journal :: journal where
  "demo_journal = \<lparr>jfile = [], jopen = True, jrecords = [], jseq = 0\<rparr>"

definition demo_start :: "nat host_state" where
  "demo_start =
     \<lparr>hjournal = demo_journal, outside = 0, rpc_log = [], dispatches = [], recover_seq = 0,
      next_scope_after = None, fair_cursors = (\<lambda>_. None), host_streak = (\<lambda>_. None),
      resume_cursor = (\<lambda>_. None), scope_journal_ids = (\<lambda>_. []), attempted = [], fair_active = False\<rparr>"

lemma demo_opens: "host_worker demo_host demo_journal 0 = Inr demo_start"
  by (simp add: host_worker_def demo_host_def demo_start_def)

lemmas run_db = db_read_def db_host_effect_def db_host_effects_def db_claim_def db_settle_def assert_all_idle_def
  remaining_lease_ms_def outer_def zoom_def note_rpc_def READ_ARGS_def

lemma demo_reads [simp]:
  "execute (connections demo_host) = demo_rpc" "both_idle (connections demo_host) = pure True"
  "adapter demo_host = None" "tool_handler demo_host = None" "crash_after demo_host = None"
  "resource_handler demo_host = Some (\<lambda>_. pure (Two (jstr ''success'') (JObj [])))"
  "disk_write demo_host = (\<lambda>line n. (Written (length line), n))" "default_lease_ms demo_host = 30000"
proof -
  have "call_on demo_connection = demo_rpc"
  proof (intro ext)
    show "call_on demo_connection q w = demo_rpc q w" for q w
      by (cases q) (simp_all add: call_on_def after_call_def demo_connection_def seq_def)
  qed
  then show "execute (connections demo_host) = demo_rpc"
    by (auto simp: execute_def demo_host_def fun_eq_iff split: rpc.split)
  show "both_idle (connections demo_host) = pure True"
    by (auto simp: both_idle_def demo_host_def demo_connection_def seq_def fun_eq_iff)
qed (simp_all add: demo_host_def)

lemma demo_idle [simp]: "assert_all_idle demo_host s = Some (Inr (), s)"
  by (simp add: run_db)

lemma demo_lookup [simp]:
  "db_host_effect demo_host i s = Some (Inr (demo_found (outside s)), s\<lparr>rpc_log := rpc_log s @ [''host_effect'']\<rparr>)"
  by (simp add: run_db demo_found_def)

lemma demo_page [simp]:
  "db_host_effects demo_host a b c s = Some (Inr (demo_effects (outside s)), s\<lparr>rpc_log := rpc_log s @ [''host_effects'']\<rparr>)"
  by (simp add: run_db demo_effects_def)

lemma demo_claim [simp]:
  "db_claim demo_host i n s =
     Some (Inr demo_answer, s\<lparr>outside := outside s + 1, rpc_log := rpc_log s @ [''advance'']\<rparr>)"
  by (simp add: run_db)

lemma demo_settle [simp]:
  "cls \<in> {jstr ''success'', jstr ''failure'', jstr ''unknown''} \<Longrightarrow> db_settle demo_host i cls token kd res s =
     Some (Inr demo_answer, s\<lparr>outside := outside s + 1, rpc_log := rpc_log s @ [''advance'']\<rparr>)"
  by (auto simp: run_db)

definition demo_digest :: pystr where
  "demo_digest = sha256_hex (lit ''{}'')"

lemma demo_request: "digest_of_request (demo_effect status) = Inr (JStr demo_digest)"
  by (simp add: digest_of_request_def demo_effect_def attr_def attr_or_def dict_eval or_dict_def request_digest_def
      canonical_bytes_def dumps_sorted.simps sort_by_code_point_def demo_digest_def lit_Cons utf8_encode_def
      scalar_str_def surrogate_def)

lemma demo_hex: "is_digest demo_digest"
  by (simp add: demo_digest_def sha256_hex_digest)

lemma demo_token_simps [simp]: "some_dict demo_token = Some (items demo_token)" "is_dict demo_token" "demo_token \<noteq> JNull"
  by (simp_all add: demo_token_def some_dict_def)

text \<open>The payloads of the four records hold no secret.\<close>

definition demo_base :: dict where
  "demo_base = base_payload (jstr ''host_prepare'') (JObj []) demo_token []"

definition demo_outcome :: json where
  "demo_outcome = outcome_record (jstr ''success'') demo_token (jstr ''host_prepare'') (JObj [])"

definition demo_ended :: dict where
  "demo_ended = base_payload (jstr ''host_prepare'') (JObj []) demo_token
     [(lit ''outcome'', demo_outcome), (lit ''resource_result'', JObj []), (lit ''reason'', JNull)]"

definition demo_commit :: dict where
  "demo_commit = [(lit ''outcome'', demo_outcome), (lit ''response'', demo_answer)]"

lemmas run_scan = SECRET_KEYS_def lower_def lower_char_def dsn_like_def bearer_like_def begins_like_def lit_Cons
  same_letter_def

lemma demo_token_clean: "scan_secrets demo_token = Inr ()" "plain_value demo_token"
  by (simp_all add: demo_token_def run_scan)
    (simp add: plain_value_def surrogate_def safe_int_def SAFE_INTEGER_MAX_def)

lemma demo_base_clean: "scan_secrets (JObj demo_base) = Inr ()" "plain_value (JObj demo_base)"
  using demo_token_clean
  by (simp_all add: demo_base_def base_payload_def run_scan)
    (simp add: plain_value_def surrogate_def)

lemma demo_outcome_clean: "scan_secrets demo_outcome = Inr ()" "plain_value demo_outcome"
  using demo_token_clean
  by (simp_all add: demo_outcome_def outcome_record_def run_scan)
    (simp add: plain_value_def surrogate_def safe_int_def SAFE_INTEGER_MAX_def)

lemma demo_ended_clean: "scan_secrets (JObj demo_ended) = Inr ()" "plain_value (JObj demo_ended)"
  using demo_token_clean demo_outcome_clean
  by (simp_all add: demo_ended_def base_payload_def run_scan)
    (simp add: plain_value_def surrogate_def)

lemma demo_commit_clean: "scan_secrets (JObj demo_commit) = Inr ()" "plain_value (JObj demo_commit)"
  using demo_token_clean demo_outcome_clean
  by (simp_all add: demo_commit_def demo_answer_def run_scan)
    (simp add: plain_value_def surrogate_def safe_int_def SAFE_INTEGER_MAX_def)

lemma demo_clean: "p \<in> {demo_base, demo_ended, demo_commit} \<Longrightarrow> scan_secrets (JObj p) = Inr () \<and> plain_value (JObj p)"
  using demo_base_clean demo_ended_clean demo_commit_clean by blast

lemma demo_append:
  assumes "jopen (hjournal s)" "safe_int (jseq (hjournal s) + 1)"
    "ev \<in> {''effect_prepared'', ''dispatch_started'', ''dispatch_finished'', ''settlement_committed''}"
    "pl \<in> {demo_base, demo_ended, demo_commit}"
  shows "journal_append demo_host ev (jstr ''e1'') (JStr demo_digest) pl JNull demo_token s =
    (let r = record_of (jseq (hjournal s) + 1) (lit ev) (lit ''e1'') demo_digest pl None (Some (items demo_token)) in
     Some (Inr r, s\<lparr>hjournal := appended (hjournal s) r\<rparr>))"
proof -
  have "plain_value (JStr (lit ''e1''))" by (simp add: plain_value_def)
  then have "plain_args (lit ''e1'') pl None (Some (items demo_token))"
    using demo_clean[OF assms(4)] demo_token_clean(2) by (simp add: plain_args_def demo_token_def)
  moreover have "lit ev \<in> set EVENT_TYPES" using assms(3) by (auto simp: EVENT_TYPES_def)
  ultimately show ?thesis
    using append_in_order[of s ev "jstr ''e1''" "JStr demo_digest" pl JNull demo_token demo_host]
      demo_clean[OF assms(4)] assms by (auto simp: demo_hex some_text_def)
qed

lemmas run_execution = execute_resource_def attr_def attr_or_def or_dict_def prepare_effect_def jhas_def
  has_event_def chain_run start_dispatch_def crash_at_def handle_effect_def dispatch_def note_dispatch_def
  outer_def zoom_def rescue_def handler_value_def finish_dispatch_def settle_def Let_def demo_base_def[symmetric]
  demo_outcome_def[symmetric] demo_ended_def[symmetric] demo_commit_def[symmetric]

lemma demo_execute:
  assumes "hjournal s = demo_journal" "fair_active s = False" "dispatches s = []"
  obtains x t where
    "execute_resource demo_host (jstr ''e1'') (demo_effect ''claimed'') demo_token (JStr demo_digest) s = Some (Inr x, t)"
    "dispatches t = [(2, lit ''e1'', demo_token)]"
proof -
  have "\<exists>x t. execute_resource demo_host (jstr ''e1'') (demo_effect ''claimed'') demo_token (JStr demo_digest) s =
    Some (Inr x, t) \<and> dispatches t = [(2, lit ''e1'', demo_token)]"
    by (simp add: run_execution demo_effect_def dict_eval assms demo_journal_def demo_append appended_def
        safe_int_def SAFE_INTEGER_MAX_def)
  then show thesis using that by blast
qed

lemma demo_claimed: "claim_token (demo_effect ''claimed'') = Inr demo_token"
  by (simp add: claim_token_def demo_effect_def subscript_def dict_eval demo_token_def)

lemma demo_simps:
  "subscript (demo_effect status) ''effect_id'' = Inr (jstr ''e1'')" "subscript (demo_effect status) ''kind'' = Inr (jstr ''host_prepare'')"
  "attr (demo_effect status) ''kind'' = Inr (jstr ''host_prepare'')" "attr (demo_effect status) ''status'' = Inr (jstr status)"
  "is_error demo_answer = False" "attr demo_answer ''disposition'' = Inr (jstr ''committed'')" "attr demo_answer ''claim'' = Inr demo_token"
  "is_error (demo_found n) = False"
  "subscript (demo_found n) ''effect'' = Inr (demo_effect (if n = 1 then ''claimed'' else ''succeeded''))"
  "is_error (demo_effects n) = False" "truthy demo_token" "py_eq demo_token demo_token"
  by (simp_all add: demo_effect_def demo_answer_def demo_found_def demo_effects_def subscript_def attr_def attr_or_def
      dict_eval is_error_def demo_token_def)

lemma demo_handled:
  assumes "hjournal s = demo_journal" "fair_active s = False" "dispatches s = []" "outside s = 0"
  obtains x t where "claim_and_execute demo_host (demo_effect ''ready'') s = Some (Inr x, t)"
    "dispatches t = [(2, lit ''e1'', demo_token)]"
proof -
  define u where "u = s\<lparr>outside := 1, rpc_log := rpc_log s @ [''advance'', ''host_effect'']\<rparr>"
  from demo_execute[of u] assms obtain x t where
    "execute_resource demo_host (jstr ''e1'') (demo_effect ''claimed'') demo_token (JStr demo_digest) u = Some (Inr x, t)"
    "dispatches t = [(2, lit ''e1'', demo_token)]"
    by (auto simp: u_def)
  moreover have "claim_and_execute demo_host (demo_effect ''ready'') s =
      chain (execute_resource demo_host (jstr ''e1'') (demo_effect ''claimed'') demo_token (JStr demo_digest)) (\<lambda>x. give (Some x)) u"
    using assms(4) demo_claimed demo_request[of "''claimed''"]
    by (simp add: claim_and_execute_def lease_for_def demo_simps chain_run u_def execute_effect_def)
  ultimately show thesis using that by (simp add: chain_run)
qed

text \<open>Nothing is pending in an empty journal.\<close>

lemma demo_quiet:
  "pending_settlements demo_journal = []" "prepared_without_dispatch demo_journal = []"
  "unfinished_dispatches demo_journal = []"
  by (simp_all add: pending_settlements_def prepared_without_dispatch_def unfinished_dispatches_def demo_journal_def)

lemma demo_round:
  obtains one t where "run_once demo_host (lit ''s'') demo_start = Some (Inr one, t)"
    "dispatches t = [(2, lit ''e1'', demo_token)]"
proof -
  define u where "u = demo_start\<lparr>rpc_log := [''host_effects'', ''host_effects'']\<rparr>"
  from demo_handled[of u] obtain x t where
    x: "claim_and_execute demo_host (demo_effect ''ready'') u = Some (Inr x, t)" "dispatches t = [(2, lit ''e1'', demo_token)]"
    by (auto simp: u_def demo_start_def)
  have page: "effects_page demo_host (lit ''s'') JNull s =
      Some (Inr (demo_effects (outside s)), s\<lparr>rpc_log := rpc_log s @ [''host_effects'']\<rparr>)" for s
    by (simp add: effects_page_def)
  have items: "iterate (dget_or (items (demo_effects 0)) ''items'' (JArr [])) = Inr [demo_effect ''ready'']"
    "\<not> truthy (dget (items (demo_effects 0)) ''has_more'')"
    by (simp_all add: demo_effects_def dict_eval iterate_def)
  have expired: "expired_claims demo_host (lit ''s'') demo_start =
      Some (Inr False, demo_start\<lparr>rpc_log := [''host_effects'']\<rparr>)"
    by (simp add: expired_claims_def while_true.simps expired_turn_def chain_run page items demo_simps expired_item_def
        demo_start_def)
  have "discover_ready demo_host (lit ''s'') (demo_start\<lparr>rpc_log := [''host_effects'']\<rparr>) =
      Some (Inr [demo_effect ''ready''], u)"
    by (simp add: discover_ready_def while_true.simps ready_turn_def chain_run page items demo_simps is_ready_def
        keep_where.simps demo_start_def u_def in_order_def is_one_of_def EXTERNAL_KINDS_def HOST_KINDS_def)
  then have "\<exists>one. run_once demo_host (lit ''s'') demo_start = Some (Inr one, t)"
    using x(1) expired
    by (simp add: run_once_def reconcile_def resume_prepared_def orphan_state_def demo_quiet demo_start_def chain_run
        discover_and_execute_def Let_def)
  then show thesis using that x(2) by blast
qed

theorem dispatch_is_journaled_witness:
  "\<exists>t. host_worker demo_host demo_journal 0 = Inr demo_start \<and> works demo_host demo_start t \<and>
     dispatches t = [(2, lit ''e1'', demo_token)] \<and> 2 \<le> length (jrecords (hjournal t)) \<and>
     started_for (lit ''e1'') demo_token (jrecords (hjournal t) ! 1)"
proof -
  obtain one t where one: "run_once demo_host (lit ''s'') demo_start = Some (Inr one, t)"
    and sent: "dispatches t = [(2, lit ''e1'', demo_token)]"
    by (rule demo_round)
  have "operate demo_host (Until_Idle (lit ''s'') 1) demo_start = Some (Inr (), t)"
    using one by (simp add: operate_def run_until_idle_def numeral_1_eq_Suc_0 One_nat_def chain_run Let_def
        split: if_splits)
  then have works: "works demo_host demo_start t" by (blast intro: works.intros)
  show ?thesis
    using dispatch_is_journaled[OF demo_opens works] works sent demo_opens by auto
qed

section \<open>Two tools\<close>

definition end_record :: "int \<Rightarrow> dict \<Rightarrow> json" where
  "end_record n payload =
     record_of n (lit ''dispatch_finished'') (lit ''e'') demo_digest payload (Some (lit ''r'')) None"

definition demo_model_end :: json where
  "demo_model_end =
     end_record 1 [(lit ''kind'', jstr ''model_call''), (lit ''assistant_message'', JObj [])]"

definition demo_tool_end :: "int \<Rightarrow> int \<Rightarrow> json" where
  "demo_tool_end n i =
     end_record n [(lit ''kind'', jstr ''tool_call''), (lit ''tool_message'', JObj [(lit ''content'', JInt i)]),
       (lit ''parent_effect_id'', jstr ''e''), (lit ''ordinal'', JInt i)]"

definition demo_run :: "json list \<Rightarrow> journal" where
  "demo_run rs = \<lparr>jfile = [], jopen = True, jrecords = rs, jseq = 3\<rparr>"

theorem history_order_free_witness:
  "(let a = demo_tool_end 2 0; b = demo_tool_end 3 1; m = demo_model_end; r = jstr ''r'' in
    replay_history (demo_run [m, b, a]) r = replay_history (demo_run [m, a, b]) r \<and>
    sublist (JObj [] # tool_messages [m, b, a] (jstr ''e'')) (replay_history (demo_run [m, b, a]) r))"
proof -
  have ends: "tool_end (demo_tool_end n i)" "\<not> tool_end demo_model_end" "model_end demo_model_end"
    "place_of (demo_tool_end n i) = (jstr ''e'', i)" "dget (items (demo_tool_end n i)) ''run_id'' = jstr ''r''"
    "dget (items demo_model_end) ''run_id'' = jstr ''r''" "effect_of demo_model_end = jstr ''e''"
    "dget (payload_of demo_model_end) ''assistant_message'' = JObj []" for n i
    by (simp_all add: demo_tool_end_def demo_model_end_def end_record_def record_of_def tool_end_def model_end_def
        event_is_def payload_of_def place_of_def ordinal_number_def dict_eval effect_of_def)
  have runs: "run_records (demo_run rs) r = filter (\<lambda>x. py_eq (dget (items x) ''run_id'') r) rs" for rs r
    by (simp add: run_records_def demo_run_def)
  show ?thesis
    unfolding Let_def
    using history_order_free[of "demo_run [demo_model_end, demo_tool_end 3 1, demo_tool_end 2 0]" "jstr ''r''"
        "demo_run [demo_model_end, demo_tool_end 2 0, demo_tool_end 3 1]"]
    by (auto simp: ends runs)
qed

end
