(* ===== verification/Spec2Isabelle.thy ===== *)
theory Spec2Isabelle
  imports Fs_Samples Exchange Plugin_Samples Journal_Facts Session_Samples Worker_Samples
begin

text \<open>
  Verification of the host and session plane of pg-agent, version 24: the Python code of
  \<open>src/v24/host\<close>, the \<open>read\<close> tool of \<open>src/v24/s13/plugins\<close> and \<open>src/v24/session\<close>. PostgreSQL keeps
  the agent's state and claims effects; a host process performs them, calls tools as child
  processes over one line of JSON each way, writes a journal to survive crashes, and reports
  envelopes back. The models are shallow: each Python function is a HOL function on the values it
  takes, exceptions are values of \<open>exn\<close> in \<open>exn + 'a\<close>, and every early return is a branch.

  Values. \<open>Prelude\<close>: strings are lists of code points (\<open>pystr\<close>), bytes are numbers below 256,
  UTF-8 both ways, decimal text, and the combinators of fallible code (\<open>andthen\<close>, \<open>require\<close>,
  \<open>steps\<close>, \<open>each\<close>, \<open>mapr\<close>, \<open>sweep\<close>) with the predicate \<open>only\<close> on the exceptions a computation can
  raise. \<open>Json_Value\<close>: the values of the \<open>json\<close> module, dicts as lists of pairs in insertion order,
  Python's \<open>==\<close> and truth. \<open>Canonical\<close>, \<open>Json_Decode\<close>: \<open>canonical.py\<close>, the explicit-stack encoder
  against a recursive one, the scanner of \<open>json.loads\<close> with its hooks, \<open>strict_loads\<close> and the round
  trips. The locale \<open>json_reader\<close> is what a set of hooks must satisfy for the scanner to read encoded
  text back; it is interpreted for the strict and for the default hooks.

  Contracts. \<open>Tool_Schema\<close>, \<open>Schema_Validation\<close>: \<open>tool_schema.py\<close>, the closed schema subset and
  instance validation, each equal to a declarative definition. \<open>Descriptor\<close>: \<open>descriptor.py\<close>, with
  SHA-256 computed (\<open>Sha256\<close>). \<open>Renderers\<close>, \<open>Tool_Pages\<close>, \<open>Tool_Results\<close>: the text renderers, the
  relations of a page, the envelopes of a result. \<open>Py_Text\<close> and \<open>Posix_Path\<close> hold the string and
  path functions they use.

  The dispatcher. \<open>Registry\<close>, \<open>Registry_Facts\<close>: \<open>registry.py\<close>, approving plugins from manifests,
  lookups by install and pin, artifact and environment checks. \<open>Process_Io\<close>: \<open>process_io.py\<close>, the
  read loop over the turns of the selector. \<open>Line_Json\<close>, \<open>Frames\<close>, \<open>Line_Json_Facts\<close>:
  \<open>line_json.py\<close>, building a request, reading the answer, classifying it; the locale
  \<open>process_runner\<close> states what \<open>run_process\<close> promises and is interpreted on its model.
  \<open>Plugins\<close>, \<open>Plugins_Facts\<close>: \<open>plugins.py\<close>, from a claimed effect to the class and result to settle.
  \<open>Samples\<close> and \<open>Plugin_Samples\<close> run one tool end to end.

  The read tool. \<open>Fs_Read\<close>: \<open>fs_read.py\<close> over an operating system whose answers may disagree
  with each other. \<open>Fs_Paths\<close>: confinement. \<open>Fs_Scan\<close>: the chunked scan finds the line feeds of
  the whole file. \<open>Fs_Pages\<close>, \<open>Fs_Facts\<close>: byte accounting, and pages the host accepts.
  \<open>Fs_Samples\<close> is one workspace.

  Durability. \<open>Journal\<close>, \<open>Journal_Facts\<close>: \<open>journal.py\<close>, appending, loading, torn lines, secrets,
  recovery queries.

  The session plane. \<open>Wire\<close>: \<open>wire.py\<close>, requests, status, envelopes.
  \<open>Stateful\<close> has the actions of code that mutates an object and may raise: an action gives the
  outcome with the state it leaves, and what was assigned before a \<open>raise\<close> stays.
  \<open>Session_Text\<close> holds \<open>json.dumps\<close> in insertion order, \<open>json.loads\<close> of a file and UUIDs;
  \<open>Session_Store\<close>, \<open>Session_Commit\<close>, \<open>Session_Load\<close> are \<open>store.py\<close>: lookups, receipts and intents,
  the operations that create, commit, bind and remove, turns and history, loading, validation and
  the migration of format 1. The code shares the dicts of its rows and mutates them in place; the
  model keeps the rows in a list and names a row by its index. Files keep their copies, and every
  write, rename and copy may fail. \<open>Session_Calls\<close> is the state machine of the calls; its locale
  \<open>store_property\<close> reduces a property kept by every call to the primitive steps, and is
  interpreted for the invariant of the rows and for the file of a store that failed to load.
  \<open>Session_Facts\<close>, \<open>Session_Claims\<close>, \<open>Session_Frame\<close> hold the properties, \<open>Session_Samples\<close> one store.

  The host worker. \<open>Process\<close> extends actions by computations that may not return
  (\<open>('s, 'a) process\<close>), with the loops of Python; \<open>triple\<close> and \<open>keeping\<close> are their Hoare rules, the
  flag \<open>ends\<close> asking for termination as well. \<open>Iso_Time\<close> is \<open>datetime.fromisoformat\<close>. \<open>Host_Db\<close> is
  \<open>db.py\<close> with the state of the worker; \<open>Worker\<close>, \<open>Worker_Rounds\<close>, \<open>Worker_Fair\<close> are \<open>worker.py\<close>: one
  effect from its claim to its settlement, the rounds over one scope, the fair loop over many. What
  the worker calls is an action of the world outside (\<open>host_env\<close>): the two database connections,
  the provider adapter, the tool and resource handlers, the disk, the clock and random digits may
  answer anything, raise, and change the world. The field \<open>dispatches\<close> is a history of the model:
  the code does not have it, and nothing reads it. In \<open>Worker_Facts\<close> the locale \<open>worker_frame\<close> says
  which parts of the state a property may depend on, \<open>worker_rule\<close> adds that the execution of an
  effect keeps it, and \<open>worker_safety\<close> is the case without termination; each gives the property for
  every operation of the worker. \<open>Worker_Claims\<close> interprets them twice, for the flag of the fair
  loop with termination, and for the order of journal and dispatch. \<open>Worker_Samples\<close> runs one effect.

  Bounds. \<open>scan_value\<close> runs on fuel twice the length of the text plus two; \<open>scan_fuel\<close> shows more
  fuel changes nothing. \<open>find_row\<close> and \<open>while_true\<close> are partial functions, because a source that
  repeats a cursor keeps the code in its loop; \<open>paged_reads_look_up\<close> and \<open>fair_loop_returns\<close> show
  where the code does return. The other loops are total functions.

  Not modelled. The SQL stages v1 to v23 and their drivers run PL/pgSQL; the UI, the smoke tests and
  the assertion scripts drive services. In scope but left out: \<open>session/service.py\<close>, \<open>rollback.py\<close>,
  \<open>driver.py\<close> and \<open>models.py\<close>, and the requests and answers of \<open>deepseek.py\<close>. Of \<open>db.py\<close> the
  connections of psycopg2, of a lease the float arithmetic of its milliseconds are parameters.
  Stack depth of the interpreter, threads and file locks have no counterpart. \<open>canonical._freeze\<close>
  is the identity on immutable values.
\<close>

end
